(* ===== verification/Go_Prelude.thy ===== *)
theory Go_Prelude
  imports
    Main
    "HOL-Library.Monad_Syntax"
    "HOL-Library.Word"
    "HOL-Library.Char_ord"
    "HOL-Library.List_Lexorder"
    "HOL-Library.Product_Lexorder"
    "HOL-Library.Sublist"
    "HOL-Library.Multiset"
    "HOL-Library.AList"
begin

text \<open>
  The vocabulary of the Go program that every component shares.

  \<^item> A Go string is a byte sequence, so it is a \<open>string\<close> (an 8-bit \<open>char list\<close>); its
    order is the bytewise lexicographic one, which is the order of \<open>List_Lexorder\<close> over
    \<open>Char_ord\<close>. The functions of package \<open>strings\<close> that the program calls are defined here.
  \<^item> A computation that may panic (a nil dereference, an index out of range) returns an
    \<open>option\<close>, where \<open>None\<close> is the panic; pointers are options as well, and a dereference
    is the option bind. Errors that Go returns as values are the left side of a sum.
  \<^item> A Go map is an association list with distinct keys. Go iterates over a map in an
    unspecified order; wherever the program iterates, the development either shows that the
    result does not depend on the order or the code sorts the keys first.
  \<^item> \<open>sort.Slice\<close>, \<open>sort.Stable\<close> and \<open>slices.SortStableFunc\<close> are \<open>sort_by\<close>, the
    stable sort for a comparison; the locale \<open>strict_weak\<close> states what the comparison has
    to satisfy and what the sort then guarantees, and every comparison of the program is
    shown to be an instance.
\<close>

named_theorems go_simps \<open>characterisations of the Go library functions\<close>
named_theorems panic_free \<open>rules showing that a computation does not panic\<close>

section \<open>Strings\<close>

definition HasPrefix :: "string \<Rightarrow> string \<Rightarrow> bool" where
  "HasPrefix s p \<longleftrightarrow> length p \<le> length s \<and> take (length p) s = p"

definition HasSuffix :: "string \<Rightarrow> string \<Rightarrow> bool" where
  "HasSuffix s t \<longleftrightarrow> length t \<le> length s \<and> drop (length s - length t) s = t"

definition TrimPrefix :: "string \<Rightarrow> string \<Rightarrow> string" where
  "TrimPrefix s p = (if HasPrefix s p then drop (length p) s else s)"

definition TrimSuffix :: "string \<Rightarrow> string \<Rightarrow> string" where
  "TrimSuffix s t = (if HasSuffix s t then take (length s - length t) s else s)"

text \<open>\<open>strings.CutPrefix\<close>: the rest after the prefix, and whether the prefix was there.\<close>

definition CutPrefix :: "string \<Rightarrow> string \<Rightarrow> string \<times> bool" where
  "CutPrefix s p = (if HasPrefix s p then (drop (length p) s, True) else (s, False))"

fun Contains :: "string \<Rightarrow> string \<Rightarrow> bool" where
  "Contains [] sub = (sub = [])"
| "Contains (x # xs) sub = (HasPrefix (x # xs) sub \<or> Contains xs sub)"

text \<open>\<open>strings.Split\<close> with a separator of one byte.\<close>

fun Split :: "string \<Rightarrow> char \<Rightarrow> string list" where
  "Split [] c = [[]]"
| "Split (x # xs) c =
     (if x = c then [] # Split xs c
      else (case Split xs c of [] \<Rightarrow> [[x]] | y # ys \<Rightarrow> (x # y) # ys))"

text \<open>\<open>strings.ReplaceAll\<close> where the replaced string is one byte.\<close>

definition ReplaceAll :: "string \<Rightarrow> char \<Rightarrow> string \<Rightarrow> string" where
  "ReplaceAll s c new = concat (map (\<lambda>x. if x = c then new else [x]) s)"

text \<open>\<open>strings.ToUpper\<close> on ASCII strings (it is applied to HTTP methods and enum names).\<close>

definition ToUpper :: "string \<Rightarrow> string" where
  "ToUpper s = map (\<lambda>c. if CHR ''a'' \<le> c \<and> c \<le> CHR ''z'' then char_of (of_char c - 32 :: nat) else c) s"

text \<open>\<open>strconv.Itoa\<close> and the verb \<open>%d\<close>.\<close>

definition digit_char :: "nat \<Rightarrow> char" where
  "digit_char d = char_of (48 + d)"

fun itoa_nat :: "nat \<Rightarrow> string" where
  "itoa_nat n = (if n < 10 then [digit_char n] else itoa_nat (n div 10) @ [digit_char (n mod 10)])"

declare itoa_nat.simps [simp del]

definition Itoa :: "int \<Rightarrow> string" where
  "Itoa i = (if i < 0 then CHR ''-'' # itoa_nat (nat (- i)) else itoa_nat (nat i))"

text \<open>Reading the digits back gives the number, so different numbers print differently.\<close>

definition digits_value :: "string \<Rightarrow> nat" where
  "digits_value s = foldl (\<lambda>a c. 10 * a + (of_char c - 48)) 0 s"

lemma digit_char_value [simp]: "d < 10 \<Longrightarrow> (of_char (digit_char d) :: nat) = 48 + d"
  by (simp add: digit_char_def)

lemma digits_value_itoa: "digits_value (itoa_nat n) = n"
proof (induction n rule: itoa_nat.induct)
  case (1 n)
  show ?case
  proof (cases "n < 10")
    case True
    then show ?thesis by (simp add: itoa_nat.simps [of n] digits_value_def)
  next
    case False
    then have "digits_value (itoa_nat n) = 10 * digits_value (itoa_nat (n div 10)) + n mod 10"
      by (simp add: itoa_nat.simps [of n] digits_value_def)
    then show ?thesis using 1 False by simp
  qed
qed

lemma Itoa_inj: "0 \<le> i \<Longrightarrow> 0 \<le> j \<Longrightarrow> Itoa i = Itoa j \<longleftrightarrow> i = j"
  by (metis Itoa_def digits_value_itoa eq_nat_nat_iff linorder_not_less)

text \<open>\<open>net.JoinHostPort\<close>: a host that holds a colon is put in brackets.\<close>

definition JoinHostPort :: "string \<Rightarrow> string \<Rightarrow> string" where
  "JoinHostPort host port =
     (if CHR '':'' \<in> set host then ''['' @ host @ '']:'' @ port else host @ '':'' @ port)"

text \<open>\<open>regexp.QuoteMeta\<close>: a backslash before each of the special bytes.\<close>

definition QuoteMeta :: "string \<Rightarrow> string" where
  "QuoteMeta s =
     concat (map (\<lambda>c. if c \<in> set (CHR 0x5C # ''.+*?()|[]{}^$'') then [CHR 0x5C, c] else [c]) s)"

lemma HasPrefix_iff [go_simps]: "HasPrefix s p \<longleftrightarrow> (\<exists>r. s = p @ r)"
proof -
  have "HasPrefix s p \<longleftrightarrow> prefix p s"
    by (auto simp: HasPrefix_def prefix_def) (metis append_take_drop_id)
  then show ?thesis by (auto simp: prefix_def)
qed

lemma HasSuffix_iff [go_simps]: "HasSuffix s t \<longleftrightarrow> (\<exists>r. s = r @ t)"
  by (auto simp: HasSuffix_def) (metis append_take_drop_id)

lemma HasPrefix_append [simp]: "HasPrefix (p @ r) p"
  by (simp add: HasPrefix_def)

lemma HasSuffix_append [simp]: "HasSuffix (r @ t) t"
  by (simp add: HasSuffix_def)

lemma TrimPrefix_append [simp]: "TrimPrefix (p @ r) p = r"
  by (simp add: TrimPrefix_def)

lemma TrimSuffix_append [simp]: "TrimSuffix (r @ t) t = r"
  by (simp add: TrimSuffix_def)

lemma HasPrefix_single [go_simps]: "HasPrefix s [c] \<longleftrightarrow> (\<exists>r. s = c # r)"
  by (simp add: HasPrefix_iff)

lemma TrimPrefix_single [simp]: "TrimPrefix (c # r) [c] = r"
  using TrimPrefix_append [of "[c]" r] by simp

lemma Split_not_Nil [simp]: "Split s c \<noteq> []"
  by (cases s) (auto split: list.splits)

lemma Split_append_sep: "Split (s @ c # t) c = Split s c @ Split t c"
  by (induction s) (auto split: list.splits simp: neq_Nil_conv append_eq_Cons_conv)

lemma Split_no_sep: "c \<notin> set s \<Longrightarrow> Split s c = [s]"
  by (induction s) auto

text \<open>Splitting is inverted by joining the parts with the separator.\<close>

fun join_with :: "char \<Rightarrow> string list \<Rightarrow> string" where
  "join_with c [] = []"
| "join_with c [x] = x"
| "join_with c (x # y # ys) = x @ c # join_with c (y # ys)"

lemma join_Split [simp]: "join_with c (Split s c) = s"
proof (induction s)
  case (Cons x xs)
  obtain y ys where "Split xs c = y # ys" by (metis Split_not_Nil neq_Nil_conv)
  then show ?case using Cons.IH by (cases ys) auto
qed simp

lemma Split_inject: "Split s c = Split t c \<longleftrightarrow> s = t"
  by (metis join_Split)

section \<open>Computations that may panic\<close>

text \<open>A loop body that may panic, over a slice, with or without a state.\<close>

fun mapM :: "('a \<Rightarrow> 'b option) \<Rightarrow> 'a list \<Rightarrow> 'b list option" where
  "mapM f [] = Some []"
| "mapM f (x # xs) = do { y \<leftarrow> f x; ys \<leftarrow> mapM f xs; Some (y # ys) }"

fun foldM :: "('a \<Rightarrow> 's \<Rightarrow> 's option) \<Rightarrow> 'a list \<Rightarrow> 's \<Rightarrow> 's option" where
  "foldM f [] s = Some s"
| "foldM f (x # xs) s = do { s' \<leftarrow> f x s; foldM f xs s' }"

lemma bind_eq_Some: "(x \<bind> f) = Some y \<longleftrightarrow> (\<exists>a. x = Some a \<and> f a = Some y)"
  by (cases x) auto

lemma mapM_eq_Some: "mapM f xs = Some ys \<longleftrightarrow> list_all2 (\<lambda>x y. f x = Some y) xs ys"
  by (induction xs arbitrary: ys) (auto simp: bind_eq_Some list_all2_Cons1)

lemma mapM_set: "mapM f xs = Some ys \<Longrightarrow> y \<in> set ys \<Longrightarrow> \<exists>x \<in> set xs. f x = Some y"
  by (induction xs arbitrary: ys) (auto simp: bind_eq_Some)

lemma mapM_total [panic_free]:
  "(\<And>x. x \<in> set xs \<Longrightarrow> \<exists>y. f x = Some y) \<Longrightarrow> \<exists>ys. mapM f xs = Some ys"
  by (induction xs) force+

lemma mapM_Some [simp]: "mapM (\<lambda>x. Some (f x)) xs = Some (map f xs)"
  by (induction xs) auto

lemma mapM_length: "mapM f xs = Some ys \<Longrightarrow> length ys = length xs"
  by (auto simp: mapM_eq_Some dest: list_all2_lengthD)

lemma mapM_cong [fundef_cong]:
  "xs = ys \<Longrightarrow> (\<And>x. x \<in> set ys \<Longrightarrow> f x = g x) \<Longrightarrow> mapM f xs = mapM g ys"
proof (induction xs arbitrary: ys)
  case (Cons x xs)
  have "mapM f xs = mapM g xs" using Cons.IH [OF refl] Cons.prems by auto
  then show ?case using Cons.prems by auto
qed simp

text \<open>A property of the state that every iteration keeps holds at the end of the loop.\<close>

lemma foldM_invariant:
  assumes "foldM f xs s = Some s'" "P s"
    and "\<And>x s s'. x \<in> set xs \<Longrightarrow> P s \<Longrightarrow> f x s = Some s' \<Longrightarrow> P s'"
  shows "P s'"
  using assms by (induction xs arbitrary: s) (auto simp: bind_eq_Some)

lemma foldM_total [panic_free]:
  "(\<And>x s. x \<in> set xs \<Longrightarrow> \<exists>s'. f x s = Some s') \<Longrightarrow> \<exists>s'. foldM f xs s = Some s'"
proof (induction xs arbitrary: s)
  case (Cons x xs)
  obtain s1 where "f x s = Some s1" using Cons.prems by auto
  moreover obtain s2 where "foldM f xs s1 = Some s2" using Cons by fastforce
  ultimately show ?case by simp
qed simp

text \<open>A loop that appends a slice in every iteration.\<close>

definition concatMapM :: "('a \<Rightarrow> 'b list option) \<Rightarrow> 'a list \<Rightarrow> 'b list option" where
  "concatMapM f xs = do { yss \<leftarrow> mapM f xs; Some (concat yss) }"

lemma concatMapM_set:
  "concatMapM f xs = Some ys \<Longrightarrow> y \<in> set ys \<Longrightarrow> \<exists>x \<in> set xs. \<exists>zs. f x = Some zs \<and> y \<in> set zs"
  using mapM_set [of f xs] unfolding concatMapM_def bind_eq_Some by fastforce

lemma concatMapM_total [panic_free]:
  "(\<And>x. x \<in> set xs \<Longrightarrow> \<exists>ys. f x = Some ys) \<Longrightarrow> \<exists>ys. concatMapM f xs = Some ys"
  using mapM_total [of xs f] unfolding concatMapM_def by auto

end
