(* ===== verification/Go_Sort.thy ===== *)
theory Go_Sort
  imports Go_Prelude
begin

text \<open>
  The sorts of the Go library. \<open>sort_by lt\<close> is the stable sort for a comparison \<open>lt\<close>:
  it is what \<open>sort.Stable\<close> and \<open>slices.SortStableFunc\<close> compute, and what \<open>sort.Slice\<close>
  and \<open>sort.Strings\<close> compute up to the order of elements that the comparison does not
  separate. The locale \<open>strict_weak\<close> is the contract between the sort and its callers.
\<close>

fun insert_by :: "('a \<Rightarrow> 'a \<Rightarrow> bool) \<Rightarrow> 'a \<Rightarrow> 'a list \<Rightarrow> 'a list" where
  "insert_by lt x [] = [x]"
| "insert_by lt x (y # ys) = (if lt y x then y # insert_by lt x ys else x # y # ys)"

definition sort_by :: "('a \<Rightarrow> 'a \<Rightarrow> bool) \<Rightarrow> 'a list \<Rightarrow> 'a list" where
  "sort_by lt xs = foldr (insert_by lt) xs []"

lemma sort_by_simps [simp]:
  "sort_by lt [] = []"
  "sort_by lt (x # xs) = insert_by lt x (sort_by lt xs)"
  by (simp_all add: sort_by_def)

lemma mset_insert_by [simp]: "mset (insert_by lt x ys) = add_mset x (mset ys)"
  by (induction ys) auto

lemma mset_sort_by [simp]: "mset (sort_by lt xs) = mset xs"
  by (induction xs) auto

lemma set_sort_by [simp]: "set (sort_by lt xs) = set xs"
  by (metis mset_sort_by set_mset_mset)

lemma length_sort_by [simp]: "length (sort_by lt xs) = length xs"
  by (metis mset_sort_by size_mset)

lemma distinct_sort_by [simp]: "distinct (sort_by lt xs) = distinct xs"
  by (metis mset_sort_by mset_eq_imp_distinct_iff)

lemma sort_by_eq_Nil [simp]: "sort_by lt xs = [] \<longleftrightarrow> xs = []"
  by (metis length_0_conv length_sort_by)

text \<open>What a comparison owes the sort: it is a strict weak order.\<close>

locale strict_weak =
  fixes lt :: "'a \<Rightarrow> 'a \<Rightarrow> bool"
  assumes asym: "lt x y \<Longrightarrow> \<not> lt y x"
    and neg_trans: "\<not> lt x y \<Longrightarrow> \<not> lt y z \<Longrightarrow> \<not> lt x z"
begin

lemma irrefl: "\<not> lt x x"
  using asym by blast

lemma lt_trans: "lt x y \<Longrightarrow> lt y z \<Longrightarrow> lt x z"
  using asym neg_trans by blast

lemma sorted_insert_by:
  "sorted_wrt (\<lambda>a b. \<not> lt b a) ys \<Longrightarrow> sorted_wrt (\<lambda>a b. \<not> lt b a) (insert_by lt x ys)"
proof (induction ys)
  case (Cons y ys)
  have sets: "set (insert_by lt x ys) = insert x (set ys)"
    by (metis mset_insert_by set_mset_add_mset_insert set_mset_mset)
  show ?case
  proof (cases "lt y x")
    case True
    with Cons sets show ?thesis by (simp add: asym)
  next
    case False
    have "\<not> lt z x" if "z \<in> set ys" for z
      using that Cons.prems neg_trans [of z y x] False by simp
    with Cons.prems False show ?thesis by simp
  qed
qed simp

lemma sorted_sort_by: "sorted_wrt (\<lambda>a b. \<not> lt b a) (sort_by lt xs)"
  by (induction xs) (simp_all add: sorted_insert_by)

text \<open>An element that the comparison puts strictly first comes first in the result.\<close>

lemma sort_by_order:
  assumes "i < j" "j < length xs" shows "\<not> lt (sort_by lt xs ! j) (sort_by lt xs ! i)"
  using sorted_sort_by [of xs] assms by (simp add: sorted_wrt_iff_nth_less)

text \<open>Stability: elements that the comparison does not separate keep their order.\<close>

abbreviation tied :: "'a \<Rightarrow> 'a \<Rightarrow> bool" where
  "tied x y \<equiv> \<not> lt x y \<and> \<not> lt y x"

lemma filter_insert_by:
  "filter (tied z) (insert_by lt x ys) = filter (tied z) (x # ys)"
  if "sorted_wrt (\<lambda>a b. \<not> lt b a) ys"
  using that
proof (induction ys)
  case (Cons y ys)
  show ?case
  proof (cases "lt y x")
    case True
    have "\<not> (tied z x \<and> tied z y)"
      using True neg_trans [of y z x] by blast
    with Cons True show ?thesis by auto
  qed simp
qed simp

lemma sort_by_stable: "filter (tied z) (sort_by lt xs) = filter (tied z) xs"
  by (induction xs) (simp_all add: filter_insert_by [OF sorted_sort_by])

lemma insert_by_head:
  "(\<And>y. y \<in> set ys \<Longrightarrow> \<not> lt y x) \<Longrightarrow> insert_by lt x ys = x # ys"
  by (cases ys) auto

lemma sort_by_sorted_id: "sorted_wrt (\<lambda>a b. \<not> lt b a) xs \<Longrightarrow> sort_by lt xs = xs"
  by (induction xs) (simp_all add: insert_by_head)

lemma sort_by_idem [simp]: "sort_by lt (sort_by lt xs) = sort_by lt xs"
  by (rule sort_by_sorted_id [OF sorted_sort_by])

text \<open>
  Two sorted lists with the same elements are equal when the comparison separates the
  elements: the result of a sort then does not depend on the order of its input.
\<close>

lemma sorted_unique:
  assumes "sorted_wrt (\<lambda>a b. \<not> lt b a) xs" "sorted_wrt (\<lambda>a b. \<not> lt b a) ys"
    and "mset xs = mset ys"
    and "\<And>a b. a \<in> set xs \<Longrightarrow> b \<in> set xs \<Longrightarrow> a \<noteq> b \<Longrightarrow> lt a b \<or> lt b a"
  shows "xs = ys"
  using assms
proof (induction xs arbitrary: ys)
  case (Cons x xs)
  obtain y ys' where ys: "ys = y # ys'" using Cons.prems(3) by (cases ys) auto
  have sets: "set (x # xs) = set (y # ys')"
    using Cons.prems(3) unfolding ys by (metis set_mset_mset)
  have "x = y"
  proof (rule ccontr)
    assume "x \<noteq> y"
    then have "y \<in> set xs" "x \<in> set ys'" using sets by auto
    then have "\<not> lt y x" "\<not> lt x y" using Cons.prems(1,2) ys by auto
    then show False using Cons.prems(4) [of x y] \<open>x \<noteq> y\<close> \<open>y \<in> set xs\<close> by auto
  qed
  then show ?case using Cons.IH [of ys'] Cons.prems ys by auto
qed simp

lemma sort_by_perm:
  assumes "mset xs = mset ys"
    and "\<And>a b. a \<in> set xs \<Longrightarrow> b \<in> set xs \<Longrightarrow> a \<noteq> b \<Longrightarrow> lt a b \<or> lt b a"
  shows "sort_by lt xs = sort_by lt ys"
  by (rule sorted_unique [OF sorted_sort_by sorted_sort_by]) (use assms in auto)

end

text \<open>A comparison of keys is the common case; the sort is then the library's \<open>sort_key\<close>.\<close>

definition by_key :: "('a \<Rightarrow> 'k::linorder) \<Rightarrow> 'a \<Rightarrow> 'a \<Rightarrow> bool" where
  "by_key f x y \<longleftrightarrow> f x < f y"

interpretation keyed: strict_weak "by_key f" for f :: "'a \<Rightarrow> 'k::linorder"
  by unfold_locales (auto simp: by_key_def)

lemma insert_by_key: "insert_by (by_key f) x ys = insort_key f x ys"
  by (induction ys) (auto simp: by_key_def)

lemma sort_by_key: "sort_by (by_key f) xs = sort_key f xs"
  by (induction xs) (auto simp: insert_by_key)

lemma sort_key_perm:
  assumes "mset xs = mset ys" "inj_on f (set xs)"
  shows "sort_key f xs = sort_key f ys"
proof -
  have "sort_by (by_key f) xs = sort_by (by_key f) ys"
    by (rule keyed.sort_by_perm [OF assms(1)]) (metis assms(2) by_key_def inj_onD linorder_neqE)
  then show ?thesis by (simp add: sort_by_key)
qed

end
