(* ===== verification/Model_Types.thy ===== *)
theory Model_Types
  imports Go_Sort
begin

text \<open>
  The intermediate model of \<open>src/pkg/model/model.go\<close>: what ingestion produces from Gateway
  API and Ingress objects and what translation turns into Envoy configuration. Structs are
  records whose fields carry a prefix naming the struct, pointers are options, \<open>uint32\<close>
  is \<open>32 word\<close>, \<open>int32\<close> and \<open>time.Duration\<close> (nanoseconds) are \<open>int\<close>. The TLS
  secrets of a listener are an option, because the translator tells the nil slice from an
  empty one; every other slice is a list. The
  methods that compute the keys by which routes are merged and clusters named are here, with
  the lemma that a match key does not depend on the order of the header and query matches.
\<close>

type_synonym uint32 = "32 word"
type_synonym uint16 = "16 word"
type_synonym string_map = "(string \<times> string) list"

record FullyQualifiedResource =
  fqr_Name :: string
  fqr_Namespace :: string
  fqr_Group :: string
  fqr_Version :: string
  fqr_Kind :: string
  fqr_UID :: string

record TLSSecret =
  sec_Name :: string
  sec_Namespace :: string

record Service =
  svc_Type :: string
  svc_InsecureNodePort :: "uint32 option"
  svc_SecureNodePort :: "uint32 option"

record StringMatch =
  sm_Prefix :: string
  sm_Exact :: string
  sm_Regex :: string

abbreviation noMatch :: StringMatch where
  "noMatch \<equiv> \<lparr>sm_Prefix = [], sm_Exact = [], sm_Regex = []\<rparr>"

definition StringMatch_String :: "StringMatch \<Rightarrow> string" where
  "StringMatch_String sm =
     (if sm_Prefix sm \<noteq> [] then ''prefix:'' @ sm_Prefix sm
      else if sm_Exact sm \<noteq> [] then ''exact:'' @ sm_Exact sm
      else if sm_Regex sm \<noteq> [] then ''regex:'' @ sm_Regex sm
      else [])"

record KeyValueMatch =
  kv_Key :: string
  kv_Match :: StringMatch

definition KeyValueMatch_String :: "KeyValueMatch \<Rightarrow> string" where
  "KeyValueMatch_String kv = ''kv:'' @ kv_Key kv @ '':'' @ StringMatch_String (kv_Match kv)"

record Header =
  hdr_Name :: string
  hdr_Value :: string

record HttpHeaderFilter =
  hf_HeadersToAdd :: "Header list"
  hf_HeadersToSet :: "Header list"
  hf_HeadersToRemove :: "string list"

record BackendHttpFilter =
  bf_Name :: string
  bf_RequestHeaderFilter :: "HttpHeaderFilter option"
  bf_ResponseHeaderModifier :: "HttpHeaderFilter option"

record DirectResponse =
  dr_StatusCode :: int
  dr_Body :: string

record BackendPort =
  bp_Port :: uint32
  bp_Name :: string

record BackendTLS =
  btls_SNI :: string
  btls_ValidationSecret :: string

record Backend =
  be_Name :: string
  be_Namespace :: string
  be_Port :: "BackendPort option"
  be_Weight :: "int option"
  be_TLS :: "BackendTLS option"

record Timeout =
  to_Request :: "int option"
  to_Backend :: "int option"

record HttpRequestMirror =
  mir_Backend :: "Backend option"

record HTTPRequestRedirectFilter =
  rd_Scheme :: "string option"
  rd_Hostname :: "string option"
  rd_Path :: "StringMatch option"
  rd_Port :: "int option"
  rd_StatusCode :: "int option"

record HTTPURLRewriteFilter =
  rw_HostName :: "string option"
  rw_Path :: "StringMatch option"

record HTTPRoute =
  hr_Name :: string
  hr_Hostnames :: "string list"
  hr_PathMatch :: StringMatch
  hr_HeadersMatch :: "KeyValueMatch list"
  hr_QueryParamsMatch :: "KeyValueMatch list"
  hr_Method :: "string option"
  hr_Backends :: "Backend list"
  hr_BackendHttpFilters :: "BackendHttpFilter list"
  hr_DirectResponse :: "DirectResponse option"
  hr_ResponseHeaderMatch :: "HttpHeaderFilter option"
  hr_ResponseHeaderModifier :: "HttpHeaderFilter option"
  hr_RequestHeaderFilter :: "HttpHeaderFilter option"
  hr_RequestRedirect :: "HTTPRequestRedirectFilter option"
  hr_Rewrite :: "HTTPURLRewriteFilter option"
  hr_RequestMirrors :: "HttpRequestMirror list"
  hr_IsGRPC :: bool
  hr_Timeout :: Timeout

text \<open>The zero value of the struct, from which the code builds routes by naming fields.\<close>

definition zeroHTTPRoute :: HTTPRoute where
  "zeroHTTPRoute =
     \<lparr>hr_Name = [], hr_Hostnames = [], hr_PathMatch = noMatch, hr_HeadersMatch = [],
      hr_QueryParamsMatch = [], hr_Method = None, hr_Backends = [], hr_BackendHttpFilters = [],
      hr_DirectResponse = None, hr_ResponseHeaderMatch = None, hr_ResponseHeaderModifier = None,
      hr_RequestHeaderFilter = None, hr_RequestRedirect = None, hr_Rewrite = None,
      hr_RequestMirrors = [], hr_IsGRPC = False,
      hr_Timeout = \<lparr>to_Request = None, to_Backend = None\<rparr>\<rparr>"

record Infrastructure =
  inf_Labels :: string_map
  inf_Annotations :: string_map

record HTTPListener =
  hl_Name :: string
  hl_Sources :: "FullyQualifiedResource list"
  hl_Address :: string
  hl_Port :: uint32
  hl_Hostname :: string
  hl_TLS :: "TLSSecret list option"
  hl_Routes :: "HTTPRoute list"
  hl_Service :: "Service option"
  hl_Infrastructure :: "Infrastructure option"
  hl_ForceHTTPtoHTTPSRedirect :: bool

record TLSRoute =
  tr_Name :: string
  tr_Hostnames :: "string list"
  tr_Backends :: "Backend list"

record TLSListener =
  tl_Name :: string
  tl_Sources :: "FullyQualifiedResource list"
  tl_Address :: string
  tl_Port :: uint32
  tl_Hostname :: string
  tl_Routes :: "TLSRoute list"
  tl_Service :: "Service option"
  tl_Infrastructure :: "Infrastructure option"

record TCPRoute =
  tcr_Backends :: "Backend list"

record TCPListener =
  tcl_Name :: string
  tcl_Port :: uint32
  tcl_Sources :: "FullyQualifiedResource list"
  tcl_Routes :: "TCPRoute list"
  tcl_Infrastructure :: "Infrastructure option"

record UDPRoute =
  ur_Backends :: "Backend list"

record UDPListener =
  ul_Name :: string
  ul_Port :: uint32
  ul_Sources :: "FullyQualifiedResource list"
  ul_Routes :: "UDPRoute list"
  ul_Infrastructure :: "Infrastructure option"

record Model =
  m_HTTP :: "HTTPListener list"
  m_TLS :: "TLSListener list"
  m_TCP :: "TCPListener list"
  m_UDP :: "UDPListener list"

text \<open>The interface \<open>Listener\<close> with its two implementations and the getters.\<close>

datatype Listener = LHTTP HTTPListener | LTLS TLSListener

fun GetSources :: "Listener \<Rightarrow> FullyQualifiedResource list" where
  "GetSources (LHTTP h) = hl_Sources h"
| "GetSources (LTLS t) = tl_Sources t"

fun GetListenerPort :: "Listener \<Rightarrow> uint32" where
  "GetListenerPort (LHTTP h) = hl_Port h"
| "GetListenerPort (LTLS t) = tl_Port t"

fun GetAnnotations :: "Listener \<Rightarrow> string_map" where
  "GetAnnotations (LHTTP h) = (case hl_Infrastructure h of Some i \<Rightarrow> inf_Annotations i | None \<Rightarrow> [])"
| "GetAnnotations (LTLS t) = (case tl_Infrastructure t of Some i \<Rightarrow> inf_Annotations i | None \<Rightarrow> [])"

fun GetLabels :: "Listener \<Rightarrow> string_map" where
  "GetLabels (LHTTP h) = (case hl_Infrastructure h of Some i \<Rightarrow> inf_Labels i | None \<Rightarrow> [])"
| "GetLabels (LTLS t) = (case tl_Infrastructure t of Some i \<Rightarrow> inf_Labels i | None \<Rightarrow> [])"

definition GetListeners :: "Model \<Rightarrow> Listener list" where
  "GetListeners m = map LHTTP (m_HTTP m) @ map LTLS (m_TLS m)"

definition GetPort :: "BackendPort \<Rightarrow> string" where
  "GetPort b = (if bp_Port b \<noteq> 0 then Itoa (uint (bp_Port b)) else bp_Name b)"

text \<open>
  \<open>GetMatchKey\<close> sorts the header and query matches of the route in place and builds the
  key from the sorted lists; the two effects are two definitions.
\<close>

definition sortMatches :: "HTTPRoute \<Rightarrow> HTTPRoute" where
  "sortMatches r =
     r\<lparr>hr_HeadersMatch := sort_by (by_key KeyValueMatch_String) (hr_HeadersMatch r),
       hr_QueryParamsMatch := sort_by (by_key KeyValueMatch_String) (hr_QueryParamsMatch r)\<rparr>"

definition GetMatchKey :: "HTTPRoute \<Rightarrow> string" where
  "GetMatchKey r =
     (case hr_Method r of Some m \<Rightarrow> ''method:'' @ m @ ''|'' | None \<Rightarrow> []) @
     ''path:'' @ StringMatch_String (hr_PathMatch r) @ ''|'' @
     concat (map (\<lambda>hm. ''header:'' @ KeyValueMatch_String hm @ ''|'') (hr_HeadersMatch (sortMatches r))) @
     concat (map (\<lambda>qm. ''query:'' @ KeyValueMatch_String qm @ ''|'') (hr_QueryParamsMatch (sortMatches r)))"

lemma map_sort_by_perm:
  assumes "mset xs = mset ys"
  shows "map f (sort_by (by_key f) xs) = map f (sort_by (by_key f) ys)"
proof -
  have "sorted (map f (sort_by (by_key f) zs))" for zs
    by (simp add: sort_by_key)
  moreover have "mset (map f (sort_by (by_key f) xs)) = mset (map f (sort_by (by_key f) ys))"
    using assms by simp
  ultimately show ?thesis by (metis properties_for_sort sort_key_id_if_sorted sorted_sort_id)
qed

lemma sortMatches_idem [simp]: "sortMatches (sortMatches r) = sortMatches r"
  by (simp add: sortMatches_def)

lemma GetMatchKey_sortMatches [simp]: "GetMatchKey (sortMatches r) = GetMatchKey r"
  by (simp add: GetMatchKey_def) (simp add: sortMatches_def)

text \<open>The key depends on the header and query matches only as multisets.\<close>

lemma GetMatchKey_order_irrelevant:
  assumes "hr_Method r = hr_Method r'" "hr_PathMatch r = hr_PathMatch r'"
    and "mset (hr_HeadersMatch r) = mset (hr_HeadersMatch r')"
    and "mset (hr_QueryParamsMatch r) = mset (hr_QueryParamsMatch r')"
  shows "GetMatchKey r = GetMatchKey r'"
proof -
  have eq: "map (\<lambda>x. g (KeyValueMatch_String x)) (sort_by (by_key KeyValueMatch_String) xs) =
            map (\<lambda>x. g (KeyValueMatch_String x)) (sort_by (by_key KeyValueMatch_String) ys)"
    if "mset xs = mset ys" for g :: "string \<Rightarrow> string" and xs ys
    using arg_cong [OF map_sort_by_perm [OF that, of KeyValueMatch_String], of "map g"]
    by (simp add: comp_def)
  show ?thesis
    using eq [OF assms(3), of "\<lambda>k. ''header:'' @ k @ ''|''"]
      eq [OF assms(4), of "\<lambda>k. ''query:'' @ k @ ''|''"] assms(1,2)
    by (simp add: GetMatchKey_def sortMatches_def)
qed

end
