(* ===== verification/Go_SHA256.thy ===== *)
theory Go_SHA256
  imports Go_Prelude
begin

unbundle bit_operations_syntax

text \<open>
  \<open>crypto/sha256.Sum256\<close> followed by the verb \<open>%x\<close>, as \<open>hash\<close> of
  \<open>src/pkg/model/helper.go\<close> uses them: the digest of FIPS 180-4 over 32-bit words, printed
  as 64 lower-case hexadecimal digits.
\<close>

type_synonym word32 = "32 word"

definition rotr :: "nat \<Rightarrow> word32 \<Rightarrow> word32" where
  "rotr n w = drop_bit n w OR push_bit (32 - n) w"

definition bsig0 :: "word32 \<Rightarrow> word32" where "bsig0 w = rotr 2 w XOR rotr 13 w XOR rotr 22 w"
definition bsig1 :: "word32 \<Rightarrow> word32" where "bsig1 w = rotr 6 w XOR rotr 11 w XOR rotr 25 w"
definition ssig0 :: "word32 \<Rightarrow> word32" where "ssig0 w = rotr 7 w XOR rotr 18 w XOR drop_bit 3 w"
definition ssig1 :: "word32 \<Rightarrow> word32" where "ssig1 w = rotr 17 w XOR rotr 19 w XOR drop_bit 10 w"

text \<open>
  The constants of the standard are the first 32 bits of the fractional parts of roots of
  the first primes: cube roots for the rounds, square roots for the initial state. They are
  computed here; \<open>iroot k b n acc\<close> finds the \<open>k\<close>-th root of \<open>n\<close> bit by bit.
\<close>

fun iroot :: "nat \<Rightarrow> nat \<Rightarrow> nat \<Rightarrow> nat \<Rightarrow> nat" where
  "iroot k 0 n acc = acc"
| "iroot k (Suc b) n acc =
     (let acc' = acc + 2 ^ b in iroot k b n (if acc' ^ k \<le> n then acc' else acc))"

definition root_fraction :: "nat \<Rightarrow> nat \<Rightarrow> word32" where
  "root_fraction k p = of_nat (iroot k 40 (p * 2 ^ (32 * k)) 0)"

definition is_prime :: "nat \<Rightarrow> bool" where
  "is_prime n \<longleftrightarrow> n > 1 \<and> list_all (\<lambda>d. n mod d \<noteq> 0) [2..<n]"

definition small_primes :: "nat list" where
  "small_primes = filter is_prime [2..<312]"

definition sha_K :: "word32 list" where
  "sha_K = map (root_fraction 3) small_primes"

text \<open>The message schedule, kept in reverse so that the last word is the head.\<close>

fun sha_extend :: "nat \<Rightarrow> word32 list \<Rightarrow> word32 list" where
  "sha_extend 0 ws = ws"
| "sha_extend (Suc n) ws =
     sha_extend n ((ssig1 (ws ! 1) + ws ! 6 + ssig0 (ws ! 14) + ws ! 15) # ws)"

definition sha_schedule :: "word32 list \<Rightarrow> word32 list" where
  "sha_schedule block = rev (sha_extend 48 (rev block))"

type_synonym sha_state =
  "word32 \<times> word32 \<times> word32 \<times> word32 \<times> word32 \<times> word32 \<times> word32 \<times> word32"

fun sha_round :: "word32 \<times> word32 \<Rightarrow> sha_state \<Rightarrow> sha_state" where
  "sha_round (k, w) (a, b, c, d, e, f, g, h) =
     (let t1 = h + bsig1 e + ((e AND f) XOR (NOT e AND g)) + k + w;
          t2 = bsig0 a + ((a AND b) XOR (a AND c) XOR (b AND c))
      in (t1 + t2, a, b, c, d + t1, e, f, g))"

fun sha_block :: "sha_state \<Rightarrow> word32 list \<Rightarrow> sha_state" where
  "sha_block (a, b, c, d, e, f, g, h) block =
     (let (a', b', c', d', e', f', g', h') =
        fold sha_round (zip sha_K (sha_schedule block)) (a, b, c, d, e, f, g, h)
      in (a + a', b + b', c + c', d + d', e + e', f + f', g + g', h + h'))"

definition sha_init :: sha_state where
  "sha_init =
     (let r = root_fraction 2 in (r 2, r 3, r 5, r 7, r 11, r 13, r 17, r 19))"

fun be_bytes :: "nat \<Rightarrow> nat \<Rightarrow> nat list" where
  "be_bytes 0 n = []"
| "be_bytes (Suc k) n = be_bytes k (n div 256) @ [n mod 256]"

definition sha_pad :: "nat list \<Rightarrow> nat list" where
  "sha_pad msg =
     (let l = length msg
      in msg @ [128] @ replicate ((119 - l mod 64) mod 64) 0 @ be_bytes 8 (8 * l))"

fun sha_words :: "nat list \<Rightarrow> word32 list" where
  "sha_words (a # b # c # d # rest) =
     of_nat (((a * 256 + b) * 256 + c) * 256 + d) # sha_words rest"
| "sha_words _ = []"

function sha_blocks :: "word32 list \<Rightarrow> word32 list list" where
  "sha_blocks ws = (if ws = [] then [] else take 16 ws # sha_blocks (drop 16 ws))"
  by auto
termination by (relation "measure length") auto

declare sha_blocks.simps [simp del]

definition hex_digit :: "nat \<Rightarrow> char" where
  "hex_digit d = (if d < 10 then char_of (48 + d) else char_of (87 + d))"

fun hex_nat :: "nat \<Rightarrow> nat \<Rightarrow> string" where
  "hex_nat 0 n = []"
| "hex_nat (Suc k) n = hex_nat k (n div 16) @ [hex_digit (n mod 16)]"

definition hex_word :: "word32 \<Rightarrow> string" where
  "hex_word w = hex_nat 8 (unat w)"

fun sha_digest :: "sha_state \<Rightarrow> string" where
  "sha_digest (a, b, c, d, e, f, g, h) = concat (map hex_word [a, b, c, d, e, f, g, h])"

definition sha256_hex :: "string \<Rightarrow> string" where
  "sha256_hex s =
     sha_digest (fold (\<lambda>blk st. sha_block st blk) (sha_blocks (sha_words (sha_pad (map of_char s)))) sha_init)"

lemma length_hex_nat [simp]: "length (hex_nat k n) = k"
  by (induction k arbitrary: n) auto

text \<open>The digest has 64 digits, and they are all lower-case hexadecimal ones.\<close>

lemma length_sha256_hex [simp]: "length (sha256_hex s) = 64"
proof -
  have "length (sha_digest st) = 64" for st
    by (cases st rule: sha_digest.cases) (simp add: hex_word_def)
  then show ?thesis by (simp add: sha256_hex_def)
qed

abbreviation hex_chars :: "char set" where
  "hex_chars \<equiv> hex_digit ` {..<16}"

lemma set_hex_nat: "set (hex_nat k n) \<subseteq> hex_chars"
  by (induction k arbitrary: n) auto

lemma set_sha256_hex: "set (sha256_hex s) \<subseteq> hex_chars"
proof -
  have "set (concat (map hex_word ws)) \<subseteq> hex_chars" for ws
    using set_hex_nat by (auto simp: hex_word_def)
  then have "set (sha_digest st) \<subseteq> hex_chars" for st
    by (cases st rule: sha_digest.cases) (simp only: sha_digest.simps)
  then show ?thesis unfolding sha256_hex_def by blast
qed

lemma hex_chars_eq: "hex_chars = set ''0123456789abcdef''"
proof -
  have "hex_chars = set (map hex_digit [0..<16])" by (simp add: atLeast0LessThan)
  also have "map hex_digit [0..<16] = ''0123456789abcdef''" by code_simp
  finally show ?thesis .
qed

end
