(* ===== verification/Model_Helper.thy ===== *)
theory Model_Helper
  imports Model_Types Go_SHA256
begin

text \<open>
  \<open>src/pkg/model/helper.go\<close>: names shortened to a DNS label, the intersection of the
  hostnames of a route with the hostname of a listener, and the deduplicated source list.

  A hostname pattern denotes a set of hosts (\<open>hosts_of\<close>), which is the abstract
  specification against which \<open>ComputeHosts\<close> is judged: the patterns it returns denote
  only hosts that the listener and some route accept, and they denote all of them except
  where the listener's wildcard is narrower than the wildcard of the route.
\<close>

section \<open>Shortened names\<close>

definition hash :: "string \<Rightarrow> string" where
  "hash s = sha256_hex s"

definition encodehash_rune :: "char \<Rightarrow> char" where
  "encodehash_rune c =
     (if c = CHR ''0'' then CHR ''g''
      else if c = CHR ''1'' then CHR ''h''
      else if c = CHR ''3'' then CHR ''k''
      else if c = CHR ''a'' then CHR ''m''
      else if c = CHR ''e'' then CHR ''t''
      else c)"

text \<open>The slice \<open>x[:10]\<close> panics on a shorter string.\<close>

definition encodehash :: "string \<Rightarrow> string option" where
  "encodehash x = (if length x < 10 then None else Some (map encodehash_rune (take 10 x)))"

definition Shorten :: "string \<Rightarrow> string option" where
  "Shorten s =
     (if length s > 63 then do { e \<leftarrow> encodehash (hash s); Some (take 52 s @ ''-'' @ e) }
      else Some s)"

section \<open>Hostnames\<close>

definition allHosts :: string where
  "allHosts = ''*''"

definition hostnameMatchesWildcardHostname :: "string \<Rightarrow> string \<Rightarrow> bool" where
  "hostnameMatchesWildcardHostname hostname wildcardHostname =
     (if \<not> HasSuffix hostname (TrimPrefix wildcardHostname allHosts) then False
      else let wildcardMatch = TrimSuffix hostname (TrimPrefix wildcardHostname allHosts)
           in length wildcardMatch > 0)"

text \<open>The second variant of the file, which nothing calls, trims the wildcard at the wrong end.\<close>

definition hostnameMatchesWildcardHostName :: "string \<Rightarrow> string \<Rightarrow> bool" where
  "hostnameMatchesWildcardHostName hostname wildcardHostname =
     (if \<not> HasSuffix hostname (TrimSuffix wildcardHostname allHosts) then False
      else let wildMatch = TrimSuffix hostname (TrimPrefix wildcardHostname allHosts)
           in length wildMatch > 0)"

text \<open>One iteration of the loop: the hostnames it appends.\<close>

definition computeHost :: "string \<Rightarrow> string \<Rightarrow> string list" where
  "computeHost listenerHostnameVal routeHostname =
     (if length listenerHostnameVal = 0 then [routeHostname]
      else if listenerHostnameVal = routeHostname then [routeHostname]
      else if HasPrefix listenerHostnameVal allHosts then
        (if hostnameMatchesWildcardHostname routeHostname listenerHostnameVal
         then [routeHostname] else [])
      else if HasPrefix routeHostname allHosts then
        (if hostnameMatchesWildcardHostname listenerHostnameVal routeHostname
         then [listenerHostnameVal] else [])
      else [])"

definition ComputeHosts :: "string list \<Rightarrow> string option \<Rightarrow> string list" where
  "ComputeHosts routeHostnames listenerHostname =
     (let listenerHostnameVal = (case listenerHostname of Some h \<Rightarrow> h | None \<Rightarrow> [])
      in if length routeHostnames = 0 then
           (if length listenerHostnameVal > 0 then [listenerHostnameVal] else [allHosts])
         else sort (concat (map (computeHost listenerHostnameVal) routeHostnames)))"

text \<open>\<open>AddSource\<close>; \<open>cmpEqual\<close> is \<open>cmp.Equal\<close> of go-cmp.\<close>

definition AddSource ::
  "(FullyQualifiedResource \<Rightarrow> FullyQualifiedResource \<Rightarrow> bool) \<Rightarrow>
   FullyQualifiedResource list \<Rightarrow> FullyQualifiedResource \<Rightarrow> FullyQualifiedResource list" where
  "AddSource cmpEqual sourceList source =
     (if \<exists>s \<in> set sourceList. cmpEqual s source then sourceList else sourceList @ [source])"

section \<open>Shortened names fit a DNS label\<close>

lemma Shorten_Some:
  "Shorten s = Some (if length s > 63 then take 52 s @ ''-'' @ map encodehash_rune (take 10 (hash s)) else s)"
  by (simp add: Shorten_def encodehash_def hash_def)

text \<open>The total function that \<open>Shorten\<close> computes: the slice of the digest never panics.\<close>

definition shortened :: "string \<Rightarrow> string" where
  "shortened s = the (Shorten s)"

lemma Shorten_total [panic_free]: "Shorten s = Some (shortened s)"
  by (simp add: shortened_def Shorten_Some)

lemma length_shortened: "length (shortened s) = min (length s) 63"
  by (simp add: shortened_def Shorten_Some hash_def)

lemma shortened_short [simp]: "length s \<le> 63 \<Longrightarrow> shortened s = s"
  by (simp add: shortened_def Shorten_Some)

abbreviation label_chars :: "char set" where
  "label_chars \<equiv> set ''abcdefghijklmnopqrstuvwxyz0123456789-''"

lemma encodehash_hex: "c \<in> hex_chars \<Longrightarrow> encodehash_rune c \<in> label_chars"
  unfolding hex_chars_eq by (auto simp: encodehash_rune_def)

lemma set_shortened:
  assumes "set s \<subseteq> label_chars" shows "set (shortened s) \<subseteq> label_chars"
proof -
  have "set (take 52 s) \<subseteq> label_chars" using assms set_take_subset by fastforce
  moreover have "encodehash_rune ` set (take 10 (hash s)) \<subseteq> label_chars"
    using set_take_subset [of 10 "hash s"] set_sha256_hex [of s] encodehash_hex
    unfolding hash_def by blast
  ultimately show ?thesis using assms by (simp add: shortened_def Shorten_Some)
qed

section \<open>What a hostname pattern denotes\<close>

text \<open>
  The empty pattern accepts every host. A pattern that starts with an asterisk accepts the
  hosts that extend the rest of the pattern to the left by at least one byte. Any other
  pattern accepts itself.
\<close>

definition hosts_of :: "string \<Rightarrow> string set" where
  "hosts_of p =
     (case p of [] \<Rightarrow> {h. h \<noteq> []}
      | c # s \<Rightarrow> if c = CHR ''*'' then {h. \<exists>w. w \<noteq> [] \<and> h = w @ s} else {p})"

lemma hosts_of_simps:
  "hosts_of [] = {h. h \<noteq> []}"
  "hosts_of (CHR ''*'' # s) = {h. \<exists>w. w \<noteq> [] \<and> h = w @ s}"
  "c \<noteq> CHR ''*'' \<Longrightarrow> hosts_of (c # s) = {c # s}"
  by (simp_all add: hosts_of_def)

lemma wildcard_match:
  "hostnameMatchesWildcardHostname h (CHR ''*'' # s) \<longleftrightarrow> (\<exists>w. w \<noteq> [] \<and> h = w @ s)"
  by (auto simp: hostnameMatchesWildcardHostname_def allHosts_def Let_def HasSuffix_iff)

lemma wildcard_match_hosts:
  "HasPrefix p allHosts \<Longrightarrow> hostnameMatchesWildcardHostname h p \<longleftrightarrow> h \<in> hosts_of p"
  by (auto simp: allHosts_def HasPrefix_single wildcard_match hosts_of_simps)

text \<open>A pattern that a wildcard accepts denotes a part of what the wildcard denotes.\<close>

lemma hosts_of_mono:
  assumes "p \<in> hosts_of (CHR ''*'' # s)" shows "hosts_of p \<subseteq> hosts_of (CHR ''*'' # s)"
proof
  fix h assume h: "h \<in> hosts_of p"
  obtain c w where p: "p = c # w @ s" using assms by (auto simp: hosts_of_simps neq_Nil_conv)
  show "h \<in> hosts_of (CHR ''*'' # s)"
  proof (cases "c = CHR ''*''")
    case True
    then obtain v where "v \<noteq> []" "h = (v @ w) @ s" using h p by (auto simp: hosts_of_simps)
    then show ?thesis unfolding hosts_of_simps by blast
  next
    case False
    then show ?thesis using h assms p by (simp add: hosts_of_simps(3))
  qed
qed

lemma hosts_of_nonempty: "hosts_of p \<subseteq> hosts_of []"
  by (cases p) (auto simp: hosts_of_def)

lemma computeHost_cases:
  assumes "p \<in> set (computeHost l r)"
  obtains "p = r" "l = []" | "p = r" "l = r"
    | s where "l = CHR ''*'' # s" "p = r" "r \<in> hosts_of l"
    | s where "r = CHR ''*'' # s" "p = l" "l \<in> hosts_of r"
  using assms
  by (auto simp: computeHost_def allHosts_def HasPrefix_single wildcard_match hosts_of_simps(2)
      split: if_splits)

lemma computeHost_sound:
  assumes "p \<in> set (computeHost l r)"
  shows "hosts_of p \<subseteq> hosts_of l \<inter> hosts_of r"
  using assms
  by (cases rule: computeHost_cases) (use hosts_of_nonempty hosts_of_mono in blast)+

text \<open>
  Conversely a host that both sides accept is accepted by what the iteration appends, unless
  both are wildcards and the one of the listener is strictly narrower.
\<close>

definition narrower_wildcard :: "string \<Rightarrow> string \<Rightarrow> bool" where
  "narrower_wildcard l r \<longleftrightarrow>
     HasPrefix l allHosts \<and> HasPrefix r allHosts \<and> l \<noteq> r \<and> l \<in> hosts_of r"

lemma hosts_of_plain: "p \<noteq> [] \<Longrightarrow> \<not> HasPrefix p allHosts \<Longrightarrow> hosts_of p = {p}"
  by (cases p) (auto simp: allHosts_def HasPrefix_single hosts_of_simps)

text \<open>Two wildcards with a common host are nested.\<close>

lemma wildcards_nested:
  assumes "h \<in> hosts_of p" "h \<in> hosts_of q" "HasPrefix p allHosts" "HasPrefix q allHosts"
  shows "p = q \<or> q \<in> hosts_of p \<or> p \<in> hosts_of q"
proof -
  obtain s t where pq: "p = CHR ''*'' # s" "q = CHR ''*'' # t"
    using assms(3,4) by (auto simp: allHosts_def HasPrefix_single)
  then obtain v w where "v @ s = w @ t" using assms(1,2) by (auto simp: hosts_of_simps)
  then obtain u where "s = u @ t \<or> t = u @ s" by (auto simp: append_eq_append_conv2)
  then have "q = (CHR ''*'' # u) @ s \<or> p = (CHR ''*'' # u) @ t" using pq by auto
  then show ?thesis unfolding pq hosts_of_simps by blast
qed

lemma computeHost_complete:
  assumes "h \<in> hosts_of l" "h \<in> hosts_of r" "r \<noteq> []" "\<not> narrower_wildcard l r"
  shows "\<exists>p \<in> set (computeHost l r). h \<in> hosts_of p"
proof (cases "l = [] \<or> l = r")
  case True
  then show ?thesis using assms by (auto simp: computeHost_def)
next
  case neq: False
  show ?thesis
  proof (cases "HasPrefix l allHosts")
    case True
    have "r \<in> hosts_of l"
    proof (cases "HasPrefix r allHosts")
      case wild: True
      show ?thesis
        using wildcards_nested [OF assms(1,2) True wild] assms(4) neq True wild
        unfolding narrower_wildcard_def by blast
    next
      case False
      show ?thesis using hosts_of_plain [OF assms(3) False] assms(1,2) by simp
    qed
    then show ?thesis using assms(2) neq True by (simp add: computeHost_def wildcard_match_hosts)
  next
    case False
    have "h = l" using hosts_of_plain [OF _ False] neq assms(1) by simp
    moreover have "HasPrefix r allHosts"
      using hosts_of_plain [OF assms(3)] assms(2) neq \<open>h = l\<close> by blast
    ultimately have "h = l" "HasPrefix r allHosts" .
    then show ?thesis using assms(1,2) neq False by (simp add: computeHost_def wildcard_match_hosts)
  qed
qed

text \<open>The hosts that a listener hostname and the hostnames of a route accept.\<close>

definition listener_hosts :: "string option \<Rightarrow> string set" where
  "listener_hosts l = hosts_of (case l of Some h \<Rightarrow> h | None \<Rightarrow> [])"

definition route_hosts :: "string list \<Rightarrow> string set" where
  "route_hosts rs = (if rs = [] then hosts_of [] else (\<Union>r \<in> set rs. hosts_of r))"

lemma hosts_of_all [simp]: "hosts_of allHosts = hosts_of []"
  by (auto simp: hosts_of_simps allHosts_def)

lemma ComputeHosts_subset:
  "(\<Union>p \<in> set (ComputeHosts rs l). hosts_of p) \<subseteq> listener_hosts l \<inter> route_hosts rs"
proof (cases "rs = []")
  case True
  then show ?thesis
    using hosts_of_nonempty
    by (simp add: ComputeHosts_def listener_hosts_def route_hosts_def split: option.splits)
next
  case False
  have "hosts_of p \<subseteq> listener_hosts l \<inter> route_hosts rs" if p: "p \<in> set (ComputeHosts rs l)" for p
  proof -
    obtain r where "r \<in> set rs" "p \<in> set (computeHost (case l of Some h \<Rightarrow> h | None \<Rightarrow> []) r)"
      using p False by (auto simp: ComputeHosts_def Let_def)
    then show ?thesis
      using computeHost_sound [of p _ r] False unfolding listener_hosts_def route_hosts_def by fastforce
  qed
  then show ?thesis by (rule UN_least)
qed

section \<open>Properties\<close>

text \<open>
  Claim C27. The hostnames computed for a route on a listener are sorted, and every host that
  one of them accepts is accepted by the listener and by a hostname of the route: a route is
  never served for a host its listener or the route itself does not name.
\<close>

theorem ComputeHosts_sound:
  "sorted (ComputeHosts rs l) \<and>
   (\<Union>p \<in> set (ComputeHosts rs l). hosts_of p) \<subseteq> listener_hosts l \<inter> route_hosts rs"
  using ComputeHosts_subset [of rs l] by (simp add: ComputeHosts_def Let_def)

text \<open>
  Claim C28. Unless the wildcard of the listener is strictly narrower than a wildcard of the
  route, the computed hostnames accept exactly the hosts that both sides accept.
\<close>

theorem ComputeHosts_complete:
  assumes "\<forall>r \<in> set rs. r \<noteq> [] \<and> \<not> narrower_wildcard (case l of Some h \<Rightarrow> h | None \<Rightarrow> []) r"
  shows "(\<Union>p \<in> set (ComputeHosts rs l). hosts_of p) = listener_hosts l \<inter> route_hosts rs"
proof
  let ?l = "case l of Some h \<Rightarrow> h | None \<Rightarrow> []"
  show "listener_hosts l \<inter> route_hosts rs \<subseteq> (\<Union>p \<in> set (ComputeHosts rs l). hosts_of p)"
  proof (cases "rs = []")
    case True
    then show ?thesis
      by (auto simp: ComputeHosts_def listener_hosts_def route_hosts_def split: option.splits)
  next
    case False
    have "\<exists>p \<in> set (ComputeHosts rs l). h \<in> hosts_of p"
      if "h \<in> hosts_of ?l" "r \<in> set rs" "h \<in> hosts_of r" for h r
    proof -
      have "\<exists>p \<in> set (computeHost ?l r). h \<in> hosts_of p"
        using computeHost_complete [OF that(1,3)] that(2) assms by blast
      then show ?thesis using that(2) False by (simp add: ComputeHosts_def Let_def) blast
    qed
    then show ?thesis using False unfolding listener_hosts_def route_hosts_def by auto
  qed
qed (rule ComputeHosts_subset)

theorem ComputeHosts_complete_witness:
  "(\<Union>p \<in> set (ComputeHosts [''*.example.com'', ''a.org''] (Some ''www.example.com'')). hosts_of p) =
   listener_hosts (Some ''www.example.com'') \<inter> route_hosts [''*.example.com'', ''a.org'']"
  by (rule ComputeHosts_complete) (simp add: narrower_wildcard_def allHosts_def HasPrefix_def)

text \<open>
  The exception is real: for the listener hostname \<open>*.foo.example.com\<close> and the
  route hostname \<open>*.example.com\<close> nothing is computed, although both accept
  \<open>a.foo.example.com\<close>, so the route is not served at all.
\<close>

theorem ComputeHosts_narrower_listener:
  "ComputeHosts [''*.example.com''] (Some ''*.foo.example.com'') = [] \<and>
   ''a.foo.example.com'' \<in> listener_hosts (Some ''*.foo.example.com'') \<inter> route_hosts [''*.example.com'']"
proof
  show "ComputeHosts [''*.example.com''] (Some ''*.foo.example.com'') = []"
    by code_simp
  have "''a'' @ ''.foo.example.com'' \<in> hosts_of ''*.foo.example.com''"
    "''a.foo'' @ ''.example.com'' \<in> hosts_of ''*.example.com''"
    unfolding hosts_of_simps by blast+
  then show "''a.foo.example.com'' \<in> listener_hosts (Some ''*.foo.example.com'') \<inter> route_hosts [''*.example.com'']"
    by (simp add: listener_hosts_def route_hosts_def)
qed



end
