(* ===== verification/Gateway_Types.thy ===== *)
theory Gateway_Types
  imports Model_Helper
begin

text \<open>
  The Gateway API and core objects as the operator reads them. The types belong to
  \<open>sigs.k8s.io/gateway-api\<close> and \<open>k8s.io/api\<close>; the records hold the fields that the code
  under \<open>src/pkg\<close> accesses, with pointers as options. The string-valued enumerations are
  datatypes with a constructor for any other string, since the API server does not restrict
  what the code receives.
\<close>

record GroupVersionKind =
  gvk_Group :: string
  gvk_Version :: string
  gvk_Kind :: string

abbreviation (input) gatewayGroupName :: string where
  "gatewayGroupName \<equiv> ''gateway.networking.k8s.io''"

abbreviation (input) coreGroupName :: string where
  "coreGroupName \<equiv> ''''"

record BackendObjectReference =
  bor_Group :: "string option"
  bor_Kind :: "string option"
  bor_Name :: string
  bor_Namespace :: "string option"
  bor_Port :: "int option"

record HTTPHeader =
  hh_Name :: string
  hh_Value :: string

record HTTPHeaderFilter =
  hhf_Set :: "HTTPHeader list"
  hhf_Add :: "HTTPHeader list"
  hhf_Remove :: "string list"

datatype HTTPPathModifierType =
  FullPathHTTPPathModifier | PrefixMatchHTTPPathModifier | OtherHTTPPathModifier string

record HTTPPathModifier =
  pm_Type :: HTTPPathModifierType
  pm_ReplaceFullPath :: "string option"
  pm_ReplacePrefixMatch :: "string option"

record GwRequestRedirect =
  grd_Scheme :: "string option"
  grd_Hostname :: "string option"
  grd_Path :: "HTTPPathModifier option"
  grd_Port :: "int option"
  grd_StatusCode :: "int option"

record GwURLRewrite =
  grw_Hostname :: "string option"
  grw_Path :: "HTTPPathModifier option"

datatype FilterType =
    FilterRequestHeaderModifier | FilterResponseHeaderModifier | FilterRequestRedirect
  | FilterURLRewrite | FilterRequestMirror | FilterOther string

record RouteFilter =
  rf_Type :: FilterType
  rf_RequestHeaderModifier :: "HTTPHeaderFilter option"
  rf_ResponseHeaderModifier :: "HTTPHeaderFilter option"
  rf_RequestMirror :: "BackendObjectReference option"
  rf_RequestRedirect :: "GwRequestRedirect option"
  rf_URLRewrite :: "GwURLRewrite option"
  rf_ExternalAuth :: "BackendObjectReference option"

record BackendRef =
  br_Ref :: BackendObjectReference
  br_Weight :: "int option"
  br_Filters :: "RouteFilter list"

record ParentReference =
  pr_Group :: "string option"
  pr_Kind :: "string option"
  pr_Namespace :: "string option"
  pr_Name :: string
  pr_SectionName :: "string option"
  pr_Port :: "int option"

datatype MatchType = MatchExact | MatchRegularExpression | MatchOther string

datatype PathMatchType =
  PathMatchExact | PathMatchPathPrefix | PathMatchRegularExpression | PathMatchOther string

record HTTPPathMatch =
  hpm_Type :: "PathMatchType option"
  hpm_Value :: "string option"

text \<open>A header or query parameter match of an HTTP or gRPC route.\<close>

record NamedMatch =
  nm_Type :: "MatchType option"
  nm_Name :: string
  nm_Value :: string

record HTTPRouteMatch =
  hrm_Path :: "HTTPPathMatch option"
  hrm_Headers :: "NamedMatch list"
  hrm_QueryParams :: "NamedMatch list"
  hrm_Method :: "string option"

record GRPCMethodMatch =
  gmm_Type :: "MatchType option"
  gmm_Service :: "string option"
  gmm_Method :: "string option"

record GRPCRouteMatch =
  grm_Method :: "GRPCMethodMatch option"
  grm_Headers :: "NamedMatch list"

text \<open>A route of any kind: its metadata, its parents, its hostnames and its rules.\<close>

record 'm RouteRule =
  rr_Matches :: "'m list"
  rr_Filters :: "RouteFilter list"
  rr_BackendRefs :: "BackendRef list"

record 'm Route =
  rt_Name :: string
  rt_Namespace :: string
  rt_ParentRefs :: "ParentReference list"
  rt_Hostnames :: "string list"
  rt_Rules :: "'m RouteRule list"

type_synonym GwHTTPRoute = "HTTPRouteMatch Route"
type_synonym GwGRPCRoute = "GRPCRouteMatch Route"
type_synonym GwL4Route = "unit Route"

record ReferenceGrantFrom =
  rgf_Group :: string
  rgf_Kind :: string
  rgf_Namespace :: string

record ReferenceGrantTo =
  rgt_Group :: string
  rgt_Kind :: string
  rgt_Name :: "string option"

record ReferenceGrant =
  rg_Namespace :: string
  rg_From :: "ReferenceGrantFrom list"
  rg_To :: "ReferenceGrantTo list"

record CoreService =
  cs_Name :: string
  cs_Namespace :: string

record SecretObjectReference =
  sor_Group :: "string option"
  sor_Kind :: "string option"
  sor_Name :: string
  sor_Namespace :: "string option"

datatype ProtocolType =
    HTTPProtocolType | HTTPSProtocolType | TLSProtocolType | TCPProtocolType | UDPProtocolType
  | OtherProtocolType string

datatype TLSModeType = TLSModeTerminate | TLSModePassthrough | TLSModeOther string

record ListenerTLSConfig =
  ltc_Mode :: "TLSModeType option"
  ltc_CertificateRefs :: "SecretObjectReference list"

record RouteGroupKind =
  rgk_Group :: "string option"
  rgk_Kind :: string

datatype FromNamespaces =
  NamespacesFromAll | NamespacesFromSame | NamespacesFromNone | NamespacesFromSelector
  | NamespacesFromOther string

text \<open>A label selector is the abstract datum \<open>'sel\<close> of \<open>k8s.io/apimachinery\<close>.\<close>

record 'sel RouteNamespaces =
  rns_From :: "FromNamespaces option"
  rns_Selector :: "'sel option"

record 'sel AllowedRoutes =
  ar_Namespaces :: "'sel RouteNamespaces option"
  ar_Kinds :: "RouteGroupKind list"

record 'sel GwListener =
  lis_Name :: string
  lis_Hostname :: "string option"
  lis_Port :: int
  lis_Protocol :: ProtocolType
  lis_TLS :: "ListenerTLSConfig option"
  lis_AllowedRoutes :: "'sel AllowedRoutes option"

record 'sel Gateway =
  gw_Name :: string
  gw_Namespace :: string
  gw_UID :: string
  gw_GVK :: GroupVersionKind
  gw_Infrastructure :: "(string_map \<times> string_map) option"
  gw_Listeners :: "'sel GwListener list"

end
