(* ===== verification/Gateway_Helpers.thy ===== *)
theory Gateway_Helpers
  imports Gateway_Types
begin

text \<open>
  \<open>src/pkg/gateway_api/helpers\<close>: the predicates on references (\<open>types.go\<close>), namespaces
  and their labels (\<open>namespaces.go\<close>), reference grants (\<open>referencegrants.go\<close>) and the
  intersection of SNI hostnames (\<open>gateway.go\<close>). The label selectors of
  \<open>k8s.io/apimachinery\<close> are the parameter \<open>selMatches\<close>.
\<close>

section \<open>Kinds of references\<close>

definition kindGateway :: string where "kindGateway = ''Gateway''"
definition kindSecret :: string where "kindSecret = ''Secret''"
definition kindService :: string where "kindService = ''Service''"
definition kindListenerSet :: string where "kindListenerSet = ''ListenerSet''"

definition IsGateway :: "ParentReference \<Rightarrow> bool" where
  "IsGateway parent \<longleftrightarrow>
     (pr_Kind parent = None \<or> pr_Kind parent = Some kindGateway) \<and>
     (pr_Group parent = None \<or> pr_Group parent = Some gatewayGroupName)"

definition IsListenerSet :: "ParentReference \<Rightarrow> bool" where
  "IsListenerSet parent \<longleftrightarrow>
     pr_Kind parent = Some kindListenerSet \<and>
     (pr_Group parent = None \<or> pr_Group parent = Some gatewayGroupName)"

definition IsGammaService :: "ParentReference \<Rightarrow> bool" where
  "IsGammaService parent \<longleftrightarrow>
     pr_Kind parent = Some kindService \<and>
     (pr_Group parent = Some coreGroupName \<or> pr_Group parent = Some ''core'')"

definition IsService :: "BackendObjectReference \<Rightarrow> bool" where
  "IsService be \<longleftrightarrow>
     (bor_Kind be = None \<or> bor_Kind be = Some kindService) \<and>
     (bor_Group be = None \<or> bor_Group be = Some coreGroupName)"

definition IsSecret :: "SecretObjectReference \<Rightarrow> bool" where
  "IsSecret secret \<longleftrightarrow>
     (sor_Kind secret = None \<or> sor_Kind secret = Some kindSecret) \<and>
     (sor_Group secret = None \<or> sor_Group secret = Some coreGroupName)"

text \<open>
  A parent reference is at most one of a Gateway, a ListenerSet and a Service, so the
  reconcilers, which test them in turn, treat each reference once.
\<close>

lemma parent_kinds_disjoint:
  "\<not> (IsGateway p \<and> IsListenerSet p)" "\<not> (IsGateway p \<and> IsGammaService p)"
  "\<not> (IsListenerSet p \<and> IsGammaService p)"
  by (auto simp: IsGateway_def IsListenerSet_def IsGammaService_def kindGateway_def
      kindListenerSet_def kindService_def)

section \<open>Namespaces\<close>

definition NamespaceDerefOr :: "string option \<Rightarrow> string \<Rightarrow> string" where
  "NamespaceDerefOr namespace defaultNamespace =
     (case namespace of Some n \<Rightarrow> if n \<noteq> [] then n else defaultNamespace | None \<Rightarrow> defaultNamespace)"

text \<open>The index of namespace labels; a later namespace of the same name overwrites.\<close>

type_synonym NamespaceLabelIndex = "(string \<times> string_map) list"

definition NewNamespaceLabelIndex :: "(string \<times> string_map) list \<Rightarrow> NamespaceLabelIndex" where
  "NewNamespaceLabelIndex namespaces = fold (\<lambda>(n, ls) idx. AList.update n ls idx) namespaces []"

text \<open>
  \<open>selMatches sel labels\<close> is \<open>LabelSelectorAsSelector\<close> followed by \<open>Matches\<close>; it is
  \<open>None\<close> when the selector does not parse.
\<close>

definition isNamespaceSelected ::
  "('sel option \<Rightarrow> string_map \<Rightarrow> bool option) \<Rightarrow> 'sel option \<Rightarrow> string \<Rightarrow> NamespaceLabelIndex \<Rightarrow> bool" where
  "isNamespaceSelected selMatches selector routeNamespace namespaces =
     (case map_of namespaces routeNamespace of
        None \<Rightarrow> False
      | Some labels \<Rightarrow> (case selMatches selector labels of None \<Rightarrow> False | Some b \<Rightarrow> b))"

definition IsListenerNamespaceAllowed ::
  "('sel option \<Rightarrow> string_map \<Rightarrow> bool option) \<Rightarrow> 'sel GwListener \<Rightarrow> string \<Rightarrow> string \<Rightarrow>
   NamespaceLabelIndex \<Rightarrow> bool" where
  "IsListenerNamespaceAllowed selMatches listener routeNamespace gatewayNamespace namespaces =
     (case lis_AllowedRoutes listener of
        None \<Rightarrow> routeNamespace = gatewayNamespace
      | Some ar \<Rightarrow>
        (case ar_Namespaces ar of
           None \<Rightarrow> routeNamespace = gatewayNamespace
         | Some rns \<Rightarrow>
           (case rns_From rns of
              None \<Rightarrow>
                (case rns_Selector rns of
                   Some sel \<Rightarrow> isNamespaceSelected selMatches (Some sel) routeNamespace namespaces
                 | None \<Rightarrow> routeNamespace = gatewayNamespace)
            | Some NamespacesFromAll \<Rightarrow> True
            | Some NamespacesFromSame \<Rightarrow> routeNamespace = gatewayNamespace
            | Some NamespacesFromNone \<Rightarrow> False
            | Some NamespacesFromSelector \<Rightarrow>
                isNamespaceSelected selMatches (rns_Selector rns) routeNamespace namespaces
            | Some (NamespacesFromOther _) \<Rightarrow> False)))"

section \<open>Reference grants\<close>

definition isReferenceAllowed ::
  "string \<Rightarrow> string \<Rightarrow> string option \<Rightarrow> GroupVersionKind \<Rightarrow> GroupVersionKind \<Rightarrow>
   ReferenceGrant list \<Rightarrow> bool" where
  "isReferenceAllowed originatingNamespace name namespace fromGVK toGVK grants =
     (let ns = NamespaceDerefOr namespace originatingNamespace
      in if originatingNamespace = ns then True
         else \<exists>g \<in> set grants. rg_Namespace g = ns \<and>
                (\<exists>from \<in> set (rg_From g).
                   rgf_Group from = gvk_Group fromGVK \<and> rgf_Kind from = gvk_Kind fromGVK \<and>
                   rgf_Namespace from = originatingNamespace \<and>
                   (\<exists>to \<in> set (rg_To g).
                      rgt_Group to = gvk_Group toGVK \<and> rgt_Kind to = gvk_Kind toGVK \<and>
                      (rgt_Name to = None \<or> rgt_Name to = Some name))))"

abbreviation coreKind :: "string \<Rightarrow> GroupVersionKind" where
  "coreKind k \<equiv> \<lparr>gvk_Group = coreGroupName, gvk_Version = ''v1'', gvk_Kind = k\<rparr>"

definition IsBackendReferenceAllowed ::
  "string \<Rightarrow> BackendObjectReference \<Rightarrow> GroupVersionKind \<Rightarrow> ReferenceGrant list \<Rightarrow> bool" where
  "IsBackendReferenceAllowed originatingNamespace be gvk grants =
     isReferenceAllowed originatingNamespace (bor_Name be) (bor_Namespace be) gvk
       (coreKind ''Service'') grants"

definition IsSecretReferenceAllowed ::
  "string \<Rightarrow> SecretObjectReference \<Rightarrow> GroupVersionKind \<Rightarrow> ReferenceGrant list \<Rightarrow> bool" where
  "IsSecretReferenceAllowed originatingNamespace sr gvk grants =
     isReferenceAllowed originatingNamespace (sor_Name sr) (sor_Namespace sr) gvk
       (coreKind ''Secret'') grants"

text \<open>The contract of a grant: the target namespace trusts the kind and namespace of origin.\<close>

definition granted ::
  "ReferenceGrant list \<Rightarrow> string \<Rightarrow> string \<Rightarrow> string \<Rightarrow> string \<Rightarrow> string \<Rightarrow> string \<Rightarrow> string \<Rightarrow> bool" where
  "granted grants fromGroup fromKind fromNs toGroup toKind toNs name \<longleftrightarrow>
     (\<exists>g \<in> set grants. rg_Namespace g = toNs \<and>
        \<lparr>rgf_Group = fromGroup, rgf_Kind = fromKind, rgf_Namespace = fromNs\<rparr> \<in> set (rg_From g) \<and>
        (\<lparr>rgt_Group = toGroup, rgt_Kind = toKind, rgt_Name = None\<rparr> \<in> set (rg_To g) \<or>
         \<lparr>rgt_Group = toGroup, rgt_Kind = toKind, rgt_Name = Some name\<rparr> \<in> set (rg_To g)))"

lemma from_eq_iff:
  "(\<exists>from \<in> A. rgf_Group from = g \<and> rgf_Kind from = k \<and> rgf_Namespace from = n \<and> P) \<longleftrightarrow>
   \<lparr>rgf_Group = g, rgf_Kind = k, rgf_Namespace = n\<rparr> \<in> (A :: ReferenceGrantFrom set) \<and> P"
  by (auto, (metis (full_types) ReferenceGrantFrom.equality ReferenceGrantFrom.select_convs old.unit.exhaust)+)

lemma to_eq_iff:
  "(\<exists>to \<in> A. rgt_Group to = g \<and> rgt_Kind to = k \<and> (rgt_Name to = None \<or> rgt_Name to = Some n)) \<longleftrightarrow>
   \<lparr>rgt_Group = g, rgt_Kind = k, rgt_Name = None\<rparr> \<in> (A :: ReferenceGrantTo set) \<or>
   \<lparr>rgt_Group = g, rgt_Kind = k, rgt_Name = Some n\<rparr> \<in> A"
  by (auto, (metis (full_types) ReferenceGrantTo.equality ReferenceGrantTo.select_convs old.unit.exhaust)+)

lemma isReferenceAllowed_iff:
  "isReferenceAllowed origin name ns fromGVK toGVK grants \<longleftrightarrow>
     NamespaceDerefOr ns origin = origin \<or>
     granted grants (gvk_Group fromGVK) (gvk_Kind fromGVK) origin (gvk_Group toGVK) (gvk_Kind toGVK)
       (NamespaceDerefOr ns origin) name"
  unfolding isReferenceAllowed_def granted_def Let_def from_eq_iff to_eq_iff by auto

end
