(* ===== verification/SNI_Hostnames.thy ===== *)
theory SNI_Hostnames
  imports Gateway_Helpers
begin

text \<open>
  The hostname part of \<open>src/pkg/gateway_api/helpers/gateway.go\<close>: whether two listener
  hostnames can match the same SNI value. Two wildcards are compared label by label from the
  right, indexing both slices up to the length of the longer one; the lemmas show that the
  loop stops before it leaves the shorter slice, and that the answer is whether the two
  patterns have a host in common.
\<close>

definition IsHTTPSTerminatedListener :: "'sel GwListener \<Rightarrow> bool" where
  "IsHTTPSTerminatedListener listener \<longleftrightarrow> lis_Protocol listener = HTTPSProtocolType"

definition IsTLSPassthroughListener :: "'sel GwListener \<Rightarrow> bool" where
  "IsTLSPassthroughListener listener \<longleftrightarrow>
     lis_Protocol listener = TLSProtocolType \<and>
     (case lis_TLS listener of None \<Rightarrow> False | Some tls \<Rightarrow> ltc_Mode tls = Some TLSModePassthrough)"

definition ListenerHostname :: "'sel GwListener \<Rightarrow> string" where
  "ListenerHostname listener = (case lis_Hostname listener of None \<Rightarrow> [] | Some h \<Rightarrow> h)"

definition normalizeHostname :: "string \<Rightarrow> string" where
  "normalizeHostname hostname = (if hostname = [] then allHosts else hostname)"

definition helpers_hostnameMatchesWildcardHostname :: "string \<Rightarrow> string \<Rightarrow> bool" where
  "helpers_hostnameMatchesWildcardHostname hostname wildcardHostname =
     (if \<not> HasSuffix hostname (TrimPrefix wildcardHostname allHosts) then False
      else let wildcardMatch = TrimSuffix hostname (TrimPrefix wildcardHostname allHosts)
           in length wildcardMatch > 0)"

text \<open>The loop over the reversed labels; indexing outside a slice panics.\<close>

definition index :: "'a list \<Rightarrow> nat \<Rightarrow> 'a option" where
  "index xs i = (if i < length xs then Some (xs ! i) else None)"

fun labelLoop :: "nat list \<Rightarrow> string list \<Rightarrow> string list \<Rightarrow> nat \<Rightarrow> bool option" where
  "labelLoop [] routeSlice listenerSlice matchingLabels = Some (matchingLabels > 0)"
| "labelLoop (i # is) routeSlice listenerSlice matchingLabels =
     do {
       r \<leftarrow> index routeSlice i;
       if r = allHosts then Some (matchingLabels > 0)
       else do {
         l \<leftarrow> index listenerSlice i;
         if l = allHosts then Some (matchingLabels > 0)
         else if r = l then labelLoop is routeSlice listenerSlice (matchingLabels + 1)
         else Some False } }"

definition wildcardHostnamesIntersect :: "string \<Rightarrow> string \<Rightarrow> bool option" where
  "wildcardHostnamesIntersect routeHostname listenerHostname =
     (if routeHostname = allHosts \<or> listenerHostname = allHosts then Some True
      else let (cutRouteHostname, found) = CutPrefix routeHostname ''*.''
      in if \<not> found \<or> length cutRouteHostname = 0 then Some False
      else let (cutListenerHostname, found) = CutPrefix listenerHostname ''*.''
      in if \<not> found \<or> length cutListenerHostname = 0 then Some False
      else let routeSlice = rev (Split routeHostname CHR ''.'');
               listenerSlice = rev (Split listenerHostname CHR ''.'')
      in if length routeSlice = 0 \<or> length listenerSlice = 0 then Some False
      else labelLoop [0..<max (length routeSlice) (length listenerSlice)] routeSlice listenerSlice 0)"

definition SNIHostnamesIntersect :: "string \<Rightarrow> string \<Rightarrow> bool option" where
  "SNIHostnamesIntersect a0 b0 =
     (let a = normalizeHostname a0; b = normalizeHostname b0
      in if a = allHosts \<or> b = allHosts then Some True
         else if a = b then Some True
         else let aWildcard = HasPrefix a allHosts; bWildcard = HasPrefix b allHosts
         in if aWildcard \<and> bWildcard then wildcardHostnamesIntersect a b
            else if aWildcard then Some (helpers_hostnameMatchesWildcardHostname b a)
            else if bWildcard then Some (helpers_hostnameMatchesWildcardHostname a b)
            else Some False)"

section \<open>The loop compares label lists up to the first wildcard\<close>

lemma index_append1 [simp]: "i < length xs \<Longrightarrow> index (xs @ ys) i = Some (xs ! i)"
  by (simp add: index_def nth_append)

lemma index_length [simp]: "index (xs @ y # ys) (length xs) = Some y"
  by (simp add: index_def)

text \<open>
  On two label lists that end in a wildcard and hold no other, started after \<open>i\<close> equal
  labels, the loop returns, and tells whether one list continues the other.
\<close>

lemma labelLoop_prefix:
  assumes "allHosts \<notin> set xs" "allHosts \<notin> set ys"
    and "i \<le> length xs" "i \<le> length ys" "take i xs = take i ys"
    and "n > length xs" "n > length ys" "0 < m + length xs" "0 < m + length ys" "m = i"
  shows "labelLoop [i..<n] (xs @ [allHosts]) (ys @ [allHosts]) m = Some (prefix xs ys \<or> prefix ys xs)"
  using assms
proof (induction "n - i" arbitrary: i m)
  case (Suc k)
  have range: "[i..<n] = i # [Suc i..<n]" using Suc.prems(3,6) by (simp add: upt_conv_Cons)
  consider "i = length xs" | "i < length xs" "i = length ys" | "i < length xs" "i < length ys"
    using Suc.prems by linarith
  then show ?case
  proof cases
    case 1
    then have "prefix xs ys" using Suc.prems(5) by (metis take_all_iff le_refl take_is_prefix)
    then show ?thesis using 1 Suc.prems range by auto
  next
    case 2
    then have "prefix ys xs" using Suc.prems(5) by (metis take_all_iff le_refl take_is_prefix)
    moreover have "xs ! i \<noteq> allHosts" using 2 Suc.prems(1) by (metis nth_mem)
    ultimately show ?thesis using 2 Suc.prems range by auto
  next
    case 3
    have ne: "xs ! i \<noteq> allHosts" "ys ! i \<noteq> allHosts" using 3 Suc.prems(1,2) by (metis nth_mem)+
    show ?thesis
    proof (cases "xs ! i = ys ! i")
      case True
      then have "take (Suc i) xs = take (Suc i) ys" using 3 Suc.prems(5) by (simp add: take_Suc_conv_app_nth)
      then have "labelLoop [Suc i..<n] (xs @ [allHosts]) (ys @ [allHosts]) (Suc m) =
          Some (prefix xs ys \<or> prefix ys xs)"
        using Suc.hyps Suc.prems 3 by (intro Suc.hyps(1)) auto
      then show ?thesis using 3 ne True range by simp
    next
      case False
      then have "\<not> prefix xs ys" "\<not> prefix ys xs" using 3 by (auto simp: prefix_def nth_append)
      then show ?thesis using 3 ne False range by simp
    qed
  qed
qed simp

section \<open>Labels and strings\<close>

lemma join_with_append:
  "xs \<noteq> [] \<Longrightarrow> ys \<noteq> [] \<Longrightarrow> join_with c (xs @ ys) = join_with c xs @ c # join_with c ys"
proof (induction c xs rule: join_with.induct)
  case (2 c x)
  then show ?case by (cases ys) auto
qed auto

text \<open>The labels of one name end those of another exactly if the dotted names do.\<close>

lemma labels_suffix: "suffix (Split s c) (Split t c) \<longleftrightarrow> suffix (c # s) (c # t)"
proof
  assume "suffix (Split s c) (Split t c)"
  then obtain xs where xs: "Split t c = xs @ Split s c" by (auto simp: suffix_def)
  show "suffix (c # s) (c # t)"
  proof (cases "xs = []")
    case True
    then show ?thesis using xs Split_inject [of t c s] by simp
  next
    case False
    then have "t = join_with c xs @ c # s" using join_with_append [OF False, of "Split s c" c] xs
      by (metis Split_not_Nil join_Split)
    then show ?thesis by (simp add: suffix_def)
  qed
next
  assume "suffix (c # s) (c # t)"
  then obtain u where u: "c # t = u @ c # s" by (auto simp: suffix_def)
  then show "suffix (Split s c) (Split t c)"
    by (cases u) (auto simp: Split_append_sep suffix_def)
qed

lemma wildcards_share_host:
  "hosts_of (''*.'' @ s) \<inter> hosts_of (''*.'' @ t) \<noteq> {} \<longleftrightarrow>
   suffix (CHR ''.'' # s) (CHR ''.'' # t) \<or> suffix (CHR ''.'' # t) (CHR ''.'' # s)"
proof
  assume "hosts_of (''*.'' @ s) \<inter> hosts_of (''*.'' @ t) \<noteq> {}"
  then obtain v w where "v @ CHR ''.'' # s = w @ CHR ''.'' # t"
    by (auto simp: hosts_of_simps)
  then show "suffix (CHR ''.'' # s) (CHR ''.'' # t) \<or> suffix (CHR ''.'' # t) (CHR ''.'' # s)"
    by (metis suffixI suffix_same_cases)
next
  have sub: "''a.'' @ q \<in> hosts_of (''*.'' @ p) \<inter> hosts_of (''*.'' @ q)"
    if suf: "suffix (CHR ''.'' # p) (CHR ''.'' # q)" for p q
  proof -
    obtain u where u: "CHR ''.'' # q = u @ CHR ''.'' # p" using suf by (auto simp: suffix_def)
    then have "''a.'' @ q = (CHR ''a'' # u) @ CHR ''.'' # p" "''a.'' @ q = ''a'' @ CHR ''.'' # q" by simp_all
    then show ?thesis by (simp add: hosts_of_simps)
  qed
  assume "suffix (CHR ''.'' # s) (CHR ''.'' # t) \<or> suffix (CHR ''.'' # t) (CHR ''.'' # s)"
  then show "hosts_of (''*.'' @ s) \<inter> hosts_of (''*.'' @ t) \<noteq> {}" using sub by blast
qed

text \<open>
  A hostname as the API admits it: empty, the catch-all, a name without a leading asterisk,
  or an asterisk label followed by a name none of whose labels is an asterisk.
\<close>

definition valid_hostname :: "string \<Rightarrow> bool" where
  "valid_hostname p \<longleftrightarrow>
     p = [] \<or> p = allHosts \<or> \<not> HasPrefix p allHosts \<or>
     (HasPrefix p ''*.'' \<and> drop 2 p \<noteq> [] \<and> allHosts \<notin> set (Split (drop 2 p) CHR ''.''))"

lemma valid_wildcard:
  assumes "valid_hostname p" "HasPrefix p allHosts" "p \<noteq> allHosts"
  obtains s where "p = ''*.'' @ s" "s \<noteq> []" "allHosts \<notin> set (Split s CHR ''.'')"
  using assms by (auto simp: valid_hostname_def allHosts_def HasPrefix_iff)

lemma wildcardHostnamesIntersect_correct:
  assumes s: "s \<noteq> []" "allHosts \<notin> set (Split s CHR ''.'')"
    and t: "t \<noteq> []" "allHosts \<notin> set (Split t CHR ''.'')"
  shows "wildcardHostnamesIntersect (''*.'' @ s) (''*.'' @ t) =
         Some (hosts_of (''*.'' @ s) \<inter> hosts_of (''*.'' @ t) \<noteq> {})"
proof -
  let ?xs = "rev (Split s CHR ''.'')" and ?ys = "rev (Split t CHR ''.'')"
  have split: "rev (Split (''*.'' @ u) CHR ''.'') = rev (Split u CHR ''.'') @ [allHosts]" for u
    using Split_append_sep [of "''*''" "CHR ''.''" u] by (simp add: allHosts_def)
  have "labelLoop [0..<max (length (?xs @ [allHosts])) (length (?ys @ [allHosts]))]
          (?xs @ [allHosts]) (?ys @ [allHosts]) 0 = Some (prefix ?xs ?ys \<or> prefix ?ys ?xs)"
    using s t by (intro labelLoop_prefix) auto
  moreover have "prefix ?xs ?ys \<or> prefix ?ys ?xs \<longleftrightarrow> hosts_of (''*.'' @ s) \<inter> hosts_of (''*.'' @ t) \<noteq> {}"
    unfolding wildcards_share_host labels_suffix [symmetric] by (simp add: suffix_to_prefix)
  moreover have "CutPrefix (''*.'' @ u) ''*.'' = (u, True)" for u
    using HasPrefix_append [of "''*.''" u] by (simp add: CutPrefix_def)
  moreover have "''*.'' @ u \<noteq> allHosts" for u by (simp add: allHosts_def)
  ultimately show ?thesis
    using s t unfolding wildcardHostnamesIntersect_def split by (simp add: Let_def)
qed

lemma hosts_of_not_empty: "hosts_of p \<noteq> {}"
proof (cases p)
  case (Cons c s)
  have "[c] @ s \<in> hosts_of p" unfolding Cons hosts_of_def by auto
  then show ?thesis by blast
qed (auto simp: hosts_of_def)

lemma hosts_of_normalize [simp]: "hosts_of (normalizeHostname p) = hosts_of p"
  by (simp add: normalizeHostname_def)

section \<open>Properties\<close>

text \<open>
  Claim C31. For hostnames as the API admits them, the SNI intersection test never indexes
  outside a label slice, and it answers whether the two patterns accept a common host.
\<close>

theorem SNIHostnamesIntersect_correct:
  assumes "valid_hostname a" "valid_hostname b"
  shows "SNIHostnamesIntersect a b = Some (hosts_of a \<inter> hosts_of b \<noteq> {})"
proof -
  let ?a = "normalizeHostname a" and ?b = "normalizeHostname b"
  have valid: "valid_hostname ?a" "valid_hostname ?b"
    using assms by (auto simp: normalizeHostname_def valid_hostname_def)
  have ne: "?a \<noteq> []" "?b \<noteq> []" by (auto simp: normalizeHostname_def allHosts_def)
  have "SNIHostnamesIntersect a b = Some (hosts_of ?a \<inter> hosts_of ?b \<noteq> {})"
  proof (cases "?a = allHosts \<or> ?b = allHosts \<or> ?a = ?b")
    case True
    then have "hosts_of ?a \<inter> hosts_of ?b \<noteq> {}"
      using hosts_of_not_empty hosts_of_nonempty hosts_of_all by (metis inf.absorb_iff2 inf_commute inf_idem)
    then show ?thesis using True unfolding SNIHostnamesIntersect_def Let_def by auto
  next
    case False
    consider "HasPrefix ?a allHosts" "HasPrefix ?b allHosts"
      | "HasPrefix ?a allHosts" "\<not> HasPrefix ?b allHosts" "hosts_of ?b = {?b}"
      | "\<not> HasPrefix ?a allHosts" "HasPrefix ?b allHosts" "hosts_of ?a = {?a}"
      | "\<not> HasPrefix ?a allHosts" "\<not> HasPrefix ?b allHosts" "hosts_of ?a = {?a}" "hosts_of ?b = {?b}"
      using hosts_of_plain ne by metis
    then show ?thesis
    proof cases
      case 1
      obtain s t where st: "?a = ''*.'' @ s" "s \<noteq> []" "allHosts \<notin> set (Split s CHR ''.'')"
        "?b = ''*.'' @ t" "t \<noteq> []" "allHosts \<notin> set (Split t CHR ''.'')"
        using valid_wildcard valid 1 False by metis
      have "SNIHostnamesIntersect a b = wildcardHostnamesIntersect ?a ?b"
        using False 1 by (simp add: SNIHostnamesIntersect_def Let_def)
      then show ?thesis using wildcardHostnamesIntersect_correct [of s t] st by simp
    qed (use False wildcard_match_hosts in
        \<open>simp_all add: SNIHostnamesIntersect_def Let_def helpers_hostnameMatchesWildcardHostname_def
          flip: hostnameMatchesWildcardHostname_def\<close>)
  qed
  then show ?thesis by simp
qed

theorem SNIHostnamesIntersect_correct_witness:
  "SNIHostnamesIntersect ''*.example.com'' ''*.foo.example.com'' =
   Some (hosts_of ''*.example.com'' \<inter> hosts_of ''*.foo.example.com'' \<noteq> {})"
proof (rule SNIHostnamesIntersect_correct)
  show "valid_hostname ''*.example.com''" by code_simp
  show "valid_hostname ''*.foo.example.com''" by code_simp
qed

end
