(* ===== verification/Ingestion_Gateway.thy ===== *)
theory Ingestion_Gateway
  imports Gateway_Helpers
begin

text \<open>
  \<open>src/pkg/model/ingestion/gateway.go\<close>: from a Gateway, its listeners and the routes
  attached to them to the listeners of the intermediate model. A dereference of a nil
  pointer is \<open>None\<close>. The routes of each protocol are ingested by their own function, as in
  the code; the part the five functions repeat, the choice of the backends of a rule, is
  \<open>acceptedBackend\<close> and \<open>ruleBackends\<close>, which take the kind of route that the code passes
  to the reference-grant check.
\<close>

section \<open>Small conversions\<close>

definition toHTTPHeaders :: "HTTPHeader list \<Rightarrow> Header list" where
  "toHTTPHeaders headers = map (\<lambda>h. \<lparr>hdr_Name = hh_Name h, hdr_Value = hh_Value h\<rparr>) headers"

definition toHttpHeaderFilter :: "HTTPHeaderFilter \<Rightarrow> HttpHeaderFilter" where
  "toHttpHeaderFilter f =
     \<lparr>hf_HeadersToAdd = toHTTPHeaders (hhf_Add f), hf_HeadersToSet = toHTTPHeaders (hhf_Set f),
      hf_HeadersToRemove = hhf_Remove f\<rparr>"

definition backendRefToModelBackend :: "BackendObjectReference \<Rightarrow> string \<Rightarrow> Backend" where
  "backendRefToModelBackend be defaultNamespace =
     \<lparr>be_Name = bor_Name be,
      be_Namespace = NamespaceDerefOr (bor_Namespace be) defaultNamespace,
      be_Port = (case bor_Port be of
                   None \<Rightarrow> None
                 | Some port \<Rightarrow> Some \<lparr>bp_Port = word_of_int port, bp_Name = ''''\<rparr>),
      be_Weight = None, be_TLS = None\<rparr>"

definition backendToModelBackend :: "BackendRef \<Rightarrow> string \<Rightarrow> Backend" where
  "backendToModelBackend be defaultNamespace =
     (backendRefToModelBackend (br_Ref be) defaultNamespace)\<lparr>be_Weight := br_Weight be\<rparr>"

definition serviceExists :: "string \<Rightarrow> string \<Rightarrow> CoreService list \<Rightarrow> bool" where
  "serviceExists svcName svcNamespace services \<longleftrightarrow>
     (\<exists>svc \<in> set services. cs_Name svc = svcName \<and> cs_Namespace svc = svcNamespace)"

definition toHTTPRequestMirror :: "BackendObjectReference option \<Rightarrow> string \<Rightarrow> HttpRequestMirror option" where
  "toHTTPRequestMirror mirror ns =
     do { ref \<leftarrow> mirror; Some \<lparr>mir_Backend = Some (backendRefToModelBackend ref ns)\<rparr> }"

definition toHostname :: "string option \<Rightarrow> string" where
  "toHostname hostname = (case hostname of Some h \<Rightarrow> h | None \<Rightarrow> allHosts)"

definition toTLS :: "ListenerTLSConfig option \<Rightarrow> ReferenceGrant list \<Rightarrow> string \<Rightarrow> TLSSecret list option" where
  "toTLS tls grants defaultNamespace =
     (case tls of
        None \<Rightarrow> None
      | Some t \<Rightarrow> Some (
        map (\<lambda>cert. \<lparr>sec_Name = sor_Name cert,
                     sec_Namespace = NamespaceDerefOr (sor_Namespace cert) defaultNamespace\<rparr>)
          (filter (\<lambda>cert. IsSecretReferenceAllowed defaultNamespace cert
                     \<lparr>gvk_Group = gatewayGroupName, gvk_Version = ''v1'', gvk_Kind = ''Gateway''\<rparr> grants)
             (ltc_CertificateRefs t))))"

section \<open>Matches\<close>

definition toPathMatch :: "HTTPRouteMatch \<Rightarrow> StringMatch option" where
  "toPathMatch match =
     (case hrm_Path match of
        None \<Rightarrow> Some noMatch
      | Some path \<Rightarrow>
        do {
          t \<leftarrow> hpm_Type path;
          (case t of
             PathMatchExact \<Rightarrow> do { v \<leftarrow> hpm_Value path; Some (noMatch\<lparr>sm_Exact := v\<rparr>) }
           | PathMatchPathPrefix \<Rightarrow> do { v \<leftarrow> hpm_Value path; Some (noMatch\<lparr>sm_Prefix := v\<rparr>) }
           | PathMatchRegularExpression \<Rightarrow> do { v \<leftarrow> hpm_Value path; Some (noMatch\<lparr>sm_Regex := v\<rparr>) }
           | PathMatchOther _ \<Rightarrow> Some noMatch) })"

text \<open>The switch that the header and query matches share; an unknown type is skipped.\<close>

definition namedMatch :: "MatchType \<Rightarrow> NamedMatch \<Rightarrow> KeyValueMatch list" where
  "namedMatch t h =
     (case t of
        MatchExact \<Rightarrow> [\<lparr>kv_Key = nm_Name h, kv_Match = noMatch\<lparr>sm_Exact := nm_Value h\<rparr>\<rparr>]
      | MatchRegularExpression \<Rightarrow> [\<lparr>kv_Key = nm_Name h, kv_Match = noMatch\<lparr>sm_Regex := nm_Value h\<rparr>\<rparr>]
      | MatchOther _ \<Rightarrow> [])"

text \<open>HTTP headers: the code dereferences the type even when it is nil.\<close>

definition toHeaderMatch :: "HTTPRouteMatch \<Rightarrow> KeyValueMatch list option" where
  "toHeaderMatch match =
     concatMapM (\<lambda>h. do { t \<leftarrow> nm_Type h; Some (namedMatch t h) }) (hrm_Headers match)"

definition toQueryMatch :: "HTTPRouteMatch \<Rightarrow> KeyValueMatch list" where
  "toQueryMatch match =
     concat (map (\<lambda>q. namedMatch (case nm_Type q of Some t \<Rightarrow> t | None \<Rightarrow> MatchExact) q)
       (hrm_QueryParams match))"

definition toGRPCHeaderMatch :: "GRPCRouteMatch \<Rightarrow> KeyValueMatch list" where
  "toGRPCHeaderMatch match =
     concat (map (\<lambda>h. namedMatch (case nm_Type h of Some t \<Rightarrow> t | None \<Rightarrow> MatchExact) h)
       (grm_Headers match))"

definition toGRPCPathMatch :: "GRPCRouteMatch \<Rightarrow> StringMatch option" where
  "toGRPCPathMatch match =
     (case grm_Method match of
        None \<Rightarrow> Some noMatch
      | Some m \<Rightarrow>
        (case gmm_Service m of
           None \<Rightarrow> Some noMatch
         | Some service \<Rightarrow>
           (let path = ''/'' @ service @ (case gmm_Method m of Some meth \<Rightarrow> ''/'' @ meth | None \<Rightarrow> [])
            in do {
              t \<leftarrow> gmm_Type m;
              (case t of
                 MatchExact \<Rightarrow> Some (noMatch\<lparr>sm_Exact := path\<rparr>)
               | MatchRegularExpression \<Rightarrow> Some (noMatch\<lparr>sm_Regex := path\<rparr>)
               | MatchOther _ \<Rightarrow> Some noMatch) })))"

section \<open>Filters\<close>

definition toHTTPRequestRedirectFilter ::
  "'sel GwListener \<Rightarrow> GwRequestRedirect option \<Rightarrow> HTTPRequestRedirectFilter option option" where
  "toHTTPRequestRedirectFilter listener redirect =
     (case redirect of
        None \<Rightarrow> Some None
      | Some rd \<Rightarrow>
        do {
          pathModifier \<leftarrow>
            (case grd_Path rd of
               None \<Rightarrow> Some None
             | Some path \<Rightarrow>
               (case pm_Type path of
                  FullPathHTTPPathModifier \<Rightarrow>
                    do { v \<leftarrow> pm_ReplaceFullPath path; Some (Some (noMatch\<lparr>sm_Exact := v\<rparr>)) }
                | PrefixMatchHTTPPathModifier \<Rightarrow>
                    do { v \<leftarrow> pm_ReplacePrefixMatch path; Some (Some (noMatch\<lparr>sm_Prefix := v\<rparr>)) }
                | OtherHTTPPathModifier _ \<Rightarrow> Some (Some noMatch)));
          Some (Some
            \<lparr>rd_Scheme = grd_Scheme rd, rd_Hostname = grd_Hostname rd, rd_Path = pathModifier,
             rd_Port = (case grd_Port rd of
                          Some p \<Rightarrow> Some p
                        | None \<Rightarrow> if grd_Scheme rd = None then Some (lis_Port listener) else None),
             rd_StatusCode = grd_StatusCode rd\<rparr>) })"

definition toHTTPRewriteFilter :: "GwURLRewrite option \<Rightarrow> HTTPURLRewriteFilter option option" where
  "toHTTPRewriteFilter rewrite =
     (case rewrite of
        None \<Rightarrow> Some None
      | Some rw \<Rightarrow>
        do {
          pathFilter \<leftarrow>
            (case grw_Path rw of
               None \<Rightarrow> Some None
             | Some path \<Rightarrow>
               (case pm_Type path of
                  FullPathHTTPPathModifier \<Rightarrow>
                    do { v \<leftarrow> pm_ReplaceFullPath path; Some (Some (noMatch\<lparr>sm_Exact := v\<rparr>)) }
                | PrefixMatchHTTPPathModifier \<Rightarrow>
                    do { v \<leftarrow> pm_ReplacePrefixMatch path;
                         Some (Some (noMatch\<lparr>sm_Prefix := TrimSuffix v ''/''\<rparr>)) }
                | OtherHTTPPathModifier _ \<Rightarrow> Some None));
          Some (Some \<lparr>rw_HostName = grw_Hostname rw, rw_Path = pathFilter\<rparr>) })"

text \<open>The variables that the loop over the filters of a rule assigns.\<close>

record RuleFilters =
  rf_requestHeaderFilter :: "HttpHeaderFilter option"
  rf_responseHeaderFilter :: "HttpHeaderFilter option"
  rf_requestMirrors :: "HttpRequestMirror list"
  rf_requestRedirectFilter :: "HTTPRequestRedirectFilter option"
  rf_rewriteFilter :: "HTTPURLRewriteFilter option"

definition noFilters :: RuleFilters where
  "noFilters =
     \<lparr>rf_requestHeaderFilter = None, rf_responseHeaderFilter = None, rf_requestMirrors = [],
      rf_requestRedirectFilter = None, rf_rewriteFilter = None\<rparr>"

definition httpRuleFilter :: "'sel GwListener \<Rightarrow> string \<Rightarrow> RouteFilter \<Rightarrow> RuleFilters \<Rightarrow> RuleFilters option" where
  "httpRuleFilter listener ns f st =
     (case rf_Type f of
        FilterRequestHeaderModifier \<Rightarrow>
          do { h \<leftarrow> rf_RequestHeaderModifier f;
               Some (st\<lparr>rf_requestHeaderFilter := Some (toHttpHeaderFilter h)\<rparr>) }
      | FilterResponseHeaderModifier \<Rightarrow>
          do { h \<leftarrow> rf_ResponseHeaderModifier f;
               Some (st\<lparr>rf_responseHeaderFilter := Some (toHttpHeaderFilter h)\<rparr>) }
      | FilterRequestRedirect \<Rightarrow>
          do { r \<leftarrow> toHTTPRequestRedirectFilter listener (rf_RequestRedirect f);
               Some (st\<lparr>rf_requestRedirectFilter := r\<rparr>) }
      | FilterURLRewrite \<Rightarrow>
          do { r \<leftarrow> toHTTPRewriteFilter (rf_URLRewrite f); Some (st\<lparr>rf_rewriteFilter := r\<rparr>) }
      | FilterRequestMirror \<Rightarrow>
          do { m \<leftarrow> toHTTPRequestMirror (rf_RequestMirror f) ns;
               Some (st\<lparr>rf_requestMirrors := rf_requestMirrors st @ [m]\<rparr>) }
      | FilterOther _ \<Rightarrow> Some st)"

definition grpcRuleFilter :: "string \<Rightarrow> RouteFilter \<Rightarrow> RuleFilters \<Rightarrow> RuleFilters option" where
  "grpcRuleFilter ns f st =
     (case rf_Type f of
        FilterRequestHeaderModifier \<Rightarrow>
          do { h \<leftarrow> rf_RequestHeaderModifier f;
               Some (st\<lparr>rf_requestHeaderFilter := Some (toHttpHeaderFilter h)\<rparr>) }
      | FilterResponseHeaderModifier \<Rightarrow>
          do { h \<leftarrow> rf_ResponseHeaderModifier f;
               Some (st\<lparr>rf_responseHeaderFilter := Some (toHttpHeaderFilter h)\<rparr>) }
      | FilterRequestMirror \<Rightarrow>
          do { m \<leftarrow> toHTTPRequestMirror (rf_RequestMirror f) ns;
               Some (st\<lparr>rf_requestMirrors := rf_requestMirrors st @ [m]\<rparr>) }
      | _ \<Rightarrow> Some st)"

section \<open>Backends of a rule\<close>

abbreviation (input) gatewayKind :: "string \<Rightarrow> GroupVersionKind" where
  "gatewayKind k \<equiv> \<lparr>gvk_Group = gatewayGroupName, gvk_Version = ''v1beta1'', gvk_Kind = k\<rparr>"

definition acceptedBackend ::
  "string \<Rightarrow> string \<Rightarrow> CoreService list \<Rightarrow> ReferenceGrant list \<Rightarrow> BackendRef \<Rightarrow> bool" where
  "acceptedBackend routeKind routeNamespace services grants be \<longleftrightarrow>
     (let ref = br_Ref be
      in IsBackendReferenceAllowed routeNamespace ref (gatewayKind routeKind) grants \<and>
         \<not> (bor_Kind ref \<noteq> None \<and> bor_Kind ref \<noteq> Some ''Service'' \<or>
            bor_Group ref \<noteq> None \<and> bor_Group ref \<noteq> Some coreGroupName) \<and>
         bor_Port ref \<noteq> None \<and>
         serviceExists (bor_Name ref) (NamespaceDerefOr (bor_Namespace ref) routeNamespace) services)"

definition ruleBackends ::
  "string \<Rightarrow> string \<Rightarrow> CoreService list \<Rightarrow> ReferenceGrant list \<Rightarrow> BackendRef list \<Rightarrow> Backend list" where
  "ruleBackends routeKind routeNamespace services grants refs =
     map (\<lambda>be. backendToModelBackend be routeNamespace)
       (filter (acceptedBackend routeKind routeNamespace services grants) refs)"

text \<open>
  The header filters of the accepted backends of an HTTP rule. The code builds this list and
  does not store it in the route, so only its nil dereferences have an effect.
\<close>

definition backendHttpFilter :: "string \<Rightarrow> BackendRef \<Rightarrow> RouteFilter \<Rightarrow> BackendHttpFilter list option" where
  "backendHttpFilter routeNamespace be f =
     (let ref = br_Ref be in
      do {
        port \<leftarrow> bor_Port ref;
        let name = NamespaceDerefOr (bor_Namespace ref) routeNamespace @ '':'' @ bor_Name ref @ '':'' @
                   Itoa (uint (word_of_int port :: uint32));
        (case rf_Type f of
           FilterRequestHeaderModifier \<Rightarrow>
             do { h \<leftarrow> rf_RequestHeaderModifier f;
                  Some [\<lparr>bf_Name = name, bf_RequestHeaderFilter = Some (toHttpHeaderFilter h),
                         bf_ResponseHeaderModifier = None\<rparr>] }
         | FilterResponseHeaderModifier \<Rightarrow>
             do { h \<leftarrow> rf_ResponseHeaderModifier f;
                  Some [\<lparr>bf_Name = name, bf_RequestHeaderFilter = None,
                         bf_ResponseHeaderModifier = Some (toHttpHeaderFilter h)\<rparr>] }
         | _ \<Rightarrow> Some []) })"

definition backendHttpFilters ::
  "string \<Rightarrow> CoreService list \<Rightarrow> ReferenceGrant list \<Rightarrow> BackendRef list \<Rightarrow> BackendHttpFilter list option" where
  "backendHttpFilters routeNamespace services grants refs =
     concatMapM (\<lambda>be. concatMapM (backendHttpFilter routeNamespace be) (br_Filters be))
       (filter (acceptedBackend ''HttpRoute'' routeNamespace services grants) refs)"

section \<open>Routes attached to a listener\<close>

definition attachedToListener :: "'sel GwListener \<Rightarrow> 'm Route \<Rightarrow> bool" where
  "attachedToListener listener route \<longleftrightarrow>
     (\<exists>parent \<in> set (rt_ParentRefs route).
        pr_SectionName parent = None \<or> pr_SectionName parent = Some (lis_Name listener))"

text \<open>The hostnames of a route on a listener; \<open>None\<close> when the route is skipped.\<close>

definition matchedHosts :: "'sel GwListener \<Rightarrow> 'm Route \<Rightarrow> string list option" where
  "matchedHosts listener route =
     (let hosts = ComputeHosts (rt_Hostnames route) (lis_Hostname listener)
      in if hosts = [] then None else if hosts = [allHosts] then Some [] else Some hosts)"

definition toUDPRoutes ::
  "'sel GwListener \<Rightarrow> GwL4Route list \<Rightarrow> CoreService list \<Rightarrow> ReferenceGrant list \<Rightarrow> UDPRoute list" where
  "toUDPRoutes listener input services grants =
     concat (map (\<lambda>route.
       map (\<lambda>rule. \<lparr>ur_Backends =
              ruleBackends ''UDPRoute'' (rt_Namespace route) services grants (rr_BackendRefs rule)\<rparr>)
         (rt_Rules route)) (filter (attachedToListener listener) input))"

definition toTCPRoutes ::
  "'sel GwListener \<Rightarrow> GwL4Route list \<Rightarrow> CoreService list \<Rightarrow> ReferenceGrant list \<Rightarrow> TCPRoute list" where
  "toTCPRoutes listener input services grants =
     concat (map (\<lambda>route.
       map (\<lambda>rule. \<lparr>tcr_Backends =
              ruleBackends ''TCPRoute'' (rt_Namespace route) services grants (rr_BackendRefs rule)\<rparr>)
         (rt_Rules route)) (filter (attachedToListener listener) input))"

text \<open>
  TLS routes. The body of the loop over the rules iterates over the whole input again and
  appends the routes of every attached route; the backends of the outer rule are not used.
\<close>

definition innerTLSRoutes ::
  "'sel GwListener \<Rightarrow> GwL4Route list \<Rightarrow> CoreService list \<Rightarrow> ReferenceGrant list \<Rightarrow> TLSRoute list" where
  "innerTLSRoutes listener input services grants =
     concat (map (\<lambda>r.
       if \<not> attachedToListener listener r then []
       else case matchedHosts listener r of
              None \<Rightarrow> []
            | Some hosts \<Rightarrow>
              map (\<lambda>rule. \<lparr>tr_Name = '''', tr_Hostnames = hosts, tr_Backends =
                     ruleBackends ''TLSRoute'' (rt_Namespace r) services grants (rr_BackendRefs rule)\<rparr>)
                (rt_Rules r)) input)"

definition toTLSRoutes ::
  "'sel GwListener \<Rightarrow> GwL4Route list \<Rightarrow> CoreService list \<Rightarrow> ReferenceGrant list \<Rightarrow> TLSRoute list" where
  "toTLSRoutes listener input services grants =
     concat (map (\<lambda>r.
       if \<not> attachedToListener listener r then []
       else case matchedHosts listener r of
              None \<Rightarrow> []
            | Some hosts \<Rightarrow>
              concat (map (\<lambda>rule. innerTLSRoutes listener input services grants) (rt_Rules r))) input)"

text \<open>The route of the model that a rule gives before its matches are filled in.\<close>

definition ruleRoute :: "string list \<Rightarrow> Backend list \<Rightarrow> RuleFilters \<Rightarrow> HTTPRoute" where
  "ruleRoute hosts bes fs =
     zeroHTTPRoute
       \<lparr>hr_Hostnames := hosts, hr_Backends := bes,
        hr_DirectResponse := (if bes = [] then Some \<lparr>dr_StatusCode = 500, dr_Body = ''''\<rparr> else None),
        hr_RequestHeaderFilter := rf_requestHeaderFilter fs,
        hr_ResponseHeaderModifier := rf_responseHeaderFilter fs,
        hr_RequestMirrors := rf_requestMirrors fs,
        hr_RequestRedirect := rf_requestRedirectFilter fs,
        hr_Rewrite := rf_rewriteFilter fs\<rparr>"

definition grpcRule ::
  "string \<Rightarrow> string list \<Rightarrow> CoreService list \<Rightarrow> ReferenceGrant list \<Rightarrow> GRPCRouteMatch RouteRule \<Rightarrow>
   HTTPRoute list option" where
  "grpcRule ns hosts services grants rule =
     (let bes = ruleBackends ''GrpcRoute'' ns services grants (rr_BackendRefs rule) in
      do {
        fs \<leftarrow> foldM (grpcRuleFilter ns) (rr_Filters rule) noFilters;
        (if rr_Matches rule = [] then Some [ruleRoute hosts bes fs]
         else mapM (\<lambda>match. do {
                path \<leftarrow> toGRPCPathMatch match;
                Some ((ruleRoute hosts bes fs)
                  \<lparr>hr_PathMatch := path, hr_HeadersMatch := toGRPCHeaderMatch match, hr_IsGRPC := True\<rparr>) })
              (rr_Matches rule)) })"

definition toGRPCRoutes ::
  "'sel GwListener \<Rightarrow> GwGRPCRoute list \<Rightarrow> CoreService list \<Rightarrow> ReferenceGrant list \<Rightarrow> HTTPRoute list option" where
  "toGRPCRoutes listener input services grants =
     concatMapM (\<lambda>r.
       if \<not> attachedToListener listener r then Some []
       else case matchedHosts listener r of
              None \<Rightarrow> Some []
            | Some hosts \<Rightarrow>
              concatMapM (grpcRule (rt_Namespace r) hosts services grants) (rt_Rules r)) input"

text \<open>HTTP routes also look at the kind of the parent and at the source of the listener.\<close>

fun httpAttached ::
  "string \<Rightarrow> FullyQualifiedResource option \<Rightarrow> string \<Rightarrow> ParentReference list \<Rightarrow> bool" where
  "httpAttached listenerName listenerSource routeNamespace [] = False"
| "httpAttached listenerName listenerSource routeNamespace (ref # refs) =
     (if pr_SectionName ref \<noteq> None \<and> pr_SectionName ref \<noteq> Some listenerName
      then httpAttached listenerName listenerSource routeNamespace refs
      else
        (let isListener =
           (case listenerSource of
              None \<Rightarrow> IsGateway ref \<or> (pr_Kind ref = None \<and> pr_Group ref = None)
            | Some src \<Rightarrow>
              if fqr_Kind src = ''Gateway''
              then IsGateway ref \<or> (pr_Kind ref = None \<and> pr_Group ref = None)
              else IsListenerSet ref \<and>
                   NamespaceDerefOr (pr_Namespace ref) routeNamespace = fqr_Namespace src \<and>
                   pr_Name ref = fqr_Name src)
         in if isListener then True else httpAttached listenerName listenerSource routeNamespace refs))"

definition httpRule ::
  "'sel GwListener \<Rightarrow> string \<Rightarrow> string list \<Rightarrow> CoreService list \<Rightarrow> ReferenceGrant list \<Rightarrow>
   HTTPRouteMatch RouteRule \<Rightarrow> HTTPRoute list option" where
  "httpRule listener ns hosts services grants rule =
     (let bes = ruleBackends ''HttpRoute'' ns services grants (rr_BackendRefs rule) in
      do {
        bakendHttpFilter \<leftarrow> backendHttpFilters ns services grants (rr_BackendRefs rule);
        fs \<leftarrow> foldM (httpRuleFilter listener ns) (rr_Filters rule) noFilters;
        (if rr_Matches rule = [] then Some [ruleRoute hosts bes fs]
         else mapM (\<lambda>match. do {
                path \<leftarrow> toPathMatch match;
                headers \<leftarrow> toHeaderMatch match;
                Some ((ruleRoute hosts bes fs)
                  \<lparr>hr_PathMatch := path, hr_HeadersMatch := headers,
                   hr_QueryParamsMatch := toQueryMatch match\<rparr>) })
              (rr_Matches rule)) })"

definition toHTTPRoutes ::
  "'sel GwListener \<Rightarrow> GwHTTPRoute list \<Rightarrow> CoreService list \<Rightarrow> ReferenceGrant list \<Rightarrow>
   FullyQualifiedResource option \<Rightarrow> HTTPRoute list option" where
  "toHTTPRoutes listener input services grants listenerSource =
     concatMapM (\<lambda>r.
       if \<not> httpAttached (lis_Name listener) listenerSource (rt_Namespace r) (rt_ParentRefs r)
       then Some []
       else case matchedHosts listener r of
              None \<Rightarrow> Some []
            | Some hosts \<Rightarrow>
              concatMapM (httpRule listener (rt_Namespace r) hosts services grants) (rt_Rules r)) input"

section \<open>The listeners of a Gateway\<close>

record 'sel ListenerWithContext =
  lwc_Listener :: "'sel GwListener"
  lwc_Source :: FullyQualifiedResource
  lwc_SourceGeneration :: int
  lwc_AllowedNamespaces :: "string list option"

text \<open>The fields of the input that ingestion reads; \<open>None\<close> is the nil slice of listeners.\<close>

record 'sel Input =
  in_Gateway :: "'sel Gateway"
  in_Listeners :: "'sel ListenerWithContext list option"
  in_HTTPRoutes :: "GwHTTPRoute list"
  in_TLSRoutes :: "GwL4Route list"
  in_GRPCRoutes :: "GwGRPCRoute list"
  in_TCPRoutes :: "GwL4Route list"
  in_UDPRoutes :: "GwL4Route list"
  in_ReferenceGrants :: "ReferenceGrant list"
  in_Services :: "CoreService list"

text \<open>\<open>toMapString\<close> never returns nil, so the infrastructure is set exactly if the Gateway has one.\<close>

definition gatewayInfrastructure :: "'sel Gateway \<Rightarrow> Infrastructure option" where
  "gatewayInfrastructure gw =
     (case gw_Infrastructure gw of
        None \<Rightarrow> None
      | Some (labels, annotations) \<Rightarrow> Some \<lparr>inf_Labels = labels, inf_Annotations = annotations\<rparr>)"

definition gatewaySource :: "'sel Gateway \<Rightarrow> FullyQualifiedResource" where
  "gatewaySource gw =
     \<lparr>fqr_Name = gw_Name gw, fqr_Namespace = gw_Namespace gw, fqr_Group = gvk_Group (gw_GVK gw),
      fqr_Version = gvk_Version (gw_GVK gw), fqr_Kind = gvk_Kind (gw_GVK gw), fqr_UID = gw_UID gw\<rparr>"

text \<open>One iteration of the loop over the listeners; the model collects the four results.\<close>

definition ingestListener ::
  "'sel Input \<Rightarrow> 'sel GwListener \<times> FullyQualifiedResource \<Rightarrow> Model \<Rightarrow> Model option" where
  "ingestListener input ls m =
     (let l = fst ls; source = snd ls; infra = gatewayInfrastructure (in_Gateway input) in
      case lis_Protocol l of
        UDPProtocolType \<Rightarrow>
          Some (m\<lparr>m_UDP := m_UDP m @
            [\<lparr>ul_Name = lis_Name l, ul_Port = word_of_int (lis_Port l), ul_Sources = [source],
              ul_Routes = toUDPRoutes l (in_UDPRoutes input) (in_Services input) (in_ReferenceGrants input),
              ul_Infrastructure = infra\<rparr>]\<rparr>)
      | TCPProtocolType \<Rightarrow>
          Some (m\<lparr>m_TCP := m_TCP m @
            [\<lparr>tcl_Name = lis_Name l, tcl_Port = word_of_int (lis_Port l), tcl_Sources = [source],
              tcl_Routes = toTCPRoutes l (in_TCPRoutes input) (in_Services input) (in_ReferenceGrants input),
              tcl_Infrastructure = infra\<rparr>]\<rparr>)
      | OtherProtocolType _ \<Rightarrow> Some m
      | _ \<Rightarrow>
        do {
          httpRoutes \<leftarrow> toHTTPRoutes l (in_HTTPRoutes input) (in_Services input) (in_ReferenceGrants input)
                         (Some source);
          grpcRoutes \<leftarrow> toGRPCRoutes l (in_GRPCRoutes input) (in_Services input) (in_ReferenceGrants input);
          Some (m\<lparr>m_HTTP := m_HTTP m @
                 [\<lparr>hl_Name = lis_Name l, hl_Sources = [source], hl_Address = '''',
                   hl_Port = word_of_int (lis_Port l), hl_Hostname = toHostname (lis_Hostname l),
                   hl_TLS = toTLS (lis_TLS l) (in_ReferenceGrants input) (gw_Namespace (in_Gateway input)),
                   hl_Routes = httpRoutes @ grpcRoutes, hl_Service = None, hl_Infrastructure = infra,
                   hl_ForceHTTPtoHTTPSRedirect = False\<rparr>],
                 m_TLS := m_TLS m @
                 [\<lparr>tl_Name = lis_Name l, tl_Sources = [source], tl_Address = '''',
                   tl_Port = word_of_int (lis_Port l), tl_Hostname = toHostname (lis_Hostname l),
                   tl_Routes = toTLSRoutes l (in_TLSRoutes input) (in_Services input) (in_ReferenceGrants input),
                   tl_Service = None, tl_Infrastructure = infra\<rparr>]\<rparr>) })"

text \<open>The listeners that are ingested, each with its source.\<close>

definition effectiveListeners :: "'sel Input \<Rightarrow> ('sel GwListener \<times> FullyQualifiedResource) list" where
  "effectiveListeners input =
     (let source = gatewaySource (in_Gateway input)
      in case in_Listeners input of
           Some lcs \<Rightarrow>
             map (\<lambda>lc. (lwc_Listener lc,
                         if fqr_Name (lwc_Source lc) \<noteq> [] then lwc_Source lc else source)) lcs
         | None \<Rightarrow> map (\<lambda>l. (l, source)) (gw_Listeners (in_Gateway input)))"

definition emptyModel :: Model where
  "emptyModel = \<lparr>m_HTTP = [], m_TLS = [], m_TCP = [], m_UDP = []\<rparr>"

definition GatewayAPI :: "'sel Input \<Rightarrow> Model option" where
  "GatewayAPI input = foldM (ingestListener input) (effectiveListeners input) emptyModel"

section \<open>What the backends of a rule satisfy\<close>

text \<open>
  A backend is authorised for routes of a namespace if it has a port, names an existing
  Service, and lies in that namespace or in one that grants references from it.
\<close>

definition authorised ::
  "string \<Rightarrow> string \<Rightarrow> CoreService list \<Rightarrow> ReferenceGrant list \<Rightarrow> Backend \<Rightarrow> bool" where
  "authorised routeKind routeNamespace services grants b \<longleftrightarrow>
     be_Port b \<noteq> None \<and>
     \<lparr>cs_Name = be_Name b, cs_Namespace = be_Namespace b\<rparr> \<in> set services \<and>
     (be_Namespace b = routeNamespace \<or>
      granted grants gatewayGroupName routeKind routeNamespace coreGroupName ''Service''
        (be_Namespace b) (be_Name b))"

lemma serviceExists_iff:
  "serviceExists n ns services \<longleftrightarrow> \<lparr>cs_Name = n, cs_Namespace = ns\<rparr> \<in> set services"
proof -
  have "svc = \<lparr>cs_Name = cs_Name svc, cs_Namespace = cs_Namespace svc\<rparr>" for svc :: CoreService
    by simp
  then show ?thesis unfolding serviceExists_def by (metis CoreService.select_convs)
qed

lemma ruleBackends_authorised:
  assumes "b \<in> set (ruleBackends kind ns services grants refs)"
  shows "authorised kind ns services grants b"
  using assms
  by (auto simp: ruleBackends_def acceptedBackend_def authorised_def backendToModelBackend_def
      backendRefToModelBackend_def serviceExists_iff IsBackendReferenceAllowed_def
      isReferenceAllowed_iff Let_def)

section \<open>What the ingested routes satisfy\<close>

text \<open>The shape of a route that a rule gives: matches apart, it is the route of the rule.\<close>

definition of_rule :: "string list \<Rightarrow> Backend list \<Rightarrow> HTTPRoute \<Rightarrow> bool" where
  "of_rule hosts bes r \<longleftrightarrow>
     hr_Hostnames r = hosts \<and> hr_Backends r = bes \<and>
     hr_DirectResponse r = (if bes = [] then Some \<lparr>dr_StatusCode = 500, dr_Body = ''''\<rparr> else None) \<and>
     hr_Method r = None \<and> hr_BackendHttpFilters r = []"

lemma of_rule_ruleRoute [simp]: "of_rule hosts bes (ruleRoute hosts bes fs)"
  by (simp add: of_rule_def ruleRoute_def zeroHTTPRoute_def)

lemma of_rule_update [simp]:
  "of_rule hosts bes (r\<lparr>hr_PathMatch := p\<rparr>) = of_rule hosts bes r"
  "of_rule hosts bes (r\<lparr>hr_HeadersMatch := h\<rparr>) = of_rule hosts bes r"
  "of_rule hosts bes (r\<lparr>hr_QueryParamsMatch := q\<rparr>) = of_rule hosts bes r"
  "of_rule hosts bes (r\<lparr>hr_IsGRPC := b\<rparr>) = of_rule hosts bes r"
  by (simp_all add: of_rule_def)

lemma httpRule_of_rule:
  assumes "httpRule l ns hosts services grants rule = Some rs" "r \<in> set rs"
  shows "of_rule hosts (ruleBackends ''HttpRoute'' ns services grants (rr_BackendRefs rule)) r"
  using assms
  by (auto simp: httpRule_def Let_def bind_eq_Some split: if_splits dest!: mapM_set)

lemma grpcRule_of_rule:
  assumes "grpcRule ns hosts services grants rule = Some rs" "r \<in> set rs"
  shows "of_rule hosts (ruleBackends ''GrpcRoute'' ns services grants (rr_BackendRefs rule)) r"
  using assms
  by (auto simp: grpcRule_def Let_def bind_eq_Some split: if_splits dest!: mapM_set)

text \<open>A route of a loop over attached routes and their rules comes from one rule.\<close>

lemma routes_loop:
  assumes "concatMapM (\<lambda>r. if \<not> att r then Some []
             else case matchedHosts l r of None \<Rightarrow> Some []
                | Some hosts \<Rightarrow> concatMapM (f r hosts) (rt_Rules r)) input = Some rs" "x \<in> set rs"
  obtains route rule hosts xs where "route \<in> set input" "rule \<in> set (rt_Rules route)" "att route"
    "matchedHosts l route = Some hosts" "f route hosts rule = Some xs" "x \<in> set xs"
proof -
  obtain route zs where route: "route \<in> set input" "x \<in> set zs"
    "(if \<not> att route then Some [] else case matchedHosts l route of None \<Rightarrow> Some []
       | Some hosts \<Rightarrow> concatMapM (f route hosts) (rt_Rules route)) = Some zs"
    using concatMapM_set [OF assms] by blast
  then obtain hosts where hosts: "att route" "matchedHosts l route = Some hosts"
    "concatMapM (f route hosts) (rt_Rules route) = Some zs"
    by (cases "matchedHosts l route") (auto split: if_splits)
  show thesis using concatMapM_set [OF hosts(3) route(2)] that route(1) hosts(1,2) by blast
qed

lemma toHTTPRoutes_of_rule:
  assumes "toHTTPRoutes l input services grants src = Some rs" "r \<in> set rs"
  shows "\<exists>route \<in> set input. \<exists>rule \<in> set (rt_Rules route). \<exists>hosts.
           matchedHosts l route = Some hosts \<and>
           of_rule hosts (ruleBackends ''HttpRoute'' (rt_Namespace route) services grants (rr_BackendRefs rule)) r"
  using routes_loop [OF assms [unfolded toHTTPRoutes_def]] httpRule_of_rule by metis

lemma toGRPCRoutes_of_rule:
  assumes "toGRPCRoutes l input services grants = Some rs" "r \<in> set rs"
  shows "\<exists>route \<in> set input. \<exists>rule \<in> set (rt_Rules route). \<exists>hosts.
           matchedHosts l route = Some hosts \<and>
           of_rule hosts (ruleBackends ''GrpcRoute'' (rt_Namespace route) services grants (rr_BackendRefs rule)) r"
  using routes_loop [OF assms [unfolded toGRPCRoutes_def]] grpcRule_of_rule by metis

section \<open>What the ingested model satisfies\<close>

definition http_routes :: "Model \<Rightarrow> HTTPRoute list" where
  "http_routes m = concat (map hl_Routes (m_HTTP m))"

definition model_backends :: "Model \<Rightarrow> Backend list" where
  "model_backends m =
     concat (map hr_Backends (http_routes m)) @
     concat (map tr_Backends (concat (map tl_Routes (m_TLS m)))) @
     concat (map tcr_Backends (concat (map tcl_Routes (m_TCP m)))) @
     concat (map ur_Backends (concat (map ul_Routes (m_UDP m))))"

text \<open>The kind, as the code writes it, and the namespace of every route of the input.\<close>

definition route_origins :: "'sel Input \<Rightarrow> (string \<times> string) set" where
  "route_origins input =
     (\<lambda>r. (''HttpRoute'', rt_Namespace r)) ` set (in_HTTPRoutes input) \<union>
     (\<lambda>r. (''GrpcRoute'', rt_Namespace r)) ` set (in_GRPCRoutes input) \<union>
     (\<lambda>r. (''TLSRoute'', rt_Namespace r)) ` set (in_TLSRoutes input) \<union>
     (\<lambda>r. (''TCPRoute'', rt_Namespace r)) ` set (in_TCPRoutes input) \<union>
     (\<lambda>r. (''UDPRoute'', rt_Namespace r)) ` set (in_UDPRoutes input)"

abbreviation authorised_by :: "'sel Input \<Rightarrow> Backend \<Rightarrow> bool" where
  "authorised_by input b \<equiv>
     \<exists>(kind, ns) \<in> route_origins input. authorised kind ns (in_Services input) (in_ReferenceGrants input) b"

lemma authorised_byI:
  "(kind, ns) \<in> route_origins input \<Longrightarrow>
   authorised kind ns (in_Services input) (in_ReferenceGrants input) b \<Longrightarrow> authorised_by input b"
  by blast

lemma route_origins_intros:
  "h \<in> set (in_HTTPRoutes input) \<Longrightarrow> (''HttpRoute'', rt_Namespace h) \<in> route_origins input"
  "g \<in> set (in_GRPCRoutes input) \<Longrightarrow> (''GrpcRoute'', rt_Namespace g) \<in> route_origins input"
  "r \<in> set (in_TLSRoutes input) \<Longrightarrow> (''TLSRoute'', rt_Namespace r) \<in> route_origins input"
  "r \<in> set (in_TCPRoutes input) \<Longrightarrow> (''TCPRoute'', rt_Namespace r) \<in> route_origins input"
  "r \<in> set (in_UDPRoutes input) \<Longrightarrow> (''UDPRoute'', rt_Namespace r) \<in> route_origins input"
  unfolding route_origins_def
  by ((rule UnI1)+, rule image_eqI [OF refl], assumption)
    (rule UnI1, rule UnI1, rule UnI1, rule UnI2, rule image_eqI [OF refl], assumption,
     rule UnI1, rule UnI1, rule UnI2, rule image_eqI [OF refl], assumption,
     rule UnI1, rule UnI2, rule image_eqI [OF refl], assumption,
     rule UnI2, rule image_eqI [OF refl], assumption)

lemma innerTLSRoutes_backends:
  "r \<in> set (innerTLSRoutes l input services grants) \<Longrightarrow> b \<in> set (tr_Backends r) \<Longrightarrow>
   \<exists>route \<in> set input. authorised ''TLSRoute'' (rt_Namespace route) services grants b"
  unfolding innerTLSRoutes_def
  by (auto split: if_splits option.splits dest!: ruleBackends_authorised)

lemma toTLSRoutes_subset: "set (toTLSRoutes l input services grants) \<subseteq> set (innerTLSRoutes l input services grants)"
  by (auto simp: toTLSRoutes_def split: if_splits option.splits)

lemma toTCPRoutes_backends:
  "r \<in> set (toTCPRoutes l input services grants) \<Longrightarrow> b \<in> set (tcr_Backends r) \<Longrightarrow>
   \<exists>route \<in> set input. authorised ''TCPRoute'' (rt_Namespace route) services grants b"
  by (auto simp: toTCPRoutes_def dest!: ruleBackends_authorised)

lemma toUDPRoutes_backends:
  "r \<in> set (toUDPRoutes l input services grants) \<Longrightarrow> b \<in> set (ur_Backends r) \<Longrightarrow>
   \<exists>route \<in> set input. authorised ''UDPRoute'' (rt_Namespace route) services grants b"
  by (auto simp: toUDPRoutes_def dest!: ruleBackends_authorised)

lemma of_rule_authorised:
  "of_rule hosts (ruleBackends kind ns services grants refs) r \<Longrightarrow> b \<in> set (hr_Backends r) \<Longrightarrow>
   authorised kind ns services grants b"
  by (simp add: of_rule_def ruleBackends_authorised)

lemma toHTTPRoutes_backends:
  "toHTTPRoutes l input services grants src = Some rs \<Longrightarrow> r \<in> set rs \<Longrightarrow> b \<in> set (hr_Backends r) \<Longrightarrow>
   \<exists>route \<in> set input. authorised ''HttpRoute'' (rt_Namespace route) services grants b"
  by (meson toHTTPRoutes_of_rule of_rule_authorised)

lemma toGRPCRoutes_backends:
  "toGRPCRoutes l input services grants = Some rs \<Longrightarrow> r \<in> set rs \<Longrightarrow> b \<in> set (hr_Backends r) \<Longrightarrow>
   \<exists>route \<in> set input. authorised ''GrpcRoute'' (rt_Namespace route) services grants b"
  by (meson toGRPCRoutes_of_rule of_rule_authorised)

text \<open>What one listener adds to the model.\<close>

lemma ingestListener_cases:
  assumes "ingestListener input ls m = Some m'"
  obtains (none) "m' = m"
  | (udp) ul where "m' = m\<lparr>m_UDP := m_UDP m @ [ul]\<rparr>"
      "ul_Routes ul = toUDPRoutes (fst ls) (in_UDPRoutes input) (in_Services input) (in_ReferenceGrants input)"
  | (tcp) tl where "m' = m\<lparr>m_TCP := m_TCP m @ [tl]\<rparr>"
      "tcl_Routes tl = toTCPRoutes (fst ls) (in_TCPRoutes input) (in_Services input) (in_ReferenceGrants input)"
  | (http) hl tl hs gs where "m' = m\<lparr>m_HTTP := m_HTTP m @ [hl], m_TLS := m_TLS m @ [tl]\<rparr>"
      "toHTTPRoutes (fst ls) (in_HTTPRoutes input) (in_Services input) (in_ReferenceGrants input) (Some (snd ls)) = Some hs"
      "toGRPCRoutes (fst ls) (in_GRPCRoutes input) (in_Services input) (in_ReferenceGrants input) = Some gs"
      "hl_Routes hl = hs @ gs"
      "tl_Routes tl = toTLSRoutes (fst ls) (in_TLSRoutes input) (in_Services input) (in_ReferenceGrants input)"
  using assms unfolding ingestListener_def Let_def
  by (cases "lis_Protocol (fst ls)") (auto simp: bind_eq_Some)

lemma model_backends_add:
  "set (model_backends (m\<lparr>m_UDP := m_UDP m @ [ul]\<rparr>)) =
     set (model_backends m) \<union> (\<Union>r \<in> set (ul_Routes ul). set (ur_Backends r))"
  "set (model_backends (m\<lparr>m_TCP := m_TCP m @ [tcl]\<rparr>)) =
     set (model_backends m) \<union> (\<Union>r \<in> set (tcl_Routes tcl). set (tcr_Backends r))"
  "set (model_backends (m\<lparr>m_HTTP := m_HTTP m @ [hl], m_TLS := m_TLS m @ [tll]\<rparr>)) =
     set (model_backends m) \<union> (\<Union>r \<in> set (hl_Routes hl). set (hr_Backends r)) \<union>
     (\<Union>r \<in> set (tl_Routes tll). set (tr_Backends r))"
  by (auto simp: model_backends_def http_routes_def)

lemma ingestListener_authorised:
  assumes "ingestListener input ls m = Some m'" "\<forall>b \<in> set (model_backends m). authorised_by input b"
  shows "\<forall>b \<in> set (model_backends m'). authorised_by input b"
  using assms(1)
proof (cases rule: ingestListener_cases)
  case none
  then show ?thesis using assms(2) by simp
next
  case (udp ul)
  have "authorised_by input b" if "r \<in> set (ul_Routes ul)" "b \<in> set (ur_Backends r)" for r b
    using toUDPRoutes_backends [OF that [unfolded udp(2)]] authorised_byI route_origins_intros(5) by metis
  then show ?thesis using assms(2) unfolding udp(1) model_backends_add by blast
next
  case (tcp tl)
  have "authorised_by input b" if "r \<in> set (tcl_Routes tl)" "b \<in> set (tcr_Backends r)" for r b
    using toTCPRoutes_backends [OF that [unfolded tcp(2)]] authorised_byI route_origins_intros(4) by metis
  then show ?thesis using assms(2) unfolding tcp(1) model_backends_add by blast
next
  case (http hl tl hs gs)
  have "authorised_by input b" if "r \<in> set (tl_Routes tl)" "b \<in> set (tr_Backends r)" for r b
    using innerTLSRoutes_backends [OF subsetD [OF toTLSRoutes_subset that(1) [unfolded http(5)]] that(2)]
      authorised_byI route_origins_intros(3) by metis
  moreover have "authorised_by input b" if "r \<in> set hs" "b \<in> set (hr_Backends r)" for r b
    using toHTTPRoutes_backends [OF http(2) that] authorised_byI route_origins_intros(1) by metis
  moreover have "authorised_by input b" if "r \<in> set gs" "b \<in> set (hr_Backends r)" for r b
    using toGRPCRoutes_backends [OF http(3) that] authorised_byI route_origins_intros(2) by metis
  ultimately show ?thesis using assms(2) unfolding http(1) model_backends_add http(4) set_append by blast
qed

lemma ingestListener_http_routes:
  assumes "ingestListener input ls m = Some m'" "r \<in> set (http_routes m')"
  shows "r \<in> set (http_routes m) \<or> (\<exists>hosts bes. of_rule hosts bes r)"
  using assms(1)
proof (cases rule: ingestListener_cases)
  case (http hl tl hs gs)
  have "r \<in> set (http_routes m) \<or> r \<in> set hs \<or> r \<in> set gs"
    using assms(2) http(4) unfolding http(1) by (auto simp: http_routes_def)
  then show ?thesis
    using toHTTPRoutes_of_rule [OF http(2)] toGRPCRoutes_of_rule [OF http(3)] by blast
qed (use assms(2) in \<open>auto simp: http_routes_def\<close>)

lemma GatewayAPI_http_routes:
  assumes "GatewayAPI input = Some m" "r \<in> set (http_routes m)"
  shows "\<exists>hosts bes. of_rule hosts bes r"
proof -
  have "\<forall>r \<in> set (http_routes m). \<exists>hosts bes. of_rule hosts bes r"
    by (rule foldM_invariant [OF assms(1) [unfolded GatewayAPI_def]])
      (use ingestListener_http_routes in \<open>fastforce simp: http_routes_def emptyModel_def\<close>)+
  then show ?thesis using assms(2) by blast
qed

end
