(* ===== verification/Ingestion_Safety.thy ===== *)
theory Ingestion_Safety
  imports Ingestion_Gateway
begin

text \<open>
  The properties of Gateway API ingestion: which backends reach the model, what an empty
  rule becomes, that inputs with the pointers the CRDs require never make it panic, and the
  ways in which it loses or repeats parts of the routes.
\<close>

section \<open>Inputs on which ingestion does not panic\<close>

text \<open>
  The CRDs of the Gateway API give defaults to the match types and tie each filter type to
  its field; \<open>valid_input\<close> says that the pointers the code dereferences are set.
\<close>

definition valid_path_modifier :: "HTTPPathModifier \<Rightarrow> bool" where
  "valid_path_modifier pm \<longleftrightarrow>
     (pm_Type pm = FullPathHTTPPathModifier \<longrightarrow> pm_ReplaceFullPath pm \<noteq> None) \<and>
     (pm_Type pm = PrefixMatchHTTPPathModifier \<longrightarrow> pm_ReplacePrefixMatch pm \<noteq> None)"

definition valid_filter :: "RouteFilter \<Rightarrow> bool" where
  "valid_filter f \<longleftrightarrow>
     (case rf_Type f of
        FilterRequestHeaderModifier \<Rightarrow> rf_RequestHeaderModifier f \<noteq> None
      | FilterResponseHeaderModifier \<Rightarrow> rf_ResponseHeaderModifier f \<noteq> None
      | FilterRequestMirror \<Rightarrow> rf_RequestMirror f \<noteq> None
      | FilterRequestRedirect \<Rightarrow>
          (case rf_RequestRedirect f of None \<Rightarrow> True | Some rd \<Rightarrow> pred_option valid_path_modifier (grd_Path rd))
      | FilterURLRewrite \<Rightarrow>
          (case rf_URLRewrite f of None \<Rightarrow> True | Some rw \<Rightarrow> pred_option valid_path_modifier (grw_Path rw))
      | FilterOther _ \<Rightarrow> True)"

definition valid_http_match :: "HTTPRouteMatch \<Rightarrow> bool" where
  "valid_http_match match \<longleftrightarrow>
     (case hrm_Path match of None \<Rightarrow> True | Some p \<Rightarrow> hpm_Type p \<noteq> None \<and> hpm_Value p \<noteq> None) \<and>
     list_all (\<lambda>h. nm_Type h \<noteq> None) (hrm_Headers match)"

definition valid_grpc_match :: "GRPCRouteMatch \<Rightarrow> bool" where
  "valid_grpc_match match \<longleftrightarrow>
     (case grm_Method match of None \<Rightarrow> True | Some m \<Rightarrow> gmm_Service m \<noteq> None \<longrightarrow> gmm_Type m \<noteq> None)"

definition valid_rule :: "('m \<Rightarrow> bool) \<Rightarrow> 'm RouteRule \<Rightarrow> bool" where
  "valid_rule vm rule \<longleftrightarrow>
     list_all vm (rr_Matches rule) \<and> list_all valid_filter (rr_Filters rule) \<and>
     list_all (\<lambda>be. list_all valid_filter (br_Filters be)) (rr_BackendRefs rule)"

definition valid_route :: "('m \<Rightarrow> bool) \<Rightarrow> 'm Route \<Rightarrow> bool" where
  "valid_route vm route \<longleftrightarrow> list_all (valid_rule vm) (rt_Rules route)"

definition valid_input :: "'sel Input \<Rightarrow> bool" where
  "valid_input input \<longleftrightarrow>
     list_all (valid_route valid_http_match) (in_HTTPRoutes input) \<and>
     list_all (valid_route valid_grpc_match) (in_GRPCRoutes input)"

lemma toHTTPRequestRedirectFilter_total [panic_free]:
  "(\<And>rd. redirect = Some rd \<Longrightarrow> pred_option valid_path_modifier (grd_Path rd)) \<Longrightarrow>
   \<exists>r. toHTTPRequestRedirectFilter listener redirect = Some r"
  by (auto simp: toHTTPRequestRedirectFilter_def valid_path_modifier_def
      split: option.split HTTPPathModifierType.split)

lemma toHTTPRewriteFilter_total [panic_free]:
  "(\<And>rw. rewrite = Some rw \<Longrightarrow> pred_option valid_path_modifier (grw_Path rw)) \<Longrightarrow>
   \<exists>r. toHTTPRewriteFilter rewrite = Some r"
  by (auto simp: toHTTPRewriteFilter_def valid_path_modifier_def
      split: option.split HTTPPathModifierType.split)

lemma httpRuleFilter_total [panic_free]:
  assumes "valid_filter f" shows "\<exists>st'. httpRuleFilter listener ns f st = Some st'"
proof (cases "rf_Type f")
  case FilterRequestRedirect
  then have "\<exists>r. toHTTPRequestRedirectFilter listener (rf_RequestRedirect f) = Some r"
    using assms by (intro toHTTPRequestRedirectFilter_total) (simp add: valid_filter_def)
  then show ?thesis using FilterRequestRedirect by (auto simp: httpRuleFilter_def)
next
  case FilterURLRewrite
  then have "\<exists>r. toHTTPRewriteFilter (rf_URLRewrite f) = Some r"
    using assms by (intro toHTTPRewriteFilter_total) (simp add: valid_filter_def)
  then show ?thesis using FilterURLRewrite by (auto simp: httpRuleFilter_def)
qed (use assms in \<open>auto simp: httpRuleFilter_def valid_filter_def toHTTPRequestMirror_def\<close>)

lemma grpcRuleFilter_total [panic_free]:
  "valid_filter f \<Longrightarrow> \<exists>st'. grpcRuleFilter ns f st = Some st'"
  by (cases "rf_Type f") (auto simp: grpcRuleFilter_def valid_filter_def toHTTPRequestMirror_def)

lemma toPathMatch_total [panic_free]: "valid_http_match m \<Longrightarrow> \<exists>p. toPathMatch m = Some p"
  by (auto simp: toPathMatch_def valid_http_match_def split: option.splits PathMatchType.split)

lemma toHeaderMatch_total [panic_free]: "valid_http_match m \<Longrightarrow> \<exists>h. toHeaderMatch m = Some h"
  unfolding toHeaderMatch_def
  by (rule concatMapM_total) (auto simp: valid_http_match_def list_all_iff)

lemma toGRPCPathMatch_total [panic_free]: "valid_grpc_match m \<Longrightarrow> \<exists>p. toGRPCPathMatch m = Some p"
  by (auto simp: toGRPCPathMatch_def valid_grpc_match_def Let_def split: option.splits MatchType.split)

lemma backendHttpFilters_total [panic_free]:
  assumes "list_all (\<lambda>be. list_all valid_filter (br_Filters be)) refs"
  shows "\<exists>fs. backendHttpFilters ns services grants refs = Some fs"
  unfolding backendHttpFilters_def
proof (intro concatMapM_total)
  fix be f
  assume "be \<in> set (filter (acceptedBackend ''HttpRoute'' ns services grants) refs)" "f \<in> set (br_Filters be)"
  then have "valid_filter f" "bor_Port (br_Ref be) \<noteq> None"
    using assms by (auto simp: list_all_iff acceptedBackend_def Let_def)
  then show "\<exists>fs. backendHttpFilter ns be f = Some fs"
    by (auto simp: backendHttpFilter_def valid_filter_def Let_def split: FilterType.splits)
qed

lemma httpRule_total [panic_free]:
  assumes "valid_rule valid_http_match rule"
  shows "\<exists>rs. httpRule l ns hosts services grants rule = Some rs"
proof -
  obtain bf where "backendHttpFilters ns services grants (rr_BackendRefs rule) = Some bf"
    using backendHttpFilters_total assms unfolding valid_rule_def by blast
  moreover obtain fs where "foldM (httpRuleFilter l ns) (rr_Filters rule) noFilters = Some fs"
    using foldM_total [of "rr_Filters rule" "httpRuleFilter l ns"] httpRuleFilter_total assms
    unfolding valid_rule_def list_all_iff by blast
  moreover have "\<exists>p h. toPathMatch m = Some p \<and> toHeaderMatch m = Some h" if "m \<in> set (rr_Matches rule)" for m
    using toPathMatch_total [of m] toHeaderMatch_total [of m] assms that
    unfolding valid_rule_def list_all_iff by blast
  ultimately show ?thesis
    unfolding httpRule_def Let_def by (simp, intro impI mapM_total) fastforce
qed

lemma grpcRule_total [panic_free]:
  assumes "valid_rule valid_grpc_match rule"
  shows "\<exists>rs. grpcRule ns hosts services grants rule = Some rs"
proof -
  obtain fs where "foldM (grpcRuleFilter ns) (rr_Filters rule) noFilters = Some fs"
    using foldM_total [of "rr_Filters rule" "grpcRuleFilter ns"] grpcRuleFilter_total assms
    unfolding valid_rule_def list_all_iff by blast
  moreover have "\<exists>p. toGRPCPathMatch m = Some p" if "m \<in> set (rr_Matches rule)" for m
    using toGRPCPathMatch_total [of m] assms that unfolding valid_rule_def list_all_iff by blast
  ultimately show ?thesis
    unfolding grpcRule_def Let_def by (simp, intro impI mapM_total) fastforce
qed

lemma toHTTPRoutes_total [panic_free]:
  "list_all (valid_route valid_http_match) input \<Longrightarrow> \<exists>rs. toHTTPRoutes l input services grants src = Some rs"
  unfolding toHTTPRoutes_def
  by (rule concatMapM_total)
    (auto simp: list_all_iff valid_route_def split: option.split intro!: concatMapM_total httpRule_total)

lemma toGRPCRoutes_total [panic_free]:
  "list_all (valid_route valid_grpc_match) input \<Longrightarrow> \<exists>rs. toGRPCRoutes l input services grants = Some rs"
  unfolding toGRPCRoutes_def
  by (rule concatMapM_total)
    (auto simp: list_all_iff valid_route_def split: option.split intro!: concatMapM_total grpcRule_total)

lemma ingestListener_total [panic_free]:
  assumes "valid_input input" shows "\<exists>m'. ingestListener input ls m = Some m'"
proof -
  obtain hs gs where
    "toHTTPRoutes (fst ls) (in_HTTPRoutes input) (in_Services input) (in_ReferenceGrants input) (Some (snd ls)) = Some hs"
    "toGRPCRoutes (fst ls) (in_GRPCRoutes input) (in_Services input) (in_ReferenceGrants input) = Some gs"
    using toHTTPRoutes_total toGRPCRoutes_total assms unfolding valid_input_def by metis
  then show ?thesis by (cases "lis_Protocol (fst ls)") (simp_all add: ingestListener_def Let_def)
qed

section \<open>A concrete input\<close>

text \<open>
  A Gateway with one HTTP listener and a route from namespace \<open>a\<close> to a Service in
  namespace \<open>b\<close>, with a grant for the API kind \<open>HTTPRoute\<close>, and to a Service of its own.
\<close>

definition exampleRef :: "string option \<Rightarrow> BackendRef" where
  "exampleRef ns =
     \<lparr>br_Ref = \<lparr>bor_Group = None, bor_Kind = None, bor_Name = ''svc'', bor_Namespace = ns, bor_Port = Some 80\<rparr>,
      br_Weight = None, br_Filters = []\<rparr>"

definition exampleRoute :: "BackendRef list \<Rightarrow> GwHTTPRoute" where
  "exampleRoute refs =
     \<lparr>rt_Name = ''r'', rt_Namespace = ''a'',
      rt_ParentRefs = [\<lparr>pr_Group = None, pr_Kind = None, pr_Namespace = None, pr_Name = ''gw'',
                        pr_SectionName = None, pr_Port = None\<rparr>],
      rt_Hostnames = [],
      rt_Rules = [\<lparr>rr_Matches = [], rr_Filters = [], rr_BackendRefs = refs\<rparr>]\<rparr>"

definition exampleListener :: "unit GwListener" where
  "exampleListener =
     \<lparr>lis_Name = ''http'', lis_Hostname = None, lis_Port = 80, lis_Protocol = HTTPProtocolType,
      lis_TLS = None, lis_AllowedRoutes = None\<rparr>"

definition exampleGateway :: "unit Gateway" where
  "exampleGateway =
     \<lparr>gw_Name = ''gw'', gw_Namespace = ''a'', gw_UID = ''u'',
      gw_GVK = \<lparr>gvk_Group = ''gateway.networking.k8s.io'', gvk_Version = ''v1'', gvk_Kind = ''Gateway''\<rparr>,
      gw_Infrastructure = None, gw_Listeners = [exampleListener]\<rparr>"

definition exampleGrant :: ReferenceGrant where
  "exampleGrant =
     \<lparr>rg_Namespace = ''b'',
      rg_From = [\<lparr>rgf_Group = ''gateway.networking.k8s.io'', rgf_Kind = ''HTTPRoute'', rgf_Namespace = ''a''\<rparr>],
      rg_To = [\<lparr>rgt_Group = '''', rgt_Kind = ''Service'', rgt_Name = None\<rparr>]\<rparr>"

definition exampleServices :: "CoreService list" where
  "exampleServices = [\<lparr>cs_Name = ''svc'', cs_Namespace = ''a''\<rparr>, \<lparr>cs_Name = ''svc'', cs_Namespace = ''b''\<rparr>]"

definition exampleInput :: "BackendRef list \<Rightarrow> unit Input" where
  "exampleInput refs =
     \<lparr>in_Gateway = exampleGateway, in_Listeners = None, in_HTTPRoutes = [exampleRoute refs], in_TLSRoutes = [],
      in_GRPCRoutes = [], in_TCPRoutes = [], in_UDPRoutes = [], in_ReferenceGrants = [exampleGrant],
      in_Services = exampleServices\<rparr>"

text \<open>A route with a rule that names a method and has no backend, and a rule with a backend.\<close>

definition exampleMixed :: "unit Input" where
  "exampleMixed = (exampleInput [])
     \<lparr>in_HTTPRoutes := [(exampleRoute [])\<lparr>rt_Rules :=
       [\<lparr>rr_Matches = [\<lparr>hrm_Path = None, hrm_Headers = [], hrm_QueryParams = [], hrm_Method = Some ''POST''\<rparr>],
         rr_Filters = [], rr_BackendRefs = []\<rparr>,
        \<lparr>rr_Matches = [], rr_Filters = [], rr_BackendRefs = [exampleRef None]\<rparr>]\<rparr>]\<rparr>"

lemma exampleMixed_run:
  obtains m b r where "GatewayAPI exampleMixed = Some m" "b \<in> set (model_backends m)" "be_Name b = ''svc''"
    "r \<in> set (http_routes m)" "hr_Backends r = []"
proof -
  have "map_option (\<lambda>m. (map be_Name (model_backends m), map (\<lambda>r. hr_Backends r = []) (http_routes m)))
      (GatewayAPI exampleMixed) = Some ([''svc''], [True, False])"
    by code_simp
  then obtain m b r r' where "GatewayAPI exampleMixed = Some m" "model_backends m = [b]" "be_Name b = ''svc''"
    "http_routes m = [r, r']" "hr_Backends r = []"
    by (auto simp: map_eq_Cons_conv)
  then show ?thesis using that [of m b r] by simp
qed

lemma GatewayAPI_backends:
  assumes "GatewayAPI input = Some m" "b \<in> set (model_backends m)"
  shows "authorised_by input b"
proof -
  have "\<forall>b \<in> set (model_backends m). authorised_by input b"
    by (rule foldM_invariant [OF assms(1) [unfolded GatewayAPI_def]])
      (simp_all add: ingestListener_authorised, simp add: model_backends_def http_routes_def emptyModel_def)
  then show ?thesis using assms(2) by (rule bspec)
qed

section \<open>Properties\<close>



text \<open>
  Claim C10. When the pointers that the CRDs require are set, ingestion returns a model: no
  combination of listeners, routes, filters, grants and Services makes it panic.
\<close>

theorem GatewayAPI_total:
  assumes "valid_input input" shows "\<exists>m. GatewayAPI input = Some m"
  unfolding GatewayAPI_def by (rule foldM_total) (rule ingestListener_total [OF assms])

theorem GatewayAPI_total_witness:
  "\<exists>m. GatewayAPI (exampleInput [exampleRef None, exampleRef (Some ''b'')]) = Some m"
  by (rule GatewayAPI_total)
    (simp add: valid_input_def exampleInput_def exampleRoute_def exampleRef_def valid_route_def valid_rule_def)

text \<open>
  In the ingested model an HTTP route answers with status 500 by itself exactly if
  none of its backends was accepted, so a rule never ends up with neither backends nor an
  answer.
\<close>

theorem GatewayAPI_direct_response:
  assumes "GatewayAPI input = Some m" "r \<in> set (http_routes m)"
  shows "hr_DirectResponse r =
         (if hr_Backends r = [] then Some \<lparr>dr_StatusCode = 500, dr_Body = ''''\<rparr> else None)"
  using GatewayAPI_http_routes [OF assms] unfolding of_rule_def by metis

theorem GatewayAPI_direct_response_witness:
  "\<exists>m r. GatewayAPI exampleMixed = Some m \<and> r \<in> set (http_routes m) \<and>
     hr_DirectResponse r = Some \<lparr>dr_StatusCode = 500, dr_Body = ''''\<rparr>"
proof -
  obtain m r where m: "GatewayAPI exampleMixed = Some m" "r \<in> set (http_routes m)" "hr_Backends r = []"
    by (rule exampleMixed_run)
  then show ?thesis using GatewayAPI_direct_response [OF m(1,2)] by auto
qed

text \<open>
  The HTTP method of a match and the header filters of a backend reference never
  reach the model: in every ingested HTTP route both are empty, so a route that names a
  method is served for all methods.
\<close>

theorem GatewayAPI_drops_method:
  assumes "GatewayAPI input = Some m" "r \<in> set (http_routes m)"
  shows "hr_Method r = None \<and> hr_BackendHttpFilters r = []"
  using GatewayAPI_http_routes [OF assms] unfolding of_rule_def by blast

theorem GatewayAPI_drops_method_witness:
  "\<exists>m r. GatewayAPI exampleMixed = Some m \<and> r \<in> set (http_routes m) \<and> hr_Method r = None"
proof -
  obtain m r where m: "GatewayAPI exampleMixed = Some m" "r \<in> set (http_routes m)"
    by (rule exampleMixed_run)
  then show ?thesis using GatewayAPI_drops_method [OF m] by blast
qed

text \<open>
  The grant check of HTTP routes asks for the kind \<open>HttpRoute\<close>, which is not the
  kind \<open>HTTPRoute\<close> of the API: when no grant uses the misspelt kind, every backend of an
  HTTP route lies in the namespace of a route, whatever the grants allow.
\<close>

theorem toHTTPRoutes_same_namespace:
  assumes "toHTTPRoutes l input services grants src = Some rs"
    and "\<forall>g \<in> set grants. \<forall>f \<in> set (rg_From g). rgf_Kind f \<noteq> ''HttpRoute''"
    and "r \<in> set rs" "b \<in> set (hr_Backends r)"
  shows "\<exists>route \<in> set input. be_Namespace b = rt_Namespace route"
proof -
  obtain route where route: "route \<in> set input" "authorised ''HttpRoute'' (rt_Namespace route) services grants b"
    using toHTTPRoutes_backends [OF assms(1,3,4)] by blast
  have "\<not> granted grants gatewayGroupName ''HttpRoute'' ns coreGroupName ''Service'' tns n" for ns tns n
    using assms(2) unfolding granted_def by fastforce
  then show ?thesis using route unfolding authorised_def by blast
qed

theorem toHTTPRoutes_same_namespace_witness:
  "\<exists>rs r b. toHTTPRoutes exampleListener [exampleRoute [exampleRef (Some ''b''), exampleRef None]]
       exampleServices [exampleGrant] None = Some rs \<and> r \<in> set rs \<and> hr_Backends r = [b] \<and> be_Namespace b = ''a''"
proof -
  let ?rs = "toHTTPRoutes exampleListener [exampleRoute [exampleRef (Some ''b''), exampleRef None]]
       exampleServices [exampleGrant] None"
  have "map_option (map (length \<circ> hr_Backends)) ?rs = Some [1]" by code_simp
  then obtain rs r where rs: "?rs = Some rs" "rs = [r]" "length (hr_Backends r) = 1"
    by (auto simp: map_eq_Cons_conv)
  then obtain b where b: "hr_Backends r = [b]" by (auto simp: length_Suc_conv)
  have "\<exists>route \<in> set [exampleRoute [exampleRef (Some ''b''), exampleRef None]]. be_Namespace b = rt_Namespace route"
    by (rule toHTTPRoutes_same_namespace [OF rs(1), of r b]) (use rs(2) b in \<open>simp_all add: exampleGrant_def\<close>)
  then show ?thesis using rs b by (simp add: exampleRoute_def)
qed

text \<open>
  The routes ingested for a TLS listener are the routes of its attached TLSRoutes
  repeated as many times as there are such routes: the loop over the rules runs the whole
  ingestion again for each of them.
\<close>

theorem toTLSRoutes_repeats:
  "toTLSRoutes l input services grants =
   concat (replicate (length (innerTLSRoutes l input services grants)) (innerTLSRoutes l input services grants))"
proof -
  have rep: "concat (map (\<lambda>r. if \<not> attachedToListener l r then []
       else case matchedHosts l r of None \<Rightarrow> [] | Some hosts \<Rightarrow> concat (map (\<lambda>rule. I) (rt_Rules r))) rs) =
     concat (replicate (length (innerTLSRoutes l rs services grants)) I)" for I :: "TLSRoute list" and rs
    by (induction rs)
      (auto simp: innerTLSRoutes_def replicate_add map_replicate_const split: option.splits)
  show ?thesis unfolding toTLSRoutes_def by (rule rep)
qed

end
