(* ===== verification/Envoy_Types.thy ===== *)
theory Envoy_Types
  imports Model_Helper
begin

text \<open>
  The Envoy messages that translation builds. They are the protobuf types of
  \<open>github.com/cilium/proxy\<close>; the records hold the fields the code sets, with a oneof as a
  datatype and an unset message as \<open>None\<close>. A message that is packed into an \<open>Any\<close> is
  serialised by \<open>proto.Marshal\<close>, which is a parameter of the functions that call it: bytes
  are the abstract type \<open>'b\<close>, and marshalling a message may fail.
\<close>

section \<open>Routes\<close>

datatype StringMatcher = SMExact string | SMPrefix string | SMSafeRegex string

record HeaderMatcher =
  hm_Name :: string
  hm_StringMatch :: "StringMatcher option"

record QueryParameterMatcher =
  qm_Name :: string
  qm_StringMatch :: "StringMatcher option"

datatype PathSpecifier =
  RMPath string | RMPrefix string | RMPathSeparatedPrefix string | RMSafeRegex string

record RouteMatch =
  rm_PathSpecifier :: PathSpecifier
  rm_Headers :: "HeaderMatcher list"
  rm_QueryParameters :: "QueryParameterMatcher list"

text \<open>The generated getters of the oneof: the empty string when another member is set.\<close>

fun GetPath :: "PathSpecifier \<Rightarrow> string" where
  "GetPath (RMPath p) = p" | "GetPath _ = ''''"

fun GetPrefix :: "PathSpecifier \<Rightarrow> string" where
  "GetPrefix (RMPrefix p) = p" | "GetPrefix _ = ''''"

fun GetPathSeparatedPrefix :: "PathSpecifier \<Rightarrow> string" where
  "GetPathSeparatedPrefix (RMPathSeparatedPrefix p) = p" | "GetPathSeparatedPrefix _ = ''''"

fun GetRegex :: "PathSpecifier \<Rightarrow> string" where
  "GetRegex (RMSafeRegex p) = p" | "GetRegex _ = ''''"

datatype AppendAction = APPEND_IF_EXISTS_OR_ADD | OVERWRITE_IF_EXISTS_OR_ADD

record HeaderValueOption =
  hvo_Key :: string
  hvo_Value :: string
  hvo_AppendAction :: AppendAction

record ClusterWeight =
  cw_Name :: string
  cw_Weight :: uint32
  cw_RequestHeadersToAdd :: "HeaderValueOption list"
  cw_RequestHeadersToRemove :: "string list"
  cw_ResponseHeadersToAdd :: "HeaderValueOption list"
  cw_ResponseHeadersToRemove :: "string list"

datatype ClusterSpecifier = RACluster string | RAWeightedClusters "ClusterWeight list"

record RegexRewrite =
  rx_Pattern :: string
  rx_Substitution :: string

record MirrorPolicy =
  mp_Cluster :: string
  mp_Numerator :: nat

record RouteAction =
  ra_ClusterSpecifier :: ClusterSpecifier
  ra_MaxStreamDuration :: "int option"
  ra_HostRewriteLiteral :: "string option"
  ra_RegexRewrite :: "RegexRewrite option"
  ra_PrefixRewrite :: string
  ra_RequestMirrorPolicies :: "MirrorPolicy list"
  ra_Timeout :: "int option"

datatype SchemeRewrite = HttpsRedirect bool | SchemeRedirect string
datatype PathRewrite = PrefixRewrite string | PathRedirect string
datatype RedirectResponseCode =
  MOVED_PERMANENTLY | FOUND | SEE_OTHER | TEMPORARY_REDIRECT | PERMANENT_REDIRECT

record RedirectAction =
  rda_SchemeRewriteSpecifier :: "SchemeRewrite option"
  rda_HostRedirect :: string
  rda_PortRedirect :: uint32
  rda_ResponseCode :: RedirectResponseCode
  rda_PathRewriteSpecifier :: "PathRewrite option"

text \<open>The zero value: the response code enumeration starts with \<open>MOVED_PERMANENTLY\<close>.\<close>

definition zeroRedirectAction :: RedirectAction where
  "zeroRedirectAction =
     \<lparr>rda_SchemeRewriteSpecifier = None, rda_HostRedirect = '''', rda_PortRedirect = 0,
      rda_ResponseCode = MOVED_PERMANENTLY, rda_PathRewriteSpecifier = None\<rparr>"

datatype RouteActionKind =
  ActRoute RouteAction | ActRedirect RedirectAction | ActDirectResponse uint32 string

record EnvoyRoute =
  er_Match :: RouteMatch
  er_Action :: RouteActionKind
  er_RequestHeadersToAdd :: "HeaderValueOption list"
  er_RequestHeadersToRemove :: "string list"
  er_ResponseHeadersToAdd :: "HeaderValueOption list"
  er_ResponseHeadersToRemove :: "string list"

text \<open>Routes are pointers, and the code can put a nil one into the list.\<close>

record VirtualHost =
  vh_Name :: string
  vh_Domains :: "string list"
  vh_Routes :: "EnvoyRoute option list"

record RouteConfiguration =
  rc_Name :: string
  rc_VirtualHosts :: "VirtualHost list"

section \<open>Listeners and clusters\<close>

record 'b Any =
  any_TypeUrl :: string
  any_Value :: 'b

record 'b NamedAny =
  na_Name :: string
  na_TypedConfig :: "'b Any option"

record FilterChainMatch =
  fcm_TransportProtocol :: string
  fcm_ServerNames :: "string list"

record 'b FilterChain =
  fc_FilterChainMatch :: "FilterChainMatch option"
  fc_Filters :: "'b NamedAny list"
  fc_TransportSocket :: "'b NamedAny option"

record SocketOption =
  so_Description :: string
  so_Level :: int
  so_Name :: int
  so_IntValue :: int

record 'b EnvoyListener =
  el_Name :: string
  el_Address :: "(string \<times> uint32) option"
  el_FilterChains :: "'b FilterChain list"
  el_ListenerFilters :: "'b NamedAny list"
  el_SocketOptions :: "SocketOption list"

record CidrRange =
  cr_AddressPrefix :: string
  cr_PrefixLen :: nat

record 'b HttpConnectionManager =
  hcm_StatPrefix :: string
  hcm_RouteConfigName :: string
  hcm_UseRemoteAddress :: bool
  hcm_SkipXffAppend :: bool
  hcm_HttpFilters :: "'b NamedAny list"
  hcm_UpgradeTypes :: "string list"
  hcm_MaxStreamDuration :: "int option"
  hcm_StreamIdleTimeout :: "int option"
  hcm_XffNumTrustedHops :: uint32
  hcm_InternalAddressConfig :: "CidrRange list option"

datatype UpstreamProtocol =
  UseDownstreamHttp2 | ExplicitHttp1 | ExplicitHttp2 | ExplicitHttp3

record HttpProtocolOptions =
  hpo_UpstreamProtocolOptions :: "UpstreamProtocol option"
  hpo_IdleTimeout :: "int option"

record 'b EnvoyCluster =
  ec_Name :: string
  ec_TypedExtensionProtocolOptions :: "(string \<times> 'b Any option) list"
  ec_EdsServiceName :: string
  ec_ConnectTimeout :: "int option"
  ec_LbPolicy :: int
  ec_SplitExternalLocalOriginErrors :: "bool option"
  ec_TransportSocket :: "'b NamedAny option"

text \<open>Every message that is marshalled.\<close>

datatype 'b Message =
    MsgListener "'b EnvoyListener"
  | MsgRouteConfiguration RouteConfiguration
  | MsgCluster "'b EnvoyCluster"
  | MsgHttpConnectionManager "'b HttpConnectionManager"
  | MsgDownstreamTlsContext "string list"
  | MsgUpstreamTlsContext string string
  | MsgTcpProxy string string
  | MsgTlsInspector
  | MsgProxyProtocol
  | MsgGrpcWeb
  | MsgGrpcStats bool bool
  | MsgRouter
  | MsgHttpProtocolOptions HttpProtocolOptions

text \<open>
  The functions of other modules that translation calls: \<open>proto.Marshal\<close> (\<open>None\<close> is an
  error), \<open>anypb.New\<close>, \<open>Any.UnmarshalTo\<close> for the HTTP protocol options, and
  \<open>IntMax\<close>, \<open>Unique\<close>, \<open>SortedUnique\<close>, \<open>SortedUniqs\<close> and a label key of
  \<open>github.com/ccfish2/infra/pkg\<close>. Bytes are an abstract type.
\<close>

record 'b Lib =
  lib_Marshal :: "'b Message \<Rightarrow> 'b option"
  lib_AnyNew :: "'b Message \<Rightarrow> 'b Any option"
  lib_UnmarshalHttpOptions :: "'b Any option \<Rightarrow> HttpProtocolOptions option"
  lib_IntMax :: "nat \<Rightarrow> nat \<Rightarrow> nat"
  lib_Unique :: "string list \<Rightarrow> string list"
  lib_SortedUnique :: "string list \<Rightarrow> string list"
  lib_SortedUniqs :: "string list \<Rightarrow> string list"
  lib_UseOriginalSourceAddressLabel :: string

text \<open>
  What their documentation promises: \<open>Unique\<close> removes duplicates, the sorted variants also
  sort.
\<close>

definition lib_ok :: "'b Lib \<Rightarrow> bool" where
  "lib_ok L \<longleftrightarrow>
     (\<forall>xs. distinct (lib_Unique L xs) \<and> set (lib_Unique L xs) = set xs) \<and>
     (\<forall>xs. sorted (lib_SortedUnique L xs) \<and> distinct (lib_SortedUnique L xs) \<and>
        set (lib_SortedUnique L xs) = set xs) \<and>
     (\<forall>xs. sorted (lib_SortedUniqs L xs) \<and> distinct (lib_SortedUniqs L xs) \<and>
        set (lib_SortedUniqs L xs) = set xs) \<and>
     (\<forall>a b. lib_IntMax L a b = max a b)"

lemma lib_okD:
  assumes "lib_ok L"
  shows "distinct (lib_Unique L xs)" "set (lib_Unique L xs) = set xs"
    "sorted (lib_SortedUnique L xs)" "distinct (lib_SortedUnique L xs)" "set (lib_SortedUnique L xs) = set xs"
    "sorted (lib_SortedUniqs L xs)" "distinct (lib_SortedUniqs L xs)" "set (lib_SortedUniqs L xs) = set xs"
    "lib_IntMax L a b = max a b"
  using assms by (auto simp: lib_ok_def)

text \<open>The two sorted variants are determined by the laws.\<close>

lemma sorted_uniqs_eq:
  assumes "lib_ok L" shows "lib_SortedUniqs L xs = sorted_list_of_set (set xs)"
  using lib_okD(6-8) [OF assms, of xs] by (metis sorted_list_of_set.idem_if_sorted_distinct)

lemma sorted_unique_eq:
  assumes "lib_ok L" shows "lib_SortedUnique L xs = sorted_list_of_set (set xs)"
  using lib_okD(3-5) [OF assms, of xs] by (metis sorted_list_of_set.idem_if_sorted_distinct)

text \<open>
  An instance of the laws in which bytes are natural numbers and nothing fails, for
  evaluating the definitions on concrete models.
\<close>

definition exampleLib :: "nat Lib" where
  "exampleLib =
     \<lparr>lib_Marshal = (\<lambda>m. Some 0), lib_AnyNew = (\<lambda>m. Some \<lparr>any_TypeUrl = '''', any_Value = 0\<rparr>),
      lib_UnmarshalHttpOptions = (\<lambda>a. Some \<lparr>hpo_UpstreamProtocolOptions = None, hpo_IdleTimeout = None\<rparr>),
      lib_IntMax = max, lib_Unique = remdups, lib_SortedUnique = (\<lambda>xs. sort (remdups xs)),
      lib_SortedUniqs = (\<lambda>xs. sort (remdups xs)),
      lib_UseOriginalSourceAddressLabel = ''use-original-source-address''\<rparr>"

lemma exampleLib_ok: "lib_ok exampleLib"
  by (simp add: lib_ok_def exampleLib_def)

end
