(* ===== verification/Virtual_Host.thy ===== *)
theory Virtual_Host
  imports Envoy_Types
begin

text \<open>
  \<open>src/pkg/model/translation/envoy_virtual_host.go\<close>: from the routes of a hostname to an
  Envoy virtual host. Routes with the same match key are merged into one Envoy route over
  all their backends, and the routes are sorted by specificity. The model keeps the two
  places where the code can crash: a backend without a port, and a nil route in the sort.
\<close>

section \<open>Matchers\<close>

definition wildCard :: string where "wildCard = ''*''"
definition envoyAuthority :: string where "envoyAuthority = '':authority''"
definition starDot :: string where "starDot = ''*.''"
definition dotRegex :: string where "dotRegex = ''[.]''"
definition notDotRegex :: string where "notDotRegex = ''[^.]''"

record VirtualHostParameter =
  vp_HostNames :: "string list"
  vp_HTTPSRedirect :: bool
  vp_HostNameSuffixMatch :: bool
  vp_ListenerPort :: uint32

definition getEnvoyStringMatcher :: "StringMatch \<Rightarrow> StringMatcher option" where
  "getEnvoyStringMatcher s =
     (if sm_Exact s \<noteq> [] then Some (SMExact (sm_Exact s))
      else if sm_Prefix s \<noteq> [] then Some (SMPrefix (sm_Prefix s))
      else if sm_Regex s \<noteq> [] then Some (SMSafeRegex (sm_Regex s))
      else None)"

definition getQueryMatchers :: "KeyValueMatch list \<Rightarrow> QueryParameterMatcher list" where
  "getQueryMatchers query =
     map (\<lambda>q. \<lparr>qm_Name = kv_Key q, qm_StringMatch = getEnvoyStringMatcher (kv_Match q)\<rparr>) query"

definition getMatchingHeaderRegex :: "string \<Rightarrow> string" where
  "getMatchingHeaderRegex host =
     (if HasPrefix host starDot
      then ''^'' @ notDotRegex @ ''+'' @ dotRegex @ ReplaceAll (drop 2 host) CHR ''.'' dotRegex @ ''$''
      else ''^'' @ ReplaceAll host CHR ''.'' dotRegex @ ''$'')"

definition getHeaderMatchers ::
  "string list \<Rightarrow> bool \<Rightarrow> KeyValueMatch list \<Rightarrow> string option \<Rightarrow> HeaderMatcher list" where
  "getHeaderMatchers hostnames hostNameSuffixMatch headers method =
     (if \<not> hostNameSuffixMatch then
        map (\<lambda>host. \<lparr>hm_Name = envoyAuthority,
                     hm_StringMatch = Some (SMSafeRegex (getMatchingHeaderRegex host))\<rparr>)
          (filter (\<lambda>host. length host \<noteq> 0 \<and> host \<noteq> wildCard \<and> Contains host wildCard) hostnames)
      else []) @
     map (\<lambda>h. \<lparr>hm_Name = kv_Key h, hm_StringMatch = getEnvoyStringMatcher (kv_Match h)\<rparr>) headers @
     (case method of
        Some m \<Rightarrow> [\<lparr>hm_Name = '':method'', hm_StringMatch = Some (SMExact (ToUpper m))\<rparr>]
      | None \<Rightarrow> [])"

definition getRouteMatch ::
  "string list \<Rightarrow> bool \<Rightarrow> StringMatch \<Rightarrow> KeyValueMatch list \<Rightarrow> KeyValueMatch list \<Rightarrow> string option \<Rightarrow>
   RouteMatch" where
  "getRouteMatch hostnames hostNameSuffixMatch pathMatch headers query method =
     \<lparr>rm_PathSpecifier =
        (if sm_Exact pathMatch \<noteq> [] then RMPath (sm_Exact pathMatch)
         else if sm_Prefix pathMatch = ''/'' then RMPrefix (sm_Prefix pathMatch)
         else if sm_Prefix pathMatch \<noteq> [] then RMPathSeparatedPrefix (TrimSuffix (sm_Prefix pathMatch) ''/'')
         else if sm_Regex pathMatch \<noteq> [] then RMSafeRegex (sm_Regex pathMatch)
         else RMPrefix ''/''),
      rm_Headers = getHeaderMatchers hostnames hostNameSuffixMatch headers method,
      rm_QueryParameters = getQueryMatchers query\<rparr>"

section \<open>Headers, redirects and actions\<close>

definition getHeadersToAdd :: "HttpHeaderFilter option \<Rightarrow> HeaderValueOption list" where
  "getHeadersToAdd filt =
     (case filt of
        None \<Rightarrow> []
      | Some f \<Rightarrow>
        map (\<lambda>h. \<lparr>hvo_Key = hdr_Name h, hvo_Value = hdr_Value h, hvo_AppendAction = APPEND_IF_EXISTS_OR_ADD\<rparr>)
          (hf_HeadersToAdd f) @
        map (\<lambda>h. \<lparr>hvo_Key = hdr_Name h, hvo_Value = hdr_Value h, hvo_AppendAction = OVERWRITE_IF_EXISTS_OR_ADD\<rparr>)
          (hf_HeadersToSet f))"

definition getHeadersToRemove :: "HttpHeaderFilter option \<Rightarrow> string list" where
  "getHeadersToRemove filt = (case filt of None \<Rightarrow> [] | Some f \<Rightarrow> hf_HeadersToRemove f)"

definition toRedirectResponseCode :: "int \<Rightarrow> RedirectResponseCode" where
  "toRedirectResponseCode statusCode =
     (if statusCode = 301 then MOVED_PERMANENTLY
      else if statusCode = 302 then FOUND
      else if statusCode = 303 then SEE_OTHER
      else if statusCode = 307 then TEMPORARY_REDIRECT
      else if statusCode = 308 then PERMANENT_REDIRECT
      else MOVED_PERMANENTLY)"

definition getRouteRedirect :: "HTTPRequestRedirectFilter \<Rightarrow> uint32 \<Rightarrow> RouteActionKind" where
  "getRouteRedirect redirect listenerPort =
     ActRedirect
       \<lparr>rda_SchemeRewriteSpecifier = map_option SchemeRedirect (rd_Scheme redirect),
        rda_HostRedirect = (case rd_Hostname redirect of Some h \<Rightarrow> h | None \<Rightarrow> ''''),
        rda_PortRedirect =
          (case rd_Port redirect of
             Some p \<Rightarrow> word_of_int p
           | None \<Rightarrow>
             (case rd_Scheme redirect of
                Some s \<Rightarrow> if s = ''https'' then 443 else if s = ''http'' then 80 else 0
              | None \<Rightarrow> listenerPort)),
        rda_ResponseCode =
          (case rd_StatusCode redirect of Some c \<Rightarrow> toRedirectResponseCode c | None \<Rightarrow> MOVED_PERMANENTLY),
        rda_PathRewriteSpecifier =
          (case rd_Path redirect of
             None \<Rightarrow> None
           | Some p \<Rightarrow>
             if sm_Exact p \<noteq> [] then Some (PathRedirect (sm_Exact p))
             else if sm_Prefix p \<noteq> [] then Some (PrefixRewrite (sm_Prefix p))
             else None)\<rparr>"

definition getClusterName :: "string \<Rightarrow> string \<Rightarrow> string \<Rightarrow> string" where
  "getClusterName ns name port = ns @ '':'' @ name @ '':'' @ port"

text \<open>The cluster of a backend; the port is dereferenced.\<close>

definition backendCluster :: "Backend \<Rightarrow> string option" where
  "backendCluster be = do { p \<leftarrow> be_Port be; Some (getClusterName (be_Namespace be) (be_Name be) (GetPort p)) }"

definition hostRewriteMutation :: "HTTPURLRewriteFilter option \<Rightarrow> RouteAction \<Rightarrow> RouteAction" where
  "hostRewriteMutation rewrite route =
     (case rewrite of
        None \<Rightarrow> route
      | Some rw \<Rightarrow>
        (case rw_HostName rw of None \<Rightarrow> route | Some h \<Rightarrow> route\<lparr>ra_HostRewriteLiteral := Some h\<rparr>))"

definition pathPrefixMutation :: "HTTPURLRewriteFilter option \<Rightarrow> HTTPRoute \<Rightarrow> RouteAction \<Rightarrow> RouteAction" where
  "pathPrefixMutation rewrite httpRoute route =
     (case rewrite of
        None \<Rightarrow> route
      | Some rw \<Rightarrow>
        (case rw_Path rw of
           None \<Rightarrow> route
         | Some path \<Rightarrow>
           if length (sm_Exact path) \<noteq> 0 \<or> length (sm_Regex path) \<noteq> 0 then route
           else if length (sm_Prefix path) = 0 \<or> sm_Prefix path = ''/'' then
             route\<lparr>ra_RegexRewrite := Some
               \<lparr>rx_Pattern = ''^'' @ QuoteMeta (sm_Prefix (hr_PathMatch httpRoute)) @ ''(/?)(.*)'',
                rx_Substitution = ''/'' @ [CHR 0x5C] @ ''2''\<rparr>\<rparr>
           else route\<lparr>ra_PrefixRewrite := sm_Prefix path\<rparr>))"

definition pathFullReplaceMutation :: "HTTPURLRewriteFilter option \<Rightarrow> RouteAction \<Rightarrow> RouteAction" where
  "pathFullReplaceMutation rewrite route =
     (case rewrite of
        None \<Rightarrow> route
      | Some rw \<Rightarrow>
        (case rw_Path rw of
           None \<Rightarrow> route
         | Some path \<Rightarrow>
           if length (sm_Exact path) = 0 then route
           else route\<lparr>ra_RegexRewrite := Some \<lparr>rx_Pattern = ''^/.*$'', rx_Substitution = sm_Exact path\<rparr>\<rparr>))"

definition requestMirrorMutation :: "HttpRequestMirror list \<Rightarrow> RouteAction \<Rightarrow> RouteAction option" where
  "requestMirrorMutation mirrors route =
     (if length mirrors = 0 then Some route
      else do {
        action \<leftarrow> concatMapM (\<lambda>m.
          case mir_Backend m of
            None \<Rightarrow> Some []
          | Some b \<Rightarrow> do { c \<leftarrow> backendCluster b; Some [\<lparr>mp_Cluster = c, mp_Numerator = 100\<rparr>] }) mirrors;
        Some (route\<lparr>ra_RequestMirrorPolicies := action\<rparr>) })"

definition timeoutMutation :: "int option \<Rightarrow> int option \<Rightarrow> RouteAction \<Rightarrow> RouteAction" where
  "timeoutMutation backend request route =
     (case (backend, request) of
        (None, None) \<Rightarrow> route
      | (None, Some r) \<Rightarrow> route\<lparr>ra_Timeout := Some r\<rparr>
      | (Some b, None) \<Rightarrow> route\<lparr>ra_Timeout := Some b\<rparr>
      | (Some b, Some r) \<Rightarrow> route\<lparr>ra_Timeout := Some (if r < b then r else b)\<rparr>)"

definition applyMutators :: "HTTPRoute \<Rightarrow> RouteAction \<Rightarrow> RouteAction option" where
  "applyMutators route a =
     do {
       let a1 = pathFullReplaceMutation (hr_Rewrite route)
                  (pathPrefixMutation (hr_Rewrite route) route (hostRewriteMutation (hr_Rewrite route) a));
       a2 \<leftarrow> requestMirrorMutation (hr_RequestMirrors route) a1;
       Some (timeoutMutation (to_Backend (hr_Timeout route)) (to_Request (hr_Timeout route)) a2) }"

text \<open>A later filter with the name of a cluster replaces an earlier one.\<close>

definition backendFilterMap :: "BackendHttpFilter list \<Rightarrow> (string \<times> BackendHttpFilter) list" where
  "backendFilterMap fs = fold (\<lambda>f m. AList.update (bf_Name f) f m) fs []"

definition clusterWeight :: "BackendHttpFilter list \<Rightarrow> Backend \<Rightarrow> ClusterWeight option" where
  "clusterWeight filters be =
     do {
       name \<leftarrow> backendCluster be;
       let weight = (case be_Weight be of Some w \<Rightarrow> w | None \<Rightarrow> 1);
       let cw = \<lparr>cw_Name = name, cw_Weight = word_of_int weight, cw_RequestHeadersToAdd = [],
                 cw_RequestHeadersToRemove = [], cw_ResponseHeadersToAdd = [], cw_ResponseHeadersToRemove = []\<rparr>;
       Some (case map_of (backendFilterMap filters) name of
               None \<Rightarrow> cw
             | Some fn \<Rightarrow>
               cw\<lparr>cw_RequestHeadersToAdd := getHeadersToAdd (bf_RequestHeaderFilter fn),
                  cw_RequestHeadersToRemove := getHeadersToRemove (bf_RequestHeaderFilter fn),
                  cw_ResponseHeadersToAdd := getHeadersToAdd (bf_ResponseHeaderModifier fn),
                  cw_ResponseHeadersToRemove := getHeadersToRemove (bf_ResponseHeaderModifier fn)\<rparr>) }"

definition emptyRouteAction :: "ClusterSpecifier \<Rightarrow> RouteAction" where
  "emptyRouteAction spec =
     \<lparr>ra_ClusterSpecifier = spec, ra_MaxStreamDuration = None, ra_HostRewriteLiteral = None,
      ra_RegexRewrite = None, ra_PrefixRewrite = '''', ra_RequestMirrorPolicies = [], ra_Timeout = None\<rparr>"

definition getRouteAction :: "HTTPRoute \<Rightarrow> Backend list \<Rightarrow> RouteActionKind option" where
  "getRouteAction route backends =
     (case backends of
        [be] \<Rightarrow>
          do { c \<leftarrow> backendCluster be;
               a \<leftarrow> applyMutators route ((emptyRouteAction (RACluster c))\<lparr>ra_MaxStreamDuration := Some 0\<rparr>);
               Some (ActRoute a) }
      | _ \<Rightarrow>
          do { ws \<leftarrow> mapM (clusterWeight (hr_BackendHttpFilters route)) backends;
               a \<leftarrow> applyMutators route (emptyRouteAction (RAWeightedClusters ws));
               Some (ActRoute a) })"

section \<open>Routes of a virtual host\<close>

definition envoyHTTPRouteNoBackend :: "string list \<Rightarrow> bool \<Rightarrow> HTTPRoute \<Rightarrow> EnvoyRoute option" where
  "envoyHTTPRouteNoBackend hostnames hostNameSuffixMatch route =
     (case hr_DirectResponse route of
        None \<Rightarrow> None
      | Some dr \<Rightarrow>
        Some \<lparr>er_Match = getRouteMatch hostnames hostNameSuffixMatch (hr_PathMatch route)
                (hr_HeadersMatch route) (hr_QueryParamsMatch route) (hr_Method route),
              er_Action = ActDirectResponse (word_of_int (dr_StatusCode dr)) (dr_Body dr),
              er_RequestHeadersToAdd = [], er_RequestHeadersToRemove = [],
              er_ResponseHeadersToAdd = [], er_ResponseHeadersToRemove = []\<rparr>)"

text \<open>
  The map from match keys to the routes with that key. Computing a key sorts the matches of
  the route in place, so the routes are sorted ones from here on.
\<close>

type_synonym matchMap = "(string \<times> HTTPRoute list) list"

definition addToMap :: "HTTPRoute \<Rightarrow> matchMap \<Rightarrow> matchMap" where
  "addToMap r m =
     AList.update (GetMatchKey r) ((case map_of m (GetMatchKey r) of Some rs \<Rightarrow> rs | None \<Rightarrow> []) @ [r]) m"

definition matchBackendMap :: "HTTPRoute list \<Rightarrow> matchMap" where
  "matchBackendMap routes = fold addToMap routes []"

text \<open>The Envoy route for the routes of one key, in the order of the code.\<close>

definition mergedRoute ::
  "string list \<Rightarrow> bool \<Rightarrow> uint32 \<Rightarrow> HTTPRoute \<Rightarrow> HTTPRoute list \<Rightarrow> EnvoyRoute option option" where
  "mergedRoute hostnames hostNameSuffixMatch listenerPort r hRoutes =
     (case hRoutes of
        [] \<Rightarrow> None
      | h # _ \<Rightarrow>
        (let backends = concat (map hr_Backends hRoutes) in
         if length backends = 0 \<and> hr_RequestRedirect h = None
         then Some (envoyHTTPRouteNoBackend hostnames hostNameSuffixMatch h)
         else do {
           action \<leftarrow> (case hr_RequestRedirect h of
                        Some redirect \<Rightarrow> Some (getRouteRedirect redirect listenerPort)
                      | None \<Rightarrow> getRouteAction r backends);
           let fns = (if length backends = 1 then hr_BackendHttpFilters h else []);
           Some (Some
             \<lparr>er_Match = getRouteMatch hostnames hostNameSuffixMatch (hr_PathMatch h)
                (hr_HeadersMatch h) (hr_QueryParamsMatch h) (hr_Method h),
              er_Action = action,
              er_RequestHeadersToAdd = getHeadersToAdd (hr_RequestHeaderFilter h) @
                concat (map (\<lambda>fn. getHeadersToAdd (bf_RequestHeaderFilter fn)) fns),
              er_RequestHeadersToRemove = getHeadersToRemove (hr_RequestHeaderFilter h) @
                concat (map (\<lambda>fn. getHeadersToRemove (bf_RequestHeaderFilter fn)) fns),
              er_ResponseHeadersToAdd = getHeadersToAdd (hr_ResponseHeaderModifier h) @
                concat (map (\<lambda>fn. getHeadersToAdd (bf_ResponseHeaderModifier fn)) fns),
              er_ResponseHeadersToRemove = getHeadersToRemove (hr_ResponseHeaderModifier h) @
                concat (map (\<lambda>fn. getHeadersToRemove (bf_ResponseHeaderModifier fn)) fns)\<rparr>) }))"

text \<open>Whether the branch without backends is taken, which does not delete the key.\<close>

definition backendless :: "HTTPRoute list \<Rightarrow> bool" where
  "backendless hRoutes \<longleftrightarrow> concat (map hr_Backends hRoutes) = [] \<and> hr_RequestRedirect (hd hRoutes) = None"

fun httpRoutesLoop ::
  "string list \<Rightarrow> bool \<Rightarrow> uint32 \<Rightarrow> matchMap \<Rightarrow> HTTPRoute list \<Rightarrow> EnvoyRoute option list option" where
  "httpRoutesLoop hostnames hostNameSuffixMatch listenerPort m [] = Some []"
| "httpRoutesLoop hostnames hostNameSuffixMatch listenerPort m (r # rs) =
     (case map_of m (GetMatchKey r) of
        None \<Rightarrow> httpRoutesLoop hostnames hostNameSuffixMatch listenerPort m rs
      | Some hRoutes \<Rightarrow>
        do {
          route \<leftarrow> mergedRoute hostnames hostNameSuffixMatch listenerPort r hRoutes;
          rest \<leftarrow> httpRoutesLoop hostnames hostNameSuffixMatch listenerPort
                   (if backendless hRoutes then m else AList.delete (GetMatchKey r) m) rs;
          Some (route # rest) })"

definition envoyHTTPRoutes ::
  "HTTPRoute list \<Rightarrow> string list \<Rightarrow> bool \<Rightarrow> uint32 \<Rightarrow> EnvoyRoute option list option" where
  "envoyHTTPRoutes httpRoutes hostnames hostNameSuffixMatch listenerPort =
     (let routes = map sortMatches httpRoutes
      in httpRoutesLoop hostnames hostNameSuffixMatch listenerPort (matchBackendMap routes) routes)"

text \<open>
  The redirect to HTTPS. The call passes the query matches where the headers belong and the
  headers where the query matches belong.
\<close>

definition redirectRoute :: "string list \<Rightarrow> bool \<Rightarrow> HTTPRoute \<Rightarrow> EnvoyRoute" where
  "redirectRoute hostnames hostNameSuffixMatch h =
     \<lparr>er_Match = getRouteMatch hostnames hostNameSuffixMatch (hr_PathMatch h)
        (hr_QueryParamsMatch h) (hr_HeadersMatch h) (hr_Method h),
      er_Action = ActRedirect (zeroRedirectAction\<lparr>rda_SchemeRewriteSpecifier := Some (HttpsRedirect True)\<rparr>),
      er_RequestHeadersToAdd = [], er_RequestHeadersToRemove = [],
      er_ResponseHeadersToAdd = [], er_ResponseHeadersToRemove = []\<rparr>"

fun httpsRoutesLoop ::
  "string list \<Rightarrow> bool \<Rightarrow> matchMap \<Rightarrow> HTTPRoute list \<Rightarrow> EnvoyRoute option list option" where
  "httpsRoutesLoop hostnames hostNameSuffixMatch m [] = Some []"
| "httpsRoutesLoop hostnames hostNameSuffixMatch m (r # rs) =
     (case map_of m (GetMatchKey r) of
        None \<Rightarrow> httpsRoutesLoop hostnames hostNameSuffixMatch m rs
      | Some hRoutes \<Rightarrow>
        (case hRoutes of
           [] \<Rightarrow> None
         | h # _ \<Rightarrow>
           do {
             rest \<leftarrow> httpsRoutesLoop hostnames hostNameSuffixMatch (AList.delete (GetMatchKey r) m) rs;
             Some (Some (redirectRoute hostnames hostNameSuffixMatch h) # rest) }))"

definition envoyHTTPSRoutes :: "HTTPRoute list \<Rightarrow> string list \<Rightarrow> bool \<Rightarrow> EnvoyRoute option list option" where
  "envoyHTTPSRoutes httpRoutes hostnames hostNameSuffixMatch =
     (let routes = map sortMatches httpRoutes
      in httpsRoutesLoop hostnames hostNameSuffixMatch (matchBackendMap routes) routes)"

text \<open>The comparison of the sort, with \<open>math.IntMax\<close> from the library parameter.\<close>

definition RouteLess :: "'b Lib \<Rightarrow> EnvoyRoute \<Rightarrow> EnvoyRoute \<Rightarrow> bool" where
  "RouteLess L r1 r2 =
     (let p1 = rm_PathSpecifier (er_Match r1); p2 = rm_PathSpecifier (er_Match r2);
          exactMatch1 = length (GetPath p1); exactMatch2 = length (GetPath p2);
          regexMatch1 = length (GetRegex p1); regexMatch2 = length (GetRegex p2);
          prefixMatch1 = lib_IntMax L (length (GetPathSeparatedPrefix p1)) (length (GetPrefix p1));
          prefixMatch2 = lib_IntMax L (length (GetPathSeparatedPrefix p2)) (length (GetPrefix p2));
          headerMatch1 = length (rm_Headers (er_Match r1)); headerMatch2 = length (rm_Headers (er_Match r2));
          queryMatch1 = length (rm_QueryParameters (er_Match r1));
          queryMatch2 = length (rm_QueryParameters (er_Match r2))
      in if exactMatch1 \<noteq> exactMatch2 then exactMatch1 > exactMatch2
         else if regexMatch1 \<noteq> regexMatch2 then regexMatch1 > regexMatch2
         else if prefixMatch1 \<noteq> prefixMatch2 then prefixMatch1 > prefixMatch2
         else if headerMatch1 \<noteq> headerMatch2 then headerMatch1 > headerMatch2
         else queryMatch1 > queryMatch2)"

text \<open>
  \<open>sort.Stable\<close> compares every element of a slice of two or more, so a nil route makes
  the sort panic; a slice of at most one element is not looked at.
\<close>

definition sortRoutes :: "'b Lib \<Rightarrow> EnvoyRoute option list \<Rightarrow> EnvoyRoute option list option" where
  "sortRoutes L routes =
     (if length routes < 2 then Some routes
      else do { rs \<leftarrow> mapM (\<lambda>r. r) routes; Some (map Some (sort_by (RouteLess L) rs)) })"

fun hostDomains :: "string list \<Rightarrow> string list \<Rightarrow> string list" where
  "hostDomains domains [] = domains"
| "hostDomains domains (host # hosts) =
     (if host = wildCard then [wildCard]
      else hostDomains (domains @ [host, JoinHostPort host wildCard]) hosts)"

definition NewVirtualHost :: "'b Lib \<Rightarrow> HTTPRoute list \<Rightarrow> VirtualHostParameter \<Rightarrow> VirtualHost option" where
  "NewVirtualHost L httpRoutes param =
     do {
       routes \<leftarrow> (if vp_HTTPSRedirect param
                  then envoyHTTPSRoutes httpRoutes (vp_HostNames param) (vp_HostNameSuffixMatch param)
                  else envoyHTTPRoutes httpRoutes (vp_HostNames param) (vp_HostNameSuffixMatch param)
                         (vp_ListenerPort param));
       sortedRoutes \<leftarrow> sortRoutes L routes;
       let domains = hostDomains [] (vp_HostNames param);
       (case domains of
          [] \<Rightarrow> None
        | d # _ \<Rightarrow> Some \<lparr>vh_Name = d, vh_Domains = domains, vh_Routes = sortedRoutes\<rparr>) }"

section \<open>The comparison is a strict weak order\<close>

text \<open>The comparison is the reversed lexicographic order of five lengths.\<close>

definition specificity :: "'b Lib \<Rightarrow> EnvoyRoute \<Rightarrow> nat \<times> nat \<times> nat \<times> nat \<times> nat" where
  "specificity L r =
     (let p = rm_PathSpecifier (er_Match r)
      in (length (GetPath p), length (GetRegex p),
          lib_IntMax L (length (GetPathSeparatedPrefix p)) (length (GetPrefix p)),
          length (rm_Headers (er_Match r)), length (rm_QueryParameters (er_Match r))))"

lemma RouteLess_specificity: "RouteLess L r1 r2 \<longleftrightarrow> specificity L r2 < specificity L r1"
  by (auto simp: RouteLess_def specificity_def Let_def less_prod_simp)

interpretation route_order: strict_weak "RouteLess L" for L
  by unfold_locales (auto simp: RouteLess_specificity)

section \<open>Routes with the same key\<close>

definition groupOf :: "HTTPRoute list \<Rightarrow> string \<Rightarrow> HTTPRoute list" where
  "groupOf rs k = filter (\<lambda>r. GetMatchKey r = k) rs"

lemma fold_addToMap:
  "map_of (fold addToMap rs m) k =
     (if groupOf rs k = [] then map_of m k
      else Some ((case map_of m k of Some xs \<Rightarrow> xs | None \<Rightarrow> []) @ groupOf rs k))"
proof (induction rs arbitrary: m)
  case (Cons r rs)
  show ?case
    by (simp add: Cons.IH) (auto simp: groupOf_def addToMap_def update_conv split: option.splits)
qed (simp add: groupOf_def)

lemma map_of_matchBackendMap:
  "map_of (matchBackendMap rs) k = (if groupOf rs k = [] then None else Some (groupOf rs k))"
  by (simp add: matchBackendMap_def fold_addToMap)

lemma groupOf_member: "r \<in> set rs \<Longrightarrow> groupOf rs (GetMatchKey r) \<noteq> []"
  by (auto simp: groupOf_def filter_empty_conv)

text \<open>
  The routes of the input for which the loop emits an Envoy route: the first of its key, and
  every one of a key without backends.
\<close>

fun emitted :: "HTTPRoute list \<Rightarrow> string set \<Rightarrow> HTTPRoute list \<Rightarrow> HTTPRoute list" where
  "emitted all seen [] = []"
| "emitted all seen (r # rs) =
     (if backendless (groupOf all (GetMatchKey r)) \<or> GetMatchKey r \<notin> seen
      then r # emitted all (insert (GetMatchKey r) seen) rs
      else emitted all seen rs)"

lemma httpRoutesLoop_emitted:
  assumes "\<And>k. map_of m k =
      (if groupOf all k = [] \<or> \<not> backendless (groupOf all k) \<and> k \<in> seen then None else Some (groupOf all k))"
    and "set rs \<subseteq> set all"
  shows "httpRoutesLoop hs sfx port m rs =
         mapM (\<lambda>r. mergedRoute hs sfx port r (groupOf all (GetMatchKey r))) (emitted all seen rs)"
  using assms
proof (induction rs arbitrary: m seen)
  case (Cons r rs)
  let ?k = "GetMatchKey r"
  have ne: "groupOf all ?k \<noteq> []" using groupOf_member Cons.prems(2) by simp
  show ?case
  proof (cases "backendless (groupOf all ?k) \<or> ?k \<notin> seen")
    case False
    then show ?thesis using Cons ne by simp
  next
    case True
    let ?m = "if backendless (groupOf all ?k) then m else AList.delete ?k m"
    have "map_of ?m k = (if groupOf all k = [] \<or> \<not> backendless (groupOf all k) \<and> k \<in> insert ?k seen
        then None else Some (groupOf all k))" for k
      using Cons.prems(1) [of k] by (simp add: delete_conv')
    then have "httpRoutesLoop hs sfx port ?m rs =
        mapM (\<lambda>r. mergedRoute hs sfx port r (groupOf all (GetMatchKey r))) (emitted all (insert ?k seen) rs)"
      using Cons.IH Cons.prems(2) by simp
    then show ?thesis using True Cons.prems(1) [of ?k] ne by auto
  qed
qed simp

lemma envoyHTTPRoutes_emitted:
  "envoyHTTPRoutes rs hs sfx port =
   (let all = map sortMatches rs
    in mapM (\<lambda>r. mergedRoute hs sfx port r (groupOf all (GetMatchKey r))) (emitted all {} all))"
  unfolding envoyHTTPRoutes_def Let_def
  by (rule httpRoutesLoop_emitted) (simp_all add: map_of_matchBackendMap)

lemma emitted_subseq: "subseq (emitted all seen rs) rs"
  by (induction rs arbitrary: seen) auto

lemma emitted_member: "r \<in> set (emitted all seen rs) \<Longrightarrow> r \<in> set rs"
  by (induction rs arbitrary: seen) (auto split: if_splits)

lemma emitted_keys:
  "GetMatchKey ` set (emitted all seen rs) \<union> seen = GetMatchKey ` set rs \<union> seen"
proof (induction rs arbitrary: seen)
  case (Cons r rs)
  show ?case using Cons.IH [of seen] Cons.IH [of "insert (GetMatchKey r) seen"] by auto
qed simp

lemma emitted_once:
  "distinct (map GetMatchKey (filter (\<lambda>r. \<not> backendless (groupOf all (GetMatchKey r))) (emitted all seen rs))) \<and>
   (\<forall>r \<in> set (emitted all seen rs). \<not> backendless (groupOf all (GetMatchKey r)) \<longrightarrow> GetMatchKey r \<notin> seen)"
proof (induction rs arbitrary: seen)
  case (Cons r rs)
  show ?case using Cons.IH [of seen] Cons.IH [of "insert (GetMatchKey r) seen"] by auto
qed simp

section \<open>The clusters a route names\<close>

definition actionClusters :: "RouteAction \<Rightarrow> string list" where
  "actionClusters a =
     (case ra_ClusterSpecifier a of RACluster c \<Rightarrow> [c] | RAWeightedClusters ws \<Rightarrow> map cw_Name ws) @
     map mp_Cluster (ra_RequestMirrorPolicies a)"

definition routeClusters :: "EnvoyRoute \<Rightarrow> string list" where
  "routeClusters er = (case er_Action er of ActRoute a \<Rightarrow> actionClusters a | _ \<Rightarrow> [])"

text \<open>All backends a model route can send a request to, mirrors included.\<close>

definition routeBackends :: "HTTPRoute \<Rightarrow> Backend list" where
  "routeBackends r = hr_Backends r @ List.map_filter mir_Backend (hr_RequestMirrors r)"

lemma mutations_clusters [simp]:
  "ra_ClusterSpecifier (hostRewriteMutation rw a) = ra_ClusterSpecifier a"
  "ra_ClusterSpecifier (pathPrefixMutation rw r a) = ra_ClusterSpecifier a"
  "ra_ClusterSpecifier (pathFullReplaceMutation rw a) = ra_ClusterSpecifier a"
  "ra_ClusterSpecifier (timeoutMutation b q a) = ra_ClusterSpecifier a"
  "ra_RequestMirrorPolicies (hostRewriteMutation rw a) = ra_RequestMirrorPolicies a"
  "ra_RequestMirrorPolicies (pathPrefixMutation rw r a) = ra_RequestMirrorPolicies a"
  "ra_RequestMirrorPolicies (pathFullReplaceMutation rw a) = ra_RequestMirrorPolicies a"
  "ra_RequestMirrorPolicies (timeoutMutation b q a) = ra_RequestMirrorPolicies a"
  by (simp_all add: hostRewriteMutation_def pathPrefixMutation_def pathFullReplaceMutation_def
      timeoutMutation_def split: option.split)

lemma requestMirrorMutation_clusters:
  assumes "requestMirrorMutation ms a = Some a'"
  shows "ra_ClusterSpecifier a' = ra_ClusterSpecifier a"
    and "p \<in> set (ra_RequestMirrorPolicies a') \<Longrightarrow> p \<in> set (ra_RequestMirrorPolicies a) \<or>
         (\<exists>b \<in> set (List.map_filter mir_Backend ms). backendCluster b = Some (mp_Cluster p))"
proof -
  show "ra_ClusterSpecifier a' = ra_ClusterSpecifier a"
    using assms by (auto simp: requestMirrorMutation_def bind_eq_Some split: if_splits)
  assume p: "p \<in> set (ra_RequestMirrorPolicies a')"
  show "p \<in> set (ra_RequestMirrorPolicies a) \<or>
         (\<exists>b \<in> set (List.map_filter mir_Backend ms). backendCluster b = Some (mp_Cluster p))"
  proof (cases "ms = []")
    case False
    then obtain act where act: "concatMapM (\<lambda>m. case mir_Backend m of None \<Rightarrow> Some []
        | Some b \<Rightarrow> do { c \<leftarrow> backendCluster b; Some [\<lparr>mp_Cluster = c, mp_Numerator = 100\<rparr>] }) ms = Some act"
      "p \<in> set act"
      using assms p by (auto simp: requestMirrorMutation_def bind_eq_Some split: if_splits)
    show ?thesis
      using concatMapM_set [OF act]
      by (fastforce simp: bind_eq_Some map_filter_def split: option.splits)
  qed (use assms p in \<open>simp add: requestMirrorMutation_def\<close>)
qed

lemma applyMutators_clusters:
  assumes "applyMutators r a = Some a'" "ra_RequestMirrorPolicies a = []" "c \<in> set (actionClusters a')"
  shows "c \<in> set (case ra_ClusterSpecifier a of RACluster c \<Rightarrow> [c] | RAWeightedClusters ws \<Rightarrow> map cw_Name ws) \<or>
         (\<exists>b \<in> set (List.map_filter mir_Backend (hr_RequestMirrors r)). backendCluster b = Some c)"
proof -
  obtain a2 where a2: "requestMirrorMutation (hr_RequestMirrors r)
      (pathFullReplaceMutation (hr_Rewrite r)
        (pathPrefixMutation (hr_Rewrite r) r (hostRewriteMutation (hr_Rewrite r) a))) = Some a2"
    "a' = timeoutMutation (to_Backend (hr_Timeout r)) (to_Request (hr_Timeout r)) a2"
    using assms(1) by (auto simp: applyMutators_def Let_def bind_eq_Some)
  show ?thesis
    using assms(2,3) requestMirrorMutation_clusters [OF a2(1)]
    unfolding a2(2) actionClusters_def by (auto split: ClusterSpecifier.splits)
qed

lemma clusterWeight_name: "clusterWeight fs be = Some cw \<Longrightarrow> backendCluster be = Some (cw_Name cw)"
  by (auto simp: clusterWeight_def Let_def bind_eq_Some split: option.splits)

lemma getRouteAction_clusters:
  assumes "getRouteAction r bes = Some (ActRoute a)" "c \<in> set (actionClusters a)"
  shows "\<exists>b \<in> set bes \<union> set (List.map_filter mir_Backend (hr_RequestMirrors r)). backendCluster b = Some c"
proof (cases "\<exists>be. bes = [be]")
  case True
  then obtain be c0 where "bes = [be]" "backendCluster be = Some c0"
    "applyMutators r ((emptyRouteAction (RACluster c0))\<lparr>ra_MaxStreamDuration := Some 0\<rparr>) = Some a"
    using assms(1) by (auto simp: getRouteAction_def bind_eq_Some)
  then show ?thesis using applyMutators_clusters [OF _ _ assms(2)] by (fastforce simp: emptyRouteAction_def)
next
  case False
  then obtain ws where ws: "mapM (clusterWeight (hr_BackendHttpFilters r)) bes = Some ws"
    "applyMutators r (emptyRouteAction (RAWeightedClusters ws)) = Some a"
    using assms(1) by (auto simp: getRouteAction_def bind_eq_Some split: list.splits)
  have "\<exists>b \<in> set bes. backendCluster b = Some (cw_Name w)" if "w \<in> set ws" for w
    using mapM_set [OF ws(1) that] clusterWeight_name by blast
  then show ?thesis using applyMutators_clusters [OF ws(2) _ assms(2)] by (fastforce simp: emptyRouteAction_def)
qed

lemma mergedRoute_action:
  assumes "mergedRoute hs sfx port r (h # t) = Some (Some e)" "er_Action e = ActRoute a"
  shows "getRouteAction r (concat (map hr_Backends (h # t))) = Some (ActRoute a)"
proof (cases "concat (map hr_Backends (h # t)) = [] \<and> hr_RequestRedirect h = None")
  case True
  then have "envoyHTTPRouteNoBackend hs sfx h = Some e" using assms(1) by (simp add: mergedRoute_def)
  then show ?thesis using assms(2) by (cases "hr_DirectResponse h") (auto simp: envoyHTTPRouteNoBackend_def)
next
  case False
  then obtain action where action: "(case hr_RequestRedirect h of
         Some redirect \<Rightarrow> Some (getRouteRedirect redirect port)
       | None \<Rightarrow> getRouteAction r (concat (map hr_Backends (h # t)))) = Some action" "er_Action e = action"
    using assms(1) unfolding mergedRoute_def Let_def list.case length_0_conv if_not_P [OF False] bind_eq_Some
    by (elim exE conjE) (rule that, assumption, drule sym, simp)
  show ?thesis
  proof (cases "hr_RequestRedirect h")
    case None
    then show ?thesis using action assms(2) by simp
  next
    case (Some redirect)
    then show ?thesis using action assms(2) by (auto simp: getRouteRedirect_def)
  qed
qed

lemma mergedRoute_clusters:
  assumes "mergedRoute hs sfx port r g = Some (Some e)" "c \<in> set (routeClusters e)"
  shows "\<exists>b \<in> set (concat (map hr_Backends g)) \<union> set (List.map_filter mir_Backend (hr_RequestMirrors r)).
           backendCluster b = Some c"
proof -
  obtain h t where g: "g = h # t" using assms(1) by (cases g) (auto simp: mergedRoute_def)
  obtain a where "er_Action e = ActRoute a" "c \<in> set (actionClusters a)"
    using assms(2) by (cases "er_Action e") (auto simp: routeClusters_def)
  moreover from this have "getRouteAction r (concat (map hr_Backends g)) = Some (ActRoute a)"
    using mergedRoute_action [OF assms(1) [unfolded g]] unfolding g by blast
  ultimately show ?thesis using getRouteAction_clusters by blast
qed

section \<open>When translation of routes does not panic\<close>

definition ported :: "HTTPRoute \<Rightarrow> bool" where
  "ported r \<longleftrightarrow> (\<forall>b \<in> set (routeBackends r). be_Port b \<noteq> None)"

text \<open>A route that would send requests nowhere has an answer of its own.\<close>

definition answered :: "HTTPRoute \<Rightarrow> bool" where
  "answered r \<longleftrightarrow> (hr_Backends r = [] \<and> hr_RequestRedirect r = None \<longrightarrow> hr_DirectResponse r \<noteq> None)"

lemma backendCluster_total [panic_free]: "be_Port b \<noteq> None \<Longrightarrow> \<exists>c. backendCluster b = Some c"
  by (auto simp: backendCluster_def)

lemma requestMirrorMutation_total [panic_free]:
  assumes "\<forall>b \<in> set (List.map_filter mir_Backend ms). be_Port b \<noteq> None"
  shows "\<exists>a'. requestMirrorMutation ms a = Some a'"
proof -
  have "\<exists>act. concatMapM (\<lambda>m. case mir_Backend m of None \<Rightarrow> Some []
        | Some b \<Rightarrow> do { c \<leftarrow> backendCluster b; Some [\<lparr>mp_Cluster = c, mp_Numerator = 100\<rparr>] }) ms = Some act"
  proof (rule concatMapM_total)
    fix m assume m: "m \<in> set ms"
    show "\<exists>ys. (case mir_Backend m of None \<Rightarrow> Some []
        | Some b \<Rightarrow> do { c \<leftarrow> backendCluster b; Some [\<lparr>mp_Cluster = c, mp_Numerator = 100\<rparr>] }) = Some ys"
    proof (cases "mir_Backend m")
      case (Some b)
      then have "b \<in> set (List.map_filter mir_Backend ms)" using m by (force simp: map_filter_def)
      then show ?thesis using assms backendCluster_total [of b] Some by auto
    qed simp
  qed
  then show ?thesis by (auto simp: requestMirrorMutation_def)
qed

lemma applyMutators_total [panic_free]:
  assumes "ported r" shows "\<exists>a'. applyMutators r a = Some a'"
proof -
  have "\<forall>b \<in> set (List.map_filter mir_Backend (hr_RequestMirrors r)). be_Port b \<noteq> None"
    using assms by (simp add: ported_def routeBackends_def)
  from requestMirrorMutation_total [OF this] show ?thesis
    unfolding applyMutators_def Let_def by (metis bind.bind_lunit)
qed

lemma clusterWeight_total [panic_free]: "be_Port b \<noteq> None \<Longrightarrow> \<exists>w. clusterWeight fs b = Some w"
  using backendCluster_total [of b] by (auto simp: clusterWeight_def Let_def)

lemma getRouteAction_total [panic_free]:
  assumes "ported r" "\<forall>b \<in> set bes. be_Port b \<noteq> None"
  shows "\<exists>a. getRouteAction r bes = Some (ActRoute a)"
proof (cases "\<exists>be. bes = [be]")
  case True
  then obtain be c where "bes = [be]" "backendCluster be = Some c"
    using assms(2) backendCluster_total by force
  moreover obtain a where
    "applyMutators r ((emptyRouteAction (RACluster c))\<lparr>ra_MaxStreamDuration := Some 0\<rparr>) = Some a"
    using applyMutators_total [OF assms(1)] by blast
  ultimately show ?thesis by (simp add: getRouteAction_def)
next
  case False
  obtain ws where ws: "mapM (clusterWeight (hr_BackendHttpFilters r)) bes = Some ws"
    using mapM_total [of bes "clusterWeight (hr_BackendHttpFilters r)"] clusterWeight_total assms(2) by blast
  obtain a where "applyMutators r (emptyRouteAction (RAWeightedClusters ws)) = Some a"
    using applyMutators_total [OF assms(1)] by blast
  moreover have "getRouteAction r bes = do { ws \<leftarrow> mapM (clusterWeight (hr_BackendHttpFilters r)) bes;
      a \<leftarrow> applyMutators r (emptyRouteAction (RAWeightedClusters ws)); Some (ActRoute a) }"
    using False by (auto simp: getRouteAction_def simp del: mapM.simps split: list.split)
  ultimately show ?thesis using ws by simp
qed

lemma mergedRoute_total [panic_free]:
  assumes "g \<noteq> []" "ported r" "\<forall>x \<in> set g. ported x \<and> answered x"
  shows "\<exists>e. mergedRoute hs sfx port r g = Some (Some e)"
proof -
  obtain h t where g: "g = h # t" using assms(1) by (cases g) auto
  have h: "answered h" using assms(3) g by simp
  have "\<forall>b \<in> set (concat (map hr_Backends g)). be_Port b \<noteq> None"
    using assms(3) by (auto simp: ported_def routeBackends_def)
  then obtain a where a: "getRouteAction r (concat (map hr_Backends g)) = Some (ActRoute a)"
    using getRouteAction_total [OF assms(2)] by blast
  show ?thesis
  proof (cases "concat (map hr_Backends g) = [] \<and> hr_RequestRedirect h = None")
    case True
    then obtain dr where "hr_DirectResponse h = Some dr" using h g by (auto simp: answered_def)
    then show ?thesis using True g by (simp add: mergedRoute_def envoyHTTPRouteNoBackend_def)
  next
    case False
    then show ?thesis
      using a unfolding g by (cases "hr_RequestRedirect h") (auto simp: mergedRoute_def Let_def)
  qed
qed

lemma sortMatches_fields [simp]:
  "hr_Backends (sortMatches r) = hr_Backends r" "hr_RequestMirrors (sortMatches r) = hr_RequestMirrors r"
  "hr_RequestRedirect (sortMatches r) = hr_RequestRedirect r" "hr_DirectResponse (sortMatches r) = hr_DirectResponse r"
  "hr_PathMatch (sortMatches r) = hr_PathMatch r" "hr_Method (sortMatches r) = hr_Method r"
  "routeBackends (sortMatches r) = routeBackends r" "ported (sortMatches r) = ported r"
  "answered (sortMatches r) = answered r"
  by (simp_all add: sortMatches_def routeBackends_def ported_def answered_def)

lemma mapM_all_Some:
  assumes "\<And>x. x \<in> set xs \<Longrightarrow> \<exists>y. f x = Some (Some y)"
  shows "\<exists>ys. mapM f xs = Some (map Some ys)"
  using assms
proof (induction xs)
  case (Cons x xs)
  obtain y where y: "f x = Some (Some y)" using Cons.prems [of x] by auto
  obtain ys where "mapM f xs = Some (map Some ys)" using Cons by (metis list.set_intros(2))
  with y show ?case by (intro exI [of _ "y # ys"]) simp
qed simp

lemma envoyHTTPRoutes_total [panic_free]:
  assumes "\<forall>r \<in> set rs. ported r \<and> answered r"
  shows "\<exists>es. envoyHTTPRoutes rs hs sfx port = Some (map Some es)"
proof -
  let ?all = "map sortMatches rs"
  have all: "ported x \<and> answered x" if "x \<in> set ?all" for x using that assms by auto
  show ?thesis unfolding envoyHTTPRoutes_emitted Let_def
  proof (intro mapM_all_Some mergedRoute_total)
    fix r assume "r \<in> set (emitted ?all {} ?all)"
    then have r: "r \<in> set ?all" by (rule emitted_member)
    show "groupOf ?all (GetMatchKey r) \<noteq> []" by (rule groupOf_member [OF r])
    show "ported r" using all [OF r] by simp
    show "\<forall>x \<in> set (groupOf ?all (GetMatchKey r)). ported x \<and> answered x"
      using all unfolding groupOf_def by simp
  qed
qed

end
