(* ===== verification/Envoy_Resources.thy ===== *)
theory Envoy_Resources
  imports Virtual_Host
begin

text \<open>
  \<open>src/pkg/model/translation/envoy_listener.go\<close>, \<open>envoy_cluster.go\<close>,
  \<open>envoy_http_connection_manager.go\<close>, \<open>envoy_route_configuration.go\<close> and
  \<open>src/pkg/envoy/xds.go\<close>: the Envoy resources. Every constructor marshals its message and
  returns the zero \<open>XDSResource\<close> together with an error when that fails; the pair is an
  option here, \<open>None\<close> being the zero resource. The option
  \<open>Config.IngressProxyXffNumTrustedHops\<close> of the operator is the argument \<open>xff\<close>. A Go map
  is the association list of its entries in the order in which a \<open>range\<close> visits them.
\<close>

section \<open>Type URLs and constants\<close>

definition ListenerTypeURL :: string where
  "ListenerTypeURL = ''type.googleapis.com/envoy.config.listener.v3.Listener''"
definition RouteTypeURL :: string where
  "RouteTypeURL = ''type.googleapis.com/envoy.config.route.v3.RouteConfiguration''"
definition ClusterTypeURL :: string where
  "ClusterTypeURL = ''type.googleapis.com/envoy.config.cluster.v3.Cluster''"
definition HttpConnectionManagerTypeURL :: string where
  "HttpConnectionManagerTypeURL =
     ''type.googleapis.com/envoy.extensions.filters.network.http_connection_manager.v3.HttpConnectionManager''"
definition DownstreamTlsContextURL :: string where
  "DownstreamTlsContextURL = ''type.googleapis.com/envoy.extensions.transport_sockets.tls.v3.DownstreamTlsContext''"
definition UpstreamTlsContextURL :: string where
  "UpstreamTlsContextURL = ''type.googleapis.com/envoy.extensions.transport_sockets.tls.v3.UpstreamTlsContext''"

definition httpConnectionManagerType :: string where
  "httpConnectionManagerType = ''envoy.filters.network.http_connection_manager''"
definition tcpProxyType :: string where "tcpProxyType = ''envoy.filters.network.tcp_proxy''"
definition tlsInspectorType :: string where "tlsInspectorType = ''envoy.filters.listener.tls_inspector''"
definition proxyProtocolType :: string where "proxyProtocolType = ''envoy.filters.listener.proxy_protocol''"
definition tlsTransportSocketType :: string where "tlsTransportSocketType = ''envoy.transport_sockets.tls''"
definition rawBufferTransportProtocol :: string where "rawBufferTransportProtocol = ''raw_buffer''"
definition tlsTransportProtocol :: string where "tlsTransportProtocol = ''tls''"
definition httpProtocolOptionsType :: string where
  "httpProtocolOptionsType = ''envoy.extensions.upstreams.http.v3.HttpProtocolOptions''"
definition upstreamTLSType :: string where "upstreamTLSType = ''envoy.transport_sockets.tls''"

definition GetInternalListenerCIDRs :: "bool \<Rightarrow> bool \<Rightarrow> CidrRange list" where
  "GetInternalListenerCIDRs ipv4 ipv6 =
     (if ipv4 then
        [\<lparr>cr_AddressPrefix = ''10.0.0.0'', cr_PrefixLen = 8\<rparr>,
         \<lparr>cr_AddressPrefix = ''172.16.0.0'', cr_PrefixLen = 12\<rparr>,
         \<lparr>cr_AddressPrefix = ''192.168.0.0'', cr_PrefixLen = 16\<rparr>,
         \<lparr>cr_AddressPrefix = ''127.0.0.1'', cr_PrefixLen = 32\<rparr>]
      else []) @
     (if ipv6 then [\<lparr>cr_AddressPrefix = ''::1'', cr_PrefixLen = 128\<rparr>] else [])"

section \<open>Resources\<close>

type_synonym 'b XDSResource = "'b Any option"

text \<open>The common end of the constructors: marshal and wrap, or fail.\<close>

definition packResource :: "'b Lib \<Rightarrow> string \<Rightarrow> 'b Message \<Rightarrow> 'b XDSResource" where
  "packResource L url msg = map_option (\<lambda>bytes. \<lparr>any_TypeUrl = url, any_Value = bytes\<rparr>) (lib_Marshal L msg)"

definition toAny :: "'b Lib \<Rightarrow> 'b Message \<Rightarrow> 'b Any option" where
  "toAny L msg = lib_AnyNew L msg"

definition NewRouteConfiguration ::
  "'b Lib \<Rightarrow> string \<Rightarrow> VirtualHost list \<Rightarrow> (RouteConfiguration \<Rightarrow> RouteConfiguration) list \<Rightarrow> 'b XDSResource" where
  "NewRouteConfiguration L name virtualhosts mutators =
     packResource L RouteTypeURL (MsgRouteConfiguration
       (fold (\<lambda>fn rc. fn rc) mutators \<lparr>rc_Name = name, rc_VirtualHosts = virtualhosts\<rparr>))"

section \<open>HTTP connection managers\<close>

definition NewHTTPConnectionManager ::
  "'b Lib \<Rightarrow> string \<Rightarrow> string \<Rightarrow> ('b HttpConnectionManager \<Rightarrow> 'b HttpConnectionManager) list \<Rightarrow>
   'b XDSResource" where
  "NewHTTPConnectionManager L name routeName mutationFunc =
     (let connectionManager =
        \<lparr>hcm_StatPrefix = name, hcm_RouteConfigName = routeName, hcm_UseRemoteAddress = True,
         hcm_SkipXffAppend = False,
         hcm_HttpFilters =
           [\<lparr>na_Name = ''envoy.filters.http.grpc_web'', na_TypedConfig = toAny L MsgGrpcWeb\<rparr>,
            \<lparr>na_Name = ''envoy.filters.http.grpc_stats'', na_TypedConfig = toAny L (MsgGrpcStats True True)\<rparr>,
            \<lparr>na_Name = ''envoy.filters.http.router'', na_TypedConfig = toAny L MsgRouter\<rparr>],
         hcm_UpgradeTypes = [''websocket''], hcm_MaxStreamDuration = Some 0, hcm_StreamIdleTimeout = Some 300,
         hcm_XffNumTrustedHops = 0, hcm_InternalAddressConfig = None\<rparr>
      in packResource L HttpConnectionManagerTypeURL
           (MsgHttpConnectionManager (fold (\<lambda>fn cm. fn cm) mutationFunc connectionManager)))"

definition WithXffNumTrustedHops :: "uint32 \<Rightarrow> 'b HttpConnectionManager \<Rightarrow> 'b HttpConnectionManager" where
  "WithXffNumTrustedHops xff connectionManager = connectionManager\<lparr>hcm_XffNumTrustedHops := xff\<rparr>"

definition WithInternalAddressConfig :: "bool \<Rightarrow> bool \<Rightarrow> 'b HttpConnectionManager \<Rightarrow> 'b HttpConnectionManager" where
  "WithInternalAddressConfig enableIpv4 enableIpv6 hcm =
     hcm\<lparr>hcm_InternalAddressConfig := Some (GetInternalListenerCIDRs enableIpv4 enableIpv6)\<rparr>"

section \<open>Listeners\<close>

definition WithProxyProtocol :: "'b Lib \<Rightarrow> 'b EnvoyListener \<Rightarrow> 'b EnvoyListener" where
  "WithProxyProtocol L listener =
     listener\<lparr>el_ListenerFilters :=
       \<lparr>na_Name = proxyProtocolType, na_TypedConfig = toAny L MsgProxyProtocol\<rparr> # el_ListenerFilters listener\<rparr>"

definition WithSocketOption :: "int \<Rightarrow> int \<Rightarrow> int \<Rightarrow> int \<Rightarrow> 'b EnvoyListener \<Rightarrow> 'b EnvoyListener" where
  "WithSocketOption tcpKeepAlive tcpKeepIdleInSeconds tcpKeepAliveProbeIntervalInSeconds
     tcpKeepAliveMaxFailures listener =
     listener\<lparr>el_SocketOptions :=
       [\<lparr>so_Description = ''Enable TCP keep-alive (default to enabled)'',
         so_Level = 1, so_Name = 9, so_IntValue = tcpKeepAlive\<rparr>,
        \<lparr>so_Description = ''TCP keep-alive idle time (in seconds) (defaults to 10s)'',
         so_Level = 6, so_Name = 4, so_IntValue = tcpKeepIdleInSeconds\<rparr>,
        \<lparr>so_Description = ''TCP keep-alive probe intervals (in seconds) (defaults to 5s)'',
         so_Level = 6, so_Name = 5, so_IntValue = tcpKeepAliveProbeIntervalInSeconds\<rparr>,
        \<lparr>so_Description = ''TCP keep-alive probe max failures.'',
         so_Level = 6, so_Name = 6, so_IntValue = tcpKeepAliveMaxFailures\<rparr>]\<rparr>"

definition defaultSocketOption :: "'b EnvoyListener \<Rightarrow> 'b EnvoyListener" where
  "defaultSocketOption = WithSocketOption 1 10 5 10"

text \<open>A wildcard alone is left out, since Envoy has no server name for it.\<close>

definition toFilterChainMatch :: "'b Lib \<Rightarrow> string list \<Rightarrow> FilterChainMatch" where
  "toFilterChainMatch L hostNames =
     (let serverNames = lib_SortedUnique L hostNames
      in \<lparr>fcm_TransportProtocol = tlsTransportProtocol,
          fcm_ServerNames =
            (if length serverNames > 1 \<or> (length serverNames = 1 \<and> serverNames ! 0 \<noteq> ''*'')
             then serverNames else [])\<rparr>)"

text \<open>
  The names of the secrets are keys of a map, so each is listed once; the callers pass one
  secret, for which the order of the map does not matter.
\<close>

definition newTransportSocket :: "'b Lib \<Rightarrow> string \<Rightarrow> TLSSecret list \<Rightarrow> 'b NamedAny option" where
  "newTransportSocket L dolphinSecretNamespace tls =
     (let sdsNames = remdups (map (\<lambda>t. dolphinSecretNamespace @ ''/'' @ sec_Name t) tls)
      in map_option (\<lambda>any. \<lparr>na_Name = tlsTransportSocketType, na_TypedConfig = Some any\<rparr>)
           (packResource L DownstreamTlsContextURL (MsgDownstreamTlsContext sdsNames)))"

definition secretKey :: "TLSSecret \<Rightarrow> string" where
  "secretKey s = sec_Namespace s @ ''/'' @ sec_Name s"

text \<open>The filter chain of a connection manager, with or without a transport socket.\<close>

definition managerChain ::
  "FilterChainMatch \<Rightarrow> 'b Any \<Rightarrow> 'b NamedAny option \<Rightarrow> 'b FilterChain" where
  "managerChain match manager socket =
     \<lparr>fc_FilterChainMatch = Some match,
      fc_Filters = [\<lparr>na_Name = httpConnectionManagerType, na_TypedConfig = Some manager\<rparr>],
      fc_TransportSocket = socket\<rparr>"

definition proxyChain :: "'b Lib \<Rightarrow> FilterChainMatch option \<Rightarrow> string \<Rightarrow> string \<Rightarrow> 'b FilterChain" where
  "proxyChain L match statPrefix cluster =
     \<lparr>fc_FilterChainMatch = match,
      fc_Filters = [\<lparr>na_Name = tcpProxyType, na_TypedConfig = toAny L (MsgTcpProxy statPrefix cluster)\<rparr>],
      fc_TransportSocket = None\<rparr>"

definition packListener ::
  "'b Lib \<Rightarrow> ('b EnvoyListener \<Rightarrow> 'b EnvoyListener) list \<Rightarrow> 'b EnvoyListener \<Rightarrow> 'b XDSResource" where
  "packListener L mutatorFunc listener =
     packResource L ListenerTypeURL (MsgListener (fold (\<lambda>fn l. fn l) mutatorFunc listener))"

text \<open>A listener that inspects TLS, without an address of its own.\<close>

definition inspectingListener :: "'b Lib \<Rightarrow> string \<Rightarrow> 'b FilterChain list \<Rightarrow> 'b EnvoyListener" where
  "inspectingListener L name filterChains =
     \<lparr>el_Name = name, el_Address = None, el_FilterChains = filterChains,
      el_ListenerFilters = [\<lparr>na_Name = tlsInspectorType, na_TypedConfig = toAny L MsgTlsInspector\<rparr>],
      el_SocketOptions = []\<rparr>"

definition NewHTTPListener ::
  "'b Lib \<Rightarrow> uint32 \<Rightarrow> string \<Rightarrow> string \<Rightarrow> (TLSSecret \<times> string list) list \<Rightarrow>
   ('b EnvoyListener \<Rightarrow> 'b EnvoyListener) list \<Rightarrow> 'b XDSResource" where
  "NewHTTPListener L xff name dolphinSecretNamespace tls mutatorFunc =
     do {
       insecure \<leftarrow> NewHTTPConnectionManager L (name @ ''-insecure'') (name @ ''-insecure'')
                    [WithXffNumTrustedHops xff];
       let first = managerChain \<lparr>fcm_TransportProtocol = rawBufferTransportProtocol, fcm_ServerNames = []\<rparr>
                     insecure None;
       secured \<leftarrow> mapM (\<lambda>(secret, hostNames). do {
           secure \<leftarrow> NewHTTPConnectionManager L (name @ ''-secure'') (name @ ''-secure'')
                      [WithXffNumTrustedHops xff];
           socket \<leftarrow> newTransportSocket L dolphinSecretNamespace [secret];
           Some (managerChain (toFilterChainMatch L hostNames) secure (Some socket)) })
         (sort_by (by_key (\<lambda>(secret, _). secretKey secret)) tls);
       packListener L mutatorFunc (inspectingListener L name (first # secured)) }"

definition NewHTTPListenerWithDefaults ::
  "'b Lib \<Rightarrow> uint32 \<Rightarrow> string \<Rightarrow> string \<Rightarrow> (TLSSecret \<times> string list) list \<Rightarrow>
   ('b EnvoyListener \<Rightarrow> 'b EnvoyListener) list \<Rightarrow> 'b XDSResource" where
  "NewHTTPListenerWithDefaults L xff name dolphinSecretNamespace tls mutatorFunc =
     NewHTTPListener L xff name dolphinSecretNamespace tls (mutatorFunc @ [defaultSocketOption])"

definition NewSNIListener ::
  "'b Lib \<Rightarrow> string \<Rightarrow> (string \<times> string list) list \<Rightarrow> ('b EnvoyListener \<Rightarrow> 'b EnvoyListener) list \<Rightarrow>
   'b XDSResource" where
  "NewSNIListener L name backendsForHost mutatorFunc =
     packListener L mutatorFunc (inspectingListener L name
       (map (\<lambda>(backend, hostNames). proxyChain L (Some (toFilterChainMatch L hostNames)) ''tcp'' backend)
         (sort_by (by_key fst) backendsForHost)))"

definition NewSNIListenerWithDefaults ::
  "'b Lib \<Rightarrow> string \<Rightarrow> (string \<times> string list) list \<Rightarrow> ('b EnvoyListener \<Rightarrow> 'b EnvoyListener) list \<Rightarrow>
   'b XDSResource" where
  "NewSNIListenerWithDefaults L name backendsForHost mutatorFunc =
     NewSNIListener L name backendsForHost (mutatorFunc @ [defaultSocketOption])"

record tlsPassthroughBackend =
  pt_Hostnames :: "string list"
  pt_StatPrefix :: string

definition httpFilterChain :: "'b Lib \<Rightarrow> uint32 \<Rightarrow> string \<Rightarrow> bool \<Rightarrow> bool \<Rightarrow> 'b FilterChain option" where
  "httpFilterChain L xff name enableIpv4 enableIpv6 =
     do {
       insecure \<leftarrow> NewHTTPConnectionManager L (name @ ''-insecure'') (name @ ''-insecure'')
                    [WithXffNumTrustedHops xff, WithInternalAddressConfig enableIpv4 enableIpv6];
       Some (managerChain \<lparr>fcm_TransportProtocol = rawBufferTransportProtocol, fcm_ServerNames = []\<rparr>
               insecure None) }"

definition httpsFilterChains ::
  "'b Lib \<Rightarrow> string \<Rightarrow> string \<Rightarrow> (TLSSecret \<times> string list) list \<Rightarrow> bool \<Rightarrow> bool \<Rightarrow>
   'b FilterChain list option" where
  "httpsFilterChains L name dolphinSecretNamespace tlsSecretsToHostnames enableIpv4 enableIpv6 =
     mapM (\<lambda>(secret, hostNames). do {
         secure \<leftarrow> NewHTTPConnectionManager L (name @ ''-secure'') (name @ ''-secure'')
                    [WithInternalAddressConfig enableIpv4 enableIpv6];
         socket \<leftarrow> newTransportSocket L dolphinSecretNamespace [secret];
         Some (managerChain (toFilterChainMatch L hostNames) secure (Some socket)) })
       (sort_by (by_key (\<lambda>(secret, _). secretKey secret)) tlsSecretsToHostnames)"

definition tlsPassthroughFilterChains ::
  "'b Lib \<Rightarrow> (string \<times> tlsPassthroughBackend) list \<Rightarrow> 'b FilterChain list" where
  "tlsPassthroughFilterChains L ptBackendsToHostnames =
     map (\<lambda>(backend, pt).
         proxyChain L (Some (toFilterChainMatch L (pt_Hostnames pt)))
           (if pt_StatPrefix pt = [] then backend else pt_StatPrefix pt) backend)
       (sort_by (by_key fst) ptBackendsToHostnames)"

definition newListener ::
  "'b Lib \<Rightarrow> uint32 \<Rightarrow> string \<Rightarrow> string \<Rightarrow> bool \<Rightarrow> (TLSSecret \<times> string list) list \<Rightarrow>
   (string \<times> tlsPassthroughBackend) list \<Rightarrow> bool \<Rightarrow> bool \<Rightarrow>
   ('b EnvoyListener \<Rightarrow> 'b EnvoyListener) list \<Rightarrow> 'b XDSResource" where
  "newListener L xff name dolphinSecretNamespace includeHTTPFilterchain tlsSecretsToHostnames
     tlsPassthroughBackendsMap enableIpv4 enableIpv6 mutatorFunc =
     do {
       http \<leftarrow> (if includeHTTPFilterchain
                then map_option (\<lambda>fc. [fc]) (httpFilterChain L xff name enableIpv4 enableIpv6)
                else Some []);
       https \<leftarrow> httpsFilterChains L name dolphinSecretNamespace tlsSecretsToHostnames enableIpv4 enableIpv6;
       packListener L mutatorFunc (inspectingListener L name
         (http @ https @ tlsPassthroughFilterChains L tlsPassthroughBackendsMap)) }"

definition newListenerWithDefaults ::
  "'b Lib \<Rightarrow> uint32 \<Rightarrow> string \<Rightarrow> string \<Rightarrow> bool \<Rightarrow> (TLSSecret \<times> string list) list \<Rightarrow>
   (string \<times> tlsPassthroughBackend) list \<Rightarrow> bool \<Rightarrow> bool \<Rightarrow>
   ('b EnvoyListener \<Rightarrow> 'b EnvoyListener) list \<Rightarrow> 'b XDSResource" where
  "newListenerWithDefaults L xff name dolphinSecretNamespace includeHTTPFilterchain tlsSecretsToHostnames
     ptBackendsToHostnames enableIpv4 enableIpv6 mutatorFunc =
     newListener L xff name dolphinSecretNamespace includeHTTPFilterchain tlsSecretsToHostnames
       ptBackendsToHostnames enableIpv4 enableIpv6 (mutatorFunc @ [defaultSocketOption])"

definition NewTCPListener ::
  "'b Lib \<Rightarrow> string \<Rightarrow> uint32 \<Rightarrow> string \<Rightarrow> ('b EnvoyListener \<Rightarrow> 'b EnvoyListener) list \<Rightarrow> 'b XDSResource" where
  "NewTCPListener L name port cluster mutatorFunc =
     packListener L mutatorFunc
       \<lparr>el_Name = name, el_Address = Some (''0.0.0.0'', port),
        el_FilterChains = [proxyChain L None ''tcp'' cluster], el_ListenerFilters = [],
        el_SocketOptions = []\<rparr>"

definition NewTCPListenerWithDefaults ::
  "'b Lib \<Rightarrow> string \<Rightarrow> uint32 \<Rightarrow> string \<Rightarrow> ('b EnvoyListener \<Rightarrow> 'b EnvoyListener) list \<Rightarrow> 'b XDSResource" where
  "NewTCPListenerWithDefaults L name port cluster mutatorFunc =
     NewTCPListener L name port cluster (mutatorFunc @ [defaultSocketOption])"

section \<open>Clusters\<close>

datatype HTTPVersionType =
  HTTPVersionDownstream | HTTPVersionAuto | HTTPVersion1 | HTTPVersion2 | HTTPVersion3

definition WithClusterLbPolicy :: "int \<Rightarrow> 'b EnvoyCluster \<Rightarrow> 'b EnvoyCluster" where
  "WithClusterLbPolicy lbPolicy cluster = cluster\<lparr>ec_LbPolicy := lbPolicy\<rparr>"

definition WithOutlierDetection :: "bool \<Rightarrow> 'b EnvoyCluster \<Rightarrow> 'b EnvoyCluster" where
  "WithOutlierDetection splitExternalLocalOriginErrors cluster =
     cluster\<lparr>ec_SplitExternalLocalOriginErrors := Some splitExternalLocalOriginErrors\<rparr>"

definition WithProtocol :: "'b Lib \<Rightarrow> HTTPVersionType \<Rightarrow> 'b EnvoyCluster \<Rightarrow> 'b EnvoyCluster" where
  "WithProtocol L protocolVersion cluster =
     (let options = \<lparr>hpo_UpstreamProtocolOptions =
            (case protocolVersion of
               HTTPVersion1 \<Rightarrow> Some ExplicitHttp1
             | HTTPVersionAuto \<Rightarrow> Some ExplicitHttp1
             | HTTPVersion2 \<Rightarrow> Some ExplicitHttp2
             | HTTPVersion3 \<Rightarrow> Some ExplicitHttp3
             | HTTPVersionDownstream \<Rightarrow> None),
            hpo_IdleTimeout = None\<rparr>
      in cluster\<lparr>ec_TypedExtensionProtocolOptions :=
           [(httpProtocolOptionsType, toAny L (MsgHttpProtocolOptions options))]\<rparr>)"

definition WithConnectionTimeout :: "int \<Rightarrow> 'b EnvoyCluster \<Rightarrow> 'b EnvoyCluster" where
  "WithConnectionTimeout seconds cluster = cluster\<lparr>ec_ConnectTimeout := Some seconds\<rparr>"

text \<open>Options that do not unmarshal are left as they are.\<close>

definition WithIdleTimeout :: "'b Lib \<Rightarrow> int \<Rightarrow> 'b EnvoyCluster \<Rightarrow> 'b EnvoyCluster" where
  "WithIdleTimeout L seconds cluster =
     (let a = (case map_of (ec_TypedExtensionProtocolOptions cluster) httpProtocolOptionsType of
                 Some a \<Rightarrow> a | None \<Rightarrow> None)
      in case lib_UnmarshalHttpOptions L a of
           None \<Rightarrow> cluster
         | Some opts \<Rightarrow>
           cluster\<lparr>ec_TypedExtensionProtocolOptions :=
             AList.update httpProtocolOptionsType
               (toAny L (MsgHttpProtocolOptions (opts\<lparr>hpo_IdleTimeout := Some seconds\<rparr>)))
               (ec_TypedExtensionProtocolOptions cluster)\<rparr>)"

definition WithUpstreamTLS :: "'b Lib \<Rightarrow> string \<Rightarrow> string \<Rightarrow> string \<Rightarrow> 'b EnvoyCluster \<Rightarrow> 'b EnvoyCluster" where
  "WithUpstreamTLS L secretsNamespace validationSecret sni cluster =
     (case packResource L UpstreamTlsContextURL
             (MsgUpstreamTlsContext sni (secretsNamespace @ ''/'' @ validationSecret)) of
        None \<Rightarrow> cluster
      | Some any \<Rightarrow>
        cluster\<lparr>ec_TransportSocket := Some \<lparr>na_Name = upstreamTLSType, na_TypedConfig = Some any\<rparr>\<rparr>)"

text \<open>A cluster discovered through EDS; the enumeration of policies starts with \<open>ROUND_ROBIN\<close>.\<close>

definition edsCluster :: "string \<Rightarrow> string \<Rightarrow> (string \<times> 'b Any option) list \<Rightarrow> 'b EnvoyCluster" where
  "edsCluster clusterName clusterServiceName options =
     \<lparr>ec_Name = clusterName, ec_TypedExtensionProtocolOptions = options,
      ec_EdsServiceName = clusterServiceName, ec_ConnectTimeout = None, ec_LbPolicy = 0,
      ec_SplitExternalLocalOriginErrors = None, ec_TransportSocket = None\<rparr>"

definition NewHTTPCluster ::
  "'b Lib \<Rightarrow> string \<Rightarrow> string \<Rightarrow> ('b EnvoyCluster \<Rightarrow> 'b EnvoyCluster) list \<Rightarrow> 'b XDSResource" where
  "NewHTTPCluster L clusterName clusterServiceName mutationFunc =
     packResource L ClusterTypeURL (MsgCluster (fold (\<lambda>fn c. fn c) mutationFunc
       (edsCluster clusterName clusterServiceName
         [(httpProtocolOptionsType, toAny L (MsgHttpProtocolOptions
            \<lparr>hpo_UpstreamProtocolOptions = Some UseDownstreamHttp2, hpo_IdleTimeout = None\<rparr>))])))"

definition NewTCPCluster ::
  "'b Lib \<Rightarrow> string \<Rightarrow> string \<Rightarrow> ('b EnvoyCluster \<Rightarrow> 'b EnvoyCluster) list \<Rightarrow> 'b XDSResource" where
  "NewTCPCluster L clusterName clusterServiceName mutationFunc =
     packResource L ClusterTypeURL (MsgCluster (fold (\<lambda>fn c. fn c) mutationFunc
       (edsCluster clusterName clusterServiceName [])))"

definition NewTCPClusterWithDefaults ::
  "'b Lib \<Rightarrow> string \<Rightarrow> string \<Rightarrow> ('b EnvoyCluster \<Rightarrow> 'b EnvoyCluster) list \<Rightarrow> 'b XDSResource" where
  "NewTCPClusterWithDefaults L clusterName clusterServiceName mutationFunc =
     NewTCPCluster L clusterName clusterServiceName
       (mutationFunc @ [WithConnectionTimeout 5, WithClusterLbPolicy 0, WithOutlierDetection True])"

end
