(* ===== verification/Translator.thy ===== *)
theory Translator
  imports Envoy_Resources
begin

text \<open>
  \<open>src/pkg/model/translation/translator.go\<close>: the default translator, from a model to the
  resources of a DolphinEnvoyConfig. The Go maps over which the code ranges are nested
  association lists; \<open>mapEntries\<close> is one order of iteration, and the definitions that
  iterate take the entries as an argument, so that the lemmas can be stated for every order.
\<close>

definition secureHost :: string where "secureHost = ''secure''"
definition insecureHost :: string where "insecureHost = ''insecure''"

record defaultTranslator =
  dt_name :: string
  dt_namespace :: string
  dt_secretsNamespace :: string
  dt_enforceHTTPs :: bool
  dt_useProxyProtocol :: bool
  dt_hostNameSuffixMatch :: bool
  dt_idleTimeoutSeconds :: int
  dt_ipv4Enabled :: bool
  dt_ipv6Enabled :: bool

definition NewTranslator ::
  "string \<Rightarrow> string \<Rightarrow> string \<Rightarrow> bool \<Rightarrow> bool \<Rightarrow> bool \<Rightarrow> int \<Rightarrow> bool \<Rightarrow> bool \<Rightarrow> defaultTranslator" where
  "NewTranslator name namespace secretsNamespace enforceHTTPs useProxyProtocol hostNameSuffixMatch
     idleTimeoutSeconds ipv4Enabled ipv6Enabled =
     \<lparr>dt_name = name, dt_namespace = namespace, dt_secretsNamespace = secretsNamespace,
      dt_enforceHTTPs = enforceHTTPs, dt_useProxyProtocol = useProxyProtocol,
      dt_hostNameSuffixMatch = hostNameSuffixMatch, dt_idleTimeoutSeconds = idleTimeoutSeconds,
      dt_ipv4Enabled = ipv4Enabled, dt_ipv6Enabled = ipv6Enabled\<rparr>"

section \<open>Services and their ports\<close>

type_synonym namespaceNamePorts = "(string \<times> (string \<times> string list) list) list"

text \<open>Reading a Go map of slices: a missing key gives the nil slice.\<close>

definition slot :: "('k \<times> 'v list) list \<Rightarrow> 'k \<Rightarrow> 'v list" where
  "slot m k = (case map_of m k of Some xs \<Rightarrow> xs | None \<Rightarrow> [])"

definition mergeBackend :: "'b Lib \<Rightarrow> Backend \<Rightarrow> namespaceNamePorts \<Rightarrow> namespaceNamePorts" where
  "mergeBackend L backend m =
     (case be_Port backend of
        None \<Rightarrow> m
      | Some port \<Rightarrow>
        (let namePortMap = slot m (be_Namespace backend)
         in AList.update (be_Namespace backend)
              (AList.update (be_Name backend)
                (lib_SortedUniqs L (slot namePortMap (be_Name backend) @ [GetPort port])) namePortMap) m))"

definition mergeBackendsInNamespaceNamePortMap ::
  "'b Lib \<Rightarrow> Backend list \<Rightarrow> namespaceNamePorts \<Rightarrow> namespaceNamePorts" where
  "mergeBackendsInNamespaceNamePortMap L backends m = fold (mergeBackend L) backends m"

definition mergeHTTPRoute :: "'b Lib \<Rightarrow> HTTPRoute \<Rightarrow> namespaceNamePorts \<Rightarrow> namespaceNamePorts" where
  "mergeHTTPRoute L r m =
     fold (\<lambda>mirror m. case mir_Backend mirror of
                        None \<Rightarrow> m
                      | Some b \<Rightarrow> mergeBackendsInNamespaceNamePortMap L [b] m)
       (hr_RequestMirrors r) (mergeBackendsInNamespaceNamePortMap L (hr_Backends r) m)"

definition mergeHTTP :: "'b Lib \<Rightarrow> Model \<Rightarrow> namespaceNamePorts \<Rightarrow> namespaceNamePorts" where
  "mergeHTTP L m = fold (\<lambda>l. fold (mergeHTTPRoute L) (hl_Routes l)) (m_HTTP m)"

definition mergeTLS :: "'b Lib \<Rightarrow> Model \<Rightarrow> namespaceNamePorts \<Rightarrow> namespaceNamePorts" where
  "mergeTLS L m =
     fold (\<lambda>l. fold (\<lambda>r. mergeBackendsInNamespaceNamePortMap L (tr_Backends r)) (tl_Routes l)) (m_TLS m)"

definition mergeTCP :: "'b Lib \<Rightarrow> Model \<Rightarrow> namespaceNamePorts \<Rightarrow> namespaceNamePorts" where
  "mergeTCP L m =
     fold (\<lambda>l. fold (\<lambda>r. mergeBackendsInNamespaceNamePortMap L (tcr_Backends r)) (tcl_Routes l)) (m_TCP m)"

definition getNamespaceNamePortsMap :: "'b Lib \<Rightarrow> Model \<Rightarrow> namespaceNamePorts" where
  "getNamespaceNamePortsMap L m = mergeTCP L m (mergeTLS L m (mergeHTTP L m []))"

definition getNamespaceNamePortsMapForHTTP :: "'b Lib \<Rightarrow> Model \<Rightarrow> namespaceNamePorts" where
  "getNamespaceNamePortsMapForHTTP L m = mergeHTTP L m []"

definition getNamespaceNamePortsMapForTLS :: "'b Lib \<Rightarrow> Model \<Rightarrow> namespaceNamePorts" where
  "getNamespaceNamePortsMapForTLS L m = mergeTLS L m []"

definition getNamespaceNamePortsMapForTCP :: "'b Lib \<Rightarrow> Model \<Rightarrow> namespaceNamePorts" where
  "getNamespaceNamePortsMapForTCP L m = mergeTCP L m []"

text \<open>The triples that the two nested loops over the map visit.\<close>

definition mapEntries :: "namespaceNamePorts \<Rightarrow> (string \<times> string \<times> string list) list" where
  "mapEntries m = concat (map (\<lambda>(ns, v). map (\<lambda>(name, ports). (ns, name, ports)) v) m)"

record DolphinService =
  ds_Name :: string
  ds_Namespace :: string
  ds_Ports :: "string list"

text \<open>The third case is never reached: two services have different namespaces or names.\<close>

definition serviceLess :: "DolphinService \<Rightarrow> DolphinService \<Rightarrow> bool" where
  "serviceLess a b =
     (if ds_Namespace a \<noteq> ds_Namespace b then ds_Namespace a < ds_Namespace b
      else if ds_Name a \<noteq> ds_Name b then ds_Name a < ds_Name b
      else ds_Ports a ! 0 < ds_Ports b ! 0)"

definition backendServicesFrom :: "(string \<times> string \<times> string list) list \<Rightarrow> DolphinService list" where
  "backendServicesFrom es =
     sort_by serviceLess
       (map (\<lambda>(ns, name, ports). \<lparr>ds_Name = name, ds_Namespace = ns, ds_Ports = ports\<rparr>) es)"

definition getBackendServices :: "'b Lib \<Rightarrow> Model \<Rightarrow> DolphinService list" where
  "getBackendServices L m = backendServicesFrom (mapEntries (getNamespaceNamePortsMap L m))"

record ServiceListener =
  sl_Name :: string
  sl_Namespace :: string
  sl_Ports :: "uint16 list"

text \<open>The ports of the listeners as the keys of a map; zero is tested before the conversion.\<close>

definition listenerPorts :: "Model \<Rightarrow> uint32 list" where
  "listenerPorts m = map hl_Port (m_HTTP m) @ map tl_Port (m_TLS m) @ map tcl_Port (m_TCP m)"

definition getServices :: "defaultTranslator \<Rightarrow> Model \<Rightarrow> ServiceListener list" where
  "getServices T m =
     [\<lparr>sl_Name = dt_name T, sl_Namespace = dt_namespace T,
       sl_Ports = sort (remdups (map (\<lambda>p. ucast p) (filter (\<lambda>p. p \<noteq> 0) (listenerPorts m))))\<rparr>]"

section \<open>The listener\<close>

definition addTLSSecret ::
  "string \<Rightarrow> TLSSecret \<Rightarrow> (TLSSecret \<times> string list) list \<Rightarrow> (TLSSecret \<times> string list) list" where
  "addTLSSecret hostname s m = AList.update s (slot m s @ [hostname]) m"

definition tlsSecretsToHostnames :: "HTTPListener list \<Rightarrow> (TLSSecret \<times> string list) list" where
  "tlsSecretsToHostnames httpListeners =
     fold (\<lambda>h. fold (addTLSSecret (hl_Hostname h)) (case hl_TLS h of Some ss \<Rightarrow> ss | None \<Rightarrow> []))
       httpListeners []"

definition addPassthrough ::
  "string \<Rightarrow> string list \<Rightarrow> Backend \<Rightarrow> (string \<times> tlsPassthroughBackend) list \<Rightarrow>
   (string \<times> tlsPassthroughBackend) list option" where
  "addPassthrough listenerName hostnames backend m =
     do {
       key \<leftarrow> backendCluster backend;
       let entry = (case map_of m key of Some e \<Rightarrow> e | None \<Rightarrow> \<lparr>pt_Hostnames = [], pt_StatPrefix = []\<rparr>);
       let entry = entry\<lparr>pt_Hostnames := pt_Hostnames entry @ hostnames\<rparr>;
       let entry = (case hostnames of
                      [] \<Rightarrow> entry
                    | h # _ \<Rightarrow> entry\<lparr>pt_StatPrefix := listenerName @ '':'' @ h\<rparr>);
       Some (AList.update key entry m) }"

definition tlsPassthroughBackendsToHostnames ::
  "TLSListener list \<Rightarrow> (string \<times> tlsPassthroughBackend) list option" where
  "tlsPassthroughBackendsToHostnames tlsListeners =
     foldM (\<lambda>listener. foldM (\<lambda>route. foldM (addPassthrough (tl_Name listener) (tr_Hostnames route))
         (tr_Backends route)) (tl_Routes listener)) tlsListeners []"

definition listenerMutators :: "'b Lib \<Rightarrow> defaultTranslator \<Rightarrow> ('b EnvoyListener \<Rightarrow> 'b EnvoyListener) list" where
  "listenerMutators L T = (if dt_useProxyProtocol T then [WithProxyProtocol L] else [])"

definition getListener ::
  "'b Lib \<Rightarrow> uint32 \<Rightarrow> defaultTranslator \<Rightarrow> Model \<Rightarrow> 'b XDSResource list option" where
  "getListener L xff T m =
     (if length (m_HTTP m) = 0 \<and> length (m_TLS m) = 0 then Some []
      else do {
        pts \<leftarrow> tlsPassthroughBackendsToHostnames (m_TLS m);
        Some [newListenerWithDefaults L xff ''listener'' (dt_secretsNamespace T) (length (m_HTTP m) > 0)
                (tlsSecretsToHostnames (m_HTTP m)) pts (dt_ipv4Enabled T) (dt_ipv6Enabled T)
                (listenerMutators L T)] })"

definition getHTTPRouteListener ::
  "'b Lib \<Rightarrow> uint32 \<Rightarrow> defaultTranslator \<Rightarrow> Model \<Rightarrow> 'b XDSResource list" where
  "getHTTPRouteListener L xff T m =
     (if length (m_HTTP m) = 0 then []
      else [NewHTTPListenerWithDefaults L xff ''listener'' (dt_secretsNamespace T)
              (tlsSecretsToHostnames (m_HTTP m)) (listenerMutators L T)])"

definition addSNIBackend ::
  "string list \<Rightarrow> Backend \<Rightarrow> (string \<times> string list) list \<Rightarrow> (string \<times> string list) list option" where
  "addSNIBackend hostnames backend m =
     do { key \<leftarrow> backendCluster backend; Some (AList.update key (slot m key @ hostnames) m) }"

definition getTLSRouteListener ::
  "'b Lib \<Rightarrow> defaultTranslator \<Rightarrow> Model \<Rightarrow> 'b XDSResource list option" where
  "getTLSRouteListener L T m =
     (if length (m_TLS m) = 0 then Some []
      else do {
        backendsMap \<leftarrow> foldM (\<lambda>h. foldM (\<lambda>route. foldM (addSNIBackend (tr_Hostnames route)) (tr_Backends route))
            (tl_Routes h)) (m_TLS m) [];
        Some (if length backendsMap = 0 then []
              else [NewSNIListenerWithDefaults L ''listener'' backendsMap (listenerMutators L T)]) })"

section \<open>Route configurations\<close>

type_synonym routeTables = "(string \<times> string list) list \<times> ((string \<times> string) \<times> HTTPRoute list) list"

definition listenerScheme :: "HTTPListener \<Rightarrow> string" where
  "listenerScheme l = (if hl_TLS l \<noteq> None then secureHost else insecureHost)"

definition routeHosts :: "HTTPListener \<Rightarrow> HTTPRoute \<Rightarrow> string list" where
  "routeHosts l r = (if length (hr_Hostnames r) = 0 then [hl_Hostname l] else hr_Hostnames r)"

text \<open>\<open>portHostName\<close> and \<open>hostNamePortRoutes\<close>, the second keyed by the pair of its two keys.\<close>

definition addHostRoute :: "string \<Rightarrow> HTTPRoute \<Rightarrow> string \<Rightarrow> routeTables \<Rightarrow> routeTables" where
  "addHostRoute port r h t =
     (AList.update port (slot (fst t) port @ [h]) (fst t),
      AList.update (h, port) (slot (snd t) (h, port) @ [r]) (snd t))"

definition routeTablesOf :: "Model \<Rightarrow> routeTables" where
  "routeTablesOf m =
     fold (\<lambda>l. fold (\<lambda>r. fold (addHostRoute (listenerScheme l) r) (routeHosts l r)) (hl_Routes l))
       (m_HTTP m) ([], [])"

definition newVirtualHost ::
  "'b Lib \<Rightarrow> defaultTranslator \<Rightarrow> Model \<Rightarrow> bool \<Rightarrow> HTTPRoute list \<Rightarrow> string \<Rightarrow> VirtualHost option" where
  "newVirtualHost L T m redirect routes h =
     (case m_HTTP m of
        [] \<Rightarrow> None
      | l0 # _ \<Rightarrow>
        NewVirtualHost L routes
          \<lparr>vp_HostNames = [h], vp_HTTPSRedirect = redirect,
           vp_HostNameSuffixMatch = dt_hostNameSuffixMatch T, vp_ListenerPort = hl_Port l0\<rparr>)"

definition virtualHostsOf ::
  "'b Lib \<Rightarrow> defaultTranslator \<Rightarrow> Model \<Rightarrow> routeTables \<Rightarrow> string \<Rightarrow> string list \<Rightarrow> VirtualHost list option" where
  "virtualHostsOf L T m t port hostNames =
     do {
       let redirectedHost = (if port = insecureHost \<and> dt_enforceHTTPs T
                             then lib_Unique L (slot (fst t) secureHost) else []);
       redirects \<leftarrow> mapM (\<lambda>h. newVirtualHost L T m True (slot (snd t) (h, secureHost)) h) redirectedHost;
       plain \<leftarrow> mapM (\<lambda>h. newVirtualHost L T m False (slot (snd t) (h, port)) h)
         (filter (\<lambda>h. \<not> (port = insecureHost \<and> h \<in> set redirectedHost) \<and> map_of (snd t) (h, port) \<noteq> None)
           (lib_Unique L hostNames));
       Some (sort_by (by_key vh_Name) (redirects @ plain)) }"

definition routeConfigurations ::
  "'b Lib \<Rightarrow> defaultTranslator \<Rightarrow> Model \<Rightarrow> RouteConfiguration list option" where
  "routeConfigurations L T m =
     (let t = routeTablesOf m in
      concatMapM (\<lambda>port.
        case map_of (fst t) port of
          None \<Rightarrow> Some (if port = insecureHost \<and> length (m_HTTP m) > 0
                        then [\<lparr>rc_Name = ''listener-insecure'', rc_VirtualHosts = []\<rparr>] else [])
        | Some hostNames \<Rightarrow>
          do { virtualhosts \<leftarrow> virtualHostsOf L T m t port hostNames;
               Some [\<lparr>rc_Name = ''listener-'' @ port, rc_VirtualHosts = virtualhosts\<rparr>] })
        [insecureHost, secureHost])"

definition getEnvoyHTTPRouteConfiguration ::
  "'b Lib \<Rightarrow> defaultTranslator \<Rightarrow> Model \<Rightarrow> 'b XDSResource list option" where
  "getEnvoyHTTPRouteConfiguration L T m =
     map_option (map (\<lambda>rc. NewRouteConfiguration L (rc_Name rc) (rc_VirtualHosts rc) []))
       (routeConfigurations L T m)"

section \<open>Clusters\<close>

definition getClusterServiceName :: "string \<Rightarrow> string \<Rightarrow> string \<Rightarrow> string" where
  "getClusterServiceName ns name port = ns @ ''/'' @ name @ '':'' @ port"

text \<open>The hostname for upstream TLS: the first one of the last route that has any.\<close>

definition upstreamHostname :: "Model \<Rightarrow> string" where
  "upstreamHostname m =
     fold (\<lambda>l. fold (\<lambda>r hostname. case hr_Hostnames r of [] \<Rightarrow> hostname | h # _ \<Rightarrow> h) (hl_Routes l))
       (m_HTTP m) ''''"

definition httpClusterMutators ::
  "'b Lib \<Rightarrow> defaultTranslator \<Rightarrow> Model \<Rightarrow> string \<Rightarrow> ('b EnvoyCluster \<Rightarrow> 'b EnvoyCluster) list" where
  "httpClusterMutators L T m port =
     [WithConnectionTimeout 5, WithIdleTimeout L (dt_idleTimeoutSeconds T), WithClusterLbPolicy 0,
      WithOutlierDetection True] @
     (if port = ''443''
      then [WithUpstreamTLS L (dt_secretsNamespace T) ''example-cert'' (upstreamHostname m)] else [])"

type_synonym 'b clusterTable = "(string \<times> 'b XDSResource) list \<times> string list"

definition addHTTPCluster ::
  "'b Lib \<Rightarrow> defaultTranslator \<Rightarrow> Model \<Rightarrow> string \<times> string \<times> string \<Rightarrow> 'b clusterTable \<Rightarrow> 'b clusterTable" where
  "addHTTPCluster L T m = (\<lambda>(ns, name, port) (envoyClusters, names).
     let clusterName = getClusterName ns name port in
     (AList.update clusterName
        (NewHTTPCluster L clusterName (getClusterServiceName ns name port) (httpClusterMutators L T m port))
        envoyClusters,
      names @ [clusterName]))"

definition addTCPCluster ::
  "'b Lib \<Rightarrow> string \<times> string \<times> string \<Rightarrow> 'b clusterTable \<Rightarrow> 'b clusterTable" where
  "addTCPCluster L = (\<lambda>(ns, name, port) (envoyClusters, names).
     let clusterName = getClusterName ns name port in
     if map_of envoyClusters clusterName \<noteq> None then (envoyClusters, names)
     else (AList.update clusterName
             (NewTCPClusterWithDefaults L clusterName (getClusterServiceName ns name port) []) envoyClusters,
           names @ [clusterName]))"

definition portTriples :: "(string \<times> string \<times> string list) list \<Rightarrow> (string \<times> string \<times> string) list" where
  "portTriples es = concat (map (\<lambda>(ns, name, ports). map (\<lambda>port. (ns, name, port)) ports) es)"

text \<open>The table of clusters, from the entries of the three maps in some order.\<close>

definition clusterTableFrom ::
  "'b Lib \<Rightarrow> defaultTranslator \<Rightarrow> Model \<Rightarrow> (string \<times> string \<times> string) list \<Rightarrow>
   (string \<times> string \<times> string) list \<Rightarrow> (string \<times> string \<times> string) list \<Rightarrow> 'b clusterTable" where
  "clusterTableFrom L T m http tls tcp =
     fold (addTCPCluster L) tcp (fold (addTCPCluster L) tls (fold (addHTTPCluster L T m) http ([], [])))"

definition clusterTable :: "'b Lib \<Rightarrow> defaultTranslator \<Rightarrow> Model \<Rightarrow> 'b clusterTable" where
  "clusterTable L T m =
     clusterTableFrom L T m (portTriples (mapEntries (getNamespaceNamePortsMapForHTTP L m)))
       (portTriples (mapEntries (getNamespaceNamePortsMapForTLS L m)))
       (portTriples (mapEntries (getNamespaceNamePortsMapForTCP L m)))"

text \<open>The resources in the order of their sorted names; a missing key would be the zero resource.\<close>

definition clustersOf :: "'b clusterTable \<Rightarrow> 'b XDSResource list" where
  "clustersOf t = map (\<lambda>name. case map_of (fst t) name of Some r \<Rightarrow> r | None \<Rightarrow> None) (sort (snd t))"

definition getClusters :: "'b Lib \<Rightarrow> defaultTranslator \<Rightarrow> Model \<Rightarrow> 'b XDSResource list" where
  "getClusters L T m = clustersOf (clusterTable L T m)"

definition isGRPCService :: "Model \<Rightarrow> string \<Rightarrow> string \<Rightarrow> string \<Rightarrow> bool" where
  "isGRPCService m ns name port \<longleftrightarrow>
     (\<exists>l \<in> set (m_HTTP m). \<exists>r \<in> set (hl_Routes l). hr_IsGRPC r \<and>
        (\<exists>be \<in> set (hr_Backends r). be_Name be = name \<and> be_Namespace be = ns \<and>
           (case be_Port be of None \<Rightarrow> False | Some p \<Rightarrow> GetPort p = port)))"

section \<open>TCP listeners and the whole configuration\<close>

text \<open>The first route with a backend decides; without a port it gives no cluster.\<close>

fun tcpCluster :: "TCPRoute list \<Rightarrow> string" where
  "tcpCluster [] = ''''"
| "tcpCluster (route # routes) =
     (case tcr_Backends route of
        [] \<Rightarrow> tcpCluster routes
      | backend # _ \<Rightarrow>
        (case be_Port backend of
           Some p \<Rightarrow> getClusterName (be_Namespace backend) (be_Name backend) (GetPort p)
         | None \<Rightarrow> ''''))"

definition getTCPRouteListeners :: "'b Lib \<Rightarrow> Model \<Rightarrow> 'b XDSResource list" where
  "getTCPRouteListeners L m =
     filter (\<lambda>r. r \<noteq> None)
       (map (\<lambda>l. NewTCPListenerWithDefaults L ''tcp-listener'' (tcl_Port l) (tcpCluster (tcl_Routes l)) [])
         (filter (\<lambda>l. tcpCluster (tcl_Routes l) \<noteq> '''') (m_TCP m)))"

definition getResources ::
  "'b Lib \<Rightarrow> uint32 \<Rightarrow> defaultTranslator \<Rightarrow> Model \<Rightarrow> 'b XDSResource list option" where
  "getResources L xff T m =
     do {
       listeners \<leftarrow> getListener L xff T m;
       routes \<leftarrow> getEnvoyHTTPRouteConfiguration L T m;
       Some (listeners @ routes @ getClusters L T m @ getTCPRouteListeners L m) }"

record OwnerReference =
  or_APIVersion :: string
  or_Kind :: string
  or_Name :: string
  or_UID :: string
  or_Controller :: "bool option"

record 'b DolphinEnvoyConfig =
  dec_Name :: string
  dec_Namespace :: string
  dec_Labels :: string_map
  dec_OwnerReferences :: "OwnerReference list"
  dec_BackendServices :: "DolphinService list"
  dec_Services :: "ServiceListener list"
  dec_Resources :: "'b XDSResource list"

definition Translate ::
  "'b Lib \<Rightarrow> uint32 \<Rightarrow> defaultTranslator \<Rightarrow> Model \<Rightarrow> 'b DolphinEnvoyConfig option" where
  "Translate L xff T m =
     do {
       resources \<leftarrow> getResources L xff T m;
       Some \<lparr>dec_Name = dt_name T, dec_Namespace = dt_namespace T,
             dec_Labels = [(lib_UseOriginalSourceAddressLabel L, ''false'')],
             dec_OwnerReferences = [], dec_BackendServices = getBackendServices L m,
             dec_Services = getServices T m, dec_Resources = resources\<rparr> }"

end
