(* ===== verification/Translator_Services.thy ===== *)
theory Translator_Services
  imports Translator
begin

text \<open>
  What the maps of services and ports hold, and that the lists built by ranging over them do
  not depend on the order of the iteration: the backend services, the ports of the listener
  service and the clusters of a DolphinEnvoyConfig.
\<close>

section \<open>The backends of a model\<close>

definition httpBackends :: "Model \<Rightarrow> Backend list" where
  "httpBackends m = concat (map (\<lambda>l. concat (map routeBackends (hl_Routes l))) (m_HTTP m))"

definition tlsBackends :: "Model \<Rightarrow> Backend list" where
  "tlsBackends m = concat (map (\<lambda>l. concat (map tr_Backends (tl_Routes l))) (m_TLS m))"

definition tcpBackends :: "Model \<Rightarrow> Backend list" where
  "tcpBackends m = concat (map (\<lambda>l. concat (map tcr_Backends (tcl_Routes l))) (m_TCP m))"

abbreviation envoyBackends :: "Model \<Rightarrow> Backend list" where
  "envoyBackends m \<equiv> httpBackends m @ tlsBackends m @ tcpBackends m"

text \<open>The ports under which a list of backends refers to a service.\<close>

definition backendPorts :: "Backend list \<Rightarrow> string \<Rightarrow> string \<Rightarrow> string set" where
  "backendPorts bs ns name =
     {GetPort p | b p. b \<in> set bs \<and> be_Port b = Some p \<and> be_Namespace b = ns \<and> be_Name b = name}"

lemma finite_backendPorts [simp]: "finite (backendPorts bs ns name)"
proof (rule finite_subset)
  show "backendPorts bs ns name \<subseteq> (\<lambda>b. GetPort (the (be_Port b))) ` set bs"
    by (force simp: backendPorts_def)
qed simp

lemma backendPorts_append:
  "backendPorts (xs @ ys) ns name = backendPorts xs ns name \<union> backendPorts ys ns name"
  by (auto simp: backendPorts_def)

lemma fold_concat_map: "fold f (concat (map g xs)) = fold (\<lambda>x. fold f (g x)) xs"
  by (induction xs) (auto simp: fun_eq_iff)

lemma mergeHTTPRoute_fold: "mergeHTTPRoute L r = fold (mergeBackend L) (routeBackends r)"
proof -
  have "fold (\<lambda>mirror m. case mir_Backend mirror of None \<Rightarrow> m | Some b \<Rightarrow> fold (mergeBackend L) [b] m) ms =
        fold (mergeBackend L) (List.map_filter mir_Backend ms)" for ms :: "HttpRequestMirror list"
    by (induction ms) (auto simp: map_filter_simps fun_eq_iff split: option.split)
  then show ?thesis
    unfolding mergeHTTPRoute_def mergeBackendsInNamespaceNamePortMap_def routeBackends_def
    by (intro ext) (simp only: fold_append comp_apply)
qed

lemma merge_fold:
  "mergeHTTP L m = fold (mergeBackend L) (httpBackends m)"
  "mergeTLS L m = fold (mergeBackend L) (tlsBackends m)"
  "mergeTCP L m = fold (mergeBackend L) (tcpBackends m)"
  by (simp_all add: mergeHTTP_def mergeTLS_def mergeTCP_def httpBackends_def tlsBackends_def tcpBackends_def
      fold_concat_map mergeHTTPRoute_fold [abs_def] mergeBackendsInNamespaceNamePortMap_def [abs_def])

lemma getNamespaceNamePortsMap_fold:
  "getNamespaceNamePortsMap L m = fold (mergeBackend L) (envoyBackends m) []"
  by (simp add: getNamespaceNamePortsMap_def merge_fold)

section \<open>The maps of ports\<close>

definition portsAt :: "namespaceNamePorts \<Rightarrow> string \<Rightarrow> string \<Rightarrow> string list" where
  "portsAt m ns name = slot (slot m ns) name"

definition wf_ports :: "namespaceNamePorts \<Rightarrow> bool" where
  "wf_ports m \<longleftrightarrow> distinct (map fst m) \<and>
     (\<forall>(ns, v) \<in> set m. distinct (map fst v) \<and> (\<forall>(name, ports) \<in> set v. ports \<noteq> []))"

lemma slot_update [simp]: "slot (AList.update k xs m) k' = (if k' = k then xs else slot m k')"
  by (simp add: slot_def update_conv)

lemma portsAt_mergeBackend:
  "portsAt (mergeBackend L b m) ns name =
     (case be_Port b of
        Some p \<Rightarrow> if be_Namespace b = ns \<and> be_Name b = name
                  then lib_SortedUniqs L (portsAt m ns name @ [GetPort p]) else portsAt m ns name
      | None \<Rightarrow> portsAt m ns name)"
  by (auto simp: portsAt_def mergeBackend_def Let_def split: option.split)

lemma portsAt_fold:
  assumes "lib_ok L"
  shows "set (portsAt (fold (mergeBackend L) bs m) ns name) =
         set (portsAt m ns name) \<union> backendPorts bs ns name"
proof (induction bs arbitrary: m)
  case (Cons b bs)
  show ?case
    using Cons.IH [of "mergeBackend L b m"] lib_okD(8) [OF assms]
    by (auto simp: portsAt_mergeBackend backendPorts_def split: option.splits)
qed (simp add: backendPorts_def)

lemma portsAt_sorted:
  assumes "lib_ok L" "sorted (portsAt m ns name) \<and> distinct (portsAt m ns name)"
  shows "sorted (portsAt (fold (mergeBackend L) bs m) ns name) \<and>
         distinct (portsAt (fold (mergeBackend L) bs m) ns name)"
  using assms(2)
proof (induction bs arbitrary: m)
  case (Cons b bs)
  have "sorted (portsAt (mergeBackend L b m) ns name) \<and> distinct (portsAt (mergeBackend L b m) ns name)"
    using Cons.prems lib_okD(6,7) [OF assms(1)] by (simp add: portsAt_mergeBackend split: option.split)
  then show ?case using Cons.IH by simp
qed simp

lemma portsAt_eq:
  assumes "lib_ok L"
  shows "portsAt (fold (mergeBackend L) bs []) ns name = sorted_list_of_set (backendPorts bs ns name)"
proof -
  have nil: "portsAt [] ns name = []" by (simp add: portsAt_def slot_def)
  have "set (portsAt (fold (mergeBackend L) bs []) ns name) = backendPorts bs ns name"
    using portsAt_fold [OF assms, of bs "[]" ns name] nil by simp
  then show ?thesis
    using portsAt_sorted [OF assms, of "[]" ns name bs] nil
    by (metis distinct.simps(1) sorted_list_of_set.idem_if_sorted_distinct sorted_wrt.simps(1))
qed

lemma in_set_update: "(k', v') \<in> set (AList.update k v m) \<Longrightarrow> (k', v') = (k, v) \<or> (k', v') \<in> set m"
  by (induction m) (auto split: if_splits)

lemma wf_mergeBackend:
  assumes "lib_ok L" "wf_ports m" shows "wf_ports (mergeBackend L b m)"
proof (cases "be_Port b")
  case (Some p)
  let ?v = "slot m (be_Namespace b)"
  let ?ps = "lib_SortedUniqs L (slot ?v (be_Name b) @ [GetPort p])"
  have v: "distinct (map fst ?v) \<and> (\<forall>(name, ports) \<in> set ?v. ports \<noteq> [])"
    using assms(2) by (auto simp: wf_ports_def slot_def dest: map_of_SomeD split: option.split)
  have "?ps \<noteq> []" using lib_okD(8) [OF assms(1), of "slot ?v (be_Name b) @ [GetPort p]"] by auto
  then have upd: "distinct (map fst (AList.update (be_Name b) ?ps ?v)) \<and>
      (\<forall>(name, ports) \<in> set (AList.update (be_Name b) ?ps ?v). ports \<noteq> [])"
    using v by (auto simp: distinct_update dest!: in_set_update)
  show ?thesis
    using upd assms(2) unfolding wf_ports_def mergeBackend_def Some
    by (auto simp: Let_def distinct_update dest!: in_set_update)
qed (use assms in \<open>simp add: mergeBackend_def\<close>)

lemma wf_fold:
  assumes "lib_ok L" shows "wf_ports (fold (mergeBackend L) bs [])"
proof -
  have "wf_ports m \<Longrightarrow> wf_ports (fold (mergeBackend L) bs m)" for m
    by (induction bs arbitrary: m) (simp_all add: wf_mergeBackend assms)
  moreover have "wf_ports []" by (simp add: wf_ports_def)
  ultimately show ?thesis by blast
qed

section \<open>What an iteration visits\<close>

lemma mapEntries_iff:
  assumes "wf_ports m"
  shows "(ns, name, ports) \<in> set (mapEntries m) \<longleftrightarrow> ports \<noteq> [] \<and> portsAt m ns name = ports"
proof
  assume "(ns, name, ports) \<in> set (mapEntries m)"
  then obtain v where v: "(ns, v) \<in> set m" "(name, ports) \<in> set v" by (auto simp: mapEntries_def)
  then have "map_of m ns = Some v" "map_of v name = Some ports" "ports \<noteq> []"
    using assms by (auto simp: wf_ports_def intro!: map_of_is_SomeI)
  then show "ports \<noteq> [] \<and> portsAt m ns name = ports" by (simp add: portsAt_def slot_def)
next
  assume "ports \<noteq> [] \<and> portsAt m ns name = ports"
  then obtain v where "map_of m ns = Some v" "map_of v name = Some ports"
    by (auto simp: portsAt_def slot_def split: option.splits)
  then show "(ns, name, ports) \<in> set (mapEntries m)"
    by (force simp: mapEntries_def dest: map_of_SomeD)
qed

lemma distinct_mapEntries:
  "wf_ports m \<Longrightarrow> distinct (map (\<lambda>(ns, name, ports). (ns, name)) (mapEntries m))"
proof (induction m)
  case (Cons e m)
  obtain ns v where e: "e = (ns, v)" by (cases e)
  let ?k = "\<lambda>(ns, name, ports). (ns, name)"
  have wf: "wf_ports m" "distinct (map fst v)" "ns \<notin> fst ` set m"
    using Cons.prems e by (auto simp: wf_ports_def)
  have "map ?k (mapEntries (e # m)) = map (Pair ns) (map fst v) @ map ?k (mapEntries m)"
    by (auto simp: mapEntries_def e)
  moreover have "distinct (map (Pair ns) (map fst v))"
    using wf(2) by (simp only: distinct_map [of "Pair ns"]) (simp add: inj_on_def)
  moreover have "set (map (Pair ns) (map fst v)) \<inter> set (map ?k (mapEntries m)) = {}"
    using wf(3) by (force simp: mapEntries_def)
  ultimately show ?case using Cons.IH [OF wf(1)] by (simp only: distinct_append)
qed (simp add: mapEntries_def)

lemma entries_of_backends:
  assumes "lib_ok L"
  shows "(ns, name, ports) \<in> set (mapEntries (fold (mergeBackend L) bs [])) \<longleftrightarrow>
         backendPorts bs ns name \<noteq> {} \<and> ports = sorted_list_of_set (backendPorts bs ns name)"
  by (auto simp: mapEntries_iff wf_fold assms portsAt_eq)

lemma portTriples_iff:
  "(ns, name, port) \<in> set (portTriples es) \<longleftrightarrow> (\<exists>ports. (ns, name, ports) \<in> set es \<and> port \<in> set ports)"
proof
  assume "\<exists>ports. (ns, name, ports) \<in> set es \<and> port \<in> set ports"
  then obtain ports where "(ns, name, ports) \<in> set es" "port \<in> set ports" by blast
  then show "(ns, name, port) \<in> set (portTriples es)"
    unfolding portTriples_def set_concat set_map by (intro UN_I [of "map (\<lambda>port. (ns, name, port)) ports"]) (auto intro: rev_image_eqI)
qed (auto simp: portTriples_def)

lemma triples_of_backends:
  assumes "lib_ok L"
  shows "set (portTriples (mapEntries (fold (mergeBackend L) bs []))) =
         {(ns, name, port). port \<in> backendPorts bs ns name}"
proof -
  have "(ns, name, port) \<in> set (portTriples (mapEntries (fold (mergeBackend L) bs []))) \<longleftrightarrow>
      port \<in> backendPorts bs ns name" for ns name port
    unfolding portTriples_iff entries_of_backends [OF assms] by auto
  then show ?thesis by auto
qed

lemma image_triple: "(\<lambda>(a, b, c). f a b c) ` S = {f a b c | a b c. (a, b, c) \<in> S}"
  by force

section \<open>Backend services\<close>

lemma serviceLess_key: "serviceLess = by_key (\<lambda>s. (ds_Namespace s, ds_Name s, ds_Ports s ! 0))"
  by (auto simp: serviceLess_def by_key_def fun_eq_iff less_prod_simp)

lemma backendServicesFrom_keys:
  assumes "distinct (map (\<lambda>(ns, name, ports). (ns, name)) es)"
  shows "sorted_wrt (\<lambda>a b. (ds_Namespace a, ds_Name a) < (ds_Namespace b, ds_Name b)) (backendServicesFrom es)"
proof -
  let ?ss = "backendServicesFrom es"
  let ?k = "\<lambda>s. (ds_Namespace s, ds_Name s)"
  have "mset (map ?k ?ss) = mset (map (\<lambda>(ns, name, ports). (ns, name)) es)"
    by (simp add: backendServicesFrom_def) (simp add: mset_map [symmetric] comp_def case_prod_unfold del: mset_map)
  then have "distinct (map ?k ?ss)" using assms mset_eq_imp_distinct_iff by blast
  then have "sorted_wrt (\<lambda>a b. ?k a \<noteq> ?k b) ?ss"
    by (simp add: distinct_conv_nth sorted_wrt_iff_nth_less)
  moreover have "sorted_wrt (\<lambda>a b. \<not> serviceLess b a) ?ss"
    unfolding backendServicesFrom_def serviceLess_key by (rule keyed.sorted_sort_by)
  moreover have "?k a < ?k b" if "?k a \<noteq> ?k b" "\<not> serviceLess b a" for a b :: DolphinService
    using that by (auto simp: serviceLess_def less_prod_simp split: if_splits)
  ultimately show ?thesis unfolding sorted_wrt_iff_nth_less by blast
qed

lemma backendServicesFrom_order:
  assumes "distinct (map (\<lambda>(ns, name, ports). (ns, name)) es)" "mset es' = mset es"
  shows "backendServicesFrom es' = backendServicesFrom es"
  unfolding backendServicesFrom_def serviceLess_key
proof (rule keyed.sort_by_perm)
  let ?f = "\<lambda>(ns, name, ports). \<lparr>ds_Name = name, ds_Namespace = ns, ds_Ports = ports\<rparr>"
  let ?less = "by_key (\<lambda>s. (ds_Namespace s, ds_Name s, ds_Ports s ! 0))"
  show "mset (map ?f es') = mset (map ?f es)" using assms(2) by simp
  have inj: "inj_on (\<lambda>(ns, name, ports). (ns, name)) (set es)" using assms(1) by (simp add: distinct_map)
  fix a b assume ab: "a \<in> set (map ?f es')" "b \<in> set (map ?f es')" "a \<noteq> b"
  have "set es' = set es" using assms(2) by (metis set_mset_mset)
  then have "a \<in> ?f ` set es" "b \<in> ?f ` set es" using ab by simp_all
  then obtain x y where xy: "x \<in> set es" "y \<in> set es" "a = ?f x" "b = ?f y" by (elim imageE)
  then have "(ds_Namespace a, ds_Name a) \<noteq> (ds_Namespace b, ds_Name b)"
    using inj_onD [OF inj, of x y] ab(3) by (auto split: prod.splits)
  then show "?less a b \<or> ?less b a" by (auto simp: by_key_def less_prod_simp)
qed

section \<open>Properties\<close>

text \<open>
  Claim C24. The backend services of a configuration are listed by namespace and name, one for
  every service that an HTTP route, a mirror, a TLS route or a TCP route refers to with a
  port, with the ports of those references in increasing order; and whatever order the
  iteration over the map takes, the list is the same.
\<close>

theorem getBackendServices_correct:
  assumes "lib_ok L"
  shows "sorted_wrt (\<lambda>a b. (ds_Namespace a, ds_Name a) < (ds_Namespace b, ds_Name b)) (getBackendServices L m) \<and>
         set (getBackendServices L m) =
           {\<lparr>ds_Name = name, ds_Namespace = ns, ds_Ports = sorted_list_of_set (backendPorts (envoyBackends m) ns name)\<rparr>
             | ns name. backendPorts (envoyBackends m) ns name \<noteq> {}} \<and>
         (\<forall>es. mset es = mset (mapEntries (getNamespaceNamePortsMap L m)) \<longrightarrow>
            backendServicesFrom es = getBackendServices L m)"
proof -
  let ?es = "mapEntries (getNamespaceNamePortsMap L m)"
  have d: "distinct (map (\<lambda>(ns, name, ports). (ns, name)) ?es)"
    unfolding getNamespaceNamePortsMap_fold by (rule distinct_mapEntries [OF wf_fold [OF assms]])
  have "set (getBackendServices L m) =
      {\<lparr>ds_Name = name, ds_Namespace = ns, ds_Ports = ports\<rparr> | ns name ports. (ns, name, ports) \<in> set ?es}"
    unfolding image_triple [symmetric] by (simp add: getBackendServices_def backendServicesFrom_def)
  then have "set (getBackendServices L m) =
      {\<lparr>ds_Name = name, ds_Namespace = ns, ds_Ports = sorted_list_of_set (backendPorts (envoyBackends m) ns name)\<rparr>
        | ns name. backendPorts (envoyBackends m) ns name \<noteq> {}}"
    unfolding getNamespaceNamePortsMap_fold entries_of_backends [OF assms] by blast
  moreover have "sorted_wrt (\<lambda>a b. (ds_Namespace a, ds_Name a) < (ds_Namespace b, ds_Name b)) (getBackendServices L m)"
    unfolding getBackendServices_def by (rule backendServicesFrom_keys [OF d])
  moreover have "backendServicesFrom es = getBackendServices L m" if "mset es = mset ?es" for es
    unfolding getBackendServices_def by (rule backendServicesFrom_order [OF d that])
  ultimately show ?thesis by blast
qed


text \<open>A model with one listener and one route, on which the definitions evaluate.\<close>

definition demoBackend :: Backend where
  "demoBackend = \<lparr>be_Name = ''web'', be_Namespace = ''prod'', be_Port = Some \<lparr>bp_Port = 8080, bp_Name = ''''\<rparr>,
     be_Weight = None, be_TLS = None\<rparr>"

definition demoModel :: Model where
  "demoModel =
     \<lparr>m_HTTP =
        [\<lparr>hl_Name = ''web'',
          hl_Sources = [\<lparr>fqr_Name = ''gw'', fqr_Namespace = ''prod'', fqr_Group = '''', fqr_Version = '''',
                         fqr_Kind = ''Gateway'', fqr_UID = ''u''\<rparr>],
          hl_Address = '''', hl_Port = 80, hl_Hostname = ''*'', hl_TLS = None,
          hl_Routes = [zeroHTTPRoute\<lparr>hr_Hostnames := [''a.com''], hr_Backends := [demoBackend]\<rparr>],
          hl_Service = None, hl_Infrastructure = None, hl_ForceHTTPtoHTTPSRedirect = False\<rparr>],
      m_TLS = [], m_TCP = [], m_UDP = []\<rparr>"

definition demoTranslator :: defaultTranslator where
  "demoTranslator = NewTranslator ''cfg'' ''prod'' ''secrets'' False False True 60 True False"

lemma demo_backends: "envoyBackends demoModel = [demoBackend]"
  by (simp add: httpBackends_def tlsBackends_def tcpBackends_def demoModel_def routeBackends_def
      zeroHTTPRoute_def map_filter_simps)

theorem getBackendServices_correct_witness:
  "lib_ok exampleLib \<and> backendPorts (envoyBackends demoModel) ''prod'' ''web'' = {GetPort \<lparr>bp_Port = 8080, bp_Name = ''''\<rparr>} \<and>
   \<lparr>ds_Name = ''web'', ds_Namespace = ''prod'', ds_Ports = [GetPort \<lparr>bp_Port = 8080, bp_Name = ''''\<rparr>]\<rparr>
     \<in> set (getBackendServices exampleLib demoModel)"
proof -
  have p: "backendPorts (envoyBackends demoModel) ''prod'' ''web'' = {GetPort \<lparr>bp_Port = 8080, bp_Name = ''''\<rparr>}"
    unfolding demo_backends by (simp add: backendPorts_def demoBackend_def)
  have "\<lparr>ds_Name = ''web'', ds_Namespace = ''prod'',
         ds_Ports = sorted_list_of_set (backendPorts (envoyBackends demoModel) ''prod'' ''web'')\<rparr>
     \<in> set (getBackendServices exampleLib demoModel)"
    using getBackendServices_correct [OF exampleLib_ok, of demoModel] p by blast
  then show ?thesis using p exampleLib_ok by simp
qed


end
