(* ===== verification/Translator_References.thy ===== *)
theory Translator_References
  imports Translator_Services
begin

text \<open>
  The clusters of a configuration and the references to them: which clusters are generated,
  that they do not depend on the order in which the maps of backends are visited, and that
  every cluster that a route, a mirror, a TLS filter chain or a TCP listener names is one of
  them.
\<close>

section \<open>Names of clusters\<close>

type_synonym triple = "string \<times> string \<times> string"

definition cn :: "triple \<Rightarrow> string" where
  "cn t = getClusterName (fst t) (fst (snd t)) (snd (snd t))"

definition modelTriples :: "Backend list \<Rightarrow> triple set" where
  "modelTriples bs = {(ns, name, port). port \<in> backendPorts bs ns name}"

lemma modelTriples_append: "modelTriples (xs @ ys) = modelTriples xs \<union> modelTriples ys"
  by (auto simp: modelTriples_def backendPorts_append)

text \<open>Names of Kubernetes objects are DNS labels, so they have no colon.\<close>

definition colon_free :: "Backend list \<Rightarrow> bool" where
  "colon_free bs \<longleftrightarrow>
     (\<forall>b \<in> set bs. CHR '':'' \<notin> set (be_Namespace b) \<and> CHR '':'' \<notin> set (be_Name b))"

lemma split_at_first:
  assumes "c \<notin> set xs" "c \<notin> set ys" "xs @ c # zs = ys @ c # ws"
  shows "xs = ys \<and> zs = ws"
proof -
  have t: "takeWhile (\<lambda>x. x \<noteq> c) (us @ c # vs) = us" if "c \<notin> set us" for us vs
    using that by (induction us) auto
  have "xs = ys" using t [OF assms(1), of zs] t [OF assms(2), of ws] assms(3) by simp
  then show ?thesis using assms(3) by simp
qed

lemma cn_inj:
  assumes "colon_free bs" shows "inj_on cn (modelTriples bs)"
proof (rule inj_onI)
  fix s t assume st: "s \<in> modelTriples bs" "t \<in> modelTriples bs" "cn s = cn t"
  have free: "CHR '':'' \<notin> set (fst u) \<and> CHR '':'' \<notin> set (fst (snd u))" if "u \<in> modelTriples bs" for u
    using that assms by (auto simp: modelTriples_def backendPorts_def colon_free_def)
  from split_at_first [of "CHR '':''" "fst s" "fst t" "fst (snd s) @ '':'' @ snd (snd s)"
      "fst (snd t) @ '':'' @ snd (snd t)"]
  have 1: "fst s = fst t" "fst (snd s) @ '':'' @ snd (snd s) = fst (snd t) @ '':'' @ snd (snd t)"
    using free [OF st(1)] free [OF st(2)] st(3) by (simp_all add: cn_def getClusterName_def)
  from split_at_first [of "CHR '':''" "fst (snd s)" "fst (snd t)" "snd (snd s)" "snd (snd t)"]
  show "s = t" using 1 free [OF st(1)] free [OF st(2)] by (simp add: prod_eq_iff)
qed

section \<open>The table of clusters\<close>

definition httpResource :: "'b Lib \<Rightarrow> defaultTranslator \<Rightarrow> Model \<Rightarrow> triple \<Rightarrow> 'b XDSResource" where
  "httpResource L T m t =
     NewHTTPCluster L (cn t) (getClusterServiceName (fst t) (fst (snd t)) (snd (snd t)))
       (httpClusterMutators L T m (snd (snd t)))"

definition tcpResource :: "'b Lib \<Rightarrow> triple \<Rightarrow> 'b XDSResource" where
  "tcpResource L t =
     NewTCPClusterWithDefaults L (cn t) (getClusterServiceName (fst t) (fst (snd t)) (snd (snd t))) []"

lemma addHTTPCluster_eq:
  "addHTTPCluster L T m t tbl = (AList.update (cn t) (httpResource L T m t) (fst tbl), snd tbl @ [cn t])"
  by (simp add: addHTTPCluster_def httpResource_def cn_def Let_def case_prod_unfold)

lemma addTCPCluster_eq:
  "addTCPCluster L t tbl =
     (if map_of (fst tbl) (cn t) \<noteq> None then tbl
      else (AList.update (cn t) (tcpResource L t) (fst tbl), snd tbl @ [cn t]))"
  by (simp add: addTCPCluster_def tcpResource_def cn_def Let_def case_prod_unfold)

text \<open>The names listed are the keys of the table.\<close>

definition wf_table :: "'b clusterTable \<Rightarrow> bool" where
  "wf_table tbl \<longleftrightarrow> dom (map_of (fst tbl)) = set (snd tbl)"

lemma fold_addHTTP_names: "snd (fold (addHTTPCluster L T m) hs tbl) = snd tbl @ map cn hs"
  by (induction hs arbitrary: tbl) (simp_all add: addHTTPCluster_eq)

lemma addHTTP_wf: "wf_table tbl \<Longrightarrow> wf_table (addHTTPCluster L T m t tbl)"
  by (simp add: addHTTPCluster_eq wf_table_def update_conv')

lemma fold_addHTTP_wf: "wf_table tbl \<Longrightarrow> wf_table (fold (addHTTPCluster L T m) hs tbl)"
  by (induction hs arbitrary: tbl) (simp_all add: addHTTP_wf)

lemma fold_addTCP_names:
  "wf_table tbl \<Longrightarrow>
     wf_table (fold (addTCPCluster L) ts tbl) \<and>
     set (snd (fold (addTCPCluster L) ts tbl)) = set (snd tbl) \<union> cn ` set ts \<and>
     (distinct (snd tbl) \<longrightarrow> distinct (snd (fold (addTCPCluster L) ts tbl)))"
proof (induction ts arbitrary: tbl)
  case (Cons t ts)
  have "wf_table (addTCPCluster L t tbl)" using Cons.prems
    by (simp add: addTCPCluster_eq wf_table_def update_conv')
  moreover have "set (snd (addTCPCluster L t tbl)) = set (snd tbl) \<union> {cn t}"
    using Cons.prems by (auto simp: addTCPCluster_eq wf_table_def)
  moreover have "distinct (snd tbl) \<Longrightarrow> distinct (snd (addTCPCluster L t tbl))"
    using Cons.prems by (auto simp: addTCPCluster_eq wf_table_def)
  ultimately show ?case using Cons.IH [of "addTCPCluster L t tbl"] by auto
qed simp

lemma clusterTableFrom_names:
  "wf_table (clusterTableFrom L T m hs ts cs) \<and>
   set (snd (clusterTableFrom L T m hs ts cs)) = cn ` (set hs \<union> set ts \<union> set cs) \<and>
   (distinct (map cn hs) \<longrightarrow> distinct (snd (clusterTableFrom L T m hs ts cs)))"
proof -
  let ?h = "fold (addHTTPCluster L T m) hs ([], [])"
  have h: "wf_table ?h" by (rule fold_addHTTP_wf) (simp add: wf_table_def)
  have names: "snd ?h = map cn hs" by (simp add: fold_addHTTP_names)
  note t = fold_addTCP_names [OF h, of L ts]
  note c = fold_addTCP_names [OF t [THEN conjunct1], of L cs]
  show ?thesis using t c names unfolding clusterTableFrom_def by auto
qed

text \<open>Every name is mapped to a resource that is the marshalled cluster of that name.\<close>

lemma mutators_ec_Name [simp]:
  "ec_Name (WithConnectionTimeout s c) = ec_Name c" "ec_Name (WithIdleTimeout L s c) = ec_Name c"
  "ec_Name (WithClusterLbPolicy p c) = ec_Name c" "ec_Name (WithOutlierDetection b c) = ec_Name c"
  "ec_Name (WithUpstreamTLS L n v sni c) = ec_Name c"
  by (simp_all add: WithConnectionTimeout_def WithIdleTimeout_def Let_def WithClusterLbPolicy_def
      WithOutlierDetection_def WithUpstreamTLS_def split: option.split)

lemma httpResource_named:
  "\<exists>c. httpResource L T m t = packResource L ClusterTypeURL (MsgCluster c) \<and> ec_Name c = cn t"
  unfolding httpResource_def NewHTTPCluster_def
  by (intro exI conjI, rule refl) (simp add: httpClusterMutators_def edsCluster_def)

lemma tcpResource_named:
  "\<exists>c. tcpResource L t = packResource L ClusterTypeURL (MsgCluster c) \<and> ec_Name c = cn t"
  unfolding tcpResource_def NewTCPClusterWithDefaults_def NewTCPCluster_def
  by (intro exI conjI, rule refl) (simp add: edsCluster_def)

lemma fold_addHTTP_lookup:
  assumes "inj_on cn A" "set hs \<subseteq> A" "t \<in> A"
  shows "map_of (fst (fold (addHTTPCluster L T m) hs tbl)) (cn t) =
         (if t \<in> set hs then Some (httpResource L T m t) else map_of (fst tbl) (cn t))"
  using assms(2)
proof (induction hs arbitrary: tbl)
  case (Cons h hs)
  have "cn h = cn t \<longleftrightarrow> h = t" using assms(1,3) Cons.prems by (auto dest: inj_onD)
  with Cons show ?case by (auto simp: addHTTPCluster_eq update_conv)
qed simp

lemma fold_addTCP_lookup:
  assumes "inj_on cn A" "set ts \<subseteq> A" "t \<in> A"
  shows "map_of (fst (fold (addTCPCluster L) ts tbl)) (cn t) =
         (case map_of (fst tbl) (cn t) of
            Some r \<Rightarrow> Some r | None \<Rightarrow> if t \<in> set ts then Some (tcpResource L t) else None)"
  using assms(2)
proof (induction ts arbitrary: tbl)
  case (Cons h ts)
  have "cn h = cn t \<longleftrightarrow> h = t" using assms(1,3) Cons.prems by (auto dest: inj_onD)
  with Cons show ?case by (auto simp: addTCPCluster_eq update_conv split: option.splits)
qed (simp split: option.split)

lemma clusterTableFrom_lookup:
  assumes "inj_on cn (set hs \<union> set ts \<union> set cs)" "t \<in> set hs \<union> set ts \<union> set cs"
  shows "map_of (fst (clusterTableFrom L T m hs ts cs)) (cn t) =
         Some (if t \<in> set hs then httpResource L T m t else tcpResource L t)"
proof -
  let ?A = "set hs \<union> set ts \<union> set cs"
  have sub: "set hs \<subseteq> ?A" "set ts \<subseteq> ?A" "set cs \<subseteq> ?A" by auto
  note look = fold_addHTTP_lookup [OF assms(1) sub(1) assms(2)] fold_addTCP_lookup [OF assms(1) sub(2) assms(2)]
    fold_addTCP_lookup [OF assms(1) sub(3) assms(2)]
  show ?thesis using assms(2) unfolding clusterTableFrom_def look by auto
qed

text \<open>The list of clusters as a function of the three sets of triples alone.\<close>

definition clusterList :: "'b Lib \<Rightarrow> defaultTranslator \<Rightarrow> Model \<Rightarrow> triple set \<Rightarrow> triple set \<Rightarrow> 'b XDSResource list" where
  "clusterList L T m H A =
     map (\<lambda>n. let t = the_inv_into A cn n in if t \<in> H then httpResource L T m t else tcpResource L t)
       (sorted_list_of_set (cn ` A))"

lemma clustersOf_from:
  assumes "inj_on cn (set hs \<union> set ts \<union> set cs)" "distinct hs"
  shows "clustersOf (clusterTableFrom L T m hs ts cs) =
         clusterList L T m (set hs) (set hs \<union> set ts \<union> set cs)"
proof -
  let ?A = "set hs \<union> set ts \<union> set cs"
  let ?tbl = "clusterTableFrom L T m hs ts cs"
  have "distinct (map cn hs)" using assms by (auto simp: distinct_map intro: inj_on_subset)
  then have "sort (snd ?tbl) = sorted_list_of_set (cn ` ?A)"
    using clusterTableFrom_names [of L T m hs ts cs]
    by (metis distinct_sort set_sort sorted_list_of_set.idem_if_sorted_distinct sorted_sort)
  moreover have "(case map_of (fst ?tbl) n of Some r \<Rightarrow> r | None \<Rightarrow> None) =
      (let t = the_inv_into ?A cn n in if t \<in> set hs then httpResource L T m t else tcpResource L t)"
    if "n \<in> cn ` ?A" for n
  proof -
    obtain t where t: "t \<in> ?A" "n = cn t" using \<open>n \<in> cn ` ?A\<close> by (elim imageE)
    then show ?thesis
      using clusterTableFrom_lookup [OF assms(1) t(1), of L T m] the_inv_into_f_f [OF assms(1) t(1)]
      by (simp add: Let_def)
  qed
  ultimately show ?thesis unfolding clustersOf_def clusterList_def by simp
qed

lemma distinct_portTriples:
  assumes "distinct (map (\<lambda>(ns, name, ports). (ns, name)) es)" "\<forall>(ns, name, ports) \<in> set es. distinct ports"
  shows "distinct (portTriples es)"
  using assms
proof (induction es)
  case (Cons e es)
  obtain ns name ports where e: "e = (ns, name, ports)" by (cases e) auto
  have "distinct (map (\<lambda>port. (ns, name, port)) ports)"
    using Cons.prems(2) e by (simp add: distinct_map inj_on_def)
  moreover have "(ns, name, port) \<notin> set (portTriples es)" for port
    using Cons.prems(1) e unfolding portTriples_iff by force
  moreover have "portTriples (e # es) = map (\<lambda>port. (ns, name, port)) ports @ portTriples es"
    by (simp add: portTriples_def e)
  moreover have "distinct (portTriples es)" using Cons by simp
  ultimately show ?case by auto
qed (simp add: portTriples_def)

lemma triples_distinct:
  assumes "lib_ok L" shows "distinct (portTriples (mapEntries (fold (mergeBackend L) bs [])))"
proof (rule distinct_portTriples)
  show "distinct (map (\<lambda>(ns, name, ports). (ns, name)) (mapEntries (fold (mergeBackend L) bs [])))"
    by (rule distinct_mapEntries [OF wf_fold [OF assms]])
  show "\<forall>(ns, name, ports) \<in> set (mapEntries (fold (mergeBackend L) bs [])). distinct ports"
    using entries_of_backends [OF assms] by auto
qed

lemma map_triples:
  assumes "lib_ok L"
  shows "set (portTriples (mapEntries (getNamespaceNamePortsMapForHTTP L m))) = modelTriples (httpBackends m)"
    "set (portTriples (mapEntries (getNamespaceNamePortsMapForTLS L m))) = modelTriples (tlsBackends m)"
    "set (portTriples (mapEntries (getNamespaceNamePortsMapForTCP L m))) = modelTriples (tcpBackends m)"
  by (simp_all add: getNamespaceNamePortsMapForHTTP_def getNamespaceNamePortsMapForTLS_def
      getNamespaceNamePortsMapForTCP_def merge_fold triples_of_backends [OF assms] modelTriples_def)

lemma cluster_names:
  assumes "lib_ok L"
  shows "set (snd (clusterTable L T m)) = cn ` modelTriples (envoyBackends m)"
  unfolding clusterTable_def clusterTableFrom_names [THEN conjunct2, THEN conjunct1] map_triples [OF assms]
  by (simp add: modelTriples_append Un_assoc)

lemma in_modelTriples:
  assumes "b \<in> set bs" "backendCluster b = Some c" shows "c \<in> cn ` modelTriples bs"
proof -
  obtain p where p: "be_Port b = Some p" "c = cn (be_Namespace b, be_Name b, GetPort p)"
    using assms(2) by (auto simp: backendCluster_def bind_eq_Some cn_def)
  then have "(be_Namespace b, be_Name b, GetPort p) \<in> modelTriples bs"
    using assms(1) by (auto simp: modelTriples_def backendPorts_def)
  then show ?thesis using p(2) by blast
qed

section \<open>Clusters named by virtual hosts\<close>

lemma httpsRoutesLoop_no_clusters:
  "httpsRoutesLoop hs sfx mp rs = Some ers \<Longrightarrow> Some er \<in> set ers \<Longrightarrow> routeClusters er = []"
proof (induction rs arbitrary: mp ers)
  case (Cons r rs)
  show ?case
  proof (cases "map_of mp (GetMatchKey r)")
    case None
    then show ?thesis using Cons by simp
  next
    case (Some hRoutes)
    then obtain h t rest where "hRoutes = h # t" "ers = Some (redirectRoute hs sfx h) # rest"
      "httpsRoutesLoop hs sfx (AList.delete (GetMatchKey r) mp) rs = Some rest"
      using Cons.prems(1) by (auto simp: bind_eq_Some split: list.splits)
    then show ?thesis using Cons by (auto simp: redirectRoute_def routeClusters_def)
  qed
qed simp

lemma envoyHTTPRoutes_clusters:
  assumes "envoyHTTPRoutes rs hs sfx port = Some ers" "Some er \<in> set ers" "c \<in> set (routeClusters er)"
  shows "\<exists>b \<in> set (concat (map routeBackends rs)). backendCluster b = Some c"
proof -
  let ?all = "map sortMatches rs"
  obtain r where r: "r \<in> set (emitted ?all {} ?all)"
    "mergedRoute hs sfx port r (groupOf ?all (GetMatchKey r)) = Some (Some er)"
    using assms(1) mapM_set [OF _ assms(2)] unfolding envoyHTTPRoutes_emitted Let_def by blast
  have "r \<in> set ?all" using r(1) by (rule emitted_member)
  then obtain r0 where r0: "r0 \<in> set rs" "r = sortMatches r0" by auto
  obtain b where b: "backendCluster b = Some c"
    "b \<in> set (concat (map hr_Backends (groupOf ?all (GetMatchKey r)))) \<or>
     b \<in> set (List.map_filter mir_Backend (hr_RequestMirrors r))"
    using mergedRoute_clusters [OF r(2) assms(3)] by blast
  then have "b \<in> set (concat (map routeBackends rs))"
  proof (elim disjE)
    assume "b \<in> set (concat (map hr_Backends (groupOf ?all (GetMatchKey r))))"
    then obtain x where "x \<in> set rs" "b \<in> set (hr_Backends x)" by (auto simp: groupOf_def)
    then show ?thesis by (auto simp: routeBackends_def)
  next
    assume "b \<in> set (List.map_filter mir_Backend (hr_RequestMirrors r))"
    then have "b \<in> set (routeBackends r0)" using r0(2) by (simp add: routeBackends_def)
    then show ?thesis using r0(1) by auto
  qed
  with b(1) show ?thesis by blast
qed

lemma sortRoutes_set: "sortRoutes L rs = Some rs' \<Longrightarrow> set rs' = set rs"
  by (auto simp: sortRoutes_def bind_eq_Some mapM_eq_Some list_all2_conv_all_nth in_set_conv_nth image_iff
      split: if_splits) (metis)+

lemma NewVirtualHost_eq_Some:
  "NewVirtualHost L rs param = Some vh \<longleftrightarrow>
     (\<exists>ers sorted d ds.
        (if vp_HTTPSRedirect param
         then envoyHTTPSRoutes rs (vp_HostNames param) (vp_HostNameSuffixMatch param)
         else envoyHTTPRoutes rs (vp_HostNames param) (vp_HostNameSuffixMatch param) (vp_ListenerPort param)) = Some ers \<and>
        sortRoutes L ers = Some sorted \<and> hostDomains [] (vp_HostNames param) = d # ds \<and>
        vh = \<lparr>vh_Name = d, vh_Domains = d # ds, vh_Routes = sorted\<rparr>)"
  by (cases "hostDomains [] (vp_HostNames param)") (auto simp: NewVirtualHost_def bind_eq_Some Let_def)

lemma NewVirtualHost_clusters:
  assumes "NewVirtualHost L rs param = Some vh" "Some er \<in> set (vh_Routes vh)" "c \<in> set (routeClusters er)"
  shows "\<exists>b \<in> set (concat (map routeBackends rs)). backendCluster b = Some c"
proof -
  obtain ers sorted where
    ers: "(if vp_HTTPSRedirect param
           then envoyHTTPSRoutes rs (vp_HostNames param) (vp_HostNameSuffixMatch param)
           else envoyHTTPRoutes rs (vp_HostNames param) (vp_HostNameSuffixMatch param) (vp_ListenerPort param)) = Some ers"
    "sortRoutes L ers = Some sorted" "vh_Routes vh = sorted"
    using assms(1) unfolding NewVirtualHost_eq_Some by auto
  have er: "Some er \<in> set ers" using sortRoutes_set [OF ers(2)] ers(3) assms(2) by simp
  show ?thesis
  proof (cases "vp_HTTPSRedirect param")
    case True
    then have "routeClusters er = []"
      using ers(1) httpsRoutesLoop_no_clusters er by (simp add: envoyHTTPSRoutes_def Let_def)
    then show ?thesis using assms(3) by simp
  next
    case False
    then show ?thesis using ers(1) envoyHTTPRoutes_clusters er assms(3) by simp
  qed
qed

section \<open>The tables of hosts and routes\<close>

text \<open>Every route of the model under its scheme and each of its hosts, in the order of the loops.\<close>

definition hostRoutes :: "Model \<Rightarrow> (string \<times> string \<times> HTTPRoute) list" where
  "hostRoutes m =
     concat (map (\<lambda>l. concat (map (\<lambda>r. map (\<lambda>h. (listenerScheme l, h, r)) (routeHosts l r)) (hl_Routes l)))
       (m_HTTP m))"

definition hostsOn :: "Model \<Rightarrow> string \<Rightarrow> string list" where
  "hostsOn m port = map (\<lambda>(p, h, r). h) (filter (\<lambda>(p, h, r). p = port) (hostRoutes m))"

definition routesOn :: "Model \<Rightarrow> string \<Rightarrow> string \<Rightarrow> HTTPRoute list" where
  "routesOn m h port = map (\<lambda>(p, h, r). r) (filter (\<lambda>(p, h', r). p = port \<and> h' = h) (hostRoutes m))"

lemma fold_map: "fold f (map g xs) s = fold (\<lambda>x. f (g x)) xs s"
  by (induction xs arbitrary: s) auto

lemma routeTablesOf_fold:
  "routeTablesOf m = fold (\<lambda>(port, h, r). addHostRoute port r h) (hostRoutes m) ([], [])"
  unfolding routeTablesOf_def hostRoutes_def fold_concat_map
  by (simp add: fold_map [abs_def] fold_concat_map)

lemma fold_addHostRoute:
  "slot (fst (fold (\<lambda>(port, h, r). addHostRoute port r h) xs t)) port =
     slot (fst t) port @ map (\<lambda>(p, h, r). h) (filter (\<lambda>(p, h, r). p = port) xs) \<and>
   slot (snd (fold (\<lambda>(port, h, r). addHostRoute port r h) xs t)) (h, port) =
     slot (snd t) (h, port) @ map (\<lambda>(p, h, r). r) (filter (\<lambda>(p, h', r). p = port \<and> h' = h) xs) \<and>
   dom (map_of (fst (fold (\<lambda>(port, h, r). addHostRoute port r h) xs t))) =
     dom (map_of (fst t)) \<union> (\<lambda>(p, h, r). p) ` set xs \<and>
   dom (map_of (snd (fold (\<lambda>(port, h, r). addHostRoute port r h) xs t))) =
     dom (map_of (snd t)) \<union> (\<lambda>(p, h, r). (h, p)) ` set xs"
proof (induction xs arbitrary: t)
  case (Cons x xs)
  obtain p h' r where x: "x = (p, h', r)" by (cases x) auto
  show ?case
    using Cons.IH [of "addHostRoute p r h' t"] unfolding x
    by (auto simp: addHostRoute_def update_conv')
qed simp

lemma slot_Nil [simp]: "slot [] k = []"
  by (simp add: slot_def)

lemma routeTables:
  "slot (fst (routeTablesOf m)) port = hostsOn m port"
  "slot (snd (routeTablesOf m)) (h, port) = routesOn m h port"
  "map_of (fst (routeTablesOf m)) port = (if hostsOn m port = [] then None else Some (hostsOn m port))"
  "map_of (snd (routeTablesOf m)) (h, port) = None \<longleftrightarrow> routesOn m h port = []"
proof -
  note t = fold_addHostRoute [where xs = "hostRoutes m" and t = "([], [])" and port = port and h = h,
      folded routeTablesOf_fold, folded hostsOn_def routesOn_def, simplified]
  show s: "slot (fst (routeTablesOf m)) port = hostsOn m port"
    "slot (snd (routeTablesOf m)) (h, port) = routesOn m h port"
    using t by simp_all
  have "map_of (fst (routeTablesOf m)) port = None \<longleftrightarrow> port \<notin> (\<lambda>(p, h, r). p) ` set (hostRoutes m)"
    using t by (metis domIff)
  also have "\<dots> \<longleftrightarrow> hostsOn m port = []"
    by (force simp: hostsOn_def filter_empty_conv)
  finally show "map_of (fst (routeTablesOf m)) port = (if hostsOn m port = [] then None else Some (hostsOn m port))"
    using s(1) by (auto simp: slot_def split: option.splits)
  have "map_of (snd (routeTablesOf m)) (h, port) = None \<longleftrightarrow> (h, port) \<notin> (\<lambda>(p, h, r). (h, p)) ` set (hostRoutes m)"
    using t by (metis domIff)
  also have "\<dots> \<longleftrightarrow> routesOn m h port = []"
    by (force simp: routesOn_def filter_empty_conv)
  finally show "map_of (snd (routeTablesOf m)) (h, port) = None \<longleftrightarrow> routesOn m h port = []" .
qed

end
