(* ===== verification/Translator_Safety.thy ===== *)
theory Translator_Safety
  imports Translator_References
begin

text \<open>
  The default translator as a whole: the route configurations as a function of the hosts of
  the model, the references between its resources, and when a translation cannot panic.
\<close>

section \<open>Virtual hosts by name\<close>

lemma mapM_None_iff: "mapM f xs = None \<longleftrightarrow> (\<exists>x \<in> set xs. f x = None)"
  by (induction xs) (auto split: Option.bind_splits)

lemma mapM_append: "mapM f (xs @ ys) = do { us \<leftarrow> mapM f xs; vs \<leftarrow> mapM f ys; Some (us @ vs) }"
  by (induction xs) (auto split: Option.bind_splits)

lemma mapM_map: "mapM f (map g xs) = mapM (\<lambda>x. f (g x)) xs"
  by (induction xs) auto

text \<open>Sorting the results by a key that names the argument is sorting the arguments.\<close>

lemma mapM_sort:
  assumes "\<And>x y. x \<in> set xs \<Longrightarrow> f x = Some y \<Longrightarrow> key y = x"
  shows "map_option (sort_key key) (mapM f xs) = mapM f (sort xs)"
proof (cases "mapM f xs")
  case None
  then have "mapM f (sort xs) = None" by (simp add: mapM_None_iff)
  with None show ?thesis by simp
next
  case (Some ys)
  then have all2: "list_all2 (\<lambda>x y. f x = Some y) xs ys" by (simp add: mapM_eq_Some)
  have inv: "f (key y) = Some y" if "y \<in> set ys" for y
    using mapM_set [OF Some that] assms by metis
  have "xs = map key ys"
    using all2 assms by (auto simp: list_all2_conv_all_nth intro!: nth_equalityI) (metis nth_mem)
  then have "sort xs = map key (sort_key key ys)"
    by (intro properties_for_sort) simp_all
  then have "mapM f (sort xs) = mapM (\<lambda>y. f (key y)) (sort_key key ys)" by (simp add: mapM_map)
  also have "\<dots> = mapM Some (sort_key key ys)" by (rule mapM_cong) (simp_all add: inv)
  also have "\<dots> = Some (sort_key key ys)" using mapM_Some [of "\<lambda>x. x"] by simp
  finally show ?thesis using Some by simp
qed

lemma newVirtualHost_name:
  assumes "newVirtualHost L T m redirect routes h = Some vh" shows "vh_Name vh = h"
  using assms
  by (cases "m_HTTP m") (auto simp: newVirtualHost_def NewVirtualHost_eq_Some split: if_splits)

text \<open>
  The specification of a route configuration: which hosts it has, whether a host is redirected
  to HTTPS, and the routes that the virtual host of a host is made of.
\<close>

definition redirectedHosts :: "defaultTranslator \<Rightarrow> Model \<Rightarrow> string \<Rightarrow> string set" where
  "redirectedHosts T m port =
     (if port = insecureHost \<and> dt_enforceHTTPs T then set (hostsOn m secureHost) else {})"

definition specVirtualHost ::
  "'b Lib \<Rightarrow> defaultTranslator \<Rightarrow> Model \<Rightarrow> string \<Rightarrow> string \<Rightarrow> VirtualHost option" where
  "specVirtualHost L T m port h =
     (if h \<in> redirectedHosts T m port
      then newVirtualHost L T m True (routesOn m h secureHost) h
      else newVirtualHost L T m False (routesOn m h port) h)"

lemma routesOn_host: "h \<in> set (hostsOn m port) \<longleftrightarrow> routesOn m h port \<noteq> []"
  by (force simp: hostsOn_def routesOn_def filter_empty_conv)

lemma virtualHostsOf_spec:
  assumes "lib_ok L"
  shows "virtualHostsOf L T m (routeTablesOf m) port (hostsOn m port) =
         mapM (specVirtualHost L T m port)
           (sorted_list_of_set (redirectedHosts T m port \<union> set (hostsOn m port)))"
proof -
  let ?red = "if port = insecureHost \<and> dt_enforceHTTPs T then lib_Unique L (hostsOn m secureHost) else []"
  let ?plain = "filter (\<lambda>h. \<not> (port = insecureHost \<and> h \<in> set ?red) \<and> routesOn m h port \<noteq> [])
                  (lib_Unique L (hostsOn m port))"
  let ?f = "specVirtualHost L T m port"
  have red: "set ?red = redirectedHosts T m port" "distinct ?red"
    using lib_okD(1,2) [OF assms] by (auto simp: redirectedHosts_def)
  have plain: "set ?plain = set (hostsOn m port) - redirectedHosts T m port" "distinct ?plain"
    using lib_okD(1,2) [OF assms] red(1) by (auto simp: redirectedHosts_def routesOn_host)
  have "virtualHostsOf L T m (routeTablesOf m) port (hostsOn m port) =
      do { rs \<leftarrow> mapM (\<lambda>h. newVirtualHost L T m True (routesOn m h secureHost) h) ?red;
           ps \<leftarrow> mapM (\<lambda>h. newVirtualHost L T m False (routesOn m h port) h) ?plain;
           Some (sort_by (by_key vh_Name) (rs @ ps)) }"
    unfolding virtualHostsOf_def Let_def routeTables by (rule refl)
  also have "mapM (\<lambda>h. newVirtualHost L T m True (routesOn m h secureHost) h) ?red = mapM ?f ?red"
    by (rule mapM_cong) (simp_all only: red(1) specVirtualHost_def if_True)
  also have "mapM (\<lambda>h. newVirtualHost L T m False (routesOn m h port) h) ?plain = mapM ?f ?plain"
    by (rule mapM_cong) (simp_all only: plain(1) specVirtualHost_def if_False Diff_iff)
  also have "do { rs \<leftarrow> mapM ?f ?red; ps \<leftarrow> mapM ?f ?plain; Some (sort_by (by_key vh_Name) (rs @ ps)) } =
      map_option (sort_key vh_Name) (mapM ?f (?red @ ?plain))"
    by (simp only: mapM_append sort_by_key) (cases "mapM ?f ?red"; cases "mapM ?f ?plain"; simp)
  also have "\<dots> = mapM ?f (sort (?red @ ?plain))"
    by (rule mapM_sort) (auto simp: specVirtualHost_def newVirtualHost_name split: if_splits)
  also have "sort (?red @ ?plain) = sorted_list_of_set (redirectedHosts T m port \<union> set (hostsOn m port))"
  proof (rule sorted_distinct_set_unique)
    show "distinct (sort (?red @ ?plain))" using red plain by (simp only: distinct_sort distinct_append) blast
    show "set (sort (?red @ ?plain)) = set (sorted_list_of_set (redirectedHosts T m port \<union> set (hostsOn m port)))"
      using red plain by (simp only: set_sort set_append) (auto simp: redirectedHosts_def)
  qed simp_all
  finally show ?thesis .
qed

section \<open>References to clusters\<close>

definition routeConfigClusters :: "RouteConfiguration list \<Rightarrow> string set" where
  "routeConfigClusters rcs =
     {c. \<exists>rc \<in> set rcs. \<exists>vh \<in> set (rc_VirtualHosts rc). \<exists>er. Some er \<in> set (vh_Routes vh) \<and> c \<in> set (routeClusters er)}"

definition tcpClusters :: "Model \<Rightarrow> string set" where
  "tcpClusters m = {tcpCluster (tcl_Routes l) | l. l \<in> set (m_TCP m) \<and> tcpCluster (tcl_Routes l) \<noteq> ''''}"

lemma hostRoutes_backends:
  assumes "(p, h, r) \<in> set (hostRoutes m)" shows "set (routeBackends r) \<subseteq> set (httpBackends m)"
  using assms by (force simp: hostRoutes_def httpBackends_def)

lemma routesOn_backends: "set (concat (map routeBackends (routesOn m h p))) \<subseteq> set (httpBackends m)"
  using hostRoutes_backends by (fastforce simp: routesOn_def)

lemma specVirtualHost_clusters:
  assumes "specVirtualHost L T m port h = Some vh" "Some er \<in> set (vh_Routes vh)" "c \<in> set (routeClusters er)"
  shows "\<exists>b \<in> set (httpBackends m). backendCluster b = Some c"
proof -
  obtain redirect p where "newVirtualHost L T m redirect (routesOn m h p) h = Some vh"
    using assms(1) by (auto simp: specVirtualHost_def split: if_splits)
  then obtain param where "NewVirtualHost L (routesOn m h p) param = Some vh"
    by (cases "m_HTTP m") (auto simp: newVirtualHost_def)
  from NewVirtualHost_clusters [OF this assms(2,3)] routesOn_backends show ?thesis by blast
qed

lemma routeConfigurations_spec:
  assumes "lib_ok L" "routeConfigurations L T m = Some rcs" "rc \<in> set rcs"
  shows "\<exists>port \<in> {insecureHost, secureHost}. rc_Name rc = ''listener-'' @ port \<and>
           mapM (specVirtualHost L T m port)
             (if hostsOn m port = [] then []
              else sorted_list_of_set (redirectedHosts T m port \<union> set (hostsOn m port))) =
           Some (rc_VirtualHosts rc)"
proof -
  obtain port xs where port: "port \<in> {insecureHost, secureHost}" "rc \<in> set xs"
    "(case map_of (fst (routeTablesOf m)) port of
        None \<Rightarrow> Some (if port = insecureHost \<and> length (m_HTTP m) > 0
                      then [\<lparr>rc_Name = ''listener-insecure'', rc_VirtualHosts = []\<rparr>] else [])
      | Some hostNames \<Rightarrow>
        do { virtualhosts \<leftarrow> virtualHostsOf L T m (routeTablesOf m) port hostNames;
             Some [\<lparr>rc_Name = ''listener-'' @ port, rc_VirtualHosts = virtualhosts\<rparr>] }) = Some xs"
    using concatMapM_set [OF assms(2) [unfolded routeConfigurations_def Let_def] assms(3)] by auto
  show ?thesis
  proof (cases "hostsOn m port = []")
    case True
    then have "rc = \<lparr>rc_Name = ''listener-insecure'', rc_VirtualHosts = []\<rparr> \<and> port = insecureHost"
      using port(2,3) unfolding routeTables by (auto split: if_splits)
    then show ?thesis using True by (auto simp: insecureHost_def)
  next
    case False
    then obtain vhs where "virtualHostsOf L T m (routeTablesOf m) port (hostsOn m port) = Some vhs"
      "rc = \<lparr>rc_Name = ''listener-'' @ port, rc_VirtualHosts = vhs\<rparr>"
      using port(2,3) unfolding routeTables by (auto simp: bind_eq_Some)
    then show ?thesis
      using port(1) False unfolding virtualHostsOf_spec [OF assms(1)] by auto
  qed
qed

lemma addPassthrough_keys:
  "addPassthrough n hs b t = Some t' \<Longrightarrow>
   \<exists>c. backendCluster b = Some c \<and> fst ` set t' \<subseteq> insert c (fst ` set t)"
  by (auto simp: addPassthrough_def bind_eq_Some Let_def dest!: in_set_update intro: rev_image_eqI)

lemma tlsPassthrough_keys:
  assumes "tlsPassthroughBackendsToHostnames ls = Some pts"
  shows "fst ` set pts \<subseteq> {c. \<exists>l \<in> set ls. \<exists>r \<in> set (tl_Routes l). \<exists>b \<in> set (tr_Backends r). backendCluster b = Some c}"
    (is "_ \<subseteq> ?C")
proof -
  have "fst ` set pts \<subseteq> ?C"
  proof (rule foldM_invariant [OF assms [unfolded tlsPassthroughBackendsToHostnames_def], of "\<lambda>t. fst ` set t \<subseteq> ?C"])
    fix l t t' assume l: "l \<in> set ls" "fst ` set t \<subseteq> ?C"
      "foldM (\<lambda>route. foldM (addPassthrough (tl_Name l) (tr_Hostnames route)) (tr_Backends route)) (tl_Routes l) t = Some t'"
    show "fst ` set t' \<subseteq> ?C"
    proof (rule foldM_invariant [OF l(3), of "\<lambda>t. fst ` set t \<subseteq> ?C"])
      fix r t t' assume r: "r \<in> set (tl_Routes l)" "fst ` set t \<subseteq> ?C"
        "foldM (addPassthrough (tl_Name l) (tr_Hostnames r)) (tr_Backends r) t = Some t'"
      show "fst ` set t' \<subseteq> ?C"
      proof (rule foldM_invariant [OF r(3), of "\<lambda>t. fst ` set t \<subseteq> ?C"])
        fix b t t' assume b: "b \<in> set (tr_Backends r)" "fst ` set t \<subseteq> ?C"
          "addPassthrough (tl_Name l) (tr_Hostnames r) b t = Some t'"
        obtain c where c: "backendCluster b = Some c" "fst ` set t' \<subseteq> insert c (fst ` set t)"
          using addPassthrough_keys [OF b(3)] by blast
        have "c \<in> ?C" using l(1) r(1) b(1) c(1) by blast
        then show "fst ` set t' \<subseteq> ?C" using c(2) b(2) by blast
      qed (rule r(2))
    qed (rule l(2))
  qed simp
  then show ?thesis .
qed

lemma tcpCluster_backend:
  "tcpCluster rs \<noteq> '''' \<Longrightarrow> \<exists>r \<in> set rs. \<exists>b \<in> set (tcr_Backends r). backendCluster b = Some (tcpCluster rs)"
  by (induction rs) (auto simp: backendCluster_def split: list.splits option.splits)

lemma addTCP_named:
  assumes "\<forall>n r. map_of (fst tbl) n = Some r \<longrightarrow> (\<exists>c. r = packResource L ClusterTypeURL (MsgCluster c) \<and> ec_Name c = n)"
  shows "\<forall>n r. map_of (fst (fold (addTCPCluster L) ts tbl)) n = Some r \<longrightarrow>
           (\<exists>c. r = packResource L ClusterTypeURL (MsgCluster c) \<and> ec_Name c = n)"
  using assms
proof (induction ts arbitrary: tbl)
  case (Cons t ts)
  have "\<forall>n r. map_of (fst (addTCPCluster L t tbl)) n = Some r \<longrightarrow>
      (\<exists>c. r = packResource L ClusterTypeURL (MsgCluster c) \<and> ec_Name c = n)"
    using Cons.prems tcpResource_named [of L t] by (auto simp: addTCPCluster_eq update_conv)
  then show ?case using Cons.IH by simp
qed simp

lemma addHTTP_named:
  assumes "\<forall>n r. map_of (fst tbl) n = Some r \<longrightarrow> (\<exists>c. r = packResource L ClusterTypeURL (MsgCluster c) \<and> ec_Name c = n)"
  shows "\<forall>n r. map_of (fst (fold (addHTTPCluster L T m) ts tbl)) n = Some r \<longrightarrow>
           (\<exists>c. r = packResource L ClusterTypeURL (MsgCluster c) \<and> ec_Name c = n)"
  using assms
proof (induction ts arbitrary: tbl)
  case (Cons t ts)
  have "\<forall>n r. map_of (fst (addHTTPCluster L T m t tbl)) n = Some r \<longrightarrow>
      (\<exists>c. r = packResource L ClusterTypeURL (MsgCluster c) \<and> ec_Name c = n)"
    using Cons.prems httpResource_named [of L T m t] by (auto simp: addHTTPCluster_eq update_conv)
  then show ?case using Cons.IH by simp
qed simp

lemma getClusters_named:
  "list_all2 (\<lambda>n r. \<exists>c. r = packResource L ClusterTypeURL (MsgCluster c) \<and> ec_Name c = n)
     (sort (snd (clusterTable L T m))) (getClusters L T m)"
proof -
  let ?tbl = "clusterTable L T m"
  have wf: "dom (map_of (fst ?tbl)) = set (snd ?tbl)"
    using clusterTableFrom_names [THEN conjunct1] unfolding clusterTable_def wf_table_def .
  have named: "\<forall>n r. map_of (fst ?tbl) n = Some r \<longrightarrow> (\<exists>c. r = packResource L ClusterTypeURL (MsgCluster c) \<and> ec_Name c = n)"
    unfolding clusterTable_def clusterTableFrom_def
    by (rule addTCP_named, rule addTCP_named, rule addHTTP_named) simp
  have "\<exists>c. (case map_of (fst ?tbl) n of Some r \<Rightarrow> r | None \<Rightarrow> None) = packResource L ClusterTypeURL (MsgCluster c) \<and> ec_Name c = n"
    if "n \<in> set (snd ?tbl)" for n
  proof -
    have "n \<in> dom (map_of (fst ?tbl))" using wf \<open>n \<in> set (snd ?tbl)\<close> by simp
    then obtain r where "map_of (fst ?tbl) n = Some r" by (auto simp: dom_def)
    then show ?thesis using named by simp
  qed
  then show ?thesis
    unfolding getClusters_def clustersOf_def by (simp add: list_all2_map2 list_all2_same)
qed

lemma references_in_table:
  assumes "lib_ok L" "routeConfigurations L T m = Some rcs"
    and "tlsPassthroughBackendsToHostnames (m_TLS m) = Some pts"
  shows "routeConfigClusters rcs \<union> fst ` set pts \<union> tcpClusters m \<subseteq> set (snd (clusterTable L T m))"
proof -
  have http: "routeConfigClusters rcs \<subseteq> cn ` modelTriples (envoyBackends m)"
  proof
    fix c assume "c \<in> routeConfigClusters rcs"
    then obtain rc vh er where rc: "rc \<in> set rcs" "vh \<in> set (rc_VirtualHosts rc)" "Some er \<in> set (vh_Routes vh)"
      "c \<in> set (routeClusters er)" by (auto simp: routeConfigClusters_def)
    obtain port where "mapM (specVirtualHost L T m port)
             (if hostsOn m port = [] then []
              else sorted_list_of_set (redirectedHosts T m port \<union> set (hostsOn m port))) = Some (rc_VirtualHosts rc)"
      using routeConfigurations_spec [OF assms(1,2) rc(1)] by blast
    from mapM_set [OF this rc(2)] obtain h where "specVirtualHost L T m port h = Some vh" by blast
    then obtain b where "b \<in> set (httpBackends m)" "backendCluster b = Some c"
      using specVirtualHost_clusters rc(3,4) by blast
    then show "c \<in> cn ` modelTriples (envoyBackends m)" using in_modelTriples [of b "envoyBackends m" c] by simp
  qed
  have tls: "fst ` set pts \<subseteq> cn ` modelTriples (envoyBackends m)"
  proof
    fix c assume "c \<in> fst ` set pts"
    then obtain b where "b \<in> set (tlsBackends m)" "backendCluster b = Some c"
      using tlsPassthrough_keys [OF assms(3)] by (force simp: tlsBackends_def)
    then show "c \<in> cn ` modelTriples (envoyBackends m)" using in_modelTriples [of b "envoyBackends m" c] by simp
  qed
  have tcp: "tcpClusters m \<subseteq> cn ` modelTriples (envoyBackends m)"
  proof
    fix c assume "c \<in> tcpClusters m"
    then obtain l where l: "l \<in> set (m_TCP m)" "tcpCluster (tcl_Routes l) = c" "c \<noteq> ''''"
      by (auto simp: tcpClusters_def)
    then obtain b where "b \<in> set (tcpBackends m)" "backendCluster b = Some c"
      using tcpCluster_backend [of "tcl_Routes l"] by (force simp: tcpBackends_def)
    then show "c \<in> cn ` modelTriples (envoyBackends m)" using in_modelTriples [of b "envoyBackends m" c] by simp
  qed
  show ?thesis using http tls tcp unfolding cluster_names [OF assms(1)] by blast
qed

lemma named_resources:
  "list_all2 (\<lambda>n r. \<exists>c. r = packResource L u (MsgCluster c) \<and> ec_Name c = n) ns rs \<Longrightarrow>
   \<exists>cs. rs = map (\<lambda>c. packResource L u (MsgCluster c)) cs \<and> map ec_Name cs = ns"
proof (induction ns arbitrary: rs)
  case (Cons n ns)
  then obtain c rs' where "rs = packResource L u (MsgCluster c) # rs'" "ec_Name c = n"
    "list_all2 (\<lambda>n r. \<exists>c. r = packResource L u (MsgCluster c) \<and> ec_Name c = n) ns rs'"
    by (auto simp: list_all2_Cons1)
  moreover from Cons.IH [OF this(3)] obtain cs where
    "rs' = map (\<lambda>c. packResource L u (MsgCluster c)) cs" "map ec_Name cs = ns" by blast
  ultimately show ?case by (intro exI [of _ "c # cs"]) simp
qed simp

section \<open>When translation does not panic\<close>

definition translatable :: "Model \<Rightarrow> bool" where
  "translatable m \<longleftrightarrow>
     (\<forall>l \<in> set (m_HTTP m). \<forall>r \<in> set (hl_Routes l). ported r \<and> answered r) \<and>
     (\<forall>b \<in> set (tlsBackends m). be_Port b \<noteq> None)"

lemma httpsRoutesLoop_total [panic_free]:
  assumes "\<forall>k v. map_of mp k = Some v \<longrightarrow> v \<noteq> []"
  shows "\<exists>es. httpsRoutesLoop hs sfx mp rs = Some (map Some es)"
  using assms
proof (induction rs arbitrary: mp)
  case (Cons r rs)
  show ?case
  proof (cases "map_of mp (GetMatchKey r)")
    case (Some g)
    then obtain h t where g: "g = h # t" using Cons.prems by (cases g) auto
    have "\<forall>k v. map_of (AList.delete (GetMatchKey r) mp) k = Some v \<longrightarrow> v \<noteq> []"
      using Cons.prems by (auto simp: delete_conv' split: if_splits)
    then obtain es where "httpsRoutesLoop hs sfx (AList.delete (GetMatchKey r) mp) rs = Some (map Some es)"
      using Cons.IH by blast
    then show ?thesis using Some g by (intro exI [of _ "redirectRoute hs sfx h # es"]) simp
  qed (use Cons in simp)
qed simp

lemma sortRoutes_total [panic_free]: "\<exists>es'. sortRoutes L (map Some es) = Some (map Some es')"
proof (cases "length es < 2")
  case False
  have "mapM (\<lambda>r. r) (map Some es) = Some es" using mapM_Some [of "\<lambda>x. x" es] by (simp add: mapM_map)
  then show ?thesis using False by (auto simp: sortRoutes_def)
qed (auto simp: sortRoutes_def)

lemma NewVirtualHost_total [panic_free]:
  assumes "\<forall>r \<in> set rs. ported r \<and> answered r" "vp_HostNames param = [h]"
  shows "\<exists>vh es. NewVirtualHost L rs param = Some vh \<and> vh_Routes vh = map Some es"
proof -
  have https: "\<exists>es. envoyHTTPSRoutes rs hs sfx = Some (map Some es)" for hs sfx
    unfolding envoyHTTPSRoutes_def Let_def
    by (rule httpsRoutesLoop_total) (auto simp: map_of_matchBackendMap split: if_splits)
  obtain es where es: "(if vp_HTTPSRedirect param
         then envoyHTTPSRoutes rs (vp_HostNames param) (vp_HostNameSuffixMatch param)
         else envoyHTTPRoutes rs (vp_HostNames param) (vp_HostNameSuffixMatch param) (vp_ListenerPort param)) =
       Some (map Some es)"
    using https envoyHTTPRoutes_total [OF assms(1)] by (metis (full_types))
  obtain es' where es': "sortRoutes L (map Some es) = Some (map Some es')" using sortRoutes_total by blast
  obtain d ds where "hostDomains [] (vp_HostNames param) = d # ds"
    using assms(2) by (cases "hostDomains [] (vp_HostNames param)") (auto split: if_splits)
  then show ?thesis using es es' unfolding NewVirtualHost_eq_Some by auto
qed

lemma specVirtualHost_total [panic_free]:
  assumes "translatable m" "m_HTTP m \<noteq> []"
  shows "\<exists>vh. specVirtualHost L T m port h = Some vh"
proof -
  obtain l0 ls where l0: "m_HTTP m = l0 # ls" using assms(2) by (cases "m_HTTP m") auto
  have "ported r \<and> answered r" if "r \<in> set (routesOn m h p)" for r p
    using that assms(1) by (force simp: routesOn_def hostRoutes_def translatable_def)
  then have "\<exists>vh. newVirtualHost L T m redirect (routesOn m h p) h = Some vh" for redirect p
    unfolding newVirtualHost_def l0 list.case
    using NewVirtualHost_total [of "routesOn m h p" "\<lparr>vp_HostNames = [h], vp_HTTPSRedirect = redirect,
        vp_HostNameSuffixMatch = dt_hostNameSuffixMatch T, vp_ListenerPort = hl_Port l0\<rparr>" h L] by auto
  then show ?thesis by (simp add: specVirtualHost_def)
qed

lemma routeConfigurations_total [panic_free]:
  assumes "lib_ok L" "translatable m" shows "\<exists>rcs. routeConfigurations L T m = Some rcs"
  unfolding routeConfigurations_def Let_def
proof (rule concatMapM_total)
  fix port
  show "\<exists>ys. (case map_of (fst (routeTablesOf m)) port of
        None \<Rightarrow> Some (if port = insecureHost \<and> length (m_HTTP m) > 0
                      then [\<lparr>rc_Name = ''listener-insecure'', rc_VirtualHosts = []\<rparr>] else [])
      | Some hostNames \<Rightarrow>
        do { virtualhosts \<leftarrow> virtualHostsOf L T m (routeTablesOf m) port hostNames;
             Some [\<lparr>rc_Name = ''listener-'' @ port, rc_VirtualHosts = virtualhosts\<rparr>] }) = Some ys"
  proof (cases "hostsOn m port = []")
    case False
    then have ne: "m_HTTP m \<noteq> []" by (auto simp: hostsOn_def hostRoutes_def)
    have "\<exists>vhs. virtualHostsOf L T m (routeTablesOf m) port (hostsOn m port) = Some vhs"
      unfolding virtualHostsOf_spec [OF assms(1)]
      by (rule mapM_total) (rule specVirtualHost_total [OF assms(2) ne])
    then show ?thesis using False unfolding routeTables by auto
  qed (simp add: routeTables)
qed

lemma tlsPassthrough_total [panic_free]:
  assumes "\<forall>l \<in> set ls. \<forall>r \<in> set (tl_Routes l). \<forall>b \<in> set (tr_Backends r). be_Port b \<noteq> None"
  shows "\<exists>pts. tlsPassthroughBackendsToHostnames ls = Some pts"
  unfolding tlsPassthroughBackendsToHostnames_def
proof (intro foldM_total)
  fix l r b t assume "l \<in> set ls" "r \<in> set (tl_Routes l)" "b \<in> set (tr_Backends r)"
  then obtain c where "backendCluster b = Some c" using assms backendCluster_total by blast
  then show "\<exists>t'. addPassthrough (tl_Name l) (tr_Hostnames r) b t = Some t'"
    by (simp add: addPassthrough_def Let_def)
qed

lemma getResources_total [panic_free]:
  assumes "lib_ok L" "translatable m" shows "\<exists>rs. getResources L xff T m = Some rs"
proof -
  obtain rcs where "routeConfigurations L T m = Some rcs" using routeConfigurations_total [OF assms] by blast
  moreover obtain pts where "tlsPassthroughBackendsToHostnames (m_TLS m) = Some pts"
    using tlsPassthrough_total [of "m_TLS m"] assms(2) by (force simp: translatable_def tlsBackends_def)
  ultimately show ?thesis
    by (simp add: getResources_def getListener_def getEnvoyHTTPRouteConfiguration_def)
qed

lemma demo_translatable: "translatable demoModel"
  by (simp add: translatable_def demoModel_def ported_def answered_def routeBackends_def zeroHTTPRoute_def
      tlsBackends_def map_filter_simps demoBackend_def)

section \<open>Properties\<close>

text \<open>
  The abstract specification of the route configurations: one configuration per scheme that
  has hosts, with one virtual host for each host in the order of the host names; the hosts of
  the insecure configuration that also occur on a secure listener are redirected when HTTPS
  is enforced.
\<close>

definition specRouteConfigurations ::
  "'b Lib \<Rightarrow> defaultTranslator \<Rightarrow> Model \<Rightarrow> RouteConfiguration list option" where
  "specRouteConfigurations L T m =
     concatMapM (\<lambda>port.
         if hostsOn m port = []
         then Some (if port = insecureHost \<and> m_HTTP m \<noteq> []
                    then [\<lparr>rc_Name = ''listener-insecure'', rc_VirtualHosts = []\<rparr>] else [])
         else do { vhs \<leftarrow> mapM (specVirtualHost L T m port)
                     (sorted_list_of_set (redirectedHosts T m port \<union> set (hostsOn m port)));
                   Some [\<lparr>rc_Name = ''listener-'' @ port, rc_VirtualHosts = vhs\<rparr>] })
       [insecureHost, secureHost]"

text \<open>
  Claim C22. The route configurations that the translator builds with its two maps and its
  loops are those of the specification, panics included: the virtual host of a host is built
  from the routes of the listeners of its scheme that name the host, or name none and belong
  to a listener with that host name.
\<close>

theorem routeConfigurations_refines:
  assumes "lib_ok L"
  shows "routeConfigurations L T m = specRouteConfigurations L T m"
proof -
  have "(case map_of (fst (routeTablesOf m)) port of
        None \<Rightarrow> Some (if port = insecureHost \<and> length (m_HTTP m) > 0
                      then [\<lparr>rc_Name = ''listener-insecure'', rc_VirtualHosts = []\<rparr>] else [])
      | Some hostNames \<Rightarrow>
        do { virtualhosts \<leftarrow> virtualHostsOf L T m (routeTablesOf m) port hostNames;
             Some [\<lparr>rc_Name = ''listener-'' @ port, rc_VirtualHosts = virtualhosts\<rparr>] }) =
     (if hostsOn m port = []
         then Some (if port = insecureHost \<and> m_HTTP m \<noteq> []
                    then [\<lparr>rc_Name = ''listener-insecure'', rc_VirtualHosts = []\<rparr>] else [])
         else do { vhs \<leftarrow> mapM (specVirtualHost L T m port)
                     (sorted_list_of_set (redirectedHosts T m port \<union> set (hostsOn m port)));
                   Some [\<lparr>rc_Name = ''listener-'' @ port, rc_VirtualHosts = vhs\<rparr>] })" for port
    unfolding routeTables by (simp add: virtualHostsOf_spec [OF assms])
  then show ?thesis unfolding routeConfigurations_def specRouteConfigurations_def Let_def by (simp only:)
qed

theorem routeConfigurations_refines_witness:
  "lib_ok exampleLib \<and> hostsOn demoModel insecureHost = [''a.com''] \<and>
   (\<exists>rcs. routeConfigurations exampleLib demoTranslator demoModel = Some rcs \<and>
      specRouteConfigurations exampleLib demoTranslator demoModel = Some rcs)"
proof -
  obtain rcs where "routeConfigurations exampleLib demoTranslator demoModel = Some rcs"
    using routeConfigurations_total [OF exampleLib_ok demo_translatable] by blast
  moreover have "hostsOn demoModel insecureHost = [''a.com'']"
    by (simp add: hostsOn_def hostRoutes_def demoModel_def listenerScheme_def routeHosts_def zeroHTTPRoute_def)
  ultimately show ?thesis
    using routeConfigurations_refines [OF exampleLib_ok, of demoTranslator demoModel] exampleLib_ok by simp
qed

text \<open>
  Claim C12. Every cluster that a route, a mirror or a weighted cluster of a route
  configuration, a TLS passthrough filter chain or a TCP listener names is one of the
  clusters of the same configuration, and each of those is the marshalled cluster of its name.
\<close>

theorem references_resolved:
  assumes "lib_ok L" "routeConfigurations L T m = Some rcs"
    and "tlsPassthroughBackendsToHostnames (m_TLS m) = Some pts"
  shows "routeConfigClusters rcs \<union> fst ` set pts \<union> tcpClusters m \<subseteq> set (snd (clusterTable L T m)) \<and>
         list_all2 (\<lambda>n r. \<exists>c. r = packResource L ClusterTypeURL (MsgCluster c) \<and> ec_Name c = n)
           (sort (snd (clusterTable L T m))) (getClusters L T m)"
  using references_in_table [OF assms] getClusters_named by blast

theorem references_resolved_witness:
  "\<exists>rcs. routeConfigurations exampleLib demoTranslator demoModel = Some rcs \<and>
     tlsPassthroughBackendsToHostnames (m_TLS demoModel) = Some [] \<and>
     routeConfigClusters rcs \<subseteq> set (snd (clusterTable exampleLib demoTranslator demoModel)) \<and>
     ''prod:web:8080'' \<in> set (snd (clusterTable exampleLib demoTranslator demoModel))"
proof -
  obtain rcs where rcs: "routeConfigurations exampleLib demoTranslator demoModel = Some rcs"
    using routeConfigurations_total [OF exampleLib_ok demo_translatable] by blast
  have pts: "tlsPassthroughBackendsToHostnames (m_TLS demoModel) = Some []"
    by (simp add: tlsPassthroughBackendsToHostnames_def demoModel_def)
  have "GetPort \<lparr>bp_Port = 8080, bp_Name = ''''\<rparr> = ''8080''"
    by (simp add: GetPort_def Itoa_def digit_char_def itoa_nat.simps char_of_def bit_Suc_0_iff)
  then have "backendCluster demoBackend = Some ''prod:web:8080''"
    by (simp add: backendCluster_def demoBackend_def getClusterName_def)
  then have "''prod:web:8080'' \<in> set (snd (clusterTable exampleLib demoTranslator demoModel))"
    unfolding cluster_names [OF exampleLib_ok] demo_backends by (intro in_modelTriples) simp
  then show ?thesis using references_resolved [OF exampleLib_ok rcs pts] rcs pts by blast
qed

text \<open>
  Claim C23. The clusters are listed by name, one for each service port that a backend refers
  to, an HTTP cluster if an HTTP route or mirror uses it and a TCP cluster otherwise; and the
  list is the same for every order in which the three maps are visited.
\<close>

theorem getClusters_correct:
  assumes "lib_ok L" "colon_free (envoyBackends m)"
  shows "getClusters L T m = clusterList L T m (modelTriples (httpBackends m)) (modelTriples (envoyBackends m)) \<and>
         (\<forall>hs ts cs. mset hs = mset (portTriples (mapEntries (getNamespaceNamePortsMapForHTTP L m))) \<longrightarrow>
            mset ts = mset (portTriples (mapEntries (getNamespaceNamePortsMapForTLS L m))) \<longrightarrow>
            mset cs = mset (portTriples (mapEntries (getNamespaceNamePortsMapForTCP L m))) \<longrightarrow>
            clustersOf (clusterTableFrom L T m hs ts cs) = getClusters L T m)"
proof -
  let ?H = "portTriples (mapEntries (getNamespaceNamePortsMapForHTTP L m))"
  let ?T = "portTriples (mapEntries (getNamespaceNamePortsMapForTLS L m))"
  let ?C = "portTriples (mapEntries (getNamespaceNamePortsMapForTCP L m))"
  have inj: "inj_on cn (modelTriples (envoyBackends m))" by (rule cn_inj [OF assms(2)])
  have all: "clustersOf (clusterTableFrom L T m hs ts cs) =
      clusterList L T m (modelTriples (httpBackends m)) (modelTriples (envoyBackends m))"
    if "mset hs = mset ?H" "mset ts = mset ?T" "mset cs = mset ?C" for hs ts cs
  proof -
    have sets: "set hs = modelTriples (httpBackends m)" "set ts = modelTriples (tlsBackends m)"
      "set cs = modelTriples (tcpBackends m)"
      using that map_triples [OF assms(1), of m] by (metis set_mset_mset)+
    have un: "set hs \<union> set ts \<union> set cs = modelTriples (envoyBackends m)"
      unfolding sets by (simp add: modelTriples_append Un_assoc)
    have "distinct ?H"
      unfolding getNamespaceNamePortsMapForHTTP_def merge_fold by (rule triples_distinct [OF assms(1)])
    then have "distinct hs" using that(1) mset_eq_imp_distinct_iff by blast
    then have "clustersOf (clusterTableFrom L T m hs ts cs) =
        clusterList L T m (set hs) (modelTriples (envoyBackends m))"
      using clustersOf_from [of hs ts cs L T m, unfolded un] inj by blast
    then show ?thesis unfolding sets(1) .
  qed
  from all [of ?H ?T ?C] have "getClusters L T m =
      clusterList L T m (modelTriples (httpBackends m)) (modelTriples (envoyBackends m))"
    by (simp add: getClusters_def clusterTable_def)
  then show ?thesis using all by simp
qed

theorem getClusters_correct_witness:
  "colon_free (envoyBackends demoModel) \<and>
   getClusters exampleLib demoTranslator demoModel =
     clusterList exampleLib demoTranslator demoModel (modelTriples [demoBackend]) (modelTriples [demoBackend])"
proof -
  have h: "httpBackends demoModel = [demoBackend]"
    by (simp add: httpBackends_def demoModel_def routeBackends_def zeroHTTPRoute_def map_filter_simps)
  have c: "colon_free (envoyBackends demoModel)"
    unfolding demo_backends by (simp add: colon_free_def demoBackend_def)
  show ?thesis
    using getClusters_correct [OF exampleLib_ok c, THEN conjunct1, of demoTranslator] c demo_backends h by simp
qed

text \<open>
  What the three implementations of the interface \<open>Translator\<close> share: the configuration
  they return holds the resources and the backend services of the default translator for
  some settings. Their clients get from it that the configuration is self-contained.
\<close>

definition self_contained :: "'b Lib \<Rightarrow> defaultTranslator \<Rightarrow> Model \<Rightarrow> 'b DolphinEnvoyConfig \<Rightarrow> bool" where
  "self_contained L T m dec \<longleftrightarrow>
     (\<exists>rcs pts cs. routeConfigurations L T m = Some rcs \<and>
        tlsPassthroughBackendsToHostnames (m_TLS m) = Some pts \<and>
        set (map (\<lambda>rc. packResource L RouteTypeURL (MsgRouteConfiguration rc)) rcs) \<subseteq> set (dec_Resources dec) \<and>
        set (map (\<lambda>c. packResource L ClusterTypeURL (MsgCluster c)) cs) \<subseteq> set (dec_Resources dec) \<and>
        routeConfigClusters rcs \<union> fst ` set pts \<union> tcpClusters m \<subseteq> ec_Name ` set cs)"

locale envoy_translator =
  fixes L :: "'b Lib" and xff :: uint32
    and settings :: "Model \<Rightarrow> defaultTranslator"
    and translate :: "Model \<Rightarrow> 'b DolphinEnvoyConfig option"
  assumes resources: "translate m = Some dec \<Longrightarrow> getResources L xff (settings m) m = Some (dec_Resources dec)"
    and services: "translate m = Some dec \<Longrightarrow> dec_BackendServices dec = getBackendServices L m"
begin

lemma translated_self_contained:
  assumes "lib_ok L" "translate m = Some dec"
  shows "self_contained L (settings m) m dec"
proof -
  let ?T = "settings m"
  obtain ls rcs where parts: "getListener L xff ?T m = Some ls" "routeConfigurations L ?T m = Some rcs"
    "dec_Resources dec = ls @ map (\<lambda>rc. NewRouteConfiguration L (rc_Name rc) (rc_VirtualHosts rc) []) rcs @
       getClusters L ?T m @ getTCPRouteListeners L m"
    using resources [OF assms(2)]
    by (auto simp: getResources_def getEnvoyHTTPRouteConfiguration_def bind_eq_Some)
  obtain cs where cs: "getClusters L ?T m = map (\<lambda>c. packResource L ClusterTypeURL (MsgCluster c)) cs"
    "map ec_Name cs = sort (snd (clusterTable L ?T m))"
    using named_resources [OF getClusters_named] by blast
  have names: "ec_Name ` set cs = set (snd (clusterTable L ?T m))"
    using arg_cong [OF cs(2), of set] by simp
  have rc: "NewRouteConfiguration L (rc_Name rc) (rc_VirtualHosts rc) [] =
      packResource L RouteTypeURL (MsgRouteConfiguration rc)" for rc :: RouteConfiguration
    by (cases rc) (simp add: NewRouteConfiguration_def)
  obtain pts where pts: "tlsPassthroughBackendsToHostnames (m_TLS m) = Some pts"
    using parts(1) by (auto simp: getListener_def bind_eq_Some tlsPassthroughBackendsToHostnames_def split: if_splits)
  from references_in_table [OF assms(1) parts(2) pts] show ?thesis
    unfolding self_contained_def names using pts parts(2,3) cs(1)
    by (intro exI [of _ rcs] exI [of _ pts] exI [of _ cs]) (auto simp: rc names)
qed

end

interpretation default_translator: envoy_translator L xff "\<lambda>_. T" "Translate L xff T" for L xff T
  by unfold_locales (auto simp: Translate_def bind_eq_Some)

text \<open>
  Translation does not panic on a model in which the backends of HTTP routes,
  mirrors and TLS routes have ports and every HTTP route without backends has a redirect or
  an answer of its own.
\<close>

theorem Translate_total:
  assumes "lib_ok L" "translatable m"
  shows "\<exists>dec. Translate L xff T m = Some dec"
  using getResources_total [OF assms, of xff T] by (auto simp: Translate_def)

theorem Translate_total_witness:
  "translatable demoModel \<and> (\<exists>dec. Translate exampleLib 1 demoTranslator demoModel = Some dec)"
  using Translate_total [OF exampleLib_ok demo_translatable] demo_translatable by blast

end
