(* ===== verification/Gateway_Translator.thy ===== *)
theory Gateway_Translator
  imports Translator_Safety
begin

text \<open>
  \<open>src/pkg/model/translation/gateway-api/translator.go\<close> and
  \<open>src/pkg/model/translation/ingress\<close>: the two translators of the controllers. They pick
  the owner of the configuration from the sources of the listeners, run the default translator
  and add the Service and the Endpoints that expose it; \<open>shortened\<close> is the name that
  \<open>Shorten\<close> always returns. An error is the left, the three
  results are the right of a sum; the option around it is a panic.
\<close>

section \<open>Core objects\<close>

record ServicePort =
  sp_Name :: string
  sp_Port :: int
  sp_TargetPort :: int
  sp_Protocol :: string
  sp_NodePort :: int

record CoreServiceObject =
  cso_Name :: string
  cso_Namespace :: string
  cso_Labels :: string_map
  cso_Annotations :: string_map
  cso_OwnerReferences :: "OwnerReference list"
  cso_Type :: string
  cso_Ports :: "ServicePort list"

record CoreEndpoints =
  ceo_Name :: string
  ceo_Namespace :: string
  ceo_Labels :: string_map
  ceo_OwnerReferences :: "OwnerReference list"
  ceo_Addresses :: "string list"
  ceo_Ports :: "int list"

record 'b Translation =
  trn_DEC :: "'b DolphinEnvoyConfig option"
  trn_Service :: "CoreServiceObject option"
  trn_Endpoints :: "CoreEndpoints option"

section \<open>The translator of Gateways\<close>

definition dolphinGatewayPrefix :: string where "dolphinGatewayPrefix = ''dolphin-gateway-''"
definition owningGatewayLabel :: string where "owningGatewayLabel = ''io.dolphin.gateway/owning-gateway''"

text \<open>\<open>GroupVersion.String()\<close> of the Gateway API.\<close>

definition gatewayAPIVersion :: string where "gatewayAPIVersion = ''gateway.networking.k8s.io/v1''"

record translator =
  gt_SecretNameSpace :: string
  gt_idleTimeoutSeconds :: int
  gt_enableIpv4 :: bool
  gt_enableIpv6 :: bool

definition gateway_NewTranslator :: "string \<Rightarrow> int \<Rightarrow> bool \<Rightarrow> bool \<Rightarrow> translator" where
  "gateway_NewTranslator ns idle enableIpv4 enableIpv6 =
     \<lparr>gt_SecretNameSpace = ns, gt_idleTimeoutSeconds = idle, gt_enableIpv4 = enableIpv4,
      gt_enableIpv6 = enableIpv6\<rparr>"

definition mergeMap :: "string_map \<Rightarrow> string_map \<Rightarrow> string_map" where
  "mergeMap left right = (if left = [] then right else fold (\<lambda>(key, value) m. AList.update key value m) right left)"

text \<open>\<open>dgccfg\<close> is the service type of the DolphinGatewayClassConfig, if there is one.\<close>

definition toServiceType :: "string option \<Rightarrow> string" where
  "toServiceType dgccfg = (if dgccfg = Some ''NodePort'' then ''NodePort'' else ''LoadBalancer'')"

definition gatewayOwner :: "FullyQualifiedResource \<Rightarrow> OwnerReference" where
  "gatewayOwner resource =
     \<lparr>or_APIVersion = gatewayAPIVersion, or_Kind = fqr_Kind resource, or_Name = fqr_Name resource,
      or_UID = fqr_UID resource, or_Controller = Some True\<rparr>"

definition gateway_getService ::
  "FullyQualifiedResource \<Rightarrow> uint32 list \<Rightarrow> string_map \<Rightarrow> string_map \<Rightarrow> string option \<Rightarrow> CoreServiceObject" where
  "gateway_getService resource allPorts labels annotations dgccfg =
     \<lparr>cso_Name = shortened (dolphinGatewayPrefix @ fqr_Name resource),
      cso_Namespace = fqr_Namespace resource,
      cso_Labels = mergeMap [(owningGatewayLabel, shortened (fqr_Name resource))] labels,
      cso_Annotations = annotations,
      cso_OwnerReferences = [gatewayOwner resource],
      cso_Type = toServiceType dgccfg,
      cso_Ports = map (\<lambda>p. \<lparr>sp_Name = ''port-'' @ Itoa (uint p), sp_Port = sint p, sp_TargetPort = sint p,
                            sp_Protocol = ''TCP'', sp_NodePort = 0\<rparr>) (sort (remdups allPorts))\<rparr>"

definition gateway_getEndpoints :: "FullyQualifiedResource \<Rightarrow> CoreEndpoints" where
  "gateway_getEndpoints resource =
     \<lparr>ceo_Name = shortened (dolphinGatewayPrefix @ fqr_Name resource),
      ceo_Namespace = fqr_Namespace resource,
      ceo_Labels = [(owningGatewayLabel, shortened (fqr_Name resource))],
      ceo_OwnerReferences = [gatewayOwner resource],
      ceo_Addresses = [''192.192.192.192''], ceo_Ports = [9999]\<rparr>"

text \<open>What the closure \<open>addListener\<close> accumulates over the listeners.\<close>

record Collected =
  col_source :: "FullyQualifiedResource option"
  col_ports :: "uint32 list"
  col_labels :: string_map
  col_annotations :: string_map

definition addListener ::
  "FullyQualifiedResource list \<times> uint32 \<times> Infrastructure option \<Rightarrow> Collected \<Rightarrow> Collected" where
  "addListener = (\<lambda>(sources, port, infra) c.
     let c = (case sources of
                s # _ \<Rightarrow> if col_source c = None \<and> fqr_Name s \<noteq> '''' then c\<lparr>col_source := Some s\<rparr> else c
              | [] \<Rightarrow> c);
         c = c\<lparr>col_ports := col_ports c @ [port]\<rparr>
     in case infra of
          None \<Rightarrow> c
        | Some i \<Rightarrow> c\<lparr>col_labels := mergeMap (col_labels c) (inf_Labels i),
                      col_annotations := mergeMap (col_annotations c) (inf_Annotations i)\<rparr>)"

definition modelListeners ::
  "Model \<Rightarrow> (FullyQualifiedResource list \<times> uint32 \<times> Infrastructure option) list" where
  "modelListeners m =
     map (\<lambda>l. (hl_Sources l, hl_Port l, hl_Infrastructure l)) (m_HTTP m) @
     map (\<lambda>l. (tl_Sources l, tl_Port l, tl_Infrastructure l)) (m_TLS m) @
     map (\<lambda>l. (tcl_Sources l, tcl_Port l, tcl_Infrastructure l)) (m_TCP m) @
     map (\<lambda>l. (ul_Sources l, ul_Port l, ul_Infrastructure l)) (m_UDP m)"

definition collectListeners :: "Model \<Rightarrow> Collected" where
  "collectListeners m =
     fold addListener (modelListeners m)
       \<lparr>col_source = None, col_ports = [], col_labels = [], col_annotations = []\<rparr>"

definition gatewaySettings :: "translator \<Rightarrow> FullyQualifiedResource \<Rightarrow> defaultTranslator" where
  "gatewaySettings t source =
     NewTranslator (dolphinGatewayPrefix @ fqr_Name source) (fqr_Namespace source) (gt_SecretNameSpace t)
       False False True (gt_idleTimeoutSeconds t) (gt_enableIpv4 t) (gt_enableIpv6 t)"

definition gateway_Translate ::
  "'b Lib \<Rightarrow> uint32 \<Rightarrow> translator \<Rightarrow> string option \<Rightarrow> Model option \<Rightarrow> (string + 'b Translation) option" where
  "gateway_Translate L xff t cfg model =
     (case model of
        None \<Rightarrow> Some (Inl ''model is nil'')
      | Some m \<Rightarrow>
        (let c = collectListeners m in
         case col_source c of
           None \<Rightarrow> Some (Inl ''model source can't be empty'')
         | Some source \<Rightarrow>
           (let service = gateway_getService source (col_ports c) (col_labels c) (col_annotations c) cfg;
                endpoints = gateway_getEndpoints source
            in if length (m_HTTP m) = 0 \<and> length (m_TLS m) = 0 \<and> length (m_TCP m) = 0
               then Some (Inr \<lparr>trn_DEC = None, trn_Service = Some service, trn_Endpoints = Some endpoints\<rparr>)
               else do {
                 dec \<leftarrow> Translate L xff (gatewaySettings t source) m;
                 Some (Inr \<lparr>trn_DEC = Some (dec\<lparr>dec_OwnerReferences := [gatewayOwner source]\<rparr>),
                            trn_Service = Some service, trn_Endpoints = Some endpoints\<rparr>) })))"

section \<open>The translators of Ingresses\<close>

definition dolphinIngressPrefix :: string where "dolphinIngressPrefix = ''dolphin-ingress''"
definition dolphinIngressLabelKey :: string where "dolphinIngressLabelKey = ''dolphin.io/ingress''"

record DedicatedIngressTranslator =
  it_secretsNamespace :: string
  it_enforceHTTPs :: bool
  it_useProxyProtocol :: bool
  it_idleTimeoutSeconds :: int

definition NewDedicatedIngressTranslator ::
  "string \<Rightarrow> bool \<Rightarrow> bool \<Rightarrow> int \<Rightarrow> DedicatedIngressTranslator" where
  "NewDedicatedIngressTranslator secretsNamespace enforceHTTPs useProxyProtocol idleTimeoutSeconds =
     \<lparr>it_secretsNamespace = secretsNamespace, it_enforceHTTPs = enforceHTTPs,
      it_useProxyProtocol = useProxyProtocol, it_idleTimeoutSeconds = idleTimeoutSeconds\<rparr>"

definition NewSharedIngressTranslator ::
  "string \<Rightarrow> string \<Rightarrow> string \<Rightarrow> bool \<Rightarrow> bool \<Rightarrow> int \<Rightarrow> defaultTranslator" where
  "NewSharedIngressTranslator name namespace secretsNamespace enforceHTTPs useProxyProtocol idleTimeoutSeconds =
     NewTranslator name namespace secretsNamespace enforceHTTPs useProxyProtocol False idleTimeoutSeconds
       True False"

text \<open>The owner of what is generated for an Ingress; \<open>corev1.SchemeGroupVersion\<close> prints as \<open>v1\<close>.\<close>

definition ingressOwner :: "FullyQualifiedResource \<Rightarrow> OwnerReference" where
  "ingressOwner resource =
     \<lparr>or_APIVersion = ''v1'', or_Kind = ''Ingress'', or_Name = fqr_Name resource,
      or_UID = fqr_UID resource, or_Controller = Some True\<rparr>"

definition ingress_getService :: "FullyQualifiedResource \<Rightarrow> Service option \<Rightarrow> CoreServiceObject" where
  "ingress_getService resource service =
     (let nodePort = (case service of Some s \<Rightarrow> svc_Type s = ''NodePort'' | None \<Rightarrow> False);
          insecure = (case service of
                        Some s \<Rightarrow> (if nodePort then (case svc_InsecureNodePort s of Some p \<Rightarrow> sint p | None \<Rightarrow> 0) else 0)
                      | None \<Rightarrow> 0);
          secure = (case service of
                      Some s \<Rightarrow> (if nodePort then (case svc_SecureNodePort s of Some p \<Rightarrow> sint p | None \<Rightarrow> 0) else 0)
                    | None \<Rightarrow> 0)
      in \<lparr>cso_Name = dolphinIngressPrefix @ ''-'' @ fqr_Name resource,
          cso_Namespace = fqr_Namespace resource,
          cso_Labels = [(dolphinIngressLabelKey, ''true'')],
          cso_Annotations = [],
          cso_OwnerReferences = [ingressOwner resource],
          cso_Type = (if nodePort then ''NodePort'' else ''LoadBalancer''),
          cso_Ports =
            [\<lparr>sp_Name = ''http'', sp_Port = 80, sp_TargetPort = 0, sp_Protocol = ''TCP'', sp_NodePort = insecure\<rparr>,
             \<lparr>sp_Name = ''https'', sp_Port = 443, sp_TargetPort = 0, sp_Protocol = ''TCP'', sp_NodePort = secure\<rparr>]\<rparr>)"

definition ingress_getEndpoints :: "FullyQualifiedResource \<Rightarrow> CoreEndpoints" where
  "ingress_getEndpoints resource =
     \<lparr>ceo_Name = dolphinIngressPrefix @ ''-'' @ fqr_Name resource,
      ceo_Namespace = fqr_Namespace resource,
      ceo_Labels = [(dolphinIngressLabelKey, ''true'')],
      ceo_OwnerReferences = [ingressOwner resource],
      ceo_Addresses = [''192.192.192.192''], ceo_Ports = [9999]\<rparr>"

text \<open>The first source of the first listener, HTTP listeners before TLS listeners.\<close>

definition ingressSource :: "Model \<Rightarrow> (FullyQualifiedResource \<times> Service option) option" where
  "ingressSource m =
     (case m_HTTP m of
        l # _ \<Rightarrow> (case hl_Sources l of [] \<Rightarrow> None | s # _ \<Rightarrow> Some (s, hl_Service l))
      | [] \<Rightarrow> (case m_TLS m of
                 l # _ \<Rightarrow> (case tl_Sources l of [] \<Rightarrow> None | s # _ \<Rightarrow> Some (s, tl_Service l))
               | [] \<Rightarrow> None))"

definition ingressSettings :: "DedicatedIngressTranslator \<Rightarrow> FullyQualifiedResource \<Rightarrow> defaultTranslator" where
  "ingressSettings d source =
     NewTranslator (dolphinIngressPrefix @ ''-'' @ fqr_Name source) (fqr_Namespace source)
       (it_secretsNamespace d) (it_enforceHTTPs d) (it_useProxyProtocol d) False (it_idleTimeoutSeconds d)
       True False"

definition ingress_Translate ::
  "'b Lib \<Rightarrow> uint32 \<Rightarrow> DedicatedIngressTranslator \<Rightarrow> Model option \<Rightarrow> (string + 'b Translation) option" where
  "ingress_Translate L xff d model =
     (case model of
        None \<Rightarrow> Some (Inl ''model source can't be empty'')
      | Some m \<Rightarrow>
        if length (m_HTTP m) = 0 \<and> length (m_TLS m) = 0 then Some (Inl ''model source can't be empty'')
        else do {
          (source, service) \<leftarrow> ingressSource m;
          cec \<leftarrow> Translate L xff (ingressSettings d source) m;
          Some (Inr \<lparr>trn_DEC = Some (cec\<lparr>dec_Name := dolphinIngressPrefix @ ''-'' @ fqr_Namespace source @
                                          ''-'' @ fqr_Name source\<rparr>),
                     trn_Service = Some (ingress_getService source service),
                     trn_Endpoints = Some (ingress_getEndpoints source)\<rparr>) })"

section \<open>What the listeners contribute\<close>

text \<open>The source of the first listener whose first source has a name.\<close>

definition firstNamedSource :: "Model \<Rightarrow> FullyQualifiedResource option" where
  "firstNamedSource m =
     List.find (\<lambda>s. fqr_Name s \<noteq> '''')
       (concat (map (\<lambda>(sources, port, infra). take 1 sources) (modelListeners m)))"

lemma fold_addListener:
  "col_source (fold addListener ls c) =
     (case col_source c of
        Some s \<Rightarrow> Some s
      | None \<Rightarrow> List.find (\<lambda>s. fqr_Name s \<noteq> '''') (concat (map (\<lambda>(sources, port, infra). take 1 sources) ls))) \<and>
   col_ports (fold addListener ls c) = col_ports c @ map (\<lambda>(sources, port, infra). port) ls"
proof (induction ls arbitrary: c)
  case (Cons l ls)
  obtain sources port infra where l: "l = (sources, port, infra)" by (cases l) auto
  have p: "col_ports (addListener l c) = col_ports c @ [port]"
    unfolding l by (auto simp: addListener_def Let_def split: option.split list.split)
  have s: "col_source (addListener l c) =
      (case col_source c of Some s \<Rightarrow> Some s | None \<Rightarrow> List.find (\<lambda>s. fqr_Name s \<noteq> '''') (take 1 sources))"
    unfolding l by (cases sources; cases infra) (auto simp: addListener_def Let_def split: option.split)
  have "List.find (\<lambda>s. fqr_Name s \<noteq> '''') (take 1 sources @ rest) =
      (case List.find (\<lambda>s. fqr_Name s \<noteq> '''') (take 1 sources) of
         Some s \<Rightarrow> Some s | None \<Rightarrow> List.find (\<lambda>s. fqr_Name s \<noteq> '''') rest)" for rest
    by (cases sources) auto
  then show ?case using Cons.IH [of "addListener l c"] p s unfolding l by (auto split: option.splits)
qed (simp split: option.split)

lemma collect_source: "col_source (collectListeners m) = firstNamedSource m"
  and collect_ports: "col_ports (collectListeners m) = map (\<lambda>(sources, port, infra). port) (modelListeners m)"
  using fold_addListener [of "modelListeners m"] unfolding collectListeners_def firstNamedSource_def by simp_all

interpretation gateway_translator: envoy_translator L xff
  "\<lambda>m. gatewaySettings t (the (firstNamedSource m))"
  "\<lambda>m. case gateway_Translate L xff t cfg (Some m) of Some (Inr r) \<Rightarrow> trn_DEC r | _ \<Rightarrow> None"
  for L xff t cfg
proof
  fix m dec
  assume "(case gateway_Translate L xff t cfg (Some m) of Some (Inr r) \<Rightarrow> trn_DEC r | _ \<Rightarrow> None) = Some dec"
  then obtain s d where "firstNamedSource m = Some s" "Translate L xff (gatewaySettings t s) m = Some d"
    "dec = d\<lparr>dec_OwnerReferences := [gatewayOwner s]\<rparr>"
    by (auto simp: gateway_Translate_def collect_source Let_def bind_eq_Some
        split: option.splits sum.splits if_splits Option.bind_splits)
  then show "getResources L xff (gatewaySettings t (the (firstNamedSource m))) m = Some (dec_Resources dec)"
    "dec_BackendServices dec = getBackendServices L m"
    using default_translator.resources default_translator.services by auto
qed

interpretation ingress_translator: envoy_translator L xff
  "\<lambda>m. ingressSettings d (fst (the (ingressSource m)))"
  "\<lambda>m. case ingress_Translate L xff d (Some m) of Some (Inr r) \<Rightarrow> trn_DEC r | _ \<Rightarrow> None"
  for L xff d
proof
  fix m dec
  assume "(case ingress_Translate L xff d (Some m) of Some (Inr r) \<Rightarrow> trn_DEC r | _ \<Rightarrow> None) = Some dec"
  then obtain s sv c where "ingressSource m = Some (s, sv)" "Translate L xff (ingressSettings d s) m = Some c"
    "dec = c\<lparr>dec_Name := dolphinIngressPrefix @ ''-'' @ fqr_Namespace s @ ''-'' @ fqr_Name s\<rparr>"
    by (auto simp: ingress_Translate_def bind_eq_Some
        split: option.splits sum.splits if_splits Option.bind_splits)
  then show "getResources L xff (ingressSettings d (fst (the (ingressSource m)))) m = Some (dec_Resources dec)"
    "dec_BackendServices dec = getBackendServices L m"
    using default_translator.resources default_translator.services by auto
qed

section \<open>Properties\<close>

definition gateway_result :: "'b Lib \<Rightarrow> translator \<Rightarrow> Model option \<Rightarrow> 'b Translation \<Rightarrow> bool" where
  "gateway_result L t model r \<longleftrightarrow>
     (\<exists>m s svc eps. model = Some m \<and> firstNamedSource m = Some s \<and>
        trn_Service r = Some svc \<and> trn_Endpoints r = Some eps \<and>
        cso_Name svc = ceo_Name eps \<and> length (cso_Name svc) \<le> 63 \<and>
        cso_Namespace svc = fqr_Namespace s \<and> ceo_Namespace eps = fqr_Namespace s \<and>
        cso_OwnerReferences svc = [gatewayOwner s] \<and> ceo_OwnerReferences eps = [gatewayOwner s] \<and>
        (trn_DEC r = None \<longleftrightarrow> m_HTTP m = [] \<and> m_TLS m = [] \<and> m_TCP m = []) \<and>
        (\<forall>dec. trn_DEC r = Some dec \<longrightarrow>
           dec_Namespace dec = fqr_Namespace s \<and> dec_OwnerReferences dec = [gatewayOwner s] \<and>
           self_contained L (gatewaySettings t s) m dec))"

text \<open>
  Claim C11. Translating the model of a Gateway never panics on a translatable model. It is an
  error exactly if there is no model or no listener has a named source. Otherwise the Service
  and the Endpoints have the same name of at most 63 characters and are owned by that source;
  there is a configuration exactly if there is a listener other than UDP, it is in the same
  namespace with the same owner, and every cluster it refers to is in it.
\<close>

theorem gateway_Translate_correct:
  assumes "lib_ok L" "\<forall>m. model = Some m \<longrightarrow> translatable m"
  shows "\<exists>res. gateway_Translate L xff t cfg model = Some res \<and>
    (case res of
       Inl err \<Rightarrow> (case model of None \<Rightarrow> True | Some m \<Rightarrow> firstNamedSource m = None)
     | Inr r \<Rightarrow> gateway_result L t model r)"
proof (cases model)
  case (Some m)
  show ?thesis
  proof (cases "firstNamedSource m")
    case (Some s)
    note src = this
    have len: "length (shortened x) \<le> 63" for x by (simp add: length_shortened)
    obtain d where d: "Translate L xff (gatewaySettings t s) m = Some d"
      using assms \<open>model = Some m\<close> getResources_total [OF assms(1), of m xff "gatewaySettings t s"]
      by (auto simp: Translate_def)
    have ns: "dec_Namespace d = fqr_Namespace s"
      using d by (auto simp: Translate_def bind_eq_Some gatewaySettings_def NewTranslator_def)
    have "self_contained L (gatewaySettings t s) m dec"
      if "(case gateway_Translate L xff t cfg (Some m) of Some (Inr r) \<Rightarrow> trn_DEC r | _ \<Rightarrow> None) = Some dec" for dec
      using gateway_translator.translated_self_contained [OF assms(1) that] src by simp
    then show ?thesis
      using \<open>model = Some m\<close> src d ns len
      by (auto simp: gateway_Translate_def collect_source Let_def gateway_getService_def gateway_getEndpoints_def
          gateway_result_def)
  qed (simp add: \<open>model = Some m\<close> gateway_Translate_def collect_source Let_def)
qed (simp add: gateway_Translate_def)

theorem gateway_Translate_correct_witness:
  "translatable demoModel \<and>
   (\<exists>r dec. gateway_Translate exampleLib 1 (gateway_NewTranslator ''secrets'' 60 True False) None (Some demoModel) =
      Some (Inr r) \<and> trn_DEC r = Some dec \<and> dec_Namespace dec = ''prod'')"
proof -
  let ?res = "gateway_Translate exampleLib 1 (gateway_NewTranslator ''secrets'' 60 True False) None (Some demoModel)"
  have s: "firstNamedSource demoModel = Some \<lparr>fqr_Name = ''gw'', fqr_Namespace = ''prod'', fqr_Group = '''',
      fqr_Version = '''', fqr_Kind = ''Gateway'', fqr_UID = ''u''\<rparr>"
    by (simp add: firstNamedSource_def modelListeners_def demoModel_def)
  have ne: "m_HTTP demoModel \<noteq> []" by (simp add: demoModel_def)
  have prem: "\<forall>m. Some demoModel = Some m \<longrightarrow> translatable m" using demo_translatable by simp
  from gateway_Translate_correct [OF exampleLib_ok prem, of 1 "gateway_NewTranslator ''secrets'' 60 True False" None]
  show ?thesis
  proof (elim exE conjE)
    fix res assume "?res = Some res" and "case res of
       Inl err \<Rightarrow> (case Some demoModel of None \<Rightarrow> True | Some m \<Rightarrow> firstNamedSource m = None)
     | Inr r \<Rightarrow> gateway_result exampleLib (gateway_NewTranslator ''secrets'' 60 True False) (Some demoModel) r"
    then show ?thesis using s ne demo_translatable by (cases res) (auto simp: gateway_result_def)
  qed
qed

lemma sint_small:
  fixes p :: uint32 assumes "unat p < 2 ^ 31" shows "sint p = uint p"
proof -
  have "int (unat p) < int (2 ^ 31)" using assms by (simp only: of_nat_less_iff)
  then have lt: "uint p < 2 ^ 31" by (simp only: uint_nat of_nat_power of_nat_numeral)
  then have z: "uint p div 2 ^ 31 = 0" using uint_ge_0 [of p] by (simp only: div_pos_pos_trivial)
  have "\<not> bit (uint p) 31" by (simp only: bit_iff_odd z) simp
  then show ?thesis using lt by (simp add: sint_uint signed_take_bit_eq_if_positive take_bit_int_eq_self)
qed

text \<open>
  The Service of a Gateway has one TCP port for each port of a listener, UDP
  listeners included, in increasing order and with pairwise different names.
\<close>

theorem gateway_service_ports:
  assumes "\<forall>p \<in> set ports. unat p < 2 ^ 31"
  shows "let svc = gateway_getService resource ports labels annotations cfg in
         sorted_wrt (<) (map sp_Port (cso_Ports svc)) \<and>
         sp_Port ` set (cso_Ports svc) = uint ` set ports \<and>
         distinct (map sp_Name (cso_Ports svc)) \<and>
         (\<forall>sp \<in> set (cso_Ports svc). sp_Protocol sp = ''TCP'' \<and> sp_TargetPort sp = sp_Port sp)"
proof -
  let ?ps = "sort (remdups ports)"
  have sint: "sint p = uint p" if "p \<in> set ports" for p :: uint32
    using assms that by (intro sint_small) blast
  have m: "map sint ?ps = map uint ?ps" using sint by simp
  have "sorted_wrt (<) ?ps" by (simp add: strict_sorted_iff)
  then have s: "sorted_wrt (<) (map uint ?ps)" by (simp add: sorted_wrt_map word_less_def [symmetric])
  have "distinct (map (\<lambda>p. ''port-'' @ Itoa (uint p)) ?ps)"
    by (simp add: distinct_map inj_on_def Itoa_inj word_uint_eq_iff)
  moreover have "sorted_wrt (<) (map sint ?ps)" unfolding m by (rule s)
  ultimately show ?thesis using sint
    by (simp add: gateway_getService_def Let_def comp_def image_image)
qed

theorem gateway_service_ports_witness:
  "sp_Port ` set (cso_Ports (gateway_getService
      \<lparr>fqr_Name = ''gw'', fqr_Namespace = ''prod'', fqr_Group = '''', fqr_Version = '''', fqr_Kind = ''Gateway'',
       fqr_UID = ''u''\<rparr> [443, 80, 443] [] [] None)) = {80, 443}"
  using gateway_service_ports [of "[443, 80, 443]" "\<lparr>fqr_Name = ''gw'', fqr_Namespace = ''prod'', fqr_Group = '''',
      fqr_Version = '''', fqr_Kind = ''Gateway'', fqr_UID = ''u''\<rparr>" "[]" "[]" None]
  by (auto simp: Let_def)

end
