(* ===== verification/Conditions.thy ===== *)
theory Conditions
  imports Gateway_Helpers
begin

text \<open>
  Status conditions. The same merge of updates into existing conditions is written three
  times, in \<open>src/pkg/gateway_api/helpers/conditions.go\<close>, \<open>src/pkg/gateway_api/status.go\<close>
  and \<open>src/pkg/gateway_api/routechecker/conditions.go\<close>. The locale \<open>condition_store\<close>
  states what the status setters rely on; it is interpreted on all three. The setters of
  \<open>gateway_status.go\<close> and \<open>gatewayclass_status.go\<close> take the generation and the current
  time as arguments.
\<close>

datatype ConditionStatus = ConditionTrue | ConditionFalse | ConditionUnknown

record Condition =
  cond_Type :: string
  cond_Status :: ConditionStatus
  cond_Reason :: string
  cond_Message :: string
  cond_ObservedGeneration :: int
  cond_LastTransitionTime :: int

section \<open>The merge\<close>

definition ConditionChanged :: "Condition \<Rightarrow> Condition \<Rightarrow> bool" where
  "ConditionChanged a b \<longleftrightarrow>
     cond_Status a \<noteq> cond_Status b \<or> cond_Reason a \<noteq> cond_Reason b \<or>
     cond_Message a \<noteq> cond_Message b \<or> cond_ObservedGeneration a \<noteq> cond_ObservedGeneration b"

text \<open>The inner loop: update the first condition of the type in place; whether there was one.\<close>

fun updateFirst :: "Condition \<Rightarrow> Condition list \<Rightarrow> Condition list \<times> bool" where
  "updateFirst update [] = ([], False)"
| "updateFirst update (cond # conds) =
     (if cond_Type cond = cond_Type update then
        ((if ConditionChanged cond update
          then cond\<lparr>cond_Status := cond_Status update, cond_Reason := cond_Reason update,
                    cond_Message := cond_Message update,
                    cond_ObservedGeneration := cond_ObservedGeneration update,
                    cond_LastTransitionTime := cond_LastTransitionTime update\<rparr>
          else cond) # conds, True)
      else let (conds', found) = updateFirst update conds in (cond # conds', found))"

fun mergeLoop :: "Condition list \<Rightarrow> Condition list \<Rightarrow> Condition list \<Rightarrow> Condition list" where
  "mergeLoop existing additions [] = existing @ additions"
| "mergeLoop existing additions (update # updates) =
     (let (existing', found) = updateFirst update existing
      in mergeLoop existing' (if found then additions else additions @ [update]) updates)"

definition MergeConditions :: "Condition list \<Rightarrow> Condition list \<Rightarrow> Condition list" where
  "MergeConditions existingConditions updates = mergeLoop existingConditions [] updates"

definition gateway_merge :: "Condition list \<Rightarrow> Condition list \<Rightarrow> Condition list" where
  "gateway_merge existingConditions updates = mergeLoop existingConditions [] updates"

definition routechecker_merge :: "Condition list \<Rightarrow> Condition list \<Rightarrow> Condition list" where
  "routechecker_merge existingConditions updates = mergeLoop existingConditions [] updates"

definition IsConditionPresent :: "Condition list \<Rightarrow> string \<Rightarrow> bool" where
  "IsConditionPresent conds condType \<longleftrightarrow> (\<exists>cond \<in> set conds. cond_Type cond = condType)"

definition IsAccepted :: "Condition list \<Rightarrow> bool" where
  "IsAccepted conds \<longleftrightarrow>
     (\<exists>cond \<in> set conds. cond_Type cond = ''Accepted'' \<and> cond_Status cond = ConditionTrue)"

section \<open>The contract of a condition store\<close>

abbreviation types_of :: "Condition list \<Rightarrow> string list" where
  "types_of cs \<equiv> map cond_Type cs"

definition condOf :: "Condition list \<Rightarrow> string \<Rightarrow> Condition option" where
  "condOf cs t = find (\<lambda>c. cond_Type c = t) cs"

text \<open>An update that changes nothing but the time leaves the condition, and its time, alone.\<close>

definition refresh :: "Condition \<Rightarrow> Condition \<Rightarrow> Condition" where
  "refresh old new = (if ConditionChanged old new then new else old)"

locale condition_store =
  fixes store_merge :: "Condition list \<Rightarrow> Condition list \<Rightarrow> Condition list"
  assumes store_types:
    "distinct (types_of us) \<Longrightarrow>
     types_of (store_merge es us) = types_of es @ filter (\<lambda>t. t \<notin> set (types_of es)) (types_of us)"
    and store_lookup:
    "distinct (types_of us) \<Longrightarrow>
     condOf (store_merge es us) t =
       (case condOf us t of
          None \<Rightarrow> condOf es t
        | Some u \<Rightarrow> Some (case condOf es t of None \<Rightarrow> u | Some old \<Rightarrow> refresh old u))"
begin

lemma keeps_distinct:
  "distinct (types_of es) \<Longrightarrow> distinct (types_of us) \<Longrightarrow> distinct (types_of (store_merge es us))"
  by (auto simp: store_types)

end

lemma condOf_Nil [simp]: "condOf [] t = None"
  by (simp add: condOf_def)

lemma condOf_Cons [simp]: "condOf (c # cs) t = (if cond_Type c = t then Some c else condOf cs t)"
  by (simp add: condOf_def)

lemma condOf_append: "condOf (xs @ ys) t = (case condOf xs t of None \<Rightarrow> condOf ys t | Some c \<Rightarrow> Some c)"
  by (induction xs) auto

lemma condOf_None: "condOf cs t = None \<longleftrightarrow> t \<notin> set (types_of cs)"
  by (induction cs) auto

lemma condOf_type: "condOf cs t = Some c \<Longrightarrow> cond_Type c = t \<and> c \<in> set cs"
  by (induction cs) (auto split: if_splits)

lemma condOf_distinct: "distinct (types_of cs) \<Longrightarrow> c \<in> set cs \<Longrightarrow> condOf cs (cond_Type c) = Some c"
  by (induction cs) (auto simp: rev_image_eqI)

text \<open>Conditions with distinct types are determined by their types and their lookups.\<close>

lemma conditions_ext:
  assumes "types_of xs = types_of ys" "distinct (types_of xs)"
    and "\<And>t. t \<in> set (types_of xs) \<Longrightarrow> condOf xs t = condOf ys t"
  shows "xs = ys"
  using assms
proof (induction xs arbitrary: ys)
  case (Cons x xs)
  obtain y ys' where ys: "ys = y # ys'" "cond_Type y = cond_Type x" using Cons.prems(1) by (cases ys) auto
  have "x = y" using Cons.prems(3) [of "cond_Type x"] ys by simp
  moreover have "xs = ys'"
  proof (rule Cons.IH)
    show "types_of xs = types_of ys'" "distinct (types_of xs)" using Cons.prems(1,2) ys by simp_all
  next
    fix t assume that: "t \<in> set (types_of xs)"
    have "t \<noteq> cond_Type x" using that Cons.prems(2) by (metis distinct.simps(2) list.map(2))
    then show "condOf xs t = condOf ys' t" using Cons.prems(3) [of t] that ys by simp
  qed
  ultimately show ?case using ys by simp
qed simp

text \<open>
  Updates with the same content and another time: what the next reconciliation computes
  when nothing has changed in between.
\<close>

definition retimed :: "Condition list \<Rightarrow> Condition list \<Rightarrow> bool" where
  "retimed us us' \<longleftrightarrow>
     list_all2 (\<lambda>u u'. cond_Type u' = cond_Type u \<and> \<not> ConditionChanged u u') us us'"

lemma retimed_types: "retimed us us' \<Longrightarrow> types_of us' = types_of us"
  unfolding retimed_def by (induction rule: list_all2_induct) auto

lemma retimed_lookup:
  "retimed us us' \<Longrightarrow> condOf us' t = Some u' \<Longrightarrow> \<exists>u. condOf us t = Some u \<and> \<not> ConditionChanged u u'"
  unfolding retimed_def by (induction rule: list_all2_induct) (auto split: if_splits)

lemma refresh_unchanged:
  "\<not> ConditionChanged u u' \<Longrightarrow> refresh (refresh old u) u' = refresh old u"
  "\<not> ConditionChanged u u' \<Longrightarrow> refresh u u' = u"
  by (auto simp: refresh_def ConditionChanged_def)

context condition_store
begin

lemma merge_again:
  assumes "distinct (types_of es)" "distinct (types_of us)" "retimed us us'"
  shows "store_merge (store_merge es us) us' = store_merge es us"
proof (rule conditions_ext)
  have us': "types_of us' = types_of us" using assms(3) by (rule retimed_types)
  show types: "types_of (store_merge (store_merge es us) us') = types_of (store_merge es us)"
    using assms(2) us' by (simp add: store_types filter_empty_conv)
  show "distinct (types_of (store_merge (store_merge es us) us'))"
    unfolding types using keeps_distinct assms(1,2) by simp
  show "condOf (store_merge (store_merge es us) us') t = condOf (store_merge es us) t" for t
  proof (cases "condOf us' t")
    case (Some u')
    then obtain u where "condOf us t = Some u" "\<not> ConditionChanged u u'"
      using retimed_lookup [OF assms(3)] by blast
    then show ?thesis
      using Some assms(2) us' refresh_unchanged by (simp add: store_lookup split: option.splits)
  qed (use assms(2) us' in \<open>simp add: store_lookup\<close>)
qed

text \<open>Setting one condition: its type then has the content of the update.\<close>

lemma set_one:
  "\<exists>c. condOf (store_merge es [u]) (cond_Type u) = Some c \<and> \<not> ConditionChanged c u \<and>
       cond_Type c = cond_Type u"
proof -
  have "condOf (store_merge es [u]) (cond_Type u) =
      Some (case condOf es (cond_Type u) of None \<Rightarrow> u | Some old \<Rightarrow> refresh old u)"
    by (simp add: store_lookup)
  moreover have "\<not> ConditionChanged (refresh old u) u" for old
    by (simp add: refresh_def ConditionChanged_def)
  moreover have "\<not> ConditionChanged u u" by (simp add: ConditionChanged_def)
  moreover have "cond_Type (refresh old u) = cond_Type u" if "condOf es (cond_Type u) = Some old" for old
    using condOf_type [OF that] by (simp add: refresh_def)
  ultimately show ?thesis by (cases "condOf es (cond_Type u)") simp_all
qed

lemma accepted_after_set:
  assumes "distinct (types_of es)" "cond_Type u = ''Accepted''"
  shows "IsAccepted (store_merge es [u]) \<longleftrightarrow> cond_Status u = ConditionTrue"
proof -
  have d: "distinct (types_of (store_merge es [u]))" using keeps_distinct assms(1) by simp
  obtain c where c: "condOf (store_merge es [u]) ''Accepted'' = Some c" "\<not> ConditionChanged c u"
    using set_one [of es u] assms(2) by auto
  have "x = c" if "x \<in> set (store_merge es [u])" "cond_Type x = ''Accepted''" for x
    using condOf_distinct [OF d that(1)] that(2) c(1) by simp
  moreover have "c \<in> set (store_merge es [u])" "cond_Type c = ''Accepted''"
    using condOf_type [OF c(1)] by auto
  ultimately show ?thesis using c(2) unfolding IsAccepted_def ConditionChanged_def by metis
qed

end

section \<open>The three merges implement it\<close>

lemma updated_eq:
  "cond_Type c = cond_Type u \<Longrightarrow>
   (if ConditionChanged c u
    then c\<lparr>cond_Status := cond_Status u, cond_Reason := cond_Reason u, cond_Message := cond_Message u,
           cond_ObservedGeneration := cond_ObservedGeneration u,
           cond_LastTransitionTime := cond_LastTransitionTime u\<rparr>
    else c) = refresh c u"
  by (simp add: refresh_def)

lemma refresh_type [simp]: "cond_Type c = cond_Type u \<Longrightarrow> cond_Type (refresh c u) = cond_Type u"
  by (simp add: refresh_def)

lemma updateFirst_spec:
  "types_of (fst (updateFirst u cs)) = types_of cs"
  "snd (updateFirst u cs) \<longleftrightarrow> cond_Type u \<in> set (types_of cs)"
  "condOf (fst (updateFirst u cs)) t =
     (if t = cond_Type u then map_option (\<lambda>old. refresh old u) (condOf cs t) else condOf cs t)"
  by (induction cs) (auto simp: Let_def split_beta updated_eq)

lemma mergeLoop_types:
  "distinct (types_of us) \<Longrightarrow>
   types_of (mergeLoop es adds us) =
     types_of es @ types_of adds @ filter (\<lambda>t. t \<notin> set (types_of es)) (types_of us)"
proof (induction us arbitrary: es adds)
  case (Cons u us)
  have sets: "cond_Type ` set (fst (updateFirst u es)) = cond_Type ` set es"
    using updateFirst_spec(1) [of u es] by (metis list.set_map)
  show ?case
    using Cons updateFirst_spec(1,2) [of u es] by (simp add: split_beta sets)
qed simp

lemma mergeLoop_lookup:
  "distinct (types_of us) \<Longrightarrow> set (types_of adds) \<inter> set (types_of us) = {} \<Longrightarrow>
   condOf (mergeLoop es adds us) t =
     (case condOf us t of
        None \<Rightarrow> condOf (es @ adds) t
      | Some u \<Rightarrow> Some (case condOf es t of None \<Rightarrow> u | Some old \<Rightarrow> refresh old u))"
proof (induction us arbitrary: es adds)
  case (Cons u us)
  obtain es' found where upd: "updateFirst u es = (es', found)" by fastforce
  note spec = updateFirst_spec [of u es, unfolded upd fst_conv snd_conv]
  let ?adds = "if found then adds else adds @ [u]"
  have IH: "condOf (mergeLoop es' ?adds us) t =
     (case condOf us t of
        None \<Rightarrow> condOf (es' @ ?adds) t
      | Some u \<Rightarrow> Some (case condOf es' t of None \<Rightarrow> u | Some old \<Rightarrow> refresh old u))"
    using Cons.prems by (intro Cons.IH) auto
  show ?case
  proof (cases "t = cond_Type u")
    case True
    then have "condOf us t = None" "condOf adds t = None"
      using Cons.prems by (auto simp: condOf_None)
    then show ?thesis using True IH spec upd condOf_None [of es t]
      by (auto simp: condOf_append split: option.splits)
  next
    case False
    then show ?thesis using IH spec upd by (auto simp: condOf_append split: option.splits)
  qed
qed (simp add: condOf_append)

lemma mergeLoop_store: "condition_store (\<lambda>es us. mergeLoop es [] us)"
  by unfold_locales (simp_all add: mergeLoop_types mergeLoop_lookup split: option.split)

interpretation helpers_store: condition_store MergeConditions
  using mergeLoop_store by (simp add: MergeConditions_def [abs_def])

interpretation gateway_store: condition_store gateway_merge
  using mergeLoop_store by (simp add: gateway_merge_def [abs_def])

interpretation routechecker_store: condition_store routechecker_merge
  using mergeLoop_store by (simp add: routechecker_merge_def [abs_def])

section \<open>The setters\<close>

text \<open>The part of an API object that the setters touch.\<close>

record StatusObject =
  st_Generation :: int
  st_Conditions :: "Condition list"

abbreviation (input) mkCondition ::
  "string \<Rightarrow> ConditionStatus \<Rightarrow> string \<Rightarrow> string \<Rightarrow> int \<Rightarrow> int \<Rightarrow> Condition" where
  "mkCondition t s r m g now \<equiv>
     \<lparr>cond_Type = t, cond_Status = s, cond_Reason = r, cond_Message = m,
      cond_ObservedGeneration = g, cond_LastTransitionTime = now\<rparr>"

definition newCondition ::
  "string \<Rightarrow> ConditionStatus \<Rightarrow> string \<Rightarrow> string \<Rightarrow> int \<Rightarrow> int \<Rightarrow> Condition" where
  "newCondition conditionType status reason msg lastTransitionTime observedGeneration =
     mkCondition conditionType status reason msg observedGeneration lastTransitionTime"

definition gatewayStatusAcceptedCondition :: "int \<Rightarrow> StatusObject \<Rightarrow> bool \<Rightarrow> string \<Rightarrow> Condition" where
  "gatewayStatusAcceptedCondition now gw accepted msg =
     (if accepted then mkCondition ''Accepted'' ConditionTrue ''Accepted'' msg (st_Generation gw) now
      else mkCondition ''Accepted'' ConditionFalse ''NoResources'' msg (st_Generation gw) now)"

definition setGatewayAccepted :: "int \<Rightarrow> StatusObject \<Rightarrow> bool \<Rightarrow> string \<Rightarrow> StatusObject" where
  "setGatewayAccepted now gw accepted msg =
     gw\<lparr>st_Conditions :=
          gateway_merge (st_Conditions gw) [gatewayStatusAcceptedCondition now gw accepted msg]\<rparr>"

definition gatewayListenerAcceptedCondition :: "int \<Rightarrow> StatusObject \<Rightarrow> bool \<Rightarrow> string \<Rightarrow> Condition" where
  "gatewayListenerAcceptedCondition now gw ready msg =
     (if ready then mkCondition ''Accepted'' ConditionTrue ''Accepted'' msg (st_Generation gw) now
      else mkCondition ''Accepted'' ConditionFalse ''Pending'' msg (st_Generation gw) now)"

definition gwStsAcpCondition :: "int \<Rightarrow> StatusObject \<Rightarrow> bool \<Rightarrow> string \<Rightarrow> Condition" where
  "gwStsAcpCondition now gw accepted msg =
     (if accepted then mkCondition ''Accepted'' ConditionTrue ''Accepted'' msg (st_Generation gw) now
      else mkCondition ''Accepted'' ConditionFalse ''NoResources'' msg (st_Generation gw) now)"

definition listenerAcceptedCondition :: "int \<Rightarrow> int \<Rightarrow> bool \<Rightarrow> string \<Rightarrow> string \<Rightarrow> Condition" where
  "listenerAcceptedCondition now generation ready reason msg =
     (if ready then mkCondition ''Accepted'' ConditionTrue reason msg generation now
      else mkCondition ''Accepted'' ConditionFalse reason msg generation now)"

definition listenerProgrammedCondition :: "int \<Rightarrow> int \<Rightarrow> bool \<Rightarrow> string \<Rightarrow> string \<Rightarrow> Condition" where
  "listenerProgrammedCondition now generation ready reason msg =
     (if ready then mkCondition ''Programmed'' ConditionTrue reason msg generation now
      else mkCondition ''Programmed'' ConditionFalse reason msg generation now)"

definition setListenerSetAccepted :: "int \<Rightarrow> StatusObject \<Rightarrow> bool \<Rightarrow> string \<Rightarrow> string \<Rightarrow> StatusObject" where
  "setListenerSetAccepted now ls accepted msg reason =
     (let status = (if \<not> accepted then ConditionFalse else ConditionTrue)
      in ls\<lparr>st_Conditions := gateway_merge (st_Conditions ls)
              [mkCondition ''Accepted'' status reason msg (st_Generation ls) now]\<rparr>)"

definition gwStsReadyCondition :: "int \<Rightarrow> StatusObject \<Rightarrow> bool \<Rightarrow> string \<Rightarrow> Condition" where
  "gwStsReadyCondition now gw scheduled msg =
     (if scheduled then mkCondition ''Ready'' ConditionTrue ''Ready'' msg (st_Generation gw) now
      else mkCondition ''Ready'' ConditionFalse ''NoResources'' msg (st_Generation gw) now)"

definition gwStsProgrmCondition :: "int \<Rightarrow> StatusObject \<Rightarrow> bool \<Rightarrow> string \<Rightarrow> Condition" where
  "gwStsProgrmCondition now gw ready msg =
     (if ready then mkCondition ''Programmed'' ConditionTrue ''Accepted'' msg (st_Generation gw) now
      else mkCondition ''Programmed'' ConditionFalse ''ListenersNotReady'' msg (st_Generation gw) now)"

definition setGatewayProgrammed :: "int \<Rightarrow> StatusObject \<Rightarrow> bool \<Rightarrow> string \<Rightarrow> StatusObject" where
  "setGatewayProgrammed now gw ready msg =
     gw\<lparr>st_Conditions := gateway_merge (st_Conditions gw) [gwStsProgrmCondition now gw ready msg]\<rparr>"

definition gatewayListenerInvalidRouteKinds :: "int \<Rightarrow> StatusObject \<Rightarrow> string \<Rightarrow> Condition" where
  "gatewayListenerInvalidRouteKinds now gw msg =
     mkCondition ''ResolvedRefs'' ConditionTrue ''InvalidRouteKinds'' msg (st_Generation gw) now"

definition gatewayListenerProgrammedCondition :: "int \<Rightarrow> StatusObject \<Rightarrow> bool \<Rightarrow> string \<Rightarrow> Condition" where
  "gatewayListenerProgrammedCondition now gw ready msg =
     (if ready then mkCondition ''Programmed'' ConditionTrue ''Programmed'' msg (st_Generation gw) now
      else mkCondition ''Programmed'' ConditionFalse ''Pending'' msg (st_Generation gw) now)"

definition setListenerSetProgrammed :: "int \<Rightarrow> StatusObject \<Rightarrow> bool \<Rightarrow> string \<Rightarrow> string \<Rightarrow> StatusObject" where
  "setListenerSetProgrammed now ls programmed msg reason =
     (let status = (if \<not> programmed then ConditionFalse else ConditionTrue)
      in ls\<lparr>st_Conditions := gateway_merge (st_Conditions ls)
              [mkCondition ''Programmed'' status reason msg (st_Generation ls) now]\<rparr>)"

definition gatewayClassAcceptedCondition :: "int \<Rightarrow> StatusObject \<Rightarrow> bool \<Rightarrow> Condition" where
  "gatewayClassAcceptedCondition now gwc accepted =
     (if accepted
      then mkCondition ''Accepted'' ConditionTrue ''Accepted'' ''Valid GatewayClass'' (st_Generation gwc) now
      else mkCondition ''Accepted'' ConditionFalse ''InvalidParameters'' ''Invalid GatewayClass''
             (st_Generation gwc) now)"

definition setGatewayClassAccepted :: "int \<Rightarrow> StatusObject \<Rightarrow> bool \<Rightarrow> StatusObject" where
  "setGatewayClassAccepted now gwc accepted =
     gwc\<lparr>st_Conditions := gateway_merge (st_Conditions gwc) [gatewayClassAcceptedCondition now gwc accepted]\<rparr>"

text \<open>The statuses of the parents of a route; a status is dropped when its parent is gone.\<close>

record RouteParentStatus =
  rps_ParentRef :: ParentReference
  rps_ControllerName :: string
  rps_Conditions :: "Condition list"

definition pruneRouteParentStatuses ::
  "RouteParentStatus list \<Rightarrow> ParentReference list \<Rightarrow> string \<Rightarrow> RouteParentStatus list" where
  "pruneRouteParentStatuses parents currentParentRefs controllerName =
     filter (\<lambda>parentStatus. rps_ControllerName parentStatus \<noteq> controllerName \<or>
               rps_ParentRef parentStatus \<in> set currentParentRefs) parents"

section \<open>Properties\<close>

text \<open>
  Claim C32. Merging updates with distinct types into conditions with distinct types keeps
  the types distinct and the order of the existing conditions; a type that is updated has
  the content of the update, and its transition time only moves if the content changed;
  every other type is untouched.
\<close>

theorem gateway_merge_correct:
  assumes "distinct (types_of es)" "distinct (types_of us)"
  shows "distinct (types_of (gateway_merge es us)) \<and> prefix (types_of es) (types_of (gateway_merge es us)) \<and>
         condOf (gateway_merge es us) t =
           (case condOf us t of
              None \<Rightarrow> condOf es t
            | Some u \<Rightarrow> Some (case condOf es t of None \<Rightarrow> u | Some old \<Rightarrow> if ConditionChanged old u then u else old))"
  using gateway_store.keeps_distinct [OF assms] gateway_store.store_types [OF assms(2), of es]
    gateway_store.store_lookup [OF assms(2), of es t]
  unfolding refresh_def by simp

theorem gateway_merge_correct_witness:
  "let old = \<lparr>cond_Type = ''Accepted'', cond_Status = ConditionFalse, cond_Reason = ''r'', cond_Message = ''m'',
              cond_ObservedGeneration = 1, cond_LastTransitionTime = 10\<rparr>;
       new = old\<lparr>cond_Status := ConditionTrue, cond_LastTransitionTime := 20\<rparr>
   in condOf (gateway_merge [old] [new]) ''Accepted'' = Some new"
  using gateway_merge_correct
    [of "[\<lparr>cond_Type = ''Accepted'', cond_Status = ConditionFalse, cond_Reason = ''r'', cond_Message = ''m'',
           cond_ObservedGeneration = 1, cond_LastTransitionTime = 10\<rparr>]"
        "[\<lparr>cond_Type = ''Accepted'', cond_Status = ConditionTrue, cond_Reason = ''r'', cond_Message = ''m'',
           cond_ObservedGeneration = 1, cond_LastTransitionTime = 20\<rparr>]" "''Accepted''"]
  by (simp add: ConditionChanged_def)

text \<open>
  Claim C33. A second reconciliation that computes the same conditions at a later time leaves
  the status as it is, in all three copies of the merge: status updates reach a fixed point
  and do not trigger each other for ever.
\<close>

theorem merge_fixed_point:
  assumes "distinct (types_of es)" "distinct (types_of us)" "retimed us us'"
  shows "MergeConditions (MergeConditions es us) us' = MergeConditions es us \<and>
         gateway_merge (gateway_merge es us) us' = gateway_merge es us \<and>
         routechecker_merge (routechecker_merge es us) us' = routechecker_merge es us"
  using helpers_store.merge_again gateway_store.merge_again routechecker_store.merge_again assms
  by blast

theorem merge_fixed_point_witness:
  "let c = \<lparr>cond_Type = ''Accepted'', cond_Status = ConditionTrue, cond_Reason = ''r'', cond_Message = ''m'',
            cond_ObservedGeneration = 1, cond_LastTransitionTime = 10\<rparr>;
       later = c\<lparr>cond_LastTransitionTime := 20\<rparr>
   in gateway_merge (gateway_merge [] [c]) [later] = gateway_merge [] [c]"
  using merge_fixed_point
    [of "[]" "[\<lparr>cond_Type = ''Accepted'', cond_Status = ConditionTrue, cond_Reason = ''r'', cond_Message = ''m'',
           cond_ObservedGeneration = 1, cond_LastTransitionTime = 10\<rparr>]"
        "[\<lparr>cond_Type = ''Accepted'', cond_Status = ConditionTrue, cond_Reason = ''r'', cond_Message = ''m'',
           cond_ObservedGeneration = 1, cond_LastTransitionTime = 20\<rparr>]"]
  by (simp add: retimed_def ConditionChanged_def)

text \<open>
  After the setters of the Gateway, the GatewayClass and the ListenerSet have run,
  \<open>IsAccepted\<close> answers what was set, whatever conditions the object had before.
\<close>

theorem setters_accepted:
  assumes "distinct (types_of (st_Conditions obj))"
  shows "(IsAccepted (st_Conditions (setGatewayAccepted now obj b msg)) \<longleftrightarrow> b) \<and>
         (IsAccepted (st_Conditions (setGatewayClassAccepted now obj b)) \<longleftrightarrow> b) \<and>
         (IsAccepted (st_Conditions (setListenerSetAccepted now obj b msg reason)) \<longleftrightarrow> b)"
  using gateway_store.accepted_after_set [OF assms]
  by (simp add: setGatewayAccepted_def gatewayStatusAcceptedCondition_def setGatewayClassAccepted_def
      gatewayClassAcceptedCondition_def setListenerSetAccepted_def Let_def)

theorem setters_accepted_witness:
  "IsAccepted (st_Conditions (setGatewayAccepted 5 \<lparr>st_Generation = 1, st_Conditions = []\<rparr> True ''ok''))"
  using setters_accepted [of "\<lparr>st_Generation = 1, st_Conditions = []\<rparr>" 5 True "''ok''" "''''"] by simp

end
