(* ===== verification/Backend_TLS_Policy.thy ===== *)
theory Backend_TLS_Policy
  imports Conditions
begin

text \<open>
  BackendTLSPolicy: the lookup of policies by target Service with its conflict resolution
  (\<open>src/pkg/gateway_api/helpers/backendtlspolicy.go\<close>) and the validation of a policy
  (\<open>src/pkg/gateway_api/policychecks/backendtlspolicy.go\<close>). Go maps are association lists;
  the abstract view of the lookup is \<open>validOf\<close> and \<open>conflictedOf\<close>, and the main lemma is
  that inserting one target keeps the relation between the lookup and the set of targets
  seen so far.
\<close>

type_synonym NamespacedName = "string \<times> string"

record TargetRef =
  tgt_Group :: string
  tgt_Kind :: string
  tgt_Name :: string
  tgt_SectionName :: "string option"

record CACertificateRef =
  ca_Group :: string
  ca_Kind :: string
  ca_Name :: string

record PolicyAncestorStatus =
  pas_AncestorRef :: ParentReference
  pas_ControllerName :: string
  pas_Conditions :: "Condition list"

record BackendTLSPolicy =
  btp_Namespace :: string
  btp_Name :: string
  btp_CreationTimestamp :: int
  btp_Generation :: int
  btp_TargetRefs :: "TargetRef list"
  btp_CACertificateRefs :: "CACertificateRef list"
  btp_WellKnownCACertificates :: "string option"
  btp_Ancestors :: "PolicyAncestorStatus list"

text \<open>\<open>client.ObjectKeyFromObject\<close> and the \<open>String\<close> method of its result.\<close>

definition ObjectKey :: "BackendTLSPolicy \<Rightarrow> NamespacedName" where
  "ObjectKey p = (btp_Namespace p, btp_Name p)"

definition fullName :: "NamespacedName \<Rightarrow> string" where
  "fullName k = fst k @ ''/'' @ snd k"

definition IsServiceTargetRef :: "TargetRef \<Rightarrow> bool" where
  "IsServiceTargetRef tr \<longleftrightarrow> tgt_Kind tr = kindService \<and> tgt_Group tr = coreGroupName"

section \<open>The lookup\<close>

record BackendTLSPolicyTargetServiceCollection =
  tsc_Valid :: "(string \<times> BackendTLSPolicy) list"
  tsc_Invalid :: "(string \<times> BackendTLSPolicy) list"
  tsc_Conflicted :: "(NamespacedName \<times> BackendTLSPolicy) list"

type_synonym BackendTLSPolicyServiceMap =
  "(NamespacedName \<times> BackendTLSPolicyTargetServiceCollection) list"

definition emptyCollection :: BackendTLSPolicyTargetServiceCollection where
  "emptyCollection = \<lparr>tsc_Valid = [], tsc_Invalid = [], tsc_Conflicted = []\<rparr>"

definition UpsertValidPolicy ::
  "string \<Rightarrow> BackendTLSPolicy \<Rightarrow> BackendTLSPolicyTargetServiceCollection \<Rightarrow>
   BackendTLSPolicyTargetServiceCollection" where
  "UpsertValidPolicy sectionName btlsp b = b\<lparr>tsc_Valid := AList.update sectionName btlsp (tsc_Valid b)\<rparr>"

definition DeleteValidPolicy ::
  "string \<Rightarrow> BackendTLSPolicyTargetServiceCollection \<Rightarrow> BackendTLSPolicyTargetServiceCollection" where
  "DeleteValidPolicy sectionName b = b\<lparr>tsc_Valid := AList.delete sectionName (tsc_Valid b)\<rparr>"

definition UpsertInvalidPolicy ::
  "string \<Rightarrow> BackendTLSPolicy \<Rightarrow> BackendTLSPolicyTargetServiceCollection \<Rightarrow>
   BackendTLSPolicyTargetServiceCollection" where
  "UpsertInvalidPolicy sectionName btlsp b =
     b\<lparr>tsc_Invalid := AList.update sectionName btlsp (tsc_Invalid b)\<rparr>"

definition UpsertConflictedPolicy ::
  "NamespacedName \<Rightarrow> BackendTLSPolicy \<Rightarrow> BackendTLSPolicyTargetServiceCollection \<Rightarrow>
   BackendTLSPolicyTargetServiceCollection" where
  "UpsertConflictedPolicy btlspFullName btlsp b =
     b\<lparr>tsc_Conflicted := AList.update btlspFullName btlsp (tsc_Conflicted b)\<rparr>"

text \<open>The body of the inner loop for a target that is a Service.\<close>

definition upsertTarget ::
  "NamespacedName \<Rightarrow> string \<Rightarrow> BackendTLSPolicy \<Rightarrow> BackendTLSPolicyServiceMap \<Rightarrow>
   BackendTLSPolicyServiceMap" where
  "upsertTarget svcName sectionName current lookupMap =
     (case map_of lookupMap svcName of
        None \<Rightarrow>
          AList.update svcName (UpsertValidPolicy sectionName current emptyCollection) lookupMap
      | Some existingCollection \<Rightarrow>
        (case map_of (tsc_Valid existingCollection) sectionName of
           None \<Rightarrow>
             AList.update svcName (UpsertValidPolicy sectionName current existingCollection) lookupMap
         | Some existing \<Rightarrow>
           (let currentName = ObjectKey current; existingName = ObjectKey existing;
                currentWins = UpsertValidPolicy sectionName current
                  (UpsertConflictedPolicy existingName existing existingCollection);
                existingWins = UpsertConflictedPolicy currentName current existingCollection
            in if currentName = existingName then lookupMap
               else if btp_CreationTimestamp current < btp_CreationTimestamp existing then
                 AList.update svcName currentWins lookupMap
               else if btp_CreationTimestamp existing < btp_CreationTimestamp current then
                 AList.update svcName existingWins lookupMap
               else if fullName currentName < fullName existingName then
                 AList.update svcName currentWins lookupMap
               else AList.update svcName existingWins lookupMap)))"

definition processTarget ::
  "BackendTLSPolicy \<Rightarrow> TargetRef \<Rightarrow> BackendTLSPolicyServiceMap \<Rightarrow> BackendTLSPolicyServiceMap" where
  "processTarget current targetRef lookupMap =
     (if \<not> IsServiceTargetRef targetRef then lookupMap
      else let svcName = (btp_Namespace current, tgt_Name targetRef);
               sectionName = (case tgt_SectionName targetRef of None \<Rightarrow> [] | Some s \<Rightarrow> s)
           in upsertTarget svcName sectionName current lookupMap)"

definition BuildBackendTLSPolicyLookup :: "BackendTLSPolicy list \<Rightarrow> BackendTLSPolicyServiceMap" where
  "BuildBackendTLSPolicyLookup items =
     fold (\<lambda>current lookupMap. fold (processTarget current) (btp_TargetRefs current) lookupMap) items []"

section \<open>The abstract view\<close>

definition validOf :: "BackendTLSPolicyServiceMap \<Rightarrow> NamespacedName \<Rightarrow> string \<Rightarrow> BackendTLSPolicy option" where
  "validOf m svc sec = (case map_of m svc of None \<Rightarrow> None | Some c \<Rightarrow> map_of (tsc_Valid c) sec)"

definition conflictedOf ::
  "BackendTLSPolicyServiceMap \<Rightarrow> NamespacedName \<Rightarrow> NamespacedName \<Rightarrow> BackendTLSPolicy option" where
  "conflictedOf m svc k = (case map_of m svc of None \<Rightarrow> None | Some c \<Rightarrow> map_of (tsc_Conflicted c) k)"

text \<open>The precedence of the Gateway API: the older policy, then the first by name.\<close>

definition precedes :: "BackendTLSPolicy \<Rightarrow> BackendTLSPolicy \<Rightarrow> bool" where
  "precedes p q \<longleftrightarrow>
     btp_CreationTimestamp p < btp_CreationTimestamp q \<or>
     btp_CreationTimestamp p = btp_CreationTimestamp q \<and> fullName (ObjectKey p) < fullName (ObjectKey q)"

definition targets :: "BackendTLSPolicy \<Rightarrow> NamespacedName \<Rightarrow> string \<Rightarrow> bool" where
  "targets p svc sec \<longleftrightarrow>
     (\<exists>tr \<in> set (btp_TargetRefs p). IsServiceTargetRef tr \<and> svc = (btp_Namespace p, tgt_Name tr) \<and>
        sec = (case tgt_SectionName tr of None \<Rightarrow> [] | Some s \<Rightarrow> s))"

lemma upsertTarget_winner:
  assumes "map_of m svc = Some c" "map_of (tsc_Valid c) sec = Some q"
  shows "upsertTarget svc sec p m =
    (if ObjectKey p = ObjectKey q then m
     else if precedes p q then AList.update svc (UpsertValidPolicy sec p (UpsertConflictedPolicy (ObjectKey q) q c)) m
     else AList.update svc (UpsertConflictedPolicy (ObjectKey p) p c) m)"
  by (simp add: upsertTarget_def assms precedes_def Let_def)

lemma validOf_upsert:
  "validOf (upsertTarget svc sec p m) svc' sec' =
     (if svc' = svc \<and> sec' = sec then
        (case validOf m svc sec of
           None \<Rightarrow> Some p
         | Some q \<Rightarrow> Some (if ObjectKey p \<noteq> ObjectKey q \<and> precedes p q then p else q))
      else validOf m svc' sec')"
proof (cases "map_of m svc")
  case None
  then show ?thesis
    by (simp add: upsertTarget_def validOf_def UpsertValidPolicy_def emptyCollection_def update_conv)
next
  case (Some c)
  show ?thesis
  proof (cases "map_of (tsc_Valid c) sec")
    case None
    then show ?thesis using Some by (simp add: upsertTarget_def validOf_def UpsertValidPolicy_def update_conv)
  next
    case (Some q)
    then show ?thesis using \<open>map_of m svc = Some c\<close>
      by (simp add: upsertTarget_winner validOf_def UpsertValidPolicy_def UpsertConflictedPolicy_def update_conv)
  qed
qed

lemma conflictedOf_upsert:
  "conflictedOf (upsertTarget svc sec p m) svc' k =
     (case validOf m svc sec of
        None \<Rightarrow> conflictedOf m svc' k
      | Some q \<Rightarrow>
        if svc' = svc \<and> ObjectKey p \<noteq> ObjectKey q \<and> k = ObjectKey (if precedes p q then q else p)
        then Some (if precedes p q then q else p) else conflictedOf m svc' k)"
proof (cases "map_of m svc")
  case None
  then show ?thesis
    by (simp add: upsertTarget_def validOf_def conflictedOf_def UpsertValidPolicy_def emptyCollection_def update_conv)
next
  case (Some c)
  show ?thesis
  proof (cases "map_of (tsc_Valid c) sec")
    case None
    then show ?thesis using Some
      by (simp add: upsertTarget_def validOf_def conflictedOf_def UpsertValidPolicy_def update_conv)
  next
    case (Some q)
    then show ?thesis using \<open>map_of m svc = Some c\<close>
      by (simp add: upsertTarget_winner validOf_def conflictedOf_def UpsertValidPolicy_def UpsertConflictedPolicy_def
          update_conv)
  qed
qed

section \<open>The lookup and the targets seen so far\<close>

lemma fullName_inject: "fst k = fst k' \<Longrightarrow> fullName k = fullName k' \<longleftrightarrow> k = k'"
  by (cases k; cases k') (simp add: fullName_def)

interpretation policy_order: strict_weak precedes
  by unfold_locales (auto simp: precedes_def)

type_synonym targeting = "NamespacedName \<times> string \<times> BackendTLSPolicy"

text \<open>Targets lie in the namespace of their policy, and a name identifies a policy.\<close>

definition wf_targets :: "targeting set \<Rightarrow> bool" where
  "wf_targets E \<longleftrightarrow>
     (\<forall>(svc, sec, p) \<in> E. fst svc = btp_Namespace p) \<and>
     (\<forall>(svc, sec, p) \<in> E. \<forall>(svc', sec', q) \<in> E. ObjectKey p = ObjectKey q \<longrightarrow> p = q)"

lemma wf_targetsI:
  assumes "\<And>svc sec p. (svc, sec, p) \<in> E \<Longrightarrow> fst svc = btp_Namespace p"
    and "\<And>svc sec p svc' sec' q. (svc, sec, p) \<in> E \<Longrightarrow> (svc', sec', q) \<in> E \<Longrightarrow> ObjectKey p = ObjectKey q \<Longrightarrow> p = q"
  shows "wf_targets E"
  unfolding wf_targets_def using assms by (simp add: split_beta) (metis prod.collapse)

lemma wf_targets_inj:
  "wf_targets E \<Longrightarrow> (svc, sec, p) \<in> E \<Longrightarrow> (svc', sec', q) \<in> E \<Longrightarrow> ObjectKey p = ObjectKey q \<Longrightarrow> p = q"
  unfolding wf_targets_def by fast

lemma wf_targets_mono: "wf_targets B \<Longrightarrow> A \<subseteq> B \<Longrightarrow> wf_targets A"
  unfolding wf_targets_def by (simp add: subset_eq split_beta)

lemma precedes_total:
  assumes "wf_targets E" "(svc, sec, p) \<in> E" "(svc, sec', q) \<in> E" "p \<noteq> q"
  shows "precedes p q \<or> precedes q p"
proof -
  have "fst svc = btp_Namespace p" using assms(1,2) unfolding wf_targets_def by fast
  moreover have "fst svc = btp_Namespace q" using assms(1,3) unfolding wf_targets_def by fast
  moreover have "ObjectKey p \<noteq> ObjectKey q" using wf_targets_inj [OF assms(1-3)] assms(4) by blast
  ultimately have "fullName (ObjectKey p) \<noteq> fullName (ObjectKey q)"
    using fullName_inject [of "ObjectKey p" "ObjectKey q"] by (simp add: ObjectKey_def)
  then show ?thesis by (auto simp: precedes_def)
qed

definition valid_inv :: "BackendTLSPolicyServiceMap \<Rightarrow> targeting set \<Rightarrow> bool" where
  "valid_inv m E \<longleftrightarrow>
     (\<forall>svc sec. case validOf m svc sec of
        None \<Rightarrow> \<forall>q. (svc, sec, q) \<notin> E
      | Some p \<Rightarrow> (svc, sec, p) \<in> E \<and> (\<forall>q. (svc, sec, q) \<in> E \<longrightarrow> q = p \<or> precedes p q))"

definition conflicted_inv :: "BackendTLSPolicyServiceMap \<Rightarrow> targeting set \<Rightarrow> bool" where
  "conflicted_inv m E \<longleftrightarrow>
     (\<forall>svc k q. conflictedOf m svc k = Some q \<longleftrightarrow>
        k = ObjectKey q \<and> (\<exists>sec. (svc, sec, q) \<in> E \<and> validOf m svc sec \<noteq> Some q))"

lemma valid_inv_cases:
  assumes "valid_inv m E"
  obtains "validOf m svc sec = None" "\<And>q. (svc, sec, q) \<notin> E"
  | p where "validOf m svc sec = Some p" "(svc, sec, p) \<in> E"
      "\<And>q. (svc, sec, q) \<in> E \<Longrightarrow> q = p \<or> precedes p q"
proof -
  have *: "case validOf m svc sec of
        None \<Rightarrow> \<forall>q. (svc, sec, q) \<notin> E
      | Some p \<Rightarrow> (svc, sec, p) \<in> E \<and> (\<forall>q. (svc, sec, q) \<in> E \<longrightarrow> q = p \<or> precedes p q)"
    using assms unfolding valid_inv_def by (elim allE)
  show thesis
  proof (cases "validOf m svc sec")
    case None
    then show ?thesis using * that(1) by simp
  next
    case (Some p)
    then show ?thesis using * that(2) [of p] by simp
  qed
qed

lemma valid_inv_upsert:
  assumes inv: "valid_inv m E" and wf: "wf_targets (insert (svc, sec, p) E)"
  shows "valid_inv (upsertTarget svc sec p m) (insert (svc, sec, p) E)"
  unfolding valid_inv_def
proof (intro allI)
  fix svc' sec'
  let ?goal = "\<lambda>o'. case o' of
        None \<Rightarrow> \<forall>q. (svc', sec', q) \<notin> insert (svc, sec, p) E
      | Some p' \<Rightarrow> (svc', sec', p') \<in> insert (svc, sec, p) E \<and>
          (\<forall>q. (svc', sec', q) \<in> insert (svc, sec, p) E \<longrightarrow> q = p' \<or> precedes p' q)"
  show "?goal (validOf (upsertTarget svc sec p m) svc' sec')"
  proof (cases "svc' = svc \<and> sec' = sec")
    case False
    show ?thesis
      by (cases rule: valid_inv_cases [OF inv, of svc' sec']) (use False in \<open>auto simp: validOf_upsert\<close>)
  next
    case True
    show ?thesis
    proof (cases rule: valid_inv_cases [OF inv, of svc sec])
      case 1
      then show ?thesis using True by (simp add: validOf_upsert)
    next
      case (2 q0)
      have eq: "ObjectKey p = ObjectKey q0 \<longleftrightarrow> p = q0"
        using wf_targets_inj [OF wf insertI1 insertI2 [OF 2(2)]] by blast
      have tot: "p \<noteq> q0 \<Longrightarrow> \<not> precedes p q0 \<Longrightarrow> precedes q0 p"
        using precedes_total [OF wf] 2(2) by blast
      show ?thesis
        using True 2 eq tot policy_order.lt_trans [of p q0] by (simp add: validOf_upsert) blast
    qed
  qed
qed

lemma conflicted_inv_iff:
  "conflicted_inv m E \<Longrightarrow>
   conflictedOf m svc k = Some q \<longleftrightarrow>
     k = ObjectKey q \<and> (\<exists>sec. (svc, sec, q) \<in> E \<and> validOf m svc sec \<noteq> Some q)"
  unfolding conflicted_inv_def by blast

text \<open>One insertion adds the loser of the comparison to the losers of the Service.\<close>

lemma conflicted_step:
  assumes "\<not> (p = q0 \<or> svc' \<noteq> svc)" "validOf m svc sec = Some q0" "(svc, sec, q0) \<in> E"
    and best: "\<And>q. (svc, sec, q) \<in> E \<Longrightarrow> q = q0 \<or> precedes q0 q"
    and val: "\<And>s. validOf m' svc s = (if s = sec then Some w else validOf m svc s)"
    and l: "(svc, sec, l) \<in> insert (svc, sec, p) E" "w \<noteq> l"
    and wl: "w = (if precedes p q0 then p else q0)" "l = (if precedes p q0 then q0 else p)"
  shows "(\<exists>s. (svc, s, r) \<in> insert (svc, sec, p) E \<and> validOf m' svc s \<noteq> Some r) \<longleftrightarrow>
         r = l \<or> (\<exists>s. (svc, s, r) \<in> E \<and> validOf m svc s \<noteq> Some r)"
proof
  assume "\<exists>s. (svc, s, r) \<in> insert (svc, sec, p) E \<and> validOf m' svc s \<noteq> Some r"
  then obtain s where s: "(svc, s, r) \<in> insert (svc, sec, p) E" "validOf m' svc s \<noteq> Some r" by blast
  show "r = l \<or> (\<exists>s. (svc, s, r) \<in> E \<and> validOf m svc s \<noteq> Some r)"
  proof (cases "s = sec \<and> r \<noteq> l")
    case True
    then have "r \<noteq> q0" "r \<noteq> p" using s(2) val [of s] wl by (auto split: if_splits)
    then show ?thesis using s(1) True assms(2) by auto
  next
    case False
    then show ?thesis using s val [of s] by auto
  qed
next
  assume "r = l \<or> (\<exists>s. (svc, s, r) \<in> E \<and> validOf m svc s \<noteq> Some r)"
  then show "\<exists>s. (svc, s, r) \<in> insert (svc, sec, p) E \<and> validOf m' svc s \<noteq> Some r"
  proof
    assume "r = l"
    then show ?thesis using l val [of sec] by auto
  next
    assume "\<exists>s. (svc, s, r) \<in> E \<and> validOf m svc s \<noteq> Some r"
    then obtain s where s: "(svc, s, r) \<in> E" "validOf m svc s \<noteq> Some r" by blast
    have "w \<noteq> r" if "s = sec"
      using best [of r] s that assms(2) wl(1) policy_order.asym [of q0 r] by (auto split: if_splits)
    then have "validOf m' svc s \<noteq> Some r" using s(2) val [of s] by auto
    then show ?thesis using s(1) by blast
  qed
qed

lemma conflicted_inv_upsert:
  assumes inv: "valid_inv m E" "conflicted_inv m E" and wf: "wf_targets (insert (svc, sec, p) E)"
  shows "conflicted_inv (upsertTarget svc sec p m) (insert (svc, sec, p) E)"
  unfolding conflicted_inv_def
proof (intro allI)
  fix svc' k r
  note old = conflicted_inv_iff [OF inv(2)]
  let ?m = "upsertTarget svc sec p m" and ?E = "insert (svc, sec, p) E"
  show "conflictedOf ?m svc' k = Some r \<longleftrightarrow>
    k = ObjectKey r \<and> (\<exists>s. (svc', s, r) \<in> ?E \<and> validOf ?m svc' s \<noteq> Some r)"
  proof (cases rule: valid_inv_cases [OF inv(1), of svc sec])
    case 1
    have "(svc', s, r) \<in> ?E \<and> validOf ?m svc' s \<noteq> Some r \<longleftrightarrow>
        (svc', s, r) \<in> E \<and> validOf m svc' s \<noteq> Some r" for s
      using 1 by (cases "svc' = svc \<and> s = sec") (auto simp: validOf_upsert)
    moreover have "conflictedOf ?m svc' k = conflictedOf m svc' k"
      using 1 by (simp add: conflictedOf_upsert)
    ultimately show ?thesis unfolding old [of svc' k r, symmetric] by (simp add: old)
  next
    case (2 q0)
    have eq: "ObjectKey p = ObjectKey q0 \<longleftrightarrow> p = q0"
      using wf_targets_inj [OF wf insertI1 insertI2 [OF 2(2)]] by blast
    show ?thesis
    proof (cases "p = q0 \<or> svc' \<noteq> svc")
      case True
      then have "(svc', s, r) \<in> ?E \<longleftrightarrow> (svc', s, r) \<in> E" for s using 2(2) by auto
      moreover have "validOf ?m svc' s = validOf m svc' s" for s
        using True 2(1) by (auto simp: validOf_upsert)
      moreover have "conflictedOf ?m svc' k = conflictedOf m svc' k"
        using True 2(1) by (auto simp: conflictedOf_upsert)
      ultimately show ?thesis by (simp only: old)
    next
      case False
      define w l where "w = (if precedes p q0 then p else q0)" and "l = (if precedes p q0 then q0 else p)"
      have l: "(svc, sec, l) \<in> ?E" "w \<noteq> l" using False 2(2) by (auto simp: w_def l_def)
      have val: "validOf ?m svc s = (if s = sec then Some w else validOf m svc s)" for s
        using False 2(1) eq by (simp add: validOf_upsert w_def)
      have con: "conflictedOf ?m svc k = (if k = ObjectKey l then Some l else conflictedOf m svc k)"
        using False 2(1) eq by (simp add: conflictedOf_upsert l_def)
      have new: "(\<exists>s. (svc, s, r) \<in> ?E \<and> validOf ?m svc s \<noteq> Some r) \<longleftrightarrow>
          r = l \<or> (\<exists>s. (svc, s, r) \<in> E \<and> validOf m svc s \<noteq> Some r)"
        by (rule conflicted_step [OF False 2 val l]) (simp_all add: w_def l_def)
      have "r = l" if "(svc, s, r) \<in> E" "ObjectKey r = ObjectKey l" for s
        using wf_targets_inj [OF wf insertI2 [OF that(1)] l(1) that(2)] .
      moreover have "conflictedOf m svc k = Some r \<Longrightarrow> k = ObjectKey r \<and> (\<exists>s. (svc, s, r) \<in> E)"
        unfolding old by blast
      ultimately show ?thesis using False con new old [of svc k r] by (cases "k = ObjectKey l") auto
    qed
  qed
qed

section \<open>The whole lookup\<close>

definition targets_of :: "BackendTLSPolicy \<Rightarrow> targeting list" where
  "targets_of p =
     map (\<lambda>tr. ((btp_Namespace p, tgt_Name tr), (case tgt_SectionName tr of None \<Rightarrow> [] | Some s \<Rightarrow> s), p))
       (filter IsServiceTargetRef (btp_TargetRefs p))"

abbreviation insertTargeting :: "targeting \<Rightarrow> BackendTLSPolicyServiceMap \<Rightarrow> BackendTLSPolicyServiceMap" where
  "insertTargeting e m \<equiv> (case e of (svc, sec, p) \<Rightarrow> upsertTarget svc sec p m)"

lemma fold_processTarget:
  "fold (processTarget p) trs m =
   fold insertTargeting
     (map (\<lambda>tr. ((btp_Namespace p, tgt_Name tr), (case tgt_SectionName tr of None \<Rightarrow> [] | Some s \<Rightarrow> s), p))
       (filter IsServiceTargetRef trs)) m"
  by (induction trs arbitrary: m) (simp_all add: processTarget_def Let_def)

lemma Build_eq:
  "BuildBackendTLSPolicyLookup items = fold insertTargeting (concat (map targets_of items)) []"
proof -
  have "fold (\<lambda>p m. fold (processTarget p) (btp_TargetRefs p) m) items m =
        fold insertTargeting (concat (map targets_of items)) m" for m
    by (induction items arbitrary: m) (simp_all add: fold_processTarget targets_of_def)
  then show ?thesis by (simp add: BuildBackendTLSPolicyLookup_def)
qed

lemma fold_insertTargeting_inv:
  assumes "wf_targets (set es \<union> E)" "valid_inv m E" "conflicted_inv m E"
  shows "valid_inv (fold insertTargeting es m) (set es \<union> E) \<and>
         conflicted_inv (fold insertTargeting es m) (set es \<union> E)"
  using assms
proof (induction es arbitrary: m E)
  case (Cons e es)
  obtain svc sec p where e: "e = (svc, sec, p)" by (cases e)
  have union: "set (e # es) \<union> E = set es \<union> insert (svc, sec, p) E" by (auto simp: e)
  have wf: "wf_targets (insert (svc, sec, p) E)" "wf_targets (set es \<union> insert (svc, sec, p) E)"
    using Cons.prems(1) wf_targets_mono unfolding union by blast+
  show ?case
    using Cons.IH [OF wf(2) valid_inv_upsert conflicted_inv_upsert] wf(1) Cons.prems(2,3)
    unfolding union by (simp add: e)
qed simp

lemma targets_of_iff: "(svc, sec, p) \<in> set (targets_of p') \<longleftrightarrow> p' = p \<and> targets p svc sec"
  unfolding targets_of_def targets_def by auto

abbreviation all_targets :: "BackendTLSPolicy list \<Rightarrow> targeting set" where
  "all_targets items \<equiv> set (concat (map targets_of items))"

lemma all_targets_iff: "(svc, sec, p) \<in> all_targets items \<longleftrightarrow> p \<in> set items \<and> targets p svc sec"
  using targets_of_iff by auto

lemma Build_inv:
  assumes "distinct (map ObjectKey items)"
  shows "valid_inv (BuildBackendTLSPolicyLookup items) (all_targets items)"
    and "conflicted_inv (BuildBackendTLSPolicyLookup items) (all_targets items)"
proof -
  have inj: "p = q" if "p \<in> set items" "q \<in> set items" "ObjectKey p = ObjectKey q" for p q
    using assms that unfolding distinct_map by (blast dest: inj_onD)
  have ns: "fst svc = btp_Namespace p" if "targets p svc sec" for svc sec p
    using that by (auto simp: targets_def)
  have "wf_targets (all_targets items)"
  proof (rule wf_targetsI, unfold all_targets_iff)
    show "fst svc = btp_Namespace p" if "p \<in> set items \<and> targets p svc sec" for svc sec p
      using that ns by blast
    show "p = q" if "p \<in> set items \<and> targets p svc sec" "q \<in> set items \<and> targets q svc' sec'"
      "ObjectKey p = ObjectKey q" for svc sec p svc' sec' q
      using that inj by blast
  qed
  moreover have "valid_inv [] {}" "conflicted_inv [] {}"
    by (simp_all add: valid_inv_def conflicted_inv_def validOf_def conflictedOf_def)
  ultimately show "valid_inv (BuildBackendTLSPolicyLookup items) (all_targets items)"
    "conflicted_inv (BuildBackendTLSPolicyLookup items) (all_targets items)"
    using fold_insertTargeting_inv [of "concat (map targets_of items)" "{}" "[]"]
    unfolding Build_eq by simp_all
qed

section \<open>Validation of a policy\<close>

text \<open>
  \<open>setAncestor\<close> is \<open>SetAncestorCondition\<close> on the ancestor list: the first entry for the
  parent gets the condition merged in, or a new entry is appended.
\<close>

fun setAncestor ::
  "ParentReference \<Rightarrow> string \<Rightarrow> Condition \<Rightarrow> PolicyAncestorStatus list \<Rightarrow> PolicyAncestorStatus list" where
  "setAncestor parentRef controllerName condition [] =
     [\<lparr>pas_AncestorRef = parentRef, pas_ControllerName = controllerName, pas_Conditions = [condition]\<rparr>]"
| "setAncestor parentRef controllerName condition (a # as) =
     (if pas_AncestorRef a = parentRef
      then a\<lparr>pas_Conditions := MergeConditions (pas_Conditions a) [condition]\<rparr> # as
      else a # setAncestor parentRef controllerName condition as)"

definition SetAncestorCondition ::
  "string \<Rightarrow> int \<Rightarrow> ParentReference \<Rightarrow> Condition \<Rightarrow> BackendTLSPolicy \<Rightarrow> BackendTLSPolicy" where
  "SetAncestorCondition controllerName now parentRef condition policy =
     policy\<lparr>btp_Ancestors :=
       setAncestor parentRef controllerName
         (condition\<lparr>cond_LastTransitionTime := now, cond_ObservedGeneration := btp_Generation policy\<rparr>)
         (btp_Ancestors policy)\<rparr>"

definition setRejectedConditions ::
  "string \<Rightarrow> int \<Rightarrow> ParentReference \<Rightarrow> string \<Rightarrow> string \<Rightarrow> string \<Rightarrow> BackendTLSPolicy \<Rightarrow> BackendTLSPolicy" where
  "setRejectedConditions controllerName now ancestorRef message acceptedReason resolvedRefsReason policy =
     SetAncestorCondition controllerName now ancestorRef
       \<lparr>cond_Type = ''ResolvedRefs'', cond_Status = ConditionFalse, cond_Reason = resolvedRefsReason,
        cond_Message = message, cond_ObservedGeneration = 0, cond_LastTransitionTime = 0\<rparr>
       (SetAncestorCondition controllerName now ancestorRef
         \<lparr>cond_Type = ''Accepted'', cond_Status = ConditionFalse, cond_Reason = acceptedReason,
          cond_Message = message, cond_ObservedGeneration = 0, cond_LastTransitionTime = 0\<rparr> policy)"

text \<open>
  What the API reader answers for a ConfigMap; \<open>pemDecode b\<close> is whether \<open>pem.Decode\<close> of
  \<open>encoding/pem\<close> finds a block in \<open>b\<close>. Both are parameters.
\<close>

datatype 'a getResult = Found 'a | NotFound | GetFailed string

definition IsValidPemFormat :: "(string \<Rightarrow> bool) \<Rightarrow> string \<Rightarrow> bool" where
  "IsValidPemFormat pemDecode b = (if length b = 0 then False else pemDecode b)"

definition ValidateSpec ::
  "(string \<Rightarrow> bool) \<Rightarrow> (NamespacedName \<Rightarrow> string_map getResult) \<Rightarrow> string \<Rightarrow> int \<Rightarrow> ParentReference \<Rightarrow>
   BackendTLSPolicy \<Rightarrow> BackendTLSPolicy \<times> (string + bool)" where
  "ValidateSpec pemDecode getConfigMap controllerName now ancestorRef policy =
     (let reject = (\<lambda>message acceptedReason resolvedRefsReason.
            (setRejectedConditions controllerName now ancestorRef message acceptedReason
               resolvedRefsReason policy, Inr False))
      in case btp_CACertificateRefs policy of
           [] \<Rightarrow> (policy, Inr True)
         | caCertRef # otherRefs \<Rightarrow>
           if btp_WellKnownCACertificates policy \<noteq> None then
             reject ''Cannot have both CACertificateRefs and wellKnownCACertificates set''
               ''Invalid'' ''Invalid''
           else if otherRefs \<noteq> [] then
             reject ''Having more than one CA Certificate Ref is not supported'' ''Invalid'' ''Invalid''
           else if ca_Group caCertRef \<noteq> [] \<or> ca_Kind caCertRef \<noteq> ''ConfigMap'' then
             reject ''Only ConfigMaps are supported for CA Certificate Refs''
               ''NoValidCACertificate'' ''InvalidKind''
           else (let caCertRefKey = (btp_Namespace policy, ca_Name caCertRef)
           in case getConfigMap caCertRefKey of
                NotFound \<Rightarrow>
                  reject (''CA Certificate does not exist: '' @ fullName caCertRefKey)
                    ''NoValidCACertificate'' ''InvalidCACertificateRef''
              | GetFailed err \<Rightarrow> (policy, Inl err)
              | Found data \<Rightarrow>
                (case map_of data ''ca.crt'' of
                   None \<Rightarrow>
                     reject ''CA Certificate ConfigMap does not contain a `ca.crt` key''
                       ''NoValidCACertificate'' ''InvalidCACertificateRef''
                 | Some caCert \<Rightarrow>
                   if \<not> IsValidPemFormat pemDecode caCert then
                     reject ''CA Certificate ConfigMap does not contain at least one valid PEM-encoded certificate''
                       ''NoValidCACertificate'' ''InvalidCACertificateRef''
                   else (policy, Inr True))))"

text \<open>The conditions a policy has for a parent, and how a setter changes them.\<close>

definition condsFor :: "BackendTLSPolicy \<Rightarrow> ParentReference \<Rightarrow> Condition list" where
  "condsFor policy ref =
     (case find (\<lambda>a. pas_AncestorRef a = ref) (btp_Ancestors policy) of
        None \<Rightarrow> [] | Some a \<Rightarrow> pas_Conditions a)"

lemma MergeConditions_Nil_single: "MergeConditions [] [c] = [c]"
  by (simp add: MergeConditions_def)

lemma condsFor_SetAncestorCondition:
  "condsFor (SetAncestorCondition ctl now ref c policy) ref =
   MergeConditions (condsFor policy ref)
     [c\<lparr>cond_LastTransitionTime := now, cond_ObservedGeneration := btp_Generation policy\<rparr>]"
proof -
  have "(case find (\<lambda>a. pas_AncestorRef a = ref) (setAncestor ref ctl d as) of
           None \<Rightarrow> [] | Some a \<Rightarrow> pas_Conditions a) =
        MergeConditions (case find (\<lambda>a. pas_AncestorRef a = ref) as of
           None \<Rightarrow> [] | Some a \<Rightarrow> pas_Conditions a) [d]" for d as
    by (induction as) (simp_all add: MergeConditions_Nil_single)
  then show ?thesis by (simp add: condsFor_def SetAncestorCondition_def)
qed

definition condition_false :: "Condition list \<Rightarrow> string \<Rightarrow> bool" where
  "condition_false cs t \<longleftrightarrow> (case condOf cs t of None \<Rightarrow> False | Some c \<Rightarrow> cond_Status c = ConditionFalse)"

lemma condition_false_merge:
  "cond_Type u = t \<Longrightarrow> cond_Status u = ConditionFalse \<Longrightarrow> condition_false (MergeConditions es [u]) t"
  "t \<noteq> cond_Type u \<Longrightarrow> condition_false (MergeConditions es [u]) t = condition_false es t"
  using helpers_store.set_one [of es u]
  by (auto simp: condition_false_def ConditionChanged_def helpers_store.store_lookup)

lemma setRejectedConditions_rejects:
  "condition_false (condsFor (setRejectedConditions ctl now ref msg r1 r2 policy) ref) ''Accepted''"
  "condition_false (condsFor (setRejectedConditions ctl now ref msg r1 r2 policy) ref) ''ResolvedRefs''"
  unfolding setRejectedConditions_def condsFor_SetAncestorCondition
  by (simp_all add: condition_false_merge)

section \<open>Properties\<close>





text \<open>
  Two policies that target the same Service, one without a section name and one
  with a section name, are both valid and neither is conflicted: an empty section name is
  one more section, it does not stand for all sections.
\<close>

theorem empty_section_does_not_conflict:
  "let tr = (\<lambda>s. \<lparr>tgt_Group = '''', tgt_Kind = ''Service'', tgt_Name = ''web'', tgt_SectionName = s\<rparr>);
       pol = (\<lambda>n s. \<lparr>btp_Namespace = ''ns'', btp_Name = n, btp_CreationTimestamp = 1, btp_Generation = 1,
         btp_TargetRefs = [tr s], btp_CACertificateRefs = [], btp_WellKnownCACertificates = None,
         btp_Ancestors = []\<rparr>);
       m = BuildBackendTLSPolicyLookup [pol ''a'' None, pol ''b'' (Some ''https'')]
   in validOf m (''ns'', ''web'') '''' = Some (pol ''a'' None) \<and>
      validOf m (''ns'', ''web'') ''https'' = Some (pol ''b'' (Some ''https'')) \<and>
      conflictedOf m (''ns'', ''web'') (''ns'', ''a'') = None \<and>
      conflictedOf m (''ns'', ''web'') (''ns'', ''b'') = None"
  by code_simp

text \<open>What the validation asks of a policy.\<close>

definition spec_ok ::
  "(string \<Rightarrow> bool) \<Rightarrow> (NamespacedName \<Rightarrow> string_map getResult) \<Rightarrow> BackendTLSPolicy \<Rightarrow> bool" where
  "spec_ok pemDecode getConfigMap policy \<longleftrightarrow>
     btp_CACertificateRefs policy = [] \<or>
     (btp_WellKnownCACertificates policy = None \<and>
      (\<exists>name data crt. btp_CACertificateRefs policy = [\<lparr>ca_Group = '''', ca_Kind = ''ConfigMap'', ca_Name = name\<rparr>] \<and>
         getConfigMap (btp_Namespace policy, name) = Found data \<and>
         map_of data ''ca.crt'' = Some crt \<and> crt \<noteq> [] \<and> pemDecode crt))"

text \<open>
  Validation accepts a policy exactly if it has no CA references, or no well-known
  CAs and one reference to an existing ConfigMap whose \<open>ca.crt\<close> holds a PEM block. An
  accepted policy and a failed read leave the status alone; a rejection always leaves both
  \<open>Accepted\<close> and \<open>ResolvedRefs\<close> false for the parent.
\<close>

theorem ValidateSpec_correct:
  assumes "ValidateSpec pemDecode getConfigMap ctl now ref policy = (policy', r)"
  shows "(r = Inr True \<longleftrightarrow> spec_ok pemDecode getConfigMap policy) \<and>
         (r \<noteq> Inr False \<longrightarrow> policy' = policy) \<and>
         (r = Inr False \<longrightarrow> condition_false (condsFor policy' ref) ''Accepted'' \<and>
            condition_false (condsFor policy' ref) ''ResolvedRefs'')"
proof (cases "btp_CACertificateRefs policy")
  case Nil
  then show ?thesis using assms by (auto simp: ValidateSpec_def spec_ok_def Let_def)
next
  case (Cons c cs)
  obtain g k n where c: "c = \<lparr>ca_Group = g, ca_Kind = k, ca_Name = n\<rparr>" by (cases c) auto
  show ?thesis
    using assms Cons c setRejectedConditions_rejects
    by (auto simp: ValidateSpec_def spec_ok_def Let_def IsValidPemFormat_def
        split: if_splits getResult.splits option.splits)
qed

theorem ValidateSpec_correct_witness:
  "let ref = \<lparr>pr_Group = None, pr_Kind = None, pr_Namespace = None, pr_Name = ''gw'', pr_SectionName = None,
              pr_Port = None\<rparr>;
       pol = \<lparr>btp_Namespace = ''ns'', btp_Name = ''p'', btp_CreationTimestamp = 1, btp_Generation = 2,
         btp_TargetRefs = [], btp_CACertificateRefs =
           [\<lparr>ca_Group = '''', ca_Kind = ''ConfigMap'', ca_Name = ''ca''\<rparr>],
         btp_WellKnownCACertificates = None, btp_Ancestors = []\<rparr>;
       res = ValidateSpec (\<lambda>b. True) (\<lambda>k. NotFound) ''ctl'' 3 ref pol
   in snd res = Inr False \<and> condition_false (condsFor (fst res) ref) ''Accepted''"
proof -
  let ?ref = "\<lparr>pr_Group = None, pr_Kind = None, pr_Namespace = None, pr_Name = ''gw'', pr_SectionName = None,
              pr_Port = None\<rparr>"
  let ?pol = "\<lparr>btp_Namespace = ''ns'', btp_Name = ''p'', btp_CreationTimestamp = 1, btp_Generation = 2,
         btp_TargetRefs = [], btp_CACertificateRefs =
           [\<lparr>ca_Group = '''', ca_Kind = ''ConfigMap'', ca_Name = ''ca''\<rparr>],
         btp_WellKnownCACertificates = None, btp_Ancestors = []\<rparr>"
  have "snd (ValidateSpec (\<lambda>b. True) (\<lambda>k. NotFound) ''ctl'' 3 ?ref ?pol) = Inr False"
    by (simp add: ValidateSpec_def Let_def)
  then show ?thesis
    using ValidateSpec_correct [OF prod.collapse [symmetric], of "\<lambda>b. True" "\<lambda>k. NotFound" "''ctl''" 3 ?ref ?pol]
    by (simp add: Let_def)
qed

end
