(* ===== verification/Cluster_Client.thy ===== *)
theory Cluster_Client
  imports Backend_TLS_Policy
begin

text \<open>
  The Kubernetes API as the reconcilers use it. The client of
  \<open>sigs.k8s.io/controller-runtime\<close> is a parameter: reads are functions of the state \<open>'w\<close> of
  the cluster, writes return the error, if any, and the next state. The objects have the fields
  that the code under \<open>src/pkg/gateway_api\<close> reads and writes.
\<close>

section \<open>Objects\<close>

text \<open>A route with its metadata and status; \<open>ro_Deleting\<close> is a set deletion timestamp.\<close>

record 'm RouteObject =
  ro_Route :: "'m Route"
  ro_Generation :: int
  ro_Deleting :: bool
  ro_Parents :: "RouteParentStatus list"

type_synonym HTTPRouteObject = "HTTPRouteMatch RouteObject"
type_synonym GRPCRouteObject = "GRPCRouteMatch RouteObject"
type_synonym L4RouteObject = "unit RouteObject"

definition routeKey :: "'m RouteObject \<Rightarrow> NamespacedName" where
  "routeKey r = (rt_Namespace (ro_Route r), rt_Name (ro_Route r))"

record GatewayClass =
  gc_Name :: string
  gc_ControllerName :: string
  gc_ParametersRef :: "(string \<times> string \<times> string option \<times> string) option"
  gc_Deleting :: bool
  gc_Status :: StatusObject

record ListenerStatus =
  lst_Name :: string
  lst_SupportedKinds :: "RouteGroupKind list"
  lst_Conditions :: "Condition list"
  lst_AttachedRoutes :: int

record GatewayStatus =
  gs_Conditions :: "Condition list"
  gs_Listeners :: "ListenerStatus list"
  gs_Addresses :: "(string \<times> string) list"
  gs_AttachedListenerSets :: "int option"

record 'sel GatewayObject =
  go_Spec :: "'sel Gateway"
  go_ClassName :: string
  go_AllowedListeners :: "'sel RouteNamespaces option option"
  go_Generation :: int
  go_Deleting :: bool
  go_Status :: GatewayStatus

abbreviation go_key :: "'sel GatewayObject \<Rightarrow> NamespacedName" where
  "go_key g \<equiv> (gw_Namespace (go_Spec g), gw_Name (go_Spec g))"

record 'sel ListenerSet =
  ls_Name :: string
  ls_Namespace :: string
  ls_UID :: string
  ls_Kind :: string
  ls_CreationTimestamp :: int
  ls_ParentRef :: "string option \<times> string"
  ls_Listeners :: "'sel GwListener list"
  ls_Status :: StatusObject
  ls_ListenerStatuses :: "ListenerStatus list"

record ServiceObject =
  so_Name :: string
  so_Namespace :: string
  so_Ports :: "int list"
  so_LoadBalancer :: "(string \<times> string) list"

section \<open>Comparison of statuses\<close>

text \<open>
  \<open>cmp.Equal\<close> with \<open>IgnoreFields(metav1.Condition{}, "LastTransitionTime")\<close>: two condition
  lists are equal up to the times.
\<close>

definition untimed :: "Condition \<Rightarrow> Condition" where
  "untimed c = c\<lparr>cond_LastTransitionTime := 0\<rparr>"

definition sameConditions :: "Condition list \<Rightarrow> Condition list \<Rightarrow> bool" where
  "sameConditions cs ds \<longleftrightarrow> map untimed cs = map untimed ds"

definition sameParents :: "RouteParentStatus list \<Rightarrow> RouteParentStatus list \<Rightarrow> bool" where
  "sameParents ps qs \<longleftrightarrow>
     list_all2 (\<lambda>p q. rps_ParentRef p = rps_ParentRef q \<and> rps_ControllerName p = rps_ControllerName q \<and>
                      sameConditions (rps_Conditions p) (rps_Conditions q)) ps qs"

definition sameListenerStatuses :: "ListenerStatus list \<Rightarrow> ListenerStatus list \<Rightarrow> bool" where
  "sameListenerStatuses ls ms \<longleftrightarrow>
     list_all2 (\<lambda>l m. lst_Name l = lst_Name m \<and> lst_SupportedKinds l = lst_SupportedKinds m \<and>
                      sameConditions (lst_Conditions l) (lst_Conditions m) \<and>
                      lst_AttachedRoutes l = lst_AttachedRoutes m) ls ms"

definition sameGatewayStatus :: "GatewayStatus \<Rightarrow> GatewayStatus \<Rightarrow> bool" where
  "sameGatewayStatus s t \<longleftrightarrow>
     sameConditions (gs_Conditions s) (gs_Conditions t) \<and>
     sameListenerStatuses (gs_Listeners s) (gs_Listeners t) \<and>
     gs_Addresses s = gs_Addresses t \<and> gs_AttachedListenerSets s = gs_AttachedListenerSets t"

lemma untimed_eq_iff: "untimed c = untimed d \<longleftrightarrow> cond_Type c = cond_Type d \<and> \<not> ConditionChanged c d"
  by (cases c; cases d) (auto simp: untimed_def ConditionChanged_def)

lemma sameConditions_refl [simp]: "sameConditions cs cs"
  by (simp add: sameConditions_def)

lemma sameConditions_trans: "sameConditions a b \<Longrightarrow> sameConditions b c \<Longrightarrow> sameConditions a c"
  by (simp add: sameConditions_def)

lemma sameConditions_types: "sameConditions cs ds \<Longrightarrow> types_of cs = types_of ds"
proof -
  have "types_of xs = map cond_Type (map untimed xs)" for xs by (simp add: untimed_def)
  then show "sameConditions cs ds \<Longrightarrow> types_of cs = types_of ds" unfolding sameConditions_def by metis
qed

lemma sameParents_refl [simp]: "sameParents ps ps"
  by (simp add: sameParents_def list_all2_same)

lemma sameGatewayStatus_refl [simp]: "sameGatewayStatus s s"
  by (simp add: sameGatewayStatus_def sameListenerStatuses_def list_all2_same)

section \<open>The client\<close>

text \<open>
  A list is the error or the items. \<open>rd_NotFound kind key\<close> is the text of the API server's
  error for an object that does not exist, \<open>rd_ServiceImportSupport\<close> whether the scheme of the
  client has the group of the multi-cluster API, \<open>rd_ListenerSetSupport\<close> whether it knows
  ListenerSets, \<open>rd_Installed\<close> which optional kinds are installed, and \<open>rd_SelMatches\<close> the
  evaluation of a label selector. \<open>rd_SelectNamespaces\<close> lists the names of the namespaces that a
  selector selects; a selector that does not parse selects none.
\<close>

type_synonym 'a listResult = "string + 'a list"
type_synonym 'w writeResult = "string option \<times> 'w"

record ('w, 'sel) Reader =
  rd_Gateway :: "'w \<Rightarrow> NamespacedName \<Rightarrow> 'sel GatewayObject getResult"
  rd_GatewayClass :: "'w \<Rightarrow> string \<Rightarrow> GatewayClass getResult"
  rd_ListenerSet :: "'w \<Rightarrow> NamespacedName \<Rightarrow> 'sel ListenerSet getResult"
  rd_Service :: "'w \<Rightarrow> NamespacedName \<Rightarrow> ServiceObject getResult"
  rd_ServiceImport :: "'w \<Rightarrow> NamespacedName \<Rightarrow> string_map getResult"
  rd_Secret :: "'w \<Rightarrow> NamespacedName \<Rightarrow> string_map getResult"
  rd_ConfigMap :: "'w \<Rightarrow> NamespacedName \<Rightarrow> string_map getResult"
  rd_GatewayClassConfig :: "'w \<Rightarrow> NamespacedName \<Rightarrow> string getResult"
  rd_TLSRoute :: "'w \<Rightarrow> NamespacedName \<Rightarrow> L4RouteObject getResult"
  rd_GRPCRoute :: "'w \<Rightarrow> NamespacedName \<Rightarrow> GRPCRouteObject getResult"
  rd_Namespaces :: "'w \<Rightarrow> (string \<times> string_map) listResult"
  rd_SelectNamespaces :: "'w \<Rightarrow> 'sel option \<Rightarrow> string listResult"
  rd_ReferenceGrants :: "'w \<Rightarrow> ReferenceGrant listResult"
  rd_NotFound :: "string \<Rightarrow> NamespacedName \<Rightarrow> string"
  rd_ServiceImportSupport :: bool
  rd_ListenerSetSupport :: bool
  rd_Installed :: "string \<Rightarrow> bool"
  rd_SelMatches :: "'sel option \<Rightarrow> string_map \<Rightarrow> bool option"

record ('w, 'sel) Lister =
  li_Gateways :: "'w \<Rightarrow> 'sel GatewayObject listResult"
  li_HTTPRoutes :: "'w \<Rightarrow> HTTPRouteObject listResult"
  li_TLSRoutes :: "'w \<Rightarrow> L4RouteObject listResult"
  li_GRPCRoutes :: "'w \<Rightarrow> GRPCRouteObject listResult"
  li_TCPRoutes :: "'w \<Rightarrow> L4RouteObject listResult"
  li_UDPRoutes :: "'w \<Rightarrow> L4RouteObject listResult"
  li_Services :: "'w \<Rightarrow> ServiceObject listResult"
  li_ServicesLabelled :: "'w \<Rightarrow> string \<Rightarrow> string \<Rightarrow> string \<Rightarrow> ServiceObject listResult"
  li_ListenerSets :: "'w \<Rightarrow> 'sel ListenerSet listResult"
  li_BackendTLSPolicies :: "'w \<Rightarrow> BackendTLSPolicy listResult"

record ('w, 'sel) StatusWriter =
  sw_Gateway :: "'w \<Rightarrow> 'sel GatewayObject \<Rightarrow> 'w writeResult"
  sw_GatewayClass :: "'w \<Rightarrow> GatewayClass \<Rightarrow> 'w writeResult"
  sw_ListenerSet :: "'w \<Rightarrow> 'sel ListenerSet \<Rightarrow> 'w writeResult"
  sw_HTTPRoute :: "'w \<Rightarrow> HTTPRouteObject \<Rightarrow> 'w writeResult"
  sw_TLSRoute :: "'w \<Rightarrow> L4RouteObject \<Rightarrow> 'w writeResult"
  sw_GRPCRoute :: "'w \<Rightarrow> GRPCRouteObject \<Rightarrow> 'w writeResult"
  sw_TCPRoute :: "'w \<Rightarrow> L4RouteObject \<Rightarrow> 'w writeResult"
  sw_UDPRoute :: "'w \<Rightarrow> L4RouteObject \<Rightarrow> 'w writeResult"
  sw_BackendTLSPolicy :: "'w \<Rightarrow> BackendTLSPolicy \<Rightarrow> 'w writeResult"

section \<open>Frames\<close>

text \<open>
  What a sequence of writes leaves alone is a preorder on the states of the cluster: if the single
  writes are in it, then so are the loops over them.
\<close>

locale state_frame =
  fixes Q :: "'w \<Rightarrow> 'w \<Rightarrow> bool"
  assumes frame_refl [simp, intro]: "Q w w"
    and frame_trans [trans]: "Q w1 w2 \<Longrightarrow> Q w2 w3 \<Longrightarrow> Q w1 w3"
begin

lemma frame_fold: "(\<And>x w. x \<in> set xs \<Longrightarrow> Q w (f x w)) \<Longrightarrow> Q w (fold f xs w)"
  by (induction xs arbitrary: w) (auto intro: frame_trans)

end

text \<open>
  \<open>controllerruntime.Success()\<close> and \<open>Fail(err)\<close>: the result of a reconciliation is the
  error, if any; a failed reconciliation is queued again.
\<close>

type_synonym reconcileResult = "string option"

definition Success :: reconcileResult where "Success = None"
definition Fail :: "string \<Rightarrow> reconcileResult" where "Fail e = Some e"

end
