(* ===== verification/Route_Checks.thy ===== *)
theory Route_Checks
  imports Cluster_Client
begin

text \<open>
  The validation of routes, \<open>src/pkg/gateway_api/routechecker\<close>. The checks are written
  against the interface \<open>Input\<close>, a record of its methods here. A check calls
  \<open>SetParentCondition\<close> and \<open>SetAllParentCondition\<close> but never reads the status back, so
  it returns the calls it makes in their order, next to its own result; \<open>applyOps\<close> carries
  them out on the statuses. A nil dereference is \<open>None\<close>. The cluster is read at one moment,
  which makes the maps of gateways that the inputs fill up as a cache invisible.
\<close>

section \<open>The interface\<close>

record 'sel RouteInput =
  ri_Rules :: "BackendRef list list"
  ri_Namespace :: string
  ri_GVK :: GroupVersionKind
  ri_Grants :: "ReferenceGrant list"
  ri_Hostnames :: "string list"
  ri_GetGateway :: "ParentReference \<Rightarrow> string + 'sel Gateway option"
  ri_GetListenerOwner :: "ParentReference \<Rightarrow> string + ('sel GwListener list \<times> string) option"
  ri_ValidProtocols :: "ProtocolType list"
  ri_SetParentCondition ::
    "ParentReference \<Rightarrow> Condition \<Rightarrow> RouteParentStatus list \<Rightarrow> RouteParentStatus list"
  ri_SetAllParentCondition :: "Condition \<Rightarrow> RouteParentStatus list \<Rightarrow> RouteParentStatus list"
  ri_SelectNamespaces :: "'sel option \<Rightarrow> string listResult"
  ri_GetService :: "NamespacedName \<Rightarrow> ServiceObject getResult"
  ri_GetServiceImport :: "NamespacedName \<Rightarrow> string_map getResult"
  ri_ServiceImportSupport :: bool
  ri_NotFound :: "string \<Rightarrow> NamespacedName \<Rightarrow> string"

datatype StatusOp =
    SetParentCondition ParentReference Condition
  | SetAllParentCondition Condition

type_synonym checkResult = "(StatusOp list \<times> (string + bool)) option"
type_synonym 'sel CheckGatewayFunc = "'sel RouteInput \<Rightarrow> ParentReference \<Rightarrow> checkResult"
type_synonym 'sel CheckRuleFunc = "'sel RouteInput \<Rightarrow> checkResult"

fun applyOp :: "'sel RouteInput \<Rightarrow> StatusOp \<Rightarrow> RouteParentStatus list \<Rightarrow> RouteParentStatus list" where
  "applyOp input (SetParentCondition ref c) = ri_SetParentCondition input ref c"
| "applyOp input (SetAllParentCondition c) = ri_SetAllParentCondition input c"

definition applyOps ::
  "'sel RouteInput \<Rightarrow> StatusOp list \<Rightarrow> RouteParentStatus list \<Rightarrow> RouteParentStatus list" where
  "applyOps input ops ps = fold (applyOp input) ops ps"

text \<open>A condition as the checks write it; time and generation are filled in by the input.\<close>

abbreviation (input) newCond :: "string \<Rightarrow> ConditionStatus \<Rightarrow> string \<Rightarrow> string \<Rightarrow> Condition" where
  "newCond t s r m \<equiv> mkCondition t s r m 0 0"

abbreviation (input) refuse :: "ParentReference \<Rightarrow> string \<Rightarrow> string \<Rightarrow> StatusOp list" where
  "refuse ref r m \<equiv> [SetParentCondition ref (newCond ''Accepted'' ConditionFalse r m)]"

text \<open>\<open>%q\<close> of a name, which has no character that is escaped.\<close>

definition quoted :: "string \<Rightarrow> string" where
  "quoted s = CHR 0x22 # s @ [CHR 0x22]"

fun protocolName :: "ProtocolType \<Rightarrow> string" where
  "protocolName HTTPProtocolType = ''HTTP''"
| "protocolName HTTPSProtocolType = ''HTTPS''"
| "protocolName TLSProtocolType = ''TLS''"
| "protocolName TCPProtocolType = ''TCP''"
| "protocolName UDPProtocolType = ''UDP''"
| "protocolName (OtherProtocolType s) = s"

section \<open>Hostnames\<close>

definition computeHostsForListener :: "'sel GwListener \<Rightarrow> string list \<Rightarrow> string list" where
  "computeHostsForListener listener hostnames = ComputeHosts hostnames (lis_Hostname listener)"

definition computeHosts :: "'sel Gateway \<Rightarrow> string list \<Rightarrow> string list" where
  "computeHosts gw hostnames =
     concat (map (\<lambda>listener. computeHostsForListener listener hostnames) (gw_Listeners gw))"

definition GetAllListenerHostNames :: "'sel GwListener list \<Rightarrow> string list" where
  "GetAllListenerHostNames listeners =
     concat (map (\<lambda>listener. case lis_Hostname listener of Some h \<Rightarrow> [h] | None \<Rightarrow> []) listeners)"

section \<open>Checks of a parent Gateway\<close>

text \<open>What every check does first: a Gateway that cannot be read refuses the route.\<close>

definition withGateway ::
  "'sel RouteInput \<Rightarrow> ParentReference \<Rightarrow> ('sel Gateway \<Rightarrow> checkResult) \<Rightarrow> checkResult" where
  "withGateway input parentRef k =
     (case ri_GetGateway input parentRef of
        Inl err \<Rightarrow> Some (refuse parentRef (''Invalid'' @ gvk_Kind (ri_GVK input)) err, Inr False)
      | Inr None \<Rightarrow> None
      | Inr (Some gw) \<Rightarrow> k gw)"

definition kindListed :: "GroupVersionKind \<Rightarrow> RouteGroupKind list \<Rightarrow> bool" where
  "kindListed routeGVK kinds \<longleftrightarrow>
     (\<exists>kind \<in> set kinds. (rgk_Group kind = None \<or> rgk_Group kind = Some (gvk_Group routeGVK)) \<and>
        rgk_Kind kind = gvk_Kind routeGVK)"

fun routeKindLoop :: "GroupVersionKind \<Rightarrow> 'sel GwListener list \<Rightarrow> bool" where
  "routeKindLoop routeGVK [] = True"
| "routeKindLoop routeGVK (listener # listeners) =
     (case lis_AllowedRoutes listener of
        None \<Rightarrow> routeKindLoop routeGVK listeners
      | Some ar \<Rightarrow>
          if length (ar_Kinds ar) = 0 then routeKindLoop routeGVK listeners
          else if kindListed routeGVK (ar_Kinds ar) then routeKindLoop routeGVK listeners
          else False)"

definition CheckGatewayRouteKindAllowed :: "'sel CheckGatewayFunc" where
  "CheckGatewayRouteKindAllowed input parentRef = withGateway input parentRef (\<lambda>gw.
     if routeKindLoop (ri_GVK input) (gw_Listeners gw) then Some ([], Inr True)
     else Some (refuse parentRef ''NotAllowedByListeners''
            (gvk_Kind (ri_GVK input) @
             '' is not allowed to attach to this Gateway due to route kind restrictions''), Inr False))"

definition CheckGatewayMatchingPorts :: "'sel CheckGatewayFunc" where
  "CheckGatewayMatchingPorts input parentRef = withGateway input parentRef (\<lambda>gw.
     case pr_Port parentRef of
       None \<Rightarrow> Some ([], Inr True)
     | Some port \<Rightarrow>
         if \<exists>listener \<in> set (gw_Listeners gw). lis_Port listener = port then Some ([], Inr True)
         else Some (refuse parentRef ''NoMatchingParent''
                (''No matching listener with port '' @ Itoa port), Inr False))"

definition CheckGatewayMatchingHostnames :: "'sel CheckGatewayFunc" where
  "CheckGatewayMatchingHostnames input parentRef = withGateway input parentRef (\<lambda>gw.
     if length (computeHosts gw (ri_Hostnames input)) = 0 then
       Some (refuse parentRef ''NoMatchingListenerHostname'' ''No matching listener hostname'', Inr False)
     else Some ([], Inr True))"

definition CheckGatewayMatchingSection :: "'sel CheckGatewayFunc" where
  "CheckGatewayMatchingSection input parentRef = withGateway input parentRef (\<lambda>gw.
     case pr_SectionName parentRef of
       None \<Rightarrow> Some ([], Inr True)
     | Some sectionName \<Rightarrow>
         if \<exists>listener \<in> set (gw_Listeners gw). lis_Name listener = sectionName then Some ([], Inr True)
         else Some (refuse parentRef ''NoMatchingParent''
                (''No matching listener with sectionName '' @ sectionName), Inr False))"

text \<open>The listeners that the loop over the namespace rules does not skip, with their rules.\<close>

definition namespaceRule :: "'sel RouteInput \<Rightarrow> ParentReference \<Rightarrow> 'sel GwListener \<Rightarrow> 'sel RouteNamespaces option" where
  "namespaceRule input parentRef listener =
     (if pr_SectionName parentRef \<noteq> None \<and> pr_SectionName parentRef \<noteq> Some (lis_Name listener) then None
      else if pr_Port parentRef \<noteq> None \<and> pr_Port parentRef \<noteq> Some (lis_Port listener) then None
      else if lis_Hostname listener \<noteq> None \<and>
              length (computeHostsForListener listener (ri_Hostnames input)) = 0 then None
      else case lis_AllowedRoutes listener of None \<Rightarrow> None | Some ar \<Rightarrow> ar_Namespaces ar)"

fun allowedNamespaceLoop ::
  "'sel RouteInput \<Rightarrow> ParentReference \<Rightarrow> string \<Rightarrow> bool \<Rightarrow> 'sel GwListener list \<Rightarrow> checkResult" where
  "allowedNamespaceLoop input parentRef gwNamespace hasNamespaceRestriction [] =
     Some (if hasNamespaceRestriction
           then refuse parentRef ''NotAllowedByListeners''
                  (gvk_Kind (ri_GVK input) @
                   '' is not allowed to attach to this Gateway due to namespace restrictions'')
           else [], Inr False)"
| "allowedNamespaceLoop input parentRef gwNamespace hasNamespaceRestriction (listener # listeners) =
     (case namespaceRule input parentRef listener of
        None \<Rightarrow> allowedNamespaceLoop input parentRef gwNamespace hasNamespaceRestriction listeners
      | Some rule \<Rightarrow>
        (case rns_From rule of
           None \<Rightarrow> None
         | Some NamespacesFromAll \<Rightarrow> Some ([], Inr True)
         | Some NamespacesFromSame \<Rightarrow>
             if ri_Namespace input = gwNamespace then Some ([], Inr True)
             else allowedNamespaceLoop input parentRef gwNamespace True listeners
         | Some NamespacesFromSelector \<Rightarrow>
             (case ri_SelectNamespaces input (rns_Selector rule) of
                Inl err \<Rightarrow> Some ([], Inl (''unable to list namespaces: '' @ err))
              | Inr nsList \<Rightarrow>
                  if ri_Namespace input \<in> set nsList then Some ([], Inr True)
                  else Some (refuse parentRef ''NotAllowedByListeners''
                         (gvk_Kind (ri_GVK input) @
                          '' is not allowed to attach to this Gateway due to namespace selector restrictions''),
                         Inr False))
         | Some NamespacesFromNone \<Rightarrow> allowedNamespaceLoop input parentRef gwNamespace True listeners
         | Some (NamespacesFromOther _) \<Rightarrow>
             allowedNamespaceLoop input parentRef gwNamespace True listeners))"

definition CheckGatewayAllowedForNamespace :: "'sel CheckGatewayFunc" where
  "CheckGatewayAllowedForNamespace input parentRef = withGateway input parentRef (\<lambda>gw.
     allowedNamespaceLoop input parentRef (gw_Namespace gw) False (gw_Listeners gw))"

definition CheckGatewayMatchingProtocol :: "'sel CheckGatewayFunc" where
  "CheckGatewayMatchingProtocol input parentRef =
     (case ri_GetListenerOwner input parentRef of
        Inl err \<Rightarrow> Some (refuse parentRef (''Invalid'' @ gvk_Kind (ri_GVK input)) err, Inr False)
      | Inr None \<Rightarrow> None
      | Inr (Some (listeners, ownerNamespace)) \<Rightarrow>
          if \<exists>listener \<in> set listeners. lis_Protocol listener \<in> set (ri_ValidProtocols input)
          then Some ([], Inr True)
          else Some (refuse parentRef ''NotAllowedByListeners''
                 (''No matching listener protocol; route requires one of: ['' @
                  join_with CHR '' '' (map protocolName (ri_ValidProtocols input)) @ '']''), Inr False))"

section \<open>Checks of the backends\<close>

text \<open>The loops over the backend references: the calls of all of them, and whether to go on.\<close>

abbreviation (input) unresolved :: "string \<Rightarrow> string \<Rightarrow> Condition" where
  "unresolved r m \<equiv> newCond ''ResolvedRefs'' ConditionFalse r m"

definition IsServiceImport :: "BackendObjectReference \<Rightarrow> bool" where
  "IsServiceImport be \<longleftrightarrow>
     bor_Kind be = Some ''ServiceImport'' \<and> bor_Group be = Some ''multicluster.x-k8s.io''"

definition crossNamespaceRefused :: "'sel RouteInput \<Rightarrow> BackendRef \<Rightarrow> bool" where
  "crossNamespaceRefused input be \<longleftrightarrow>
     NamespaceDerefOr (bor_Namespace (br_Ref be)) (ri_Namespace input) \<noteq> ri_Namespace input \<and>
     \<not> IsBackendReferenceAllowed (ri_Namespace input) (br_Ref be) (ri_GVK input) (ri_Grants input)"

definition CheckAgainstCrossNamespaceBackendReferences :: "'sel CheckRuleFunc" where
  "CheckAgainstCrossNamespaceBackendReferences input =
     (let refused = filter (crossNamespaceRefused input) (concat (ri_Rules input))
      in Some (map (\<lambda>be. SetAllParentCondition
                      (unresolved ''RefNotPermitted'' ''Cross namespace references are not allowed'')) refused,
               Inr (refused = [])))"

fun backendIsServiceLoop :: "bool \<Rightarrow> BackendRef list \<Rightarrow> checkResult" where
  "backendIsServiceLoop continueChecks [] = Some ([], Inr continueChecks)"
| "backendIsServiceLoop continueChecks (be # bes) =
     (if \<not> IsService (br_Ref be) then do {
        kind \<leftarrow> bor_Kind (br_Ref be);
        (ops, r) \<leftarrow> backendIsServiceLoop False bes;
        Some (SetAllParentCondition (unresolved ''InvalidKind'' (''Unsupported backend kind '' @ kind)) # ops, r)
      }
      else if bor_Port (br_Ref be) = None then do {
        (ops, r) \<leftarrow> backendIsServiceLoop False bes;
        Some (SetAllParentCondition (unresolved ''InvalidKind'' ''Must have port for Service reference'') # ops, r)
      }
      else backendIsServiceLoop continueChecks bes)"

definition CheckBackendIsService :: "'sel CheckRuleFunc" where
  "CheckBackendIsService input = backendIsServiceLoop True (concat (ri_Rules input))"

fun existingServiceLoop :: "'sel RouteInput \<Rightarrow> BackendRef list \<Rightarrow> checkResult" where
  "existingServiceLoop input [] = Some ([], Inr True)"
| "existingServiceLoop input (be # bes) =
     (let key = (NamespaceDerefOr (bor_Namespace (br_Ref be)) (ri_Namespace input), bor_Name (br_Ref be))
      in case ri_GetService input key of
           Found svc \<Rightarrow> existingServiceLoop input bes
         | NotFound \<Rightarrow> do {
             (ops, r) \<leftarrow> existingServiceLoop input bes;
             Some (SetAllParentCondition
                     (unresolved ''BackendNotFound'' (ri_NotFound input ''Service'' key)) # ops, r)
           }
         | GetFailed err \<Rightarrow> Some ([], Inl err))"

definition CheckBackendIsExistingService :: "'sel CheckRuleFunc" where
  "CheckBackendIsExistingService input = existingServiceLoop input (concat (ri_Rules input))"

text \<open>The variants that report to one parent, for HTTP, TCP and UDP routes.\<close>

fun backendLoop :: "ParentReference \<Rightarrow> bool \<Rightarrow> BackendRef list \<Rightarrow> checkResult" where
  "backendLoop parentRef continueChecks [] = Some ([], Inr continueChecks)"
| "backendLoop parentRef continueChecks (be # bes) =
     (if \<not> IsService (br_Ref be) \<and> \<not> IsServiceImport (br_Ref be) then do {
        kind \<leftarrow> bor_Kind (br_Ref be);
        (ops, r) \<leftarrow> backendLoop parentRef False bes;
        Some (SetParentCondition parentRef (unresolved ''InvalidKind'' (''Unsupported backend kind '' @ kind)) # ops, r)
      }
      else if bor_Port (br_Ref be) = None then do {
        (ops, r) \<leftarrow> backendLoop parentRef False bes;
        Some (SetParentCondition parentRef
                (unresolved ''InvalidKind'' ''Must have port for backend object reference'') # ops, r)
      }
      else backendLoop parentRef continueChecks bes)"

definition CheckBackend :: "'sel CheckGatewayFunc" where
  "CheckBackend input parentRef = backendLoop parentRef True (concat (ri_Rules input))"

definition CheckHasServiceImportSupport :: "'sel CheckGatewayFunc" where
  "CheckHasServiceImportSupport input parentRef =
     (if (\<exists>be \<in> set (concat (ri_Rules input)). IsServiceImport (br_Ref be)) \<and> \<not> ri_ServiceImportSupport input
      then Some ([SetParentCondition parentRef (unresolved ''BackendNotFound''
                    (''Attempt to reference a ServiceImport backend while '' @
                     ''the corresponding CRD is not installed, '' @
                     ''please restart the cilium-operator if the CRD is already installed''))], Inr False)
      else Some ([], Inr True))"

text \<open>
  The Service behind a backend: an error of \<open>GetBackendServiceName\<close> is \<open>Inl\<close>. A ServiceImport
  is backed by the Service that its annotation names; the client leaves the \<open>Kind\<close> of a typed
  object, which the message prints, empty.
\<close>

definition derivedServiceAnnotation :: string where
  "derivedServiceAnnotation = ''multicluster.kubernetes.io/derived-service''"

definition GetServiceName :: "NamespacedName \<Rightarrow> string_map \<Rightarrow> string + string" where
  "GetServiceName key annotations =
     (case map_of annotations derivedServiceAnnotation of
        None \<Rightarrow> Inl ('' '' @ fst key @ ''/'' @ snd key @ '' does not have annotation '' @ derivedServiceAnnotation)
      | Some backendServiceName \<Rightarrow> Inr backendServiceName)"

definition GetBackendServiceName ::
  "'sel RouteInput \<Rightarrow> string \<Rightarrow> BackendObjectReference \<Rightarrow> (string + string) option" where
  "GetBackendServiceName input namespace be =
     (if IsService be then Some (Inr (bor_Name be))
      else if ri_ServiceImportSupport input \<and> IsServiceImport be then
        Some (case ri_GetServiceImport input (namespace, bor_Name be) of
                NotFound \<Rightarrow> Inl (ri_NotFound input ''ServiceImport'' (namespace, bor_Name be))
              | GetFailed err \<Rightarrow> Inl err
              | Found annotations \<Rightarrow> GetServiceName (namespace, bor_Name be) annotations)
      else (case bor_Kind be of
              None \<Rightarrow> None
            | Some kind \<Rightarrow> Some (Inl (''Unsupported backend kind '' @ kind))))"

definition checkBackendServicePort :: "ServiceObject \<Rightarrow> BackendRef \<Rightarrow> string option" where
  "checkBackendServicePort svc be =
     (case bor_Port (br_Ref be) of
        None \<Rightarrow> None
      | Some port \<Rightarrow>
          if port \<in> set (so_Ports svc) then None
          else Some (''Service port '' @ Itoa port @ '' could not be resolved for backend '' @
                     so_Namespace svc @ ''/'' @ so_Name svc))"

fun existingServiceLoop_V2 :: "'sel RouteInput \<Rightarrow> ParentReference \<Rightarrow> BackendRef list \<Rightarrow> checkResult" where
  "existingServiceLoop_V2 input parentRef [] = Some ([], Inr True)"
| "existingServiceLoop_V2 input parentRef (be # bes) =
     (let ns = NamespaceDerefOr (bor_Namespace (br_Ref be)) (ri_Namespace input);
          report = (\<lambda>msg. do {
            (ops, r) \<leftarrow> existingServiceLoop_V2 input parentRef bes;
            Some (SetParentCondition parentRef (unresolved ''BackendNotFound'' msg) # ops, r) })
      in do {
        svcName \<leftarrow> GetBackendServiceName input ns (br_Ref be);
        case svcName of
          Inl err \<Rightarrow> report err
        | Inr name \<Rightarrow>
            (case ri_GetService input (ns, name) of
               NotFound \<Rightarrow> report (ri_NotFound input ''Service'' (ns, name))
             | GetFailed err \<Rightarrow> Some ([], Inl err)
             | Found svc \<Rightarrow>
                 (case checkBackendServicePort svc be of
                    Some err \<Rightarrow> report err
                  | None \<Rightarrow> existingServiceLoop_V2 input parentRef bes)) })"

definition CheckBackendIsExistingService_V2 :: "'sel CheckGatewayFunc" where
  "CheckBackendIsExistingService_V2 input parentRef =
     existingServiceLoop_V2 input parentRef (concat (ri_Rules input))"

definition CheckAgainstCrossNamespaceBackendReferences_V2 :: "'sel CheckGatewayFunc" where
  "CheckAgainstCrossNamespaceBackendReferences_V2 input parentRef =
     (let refused = filter (crossNamespaceRefused input) (concat (ri_Rules input))
      in Some (map (\<lambda>be. SetParentCondition parentRef
                      (unresolved ''RefNotPermitted'' ''Cross namespace references are not allowed'')) refused,
               Inr (refused = [])))"

section \<open>The status of a parent\<close>

text \<open>
  \<open>mergeStatusConditions\<close>, which every input defines with its own merge: the first status with
  the same parent reference, whoever wrote it, takes the updates; a new status gets the name of
  the controller.
\<close>

fun mergeParentConditions ::
  "(Condition list \<Rightarrow> Condition list \<Rightarrow> Condition list) \<Rightarrow> string \<Rightarrow> ParentReference \<Rightarrow> Condition list \<Rightarrow>
   RouteParentStatus list \<Rightarrow> RouteParentStatus list" where
  "mergeParentConditions merge controllerName parentRef updates [] =
     [\<lparr>rps_ParentRef = parentRef, rps_ControllerName = controllerName, rps_Conditions = updates\<rparr>]"
| "mergeParentConditions merge controllerName parentRef updates (parent # parents) =
     (if rps_ParentRef parent = parentRef
      then parent\<lparr>rps_Conditions := merge (rps_Conditions parent) updates\<rparr> # parents
      else parent # mergeParentConditions merge controllerName parentRef updates parents)"

definition stamped :: "int \<Rightarrow> int \<Rightarrow> Condition \<Rightarrow> Condition" where
  "stamped generation now c = c\<lparr>cond_LastTransitionTime := now, cond_ObservedGeneration := generation\<rparr>"

definition gatewayControllerName :: string where
  "gatewayControllerName = ''io.dolphin/gateway-controller''"

definition TLSRouteInput_mergeStatusConditions ::
  "ParentReference \<Rightarrow> Condition list \<Rightarrow> RouteParentStatus list \<Rightarrow> RouteParentStatus list" where
  "TLSRouteInput_mergeStatusConditions = mergeParentConditions routechecker_merge gatewayControllerName"

definition TLSRouteInput_SetParentCondition ::
  "int \<Rightarrow> L4RouteObject \<Rightarrow> ParentReference \<Rightarrow> Condition \<Rightarrow> RouteParentStatus list \<Rightarrow> RouteParentStatus list" where
  "TLSRouteInput_SetParentCondition now t ref condition ps =
     TLSRouteInput_mergeStatusConditions ref [stamped (ro_Generation t) now condition] ps"

definition TLSRouteInput_SetAllParentCondition ::
  "int \<Rightarrow> L4RouteObject \<Rightarrow> Condition \<Rightarrow> RouteParentStatus list \<Rightarrow> RouteParentStatus list" where
  "TLSRouteInput_SetAllParentCondition now t condition ps =
     fold (\<lambda>parent. TLSRouteInput_mergeStatusConditions parent [stamped (ro_Generation t) now condition])
       (rt_ParentRefs (ro_Route t)) ps"

definition GRPCRouteInput_mergeStatusConditions ::
  "ParentReference \<Rightarrow> Condition list \<Rightarrow> RouteParentStatus list \<Rightarrow> RouteParentStatus list" where
  "GRPCRouteInput_mergeStatusConditions = mergeParentConditions gateway_merge gatewayControllerName"

definition GRPCRouteInput_SetParentCondition ::
  "int \<Rightarrow> GRPCRouteObject \<Rightarrow> ParentReference \<Rightarrow> Condition \<Rightarrow> RouteParentStatus list \<Rightarrow> RouteParentStatus list" where
  "GRPCRouteInput_SetParentCondition now g ref condition ps =
     GRPCRouteInput_mergeStatusConditions ref [stamped (ro_Generation g) now condition] ps"

definition GRPCRouteInput_SetAllParentCondition ::
  "int \<Rightarrow> GRPCRouteObject \<Rightarrow> Condition \<Rightarrow> RouteParentStatus list \<Rightarrow> RouteParentStatus list" where
  "GRPCRouteInput_SetAllParentCondition now g condition ps =
     fold (\<lambda>parent. GRPCRouteInput_mergeStatusConditions parent [stamped (ro_Generation g) now condition])
       (rt_ParentRefs (ro_Route g)) ps"

text \<open>For HTTP, TCP and UDP routes \<open>SetAllParentCondition\<close> does nothing.\<close>

definition HTTPRouteInput_mergeStatusConditions ::
  "string \<Rightarrow> ParentReference \<Rightarrow> Condition list \<Rightarrow> RouteParentStatus list \<Rightarrow> RouteParentStatus list" where
  "HTTPRouteInput_mergeStatusConditions controllerName = mergeParentConditions MergeConditions controllerName"

definition HTTPRouteInput_SetParentCondition ::
  "string \<Rightarrow> int \<Rightarrow> HTTPRouteObject \<Rightarrow> ParentReference \<Rightarrow> Condition \<Rightarrow> RouteParentStatus list \<Rightarrow>
   RouteParentStatus list" where
  "HTTPRouteInput_SetParentCondition controllerName now h ref condition ps =
     HTTPRouteInput_mergeStatusConditions controllerName ref [stamped (ro_Generation h) now condition] ps"

definition TCPRouteInput_mergeStatusConditions ::
  "string \<Rightarrow> ParentReference \<Rightarrow> Condition list \<Rightarrow> RouteParentStatus list \<Rightarrow> RouteParentStatus list" where
  "TCPRouteInput_mergeStatusConditions controllerName = mergeParentConditions MergeConditions controllerName"

definition TCPRouteInput_SetParentCondition ::
  "string \<Rightarrow> int \<Rightarrow> L4RouteObject \<Rightarrow> ParentReference \<Rightarrow> Condition \<Rightarrow> RouteParentStatus list \<Rightarrow>
   RouteParentStatus list" where
  "TCPRouteInput_SetParentCondition controllerName now t ref condition ps =
     TCPRouteInput_mergeStatusConditions controllerName ref [stamped (ro_Generation t) now condition] ps"

definition UDPRouteInput_mergeStatusConditions ::
  "string \<Rightarrow> ParentReference \<Rightarrow> Condition list \<Rightarrow> RouteParentStatus list \<Rightarrow> RouteParentStatus list" where
  "UDPRouteInput_mergeStatusConditions controllerName = mergeParentConditions MergeConditions controllerName"

definition UDPRouteInput_SetParentCondition ::
  "string \<Rightarrow> int \<Rightarrow> L4RouteObject \<Rightarrow> ParentReference \<Rightarrow> Condition \<Rightarrow> RouteParentStatus list \<Rightarrow>
   RouteParentStatus list" where
  "UDPRouteInput_SetParentCondition controllerName now u ref condition ps =
     UDPRouteInput_mergeStatusConditions controllerName ref [stamped (ro_Generation u) now condition] ps"

section \<open>The inputs of the five kinds of routes\<close>

abbreviation (input) gatewayV1Kind :: "string \<Rightarrow> GroupVersionKind" where
  "gatewayV1Kind k \<equiv> \<lparr>gvk_Group = gatewayGroupName, gvk_Version = ''v1'', gvk_Kind = k\<rparr>"

definition parentKey :: "ParentReference \<Rightarrow> string \<Rightarrow> NamespacedName" where
  "parentKey parent namespace = (NamespaceDerefOr (pr_Namespace parent) namespace, pr_Name parent)"

definition getParentGateway ::
  "('w, 'sel) Reader \<Rightarrow> 'w \<Rightarrow> string \<Rightarrow> ParentReference \<Rightarrow> string + 'sel Gateway" where
  "getParentGateway R w namespace parent =
     (case rd_Gateway R w (parentKey parent namespace) of
        Found gw \<Rightarrow> Inr (go_Spec gw)
      | NotFound \<Rightarrow> Inl (''gateway '' @ quoted (pr_Name parent) @ '' does not exist: '' @
                         rd_NotFound R ''Gateway'' (parentKey parent namespace))
      | GetFailed err \<Rightarrow> Inl (''error while getting gateway: '' @ err))"

definition TLSRouteInput_GetGateway ::
  "('w, 'sel) Reader \<Rightarrow> 'w \<Rightarrow> L4RouteObject \<Rightarrow> ParentReference \<Rightarrow> string + 'sel Gateway option" where
  "TLSRouteInput_GetGateway R w t parent =
     map_sum id Some (getParentGateway R w (rt_Namespace (ro_Route t)) parent)"

definition GRPCRouteInput_GetGateway ::
  "('w, 'sel) Reader \<Rightarrow> 'w \<Rightarrow> GRPCRouteObject \<Rightarrow> ParentReference \<Rightarrow> string + 'sel Gateway option" where
  "GRPCRouteInput_GetGateway R w g parent =
     map_sum id Some (getParentGateway R w (rt_Namespace (ro_Route g)) parent)"

definition ResolveListenerOwner ::
  "('w, 'sel) Reader \<Rightarrow> 'w \<Rightarrow> ParentReference \<Rightarrow> string \<Rightarrow> string + ('sel GwListener list \<times> string)" where
  "ResolveListenerOwner R w parent defaultNamespace =
     (if IsListenerSet parent then
        (case rd_ListenerSet R w (parentKey parent defaultNamespace) of
           Found ls \<Rightarrow> Inr (ls_Listeners ls, ls_Namespace ls)
         | NotFound \<Rightarrow> Inl (''listenerset '' @ quoted (pr_Name parent) @ '' does not exist: '' @
                            rd_NotFound R ''ListenerSet'' (parentKey parent defaultNamespace))
         | GetFailed err \<Rightarrow> Inl (''error while getting listenerset: '' @ err))
      else map_sum id (\<lambda>gw. (gw_Listeners gw, gw_Namespace gw)) (getParentGateway R w defaultNamespace parent))"

text \<open>The filters of a rule that name a backend add it to the backends of the rule.\<close>

definition mirrorRef :: "BackendObjectReference \<Rightarrow> BackendRef" where
  "mirrorRef ref = \<lparr>br_Ref = ref, br_Weight = None, br_Filters = []\<rparr>"

definition HTTPRouteRule_GetBackendRefs :: "HTTPRouteMatch RouteRule \<Rightarrow> BackendRef list" where
  "HTTPRouteRule_GetBackendRefs rule =
     rr_BackendRefs rule @
     concat (map (\<lambda>f.
       if rf_Type f = FilterRequestMirror \<and> rf_RequestMirror f \<noteq> None
       then [mirrorRef (the (rf_RequestMirror f))]
       else if rf_Type f = FilterOther ''ExternalAuth'' \<and> rf_ExternalAuth f \<noteq> None
       then [mirrorRef (the (rf_ExternalAuth f))]
       else []) (rr_Filters rule))"

definition GRPCRouteRule_GetBackendRefs :: "GRPCRouteMatch RouteRule \<Rightarrow> BackendRef list" where
  "GRPCRouteRule_GetBackendRefs rule =
     rr_BackendRefs rule @
     concat (map (\<lambda>f.
       if rf_Type f = FilterRequestMirror
       then (case rf_RequestMirror f of None \<Rightarrow> [] | Some ref \<Rightarrow> [mirrorRef ref])
       else []) (rr_Filters rule))"

definition TLSRouteInput :: "('w, 'sel) Reader \<Rightarrow> 'w \<Rightarrow> int \<Rightarrow> ReferenceGrant list \<Rightarrow> L4RouteObject \<Rightarrow> 'sel RouteInput" where
  "TLSRouteInput R w now grants t =
     \<lparr>ri_Rules = map rr_BackendRefs (rt_Rules (ro_Route t)), ri_Namespace = rt_Namespace (ro_Route t),
      ri_GVK = gatewayV1Kind ''TLSRoute'', ri_Grants = grants, ri_Hostnames = rt_Hostnames (ro_Route t),
      ri_GetGateway = TLSRouteInput_GetGateway R w t, ri_GetListenerOwner = (\<lambda>_. Inr None),
      ri_ValidProtocols = [],
      ri_SetParentCondition = TLSRouteInput_SetParentCondition now t,
      ri_SetAllParentCondition = TLSRouteInput_SetAllParentCondition now t,
      ri_SelectNamespaces = rd_SelectNamespaces R w, ri_GetService = rd_Service R w,
      ri_GetServiceImport = rd_ServiceImport R w, ri_ServiceImportSupport = rd_ServiceImportSupport R,
      ri_NotFound = rd_NotFound R\<rparr>"

definition GRPCRouteInput :: "('w, 'sel) Reader \<Rightarrow> 'w \<Rightarrow> int \<Rightarrow> ReferenceGrant list \<Rightarrow> GRPCRouteObject \<Rightarrow> 'sel RouteInput" where
  "GRPCRouteInput R w now grants g =
     \<lparr>ri_Rules = map GRPCRouteRule_GetBackendRefs (rt_Rules (ro_Route g)),
      ri_Namespace = rt_Namespace (ro_Route g),
      ri_GVK = gatewayV1Kind ''GRPCRoute'', ri_Grants = grants, ri_Hostnames = rt_Hostnames (ro_Route g),
      ri_GetGateway = GRPCRouteInput_GetGateway R w g, ri_GetListenerOwner = (\<lambda>_. Inr None),
      ri_ValidProtocols = [],
      ri_SetParentCondition = GRPCRouteInput_SetParentCondition now g,
      ri_SetAllParentCondition = GRPCRouteInput_SetAllParentCondition now g,
      ri_SelectNamespaces = rd_SelectNamespaces R w, ri_GetService = rd_Service R w,
      ri_GetServiceImport = rd_ServiceImport R w, ri_ServiceImportSupport = rd_ServiceImportSupport R,
      ri_NotFound = rd_NotFound R\<rparr>"

definition HTTPRouteInput ::
  "('w, 'sel) Reader \<Rightarrow> 'w \<Rightarrow> int \<Rightarrow> string \<Rightarrow> ReferenceGrant list \<Rightarrow> HTTPRouteObject \<Rightarrow> 'sel RouteInput" where
  "HTTPRouteInput R w now controllerName grants h =
     \<lparr>ri_Rules = map HTTPRouteRule_GetBackendRefs (rt_Rules (ro_Route h)),
      ri_Namespace = rt_Namespace (ro_Route h),
      ri_GVK = gatewayV1Kind ''HTTPRoute'', ri_Grants = grants, ri_Hostnames = rt_Hostnames (ro_Route h),
      ri_GetGateway = (\<lambda>_. Inr None),
      ri_GetListenerOwner = (\<lambda>parent. map_sum id Some (ResolveListenerOwner R w parent (rt_Namespace (ro_Route h)))),
      ri_ValidProtocols = [HTTPProtocolType, HTTPSProtocolType],
      ri_SetParentCondition = HTTPRouteInput_SetParentCondition controllerName now h,
      ri_SetAllParentCondition = (\<lambda>_ ps. ps),
      ri_SelectNamespaces = rd_SelectNamespaces R w, ri_GetService = rd_Service R w,
      ri_GetServiceImport = rd_ServiceImport R w, ri_ServiceImportSupport = rd_ServiceImportSupport R,
      ri_NotFound = rd_NotFound R\<rparr>"

definition TCPRouteInput ::
  "('w, 'sel) Reader \<Rightarrow> 'w \<Rightarrow> int \<Rightarrow> string \<Rightarrow> ReferenceGrant list \<Rightarrow> L4RouteObject \<Rightarrow> 'sel RouteInput" where
  "TCPRouteInput R w now controllerName grants t =
     \<lparr>ri_Rules = map rr_BackendRefs (rt_Rules (ro_Route t)), ri_Namespace = rt_Namespace (ro_Route t),
      ri_GVK = gatewayV1Kind ''TCPRoute'', ri_Grants = grants, ri_Hostnames = [],
      ri_GetGateway = (\<lambda>_. Inr None), ri_GetListenerOwner = (\<lambda>_. Inr None),
      ri_ValidProtocols = [TCPProtocolType],
      ri_SetParentCondition = TCPRouteInput_SetParentCondition controllerName now t,
      ri_SetAllParentCondition = (\<lambda>_ ps. ps),
      ri_SelectNamespaces = rd_SelectNamespaces R w, ri_GetService = rd_Service R w,
      ri_GetServiceImport = rd_ServiceImport R w, ri_ServiceImportSupport = rd_ServiceImportSupport R,
      ri_NotFound = rd_NotFound R\<rparr>"

definition UDPRouteInput ::
  "('w, 'sel) Reader \<Rightarrow> 'w \<Rightarrow> int \<Rightarrow> string \<Rightarrow> ReferenceGrant list \<Rightarrow> L4RouteObject \<Rightarrow> 'sel RouteInput" where
  "UDPRouteInput R w now controllerName grants u =
     \<lparr>ri_Rules = map rr_BackendRefs (rt_Rules (ro_Route u)), ri_Namespace = rt_Namespace (ro_Route u),
      ri_GVK = gatewayV1Kind ''UDPRoute'', ri_Grants = grants, ri_Hostnames = [],
      ri_GetGateway = (\<lambda>_. Inr None), ri_GetListenerOwner = (\<lambda>_. Inr None),
      ri_ValidProtocols = [UDPProtocolType],
      ri_SetParentCondition = UDPRouteInput_SetParentCondition controllerName now u,
      ri_SetAllParentCondition = (\<lambda>_ ps. ps),
      ri_SelectNamespaces = rd_SelectNamespaces R w, ri_GetService = rd_Service R w,
      ri_GetServiceImport = rd_ServiceImport R w, ri_ServiceImportSupport = rd_ServiceImportSupport R,
      ri_NotFound = rd_NotFound R\<rparr>"

section \<open>The contract of the parent statuses\<close>

definition wf_parents :: "RouteParentStatus list \<Rightarrow> bool" where
  "wf_parents ps \<longleftrightarrow>
     distinct (map rps_ParentRef ps) \<and> (\<forall>p \<in> set ps. distinct (types_of (rps_Conditions p)))"

text \<open>What a status says about a parent, up to the time, and the keys in their order.\<close>

definition parentConds :: "RouteParentStatus list \<Rightarrow> ParentReference \<Rightarrow> Condition list" where
  "parentConds ps ref = (case find (\<lambda>p. rps_ParentRef p = ref) ps of None \<Rightarrow> [] | Some p \<Rightarrow> rps_Conditions p)"

definition content :: "RouteParentStatus list \<Rightarrow> ParentReference \<Rightarrow> string \<Rightarrow> Condition option" where
  "content ps ref t = map_option untimed (condOf (parentConds ps ref) t)"

definition skeleton :: "RouteParentStatus list \<Rightarrow> (ParentReference \<times> string \<times> string list) list" where
  "skeleton ps = map (\<lambda>p. (rps_ParentRef p, rps_ControllerName p, types_of (rps_Conditions p))) ps"

lemma parentConds_Nil [simp]: "parentConds [] ref = []"
  by (simp add: parentConds_def)

lemma parentConds_Cons [simp]:
  "parentConds (p # ps) ref = (if rps_ParentRef p = ref then rps_Conditions p else parentConds ps ref)"
  by (simp add: parentConds_def)

lemma parentConds_in: "wf_parents ps \<Longrightarrow> p \<in> set ps \<Longrightarrow> parentConds ps (rps_ParentRef p) = rps_Conditions p"
  by (induction ps) (auto simp: wf_parents_def)

lemma condOf_untimed: "condOf (map untimed xs) t = map_option untimed (condOf xs t)"
  by (induction xs) (auto simp: untimed_def)

lemma same_conditionsI:
  assumes "types_of cs = types_of ds" "distinct (types_of cs)"
    and "\<And>t. map_option untimed (condOf cs t) = map_option untimed (condOf ds t)"
  shows "sameConditions cs ds"
proof -
  have tps: "types_of (map untimed xs) = types_of xs" for xs by (simp add: untimed_def)
  show ?thesis unfolding sameConditions_def
    by (rule conditions_ext) (use assms in \<open>simp_all only: condOf_untimed tps\<close>)
qed

lemma sameParents_content:
  assumes wf: "wf_parents ps" "wf_parents qs" and sk: "skeleton ps = skeleton qs"
    and c: "\<And>ref t. content ps ref t = content qs ref t"
  shows "sameParents ps qs"
  unfolding sameParents_def list_all2_conv_all_nth
proof (intro conjI allI impI)
  show len: "length ps = length qs" using arg_cong [OF sk, of length] by (simp add: skeleton_def)
  fix i assume i: "i < length ps"
  have key: "rps_ParentRef (ps ! i) = rps_ParentRef (qs ! i) \<and> rps_ControllerName (ps ! i) = rps_ControllerName (qs ! i)
    \<and> types_of (rps_Conditions (ps ! i)) = types_of (rps_Conditions (qs ! i))"
    using arg_cong [OF sk, of "\<lambda>s. s ! i"] i len by (simp add: skeleton_def)
  then show "rps_ParentRef (ps ! i) = rps_ParentRef (qs ! i)"
    "rps_ControllerName (ps ! i) = rps_ControllerName (qs ! i)" by simp_all
  have p: "parentConds ps (rps_ParentRef (ps ! i)) = rps_Conditions (ps ! i)"
    by (rule parentConds_in [OF wf(1) nth_mem [OF i]])
  have q: "parentConds qs (rps_ParentRef (ps ! i)) = rps_Conditions (qs ! i)"
    unfolding conjunct1 [OF key] by (rule parentConds_in [OF wf(2) nth_mem [OF i [unfolded len]]])
  show "sameConditions (rps_Conditions (ps ! i)) (rps_Conditions (qs ! i))"
  proof (rule same_conditionsI)
    show "types_of (rps_Conditions (ps ! i)) = types_of (rps_Conditions (qs ! i))" using key by simp
    show "distinct (types_of (rps_Conditions (ps ! i)))" using wf(1) i unfolding wf_parents_def by simp
    show "map_option untimed (condOf (rps_Conditions (ps ! i)) t) =
        map_option untimed (condOf (rps_Conditions (qs ! i)) t)" for t
      using c [of "rps_ParentRef (ps ! i)" t] unfolding content_def p q .
  qed
qed


lemma sameParents_contents: "sameParents ps qs \<Longrightarrow> content ps = content qs"
proof -
  assume "sameParents ps qs"
  then have "map_option untimed (condOf (parentConds ps r) t) = map_option untimed (condOf (parentConds qs r) t)" for r t
    unfolding sameParents_def
  proof (induction rule: list_all2_induct)
    case (Cons p ps q qs)
    have "map_option untimed (condOf (rps_Conditions p) t) = map_option untimed (condOf (rps_Conditions q) t)"
      using Cons(1) unfolding sameConditions_def condOf_untimed [symmetric] by simp
    then show ?case using Cons by simp
  qed simp
  then show ?thesis by (intro ext) (simp add: content_def)
qed

text \<open>The content that a list of calls leaves for a condition of a parent: that of the last one.\<close>

fun written :: "(ParentReference \<times> Condition) list \<Rightarrow> ParentReference \<Rightarrow> string \<Rightarrow> Condition option" where
  "written [] r t = None"
| "written ((ref, u) # us) r t =
     (case written us r t of
        Some c \<Rightarrow> Some c
      | None \<Rightarrow> if r = ref \<and> t = cond_Type u then Some (untimed u) else None)"

definition setConds ::
  "(ParentReference \<Rightarrow> Condition \<Rightarrow> RouteParentStatus list \<Rightarrow> RouteParentStatus list) \<Rightarrow>
   (ParentReference \<times> Condition) list \<Rightarrow> RouteParentStatus list \<Rightarrow> RouteParentStatus list" where
  "setConds setCond us ps = fold (\<lambda>(ref, u). setCond ref u) us ps"

lemma written_append:
  "written (us @ vs) r t = (case written vs r t of Some c \<Rightarrow> Some c | None \<Rightarrow> written us r t)"
  by (induction us) (auto split: option.splits)

lemma written_None: "written us r t = None \<longleftrightarrow> (\<forall>(ref, u) \<in> set us. \<not> (r = ref \<and> t = cond_Type u))"
  by (induction us) (auto split: option.splits)

lemma written_Some: "written us r t = Some c \<Longrightarrow> \<exists>u. (r, u) \<in> set us \<and> cond_Type u = t \<and> c = untimed u"
  by (induction us) (auto split: option.splits if_splits)

text \<open>
  What the checks and the reconcilers rely on: a call sets the content of one condition of one
  parent, touches nothing else, and adds a key only if it was missing.
\<close>

locale parent_status =
  fixes set_cond :: "ParentReference \<Rightarrow> Condition \<Rightarrow> RouteParentStatus list \<Rightarrow> RouteParentStatus list"
  assumes set_wf: "wf_parents ps \<Longrightarrow> wf_parents (set_cond ref u ps)"
    and set_content:
    "content (set_cond ref u ps) r t =
       (if r = ref \<and> t = cond_Type u then Some (untimed u) else content ps r t)"
    and set_skeleton:
    "content ps ref (cond_Type u) \<noteq> None \<Longrightarrow> skeleton (set_cond ref u ps) = skeleton ps"
begin

lemma setConds_wf: "wf_parents ps \<Longrightarrow> wf_parents (setConds set_cond us ps)"
  by (induction us arbitrary: ps) (auto simp: setConds_def set_wf)

lemma setConds_content:
  "content (setConds set_cond us ps) r t =
     (case written us r t of Some c \<Rightarrow> Some c | None \<Rightarrow> content ps r t)"
  by (induction us arbitrary: ps) (auto simp: setConds_def set_content split: option.splits)

lemma setConds_skeleton:
  "\<forall>(ref, u) \<in> set us. content ps ref (cond_Type u) \<noteq> None \<Longrightarrow> skeleton (setConds set_cond us ps) = skeleton ps"
proof (induction us arbitrary: ps)
  case (Cons x us)
  obtain ref u where x: "x = (ref, u)" by fastforce
  have "skeleton (setConds set_cond us (set_cond ref u ps)) = skeleton (set_cond ref u ps)"
    using Cons.prems by (intro Cons.IH) (auto simp: set_content)
  also have "\<dots> = skeleton ps" using Cons.prems unfolding x by (intro set_skeleton) simp
  finally show ?case unfolding x by (simp add: setConds_def)
qed (simp add: setConds_def)

text \<open>Calls that repeat what the status says, at another time, change nothing but times.\<close>

lemma setConds_settled:
  assumes wf: "wf_parents ps"
    and re: "list_all2 (\<lambda>(r, u) (r', u'). r' = r \<and> untimed u' = untimed u) us us'"
    and settled: "\<And>r t c. written us r t = Some c \<Longrightarrow> content ps r t = Some c"
  shows "sameParents ps (setConds set_cond us' ps)"
proof -
  have w: "written us' r t = written us r t" for r t
    using re
  proof (induction rule: list_all2_induct)
    case (Cons x xs y ys)
    obtain r u r' u' where xy: "x = (r, u)" "y = (r', u')" by fastforce
    have "cond_Type u' = cond_Type u" using Cons(1) unfolding xy by (simp add: untimed_eq_iff)
    then show ?case using Cons unfolding xy by (auto split: option.split)
  qed simp
  have "content ps ref (cond_Type u) \<noteq> None" if "(ref, u) \<in> set us'" for ref u
  proof -
    have "written us ref (cond_Type u) \<noteq> None" unfolding w [symmetric] written_None using that by blast
    then show ?thesis using settled by auto
  qed
  then have sk: "skeleton ps = skeleton (setConds set_cond us' ps)"
    by (intro setConds_skeleton [symmetric]) blast
  show ?thesis
    by (rule sameParents_content [OF wf setConds_wf [OF wf] sk])
       (use settled in \<open>simp add: setConds_content w split: option.split\<close>)
qed

end

section \<open>The inputs implement it\<close>

lemma mergeParent_refs:
  "map rps_ParentRef (mergeParentConditions m n ref us ps) =
     map rps_ParentRef ps @ (if ref \<in> set (map rps_ParentRef ps) then [] else [ref])"
  by (induction ps) auto

lemma mergeParent_conds:
  "(\<And>us. distinct (types_of us) \<Longrightarrow> m [] us = us) \<Longrightarrow>
   parentConds (mergeParentConditions m n ref [u] ps) r =
     (if r = ref then m (parentConds ps r) [u] else parentConds ps r)"
  by (induction ps) auto

lemma mergeParent_wf:
  assumes "condition_store m" "wf_parents ps"
  shows "wf_parents (mergeParentConditions m n ref [u] ps)"
proof -
  have "\<forall>p \<in> set (mergeParentConditions m n ref [u] ps). distinct (types_of (rps_Conditions p))"
    using assms(2) unfolding wf_parents_def
    by (induction ps) (auto intro: condition_store.keeps_distinct [OF assms(1)])
  then show ?thesis using assms(2) mergeParent_refs [of m n ref "[u]" ps] unfolding wf_parents_def by simp
qed

lemma mergeParent_skeleton:
  assumes "condition_store m" "content ps ref (cond_Type u) \<noteq> None"
  shows "skeleton (mergeParentConditions m n ref [u] ps) = skeleton ps"
  using assms(2)
proof (induction ps)
  case (Cons p ps)
  show ?case
  proof (cases "rps_ParentRef p = ref")
    case True
    then have "condOf (rps_Conditions p) (cond_Type u) \<noteq> None" using Cons.prems by (simp add: content_def)
    then have "cond_Type u \<in> set (types_of (rps_Conditions p))"
      unfolding condOf_None by simp
    then have "types_of (m (rps_Conditions p) [u]) = types_of (rps_Conditions p)"
      using condition_store.store_types [OF assms(1), of "[u]"] by simp
    then show ?thesis using True by (simp add: skeleton_def)
  next
    case False
    then show ?thesis using Cons by (simp add: skeleton_def content_def)
  qed
qed (simp add: content_def)

lemma untimed_refresh: "cond_Type old = cond_Type u \<Longrightarrow> untimed (refresh old u) = untimed u"
  by (simp add: refresh_def untimed_eq_iff) (simp add: ConditionChanged_def)

lemma mergeParent_content:
  assumes "condition_store m" "\<And>us. distinct (types_of us) \<Longrightarrow> m [] us = us"
  shows "content (mergeParentConditions m n ref [u] ps) r t =
     (if r = ref \<and> t = cond_Type u then Some (untimed u) else content ps r t)"
proof (cases "r = ref")
  case True
  have "condOf (m (parentConds ps r) [u]) t =
      (case condOf [u] t of
         None \<Rightarrow> condOf (parentConds ps r) t
       | Some u \<Rightarrow> Some (case condOf (parentConds ps r) t of None \<Rightarrow> u | Some old \<Rightarrow> refresh old u))"
    by (rule condition_store.store_lookup [OF assms(1)]) simp
  moreover have "untimed (refresh old u) = untimed u"
    if "condOf (parentConds ps r) (cond_Type u) = Some old" for old
    using condOf_type [OF that] by (simp add: untimed_refresh)
  ultimately show ?thesis
    using True by (auto simp: content_def mergeParent_conds [where m = m, OF assms(2)] split: option.split)
qed (simp add: content_def mergeParent_conds [where m = m, OF assms(2)])

lemma mergeLoop_Nil: "distinct (types_of us) \<Longrightarrow> mergeLoop [] adds us = adds @ us"
  by (induction us arbitrary: adds) auto

lemma mergeParent_status:
  assumes "condition_store m" "\<And>us. distinct (types_of us) \<Longrightarrow> m [] us = us"
  shows "parent_status (\<lambda>ref u. mergeParentConditions m n ref [u])"
  by unfold_locales
     (simp_all add: mergeParent_wf [OF assms(1)] mergeParent_skeleton [OF assms(1)] mergeParent_content [where m = m, OF assms])

interpretation tls_parents: parent_status "\<lambda>ref u. TLSRouteInput_mergeStatusConditions ref [u]"
  unfolding TLSRouteInput_mergeStatusConditions_def
  by (rule mergeParent_status [OF routechecker_store.condition_store_axioms])
     (simp add: routechecker_merge_def mergeLoop_Nil)

interpretation grpc_parents: parent_status "\<lambda>ref u. GRPCRouteInput_mergeStatusConditions ref [u]"
  unfolding GRPCRouteInput_mergeStatusConditions_def
  by (rule mergeParent_status [OF gateway_store.condition_store_axioms])
     (simp add: gateway_merge_def mergeLoop_Nil)

interpretation http_parents: parent_status "\<lambda>ref u. HTTPRouteInput_mergeStatusConditions controllerName ref [u]"
  for controllerName
  unfolding HTTPRouteInput_mergeStatusConditions_def
  by (rule mergeParent_status [OF helpers_store.condition_store_axioms])
     (simp add: MergeConditions_def mergeLoop_Nil)

interpretation tcp_parents: parent_status "\<lambda>ref u. TCPRouteInput_mergeStatusConditions controllerName ref [u]"
  for controllerName
  unfolding TCPRouteInput_mergeStatusConditions_def
  by (rule mergeParent_status [OF helpers_store.condition_store_axioms])
     (simp add: MergeConditions_def mergeLoop_Nil)

interpretation udp_parents: parent_status "\<lambda>ref u. UDPRouteInput_mergeStatusConditions controllerName ref [u]"
  for controllerName
  unfolding UDPRouteInput_mergeStatusConditions_def
  by (rule mergeParent_status [OF helpers_store.condition_store_axioms])
     (simp add: MergeConditions_def mergeLoop_Nil)

section \<open>The calls of a check, carried out\<close>

text \<open>
  With \<open>all\<close> the parents that \<open>SetAllParentCondition\<close> reaches and \<open>f\<close> the stamp of the
  input, the calls are updates of single conditions.
\<close>

fun expandOp :: "ParentReference list \<Rightarrow> (Condition \<Rightarrow> Condition) \<Rightarrow> StatusOp \<Rightarrow> (ParentReference \<times> Condition) list" where
  "expandOp all f (SetParentCondition ref c) = [(ref, f c)]"
| "expandOp all f (SetAllParentCondition c) = map (\<lambda>ref. (ref, f c)) all"

definition expandOps ::
  "ParentReference list \<Rightarrow> (Condition \<Rightarrow> Condition) \<Rightarrow> StatusOp list \<Rightarrow> (ParentReference \<times> Condition) list" where
  "expandOps all f ops = concat (map (expandOp all f) ops)"

lemma expandOps_simps [simp]:
  "expandOps all f [] = []"
  "expandOps all f (op # ops) = expandOp all f op @ expandOps all f ops"
  "expandOps all f (xs @ ys) = expandOps all f xs @ expandOps all f ys"
  by (simp_all add: expandOps_def)

lemma setConds_append: "setConds g (us @ vs) ps = setConds g vs (setConds g us ps)"
  by (simp add: setConds_def)

lemma applyOps_expand:
  assumes one: "\<And>ref c ps. ri_SetParentCondition input ref c ps = g ref (f c) ps"
    and all: "\<And>c ps. ri_SetAllParentCondition input c ps = fold (\<lambda>ref. g ref (f c)) all ps"
  shows "applyOps input ops ps = setConds g (expandOps all f ops) ps"
proof -
  have op: "applyOp input op ps = setConds g (expandOp all f op) ps" for op ps
    by (cases op) (simp_all add: one all setConds_def fold_map comp_def)
  show ?thesis unfolding applyOps_def
    by (induction ops arbitrary: ps) (simp_all add: op setConds_append, simp add: setConds_def)
qed

lemma tls_applyOps:
  "applyOps (TLSRouteInput R w now grants t) ops ps =
     setConds (\<lambda>ref u. TLSRouteInput_mergeStatusConditions ref [u])
       (expandOps (rt_ParentRefs (ro_Route t)) (stamped (ro_Generation t) now) ops) ps"
  by (rule applyOps_expand)
     (simp_all add: TLSRouteInput_def TLSRouteInput_SetParentCondition_def TLSRouteInput_SetAllParentCondition_def)

lemma grpc_applyOps:
  "applyOps (GRPCRouteInput R w now grants t) ops ps =
     setConds (\<lambda>ref u. GRPCRouteInput_mergeStatusConditions ref [u])
       (expandOps (rt_ParentRefs (ro_Route t)) (stamped (ro_Generation t) now) ops) ps"
  by (rule applyOps_expand)
     (simp_all add: GRPCRouteInput_def GRPCRouteInput_SetParentCondition_def GRPCRouteInput_SetAllParentCondition_def)

lemma http_applyOps:
  "applyOps (HTTPRouteInput R w now n grants t) ops ps =
     setConds (\<lambda>ref u. HTTPRouteInput_mergeStatusConditions n ref [u])
       (expandOps [] (stamped (ro_Generation t) now) ops) ps"
  by (rule applyOps_expand) (simp_all add: HTTPRouteInput_def HTTPRouteInput_SetParentCondition_def)

lemma tcp_applyOps:
  "applyOps (TCPRouteInput R w now n grants t) ops ps =
     setConds (\<lambda>ref u. TCPRouteInput_mergeStatusConditions n ref [u])
       (expandOps [] (stamped (ro_Generation t) now) ops) ps"
  by (rule applyOps_expand) (simp_all add: TCPRouteInput_def TCPRouteInput_SetParentCondition_def)

lemma udp_applyOps:
  "applyOps (UDPRouteInput R w now n grants t) ops ps =
     setConds (\<lambda>ref u. UDPRouteInput_mergeStatusConditions n ref [u])
       (expandOps [] (stamped (ro_Generation t) now) ops) ps"
  by (rule applyOps_expand) (simp_all add: UDPRouteInput_def UDPRouteInput_SetParentCondition_def)

text \<open>At another time the calls are the same but for the time.\<close>

lemma untimed_stamped: "untimed (stamped g now c) = untimed (stamped g now' c)"
  by (simp add: untimed_def stamped_def)

lemma stamped_simps [simp]:
  "cond_Type (stamped g now c) = cond_Type c" "cond_Status (stamped g now c) = cond_Status c"
  "cond_Type (untimed c) = cond_Type c" "cond_Status (untimed c) = cond_Status c"
  by (simp_all add: stamped_def untimed_def)

lemma expandOps_retimed:
  "list_all2 (\<lambda>(r, u) (r', u'). r' = r \<and> untimed u' = untimed u)
     (expandOps all (stamped g now) ops) (expandOps all (stamped g now') ops)"
proof (induction ops)
  case (Cons op ops)
  have "list_all2 (\<lambda>(r, u) (r', u'). r' = r \<and> untimed u' = untimed u)
     (expandOp all (stamped g now) op) (expandOp all (stamped g now') op)"
    by (cases op) (simp_all add: list_all2_map1 list_all2_map2 list_all2_same untimed_stamped [of g now' _ now])
  then show ?case using Cons by (simp add: list_all2_appendI)
qed simp

end
