(* ===== verification/Memory_Cluster.thy ===== *)
theory Memory_Cluster
  imports Cluster_Client
begin

text \<open>
  An API server in memory: lists of objects, read under their keys, whose status is replaced
  by a write. It satisfies what the reconcilers assume of the client, so those assumptions can
  hold, and the examples of the development run against it. A label selector is the list of
  the namespaces that it selects.
\<close>

record Cluster =
  cl_Gateways :: "string list GatewayObject list"
  cl_Classes :: "GatewayClass list"
  cl_ListenerSets :: "string list ListenerSet list"
  cl_Services :: "ServiceObject list"
  cl_Namespaces :: "(string \<times> string_map) list"
  cl_Grants :: "ReferenceGrant list"
  cl_HTTPRoutes :: "HTTPRouteObject list"
  cl_TLSRoutes :: "L4RouteObject list"
  cl_GRPCRoutes :: "GRPCRouteObject list"
  cl_TCPRoutes :: "L4RouteObject list"
  cl_UDPRoutes :: "L4RouteObject list"
  cl_Policies :: "BackendTLSPolicy list"

definition lookupObject :: "('a \<Rightarrow> 'k) \<Rightarrow> 'a list \<Rightarrow> 'k \<Rightarrow> 'a getResult" where
  "lookupObject key xs k = (case find (\<lambda>x. key x = k) xs of None \<Rightarrow> NotFound | Some x \<Rightarrow> Found x)"

definition replaceObject :: "('a \<Rightarrow> 'k) \<Rightarrow> 'a \<Rightarrow> 'a list \<Rightarrow> 'a list" where
  "replaceObject key y xs = map (\<lambda>x. if key x = key y then y else x) xs"

definition storeObject :: "('a \<Rightarrow> 'k) \<Rightarrow> ('w \<Rightarrow> 'a list) \<Rightarrow> ('a list \<Rightarrow> 'w \<Rightarrow> 'w) \<Rightarrow> 'w \<Rightarrow> 'a \<Rightarrow> 'w writeResult" where
  "storeObject key get put w y =
     (if lookupObject key (get w) (key y) = NotFound then (Some ''not found'', w)
      else (None, put (replaceObject key y (get w)) w))"

abbreviation lsKey :: "'sel ListenerSet \<Rightarrow> NamespacedName" where
  "lsKey ls \<equiv> (ls_Namespace ls, ls_Name ls)"

definition memReader :: "('z Cluster_scheme, string list) Reader" where
  "memReader =
     \<lparr>rd_Gateway = (\<lambda>w. lookupObject go_key (cl_Gateways w)),
      rd_GatewayClass = (\<lambda>w. lookupObject gc_Name (cl_Classes w)),
      rd_ListenerSet = (\<lambda>w. lookupObject lsKey (cl_ListenerSets w)),
      rd_Service = (\<lambda>w. lookupObject (\<lambda>s. (so_Namespace s, so_Name s)) (cl_Services w)),
      rd_ServiceImport = (\<lambda>w k. NotFound), rd_Secret = (\<lambda>w k. NotFound),
      rd_ConfigMap = (\<lambda>w k. NotFound), rd_GatewayClassConfig = (\<lambda>w k. NotFound),
      rd_TLSRoute = (\<lambda>w. lookupObject routeKey (cl_TLSRoutes w)),
      rd_GRPCRoute = (\<lambda>w. lookupObject routeKey (cl_GRPCRoutes w)),
      rd_Namespaces = (\<lambda>w. Inr (cl_Namespaces w)),
      rd_SelectNamespaces = (\<lambda>w sel. Inr (case sel of None \<Rightarrow> [] | Some ns \<Rightarrow> ns)),
      rd_ReferenceGrants = (\<lambda>w. Inr (cl_Grants w)),
      rd_NotFound = (\<lambda>kind key. kind @ '' not found''), rd_ServiceImportSupport = False,
      rd_ListenerSetSupport = True, rd_Installed = (\<lambda>kind. True), rd_SelMatches = (\<lambda>sel labels. Some True)\<rparr>"

definition memWriter :: "('z Cluster_scheme, string list) StatusWriter" where
  "memWriter =
     \<lparr>sw_Gateway = storeObject go_key cl_Gateways (\<lambda>xs w. w\<lparr>cl_Gateways := xs\<rparr>),
      sw_GatewayClass = storeObject gc_Name cl_Classes (\<lambda>xs w. w\<lparr>cl_Classes := xs\<rparr>),
      sw_ListenerSet = storeObject lsKey cl_ListenerSets (\<lambda>xs w. w\<lparr>cl_ListenerSets := xs\<rparr>),
      sw_HTTPRoute = storeObject routeKey cl_HTTPRoutes (\<lambda>xs w. w\<lparr>cl_HTTPRoutes := xs\<rparr>),
      sw_TLSRoute = storeObject routeKey cl_TLSRoutes (\<lambda>xs w. w\<lparr>cl_TLSRoutes := xs\<rparr>),
      sw_GRPCRoute = storeObject routeKey cl_GRPCRoutes (\<lambda>xs w. w\<lparr>cl_GRPCRoutes := xs\<rparr>),
      sw_TCPRoute = storeObject routeKey cl_TCPRoutes (\<lambda>xs w. w\<lparr>cl_TCPRoutes := xs\<rparr>),
      sw_UDPRoute = storeObject routeKey cl_UDPRoutes (\<lambda>xs w. w\<lparr>cl_UDPRoutes := xs\<rparr>),
      sw_BackendTLSPolicy =
        storeObject (\<lambda>p. (btp_Namespace p, btp_Name p)) cl_Policies (\<lambda>xs w. w\<lparr>cl_Policies := xs\<rparr>)\<rparr>"

definition memLister :: "('z Cluster_scheme, string list) Lister" where
  "memLister =
     \<lparr>li_Gateways = (\<lambda>w. Inr (cl_Gateways w)), li_HTTPRoutes = (\<lambda>w. Inr (cl_HTTPRoutes w)),
      li_TLSRoutes = (\<lambda>w. Inr (cl_TLSRoutes w)), li_GRPCRoutes = (\<lambda>w. Inr (cl_GRPCRoutes w)),
      li_TCPRoutes = (\<lambda>w. Inr (cl_TCPRoutes w)), li_UDPRoutes = (\<lambda>w. Inr (cl_UDPRoutes w)),
      li_Services = (\<lambda>w. Inr (cl_Services w)), li_ServicesLabelled = (\<lambda>w ns k v. Inr []),
      li_ListenerSets = (\<lambda>w. Inr (cl_ListenerSets w)), li_BackendTLSPolicies = (\<lambda>w. Inr (cl_Policies w))\<rparr>"

lemma lookupObject_key: "lookupObject key xs k = Found x \<Longrightarrow> key x = k"
  by (auto simp: lookupObject_def find_Some_iff split: option.splits)

lemma lookupObject_replace:
  "lookupObject key xs (key y) \<noteq> NotFound \<Longrightarrow> lookupObject key (replaceObject key y xs) (key y) = Found y"
  by (induction xs) (auto simp: lookupObject_def replaceObject_def)

definition emptyCluster :: Cluster where
  "emptyCluster =
     \<lparr>cl_Gateways = [], cl_Classes = [], cl_ListenerSets = [], cl_Services = [], cl_Namespaces = [],
      cl_Grants = [], cl_HTTPRoutes = [], cl_TLSRoutes = [], cl_GRPCRoutes = [], cl_TCPRoutes = [],
      cl_UDPRoutes = [], cl_Policies = []\<rparr>"

end
