(* ===== verification/Route_Reconcile.thy ===== *)
theory Route_Reconcile
  imports Route_Checks Memory_Cluster
begin

text \<open>
  The reconcilers of TLS and gRPC routes, \<open>tlsroute_reconcile.go\<close> and
  \<open>grpcroute_reconcile.go\<close> of \<open>src/pkg/gateway_api\<close>. The state of the cluster is passed
  explicitly; the result is the error, if any, and the next state, and \<open>None\<close> for a nil
  dereference. The theorems say what the statuses report about a route, that a second
  reconciliation of a settled route writes nothing, and where the two reconcilers differ.
\<close>

section \<open>The loops over the checks\<close>

text \<open>The checks of one parent: the calls, and the error that ends the reconciliation.\<close>

fun runGatewayChecks ::
  "'sel RouteInput \<Rightarrow> ParentReference \<Rightarrow> 'sel CheckGatewayFunc list \<Rightarrow> (StatusOp list \<times> string option) option" where
  "runGatewayChecks i parent [] = Some ([], None)"
| "runGatewayChecks i parent (fn # fns) = do {
     (ops, r) \<leftarrow> fn i parent;
     case r of
       Inl err \<Rightarrow> Some (ops, Some err)
     | Inr continueCheck \<Rightarrow>
         if \<not> continueCheck then Some (ops, None)
         else do { (ops', e) \<leftarrow> runGatewayChecks i parent fns; Some (ops @ ops', e) } }"

abbreviation (input) gatewayChecks :: "'sel CheckGatewayFunc list" where
  "gatewayChecks \<equiv>
     [CheckGatewayAllowedForNamespace, CheckGatewayRouteKindAllowed, CheckGatewayMatchingPorts,
      CheckGatewayMatchingHostnames, CheckGatewayMatchingSection]"

abbreviation (input) initialOps :: "ParentReference \<Rightarrow> string \<Rightarrow> StatusOp list" where
  "initialOps parent msg \<equiv>
     [SetParentCondition parent (newCond ''Accepted'' ConditionTrue ''Accepted'' msg),
      SetAllParentCondition (newCond ''ResolvedRefs'' ConditionTrue ''ResolvedRefs'' ''Service reference is valid'')]"

fun parentLoop ::
  "'sel RouteInput \<Rightarrow> string \<Rightarrow> ParentReference list \<Rightarrow> (StatusOp list \<times> string option) option" where
  "parentLoop i msg [] = Some ([], None)"
| "parentLoop i msg (parent # parents) = do {
     (ops, e) \<leftarrow> runGatewayChecks i parent gatewayChecks;
     case e of
       Some err \<Rightarrow> Some (initialOps parent msg @ ops, Some err)
     | None \<Rightarrow> do { (ops', e') \<leftarrow> parentLoop i msg parents; Some (initialOps parent msg @ ops @ ops', e') } }"

abbreviation (input) ruleChecks :: "'sel CheckRuleFunc list" where
  "ruleChecks \<equiv>
     [CheckAgainstCrossNamespaceBackendReferences, CheckBackendIsService, CheckBackendIsExistingService]"

text \<open>
  The checks of the backends. For TLS a check that refuses ends the loop; for gRPC it is
  reported as an error, whose wrapped cause is then nil.
\<close>

fun tlsRuleLoop :: "'sel RouteInput \<Rightarrow> 'sel CheckRuleFunc list \<Rightarrow> (StatusOp list \<times> string option) option" where
  "tlsRuleLoop i [] = Some ([], None)"
| "tlsRuleLoop i (fn # fns) = do {
     (ops, r) \<leftarrow> fn i;
     case r of
       Inl err \<Rightarrow> Some (ops, Some err)
     | Inr continueCheck \<Rightarrow>
         if \<not> continueCheck then Some (ops, None)
         else do { (ops', e) \<leftarrow> tlsRuleLoop i fns; Some (ops @ ops', e) } }"

fun grpcRuleLoop :: "'sel RouteInput \<Rightarrow> 'sel CheckRuleFunc list \<Rightarrow> (StatusOp list \<times> string option) option" where
  "grpcRuleLoop i [] = Some ([], None)"
| "grpcRuleLoop i (fn # fns) = do {
     (ops, r) \<leftarrow> fn i;
     case r of
       Inl err \<Rightarrow> Some (ops, Some err)
     | Inr continueCheck \<Rightarrow>
         if \<not> continueCheck then Some (ops, Some ''%!w(<nil>)'')
         else do { (ops', e) \<leftarrow> grpcRuleLoop i fns; Some (ops @ ops', e) } }"

section \<open>TLS routes\<close>

definition tlsroute_updateStatus ::
  "('w, 'sel) StatusWriter \<Rightarrow> L4RouteObject \<Rightarrow> L4RouteObject \<Rightarrow> 'w \<Rightarrow> 'w writeResult" where
  "tlsroute_updateStatus S original new w =
     (if sameParents (ro_Parents original) (ro_Parents new) then (None, w) else sw_TLSRoute S w new)"

definition tlsroute_handleReconcileErrorWithStatus ::
  "('w, 'sel) StatusWriter \<Rightarrow> string \<Rightarrow> L4RouteObject \<Rightarrow> L4RouteObject \<Rightarrow> 'w \<Rightarrow> reconcileResult \<times> 'w" where
  "tlsroute_handleReconcileErrorWithStatus S reconcileErr original modified w =
     (case tlsroute_updateStatus S original modified w of
        (Some err, w') \<Rightarrow>
          (Fail (''failed to update TLSRoute status while handling the reconcile error '' @ reconcileErr @ '': '' @ err), w')
      | (None, w') \<Rightarrow> (Fail reconcileErr, w'))"

definition tlsroute_checked ::
  "('w, 'sel) StatusWriter \<Rightarrow> 'sel RouteInput \<Rightarrow> L4RouteObject \<Rightarrow> 'w \<Rightarrow> (reconcileResult \<times> 'w) option" where
  "tlsroute_checked S i original w = do {
     (ops, e) \<leftarrow> parentLoop i ''Accepted TLSRoute'' (rt_ParentRefs (ro_Route original));
     let tr = original\<lparr>ro_Parents := applyOps i ops (ro_Parents original)\<rparr>;
     case e of
       Some err \<Rightarrow>
         Some (tlsroute_handleReconcileErrorWithStatus S (''failed to apply route check: '' @ err) original tr w)
     | None \<Rightarrow> do {
         (ops', e') \<leftarrow> tlsRuleLoop i ruleChecks;
         let tr' = tr\<lparr>ro_Parents := applyOps i ops' (ro_Parents tr)\<rparr>;
         case e' of
           Some err \<Rightarrow>
             Some (tlsroute_handleReconcileErrorWithStatus S (''failed to apply Gateway check: '' @ err) original tr' w)
         | None \<Rightarrow>
             Some (case tlsroute_updateStatus S original tr' w of
                     (Some err, w') \<Rightarrow> (Fail (''failed to update TLSRoute status: '' @ err), w')
                   | (None, w') \<Rightarrow> (Success, w')) } }"

definition tlsroute_Reconcile ::
  "('w, 'sel) Reader \<Rightarrow> ('w, 'sel) StatusWriter \<Rightarrow> int \<Rightarrow> NamespacedName \<Rightarrow> 'w \<Rightarrow>
   (reconcileResult \<times> 'w) option" where
  "tlsroute_Reconcile R S now req w =
     (case rd_TLSRoute R w req of
        NotFound \<Rightarrow> Some (Success, w)
      | GetFailed err \<Rightarrow> Some (Fail err, w)
      | Found original \<Rightarrow>
          if ro_Deleting original then Some (Success, w)
          else (case rd_ReferenceGrants R w of
                  Inl err \<Rightarrow>
                    Some (tlsroute_handleReconcileErrorWithStatus S
                            (''failed to retrieve reference grants: '' @ err) original original w)
                | Inr grants \<Rightarrow> tlsroute_checked S (TLSRouteInput R w now grants original) original w))"

section \<open>gRPC routes\<close>

definition grpcroute_updateStatus ::
  "('w, 'sel) StatusWriter \<Rightarrow> GRPCRouteObject \<Rightarrow> GRPCRouteObject \<Rightarrow> 'w \<Rightarrow> 'w writeResult" where
  "grpcroute_updateStatus S original new w =
     (if sameParents (ro_Parents original) (ro_Parents new) then (None, w) else sw_GRPCRoute S w new)"

definition grpcroute_handleReconcileErrorWithStatus ::
  "('w, 'sel) StatusWriter \<Rightarrow> string \<Rightarrow> GRPCRouteObject \<Rightarrow> GRPCRouteObject \<Rightarrow> 'w \<Rightarrow> reconcileResult \<times> 'w" where
  "grpcroute_handleReconcileErrorWithStatus S reconcileErr original modified w =
     (case grpcroute_updateStatus S original modified w of
        (Some err, w') \<Rightarrow>
          (Fail (''failed to update GRPCRoute status while handling the reconcile error '' @ reconcileErr @ '': '' @ err), w')
      | (None, w') \<Rightarrow> (Fail reconcileErr, w'))"

definition grpcroute_checked ::
  "('w, 'sel) StatusWriter \<Rightarrow> 'sel RouteInput \<Rightarrow> GRPCRouteObject \<Rightarrow> 'w \<Rightarrow> (reconcileResult \<times> 'w) option" where
  "grpcroute_checked S i original w = do {
     (ops, e) \<leftarrow> parentLoop i ''Accepted GRPCRoute'' (rt_ParentRefs (ro_Route original));
     let gr = original\<lparr>ro_Parents := applyOps i ops (ro_Parents original)\<rparr>;
     case e of
       Some err \<Rightarrow>
         Some (grpcroute_handleReconcileErrorWithStatus S (''failed to apply Gateway check: '' @ err) original gr w)
     | None \<Rightarrow> do {
         (ops', e') \<leftarrow> grpcRuleLoop i ruleChecks;
         let gr' = gr\<lparr>ro_Parents := applyOps i ops' (ro_Parents gr)\<rparr>;
         case e' of
           Some err \<Rightarrow>
             Some (grpcroute_handleReconcileErrorWithStatus S (''failed to apply Backend check: '' @ err) original gr' w)
         | None \<Rightarrow>
             Some (case grpcroute_updateStatus S original gr' w of
                     (Some err, w') \<Rightarrow> (Fail (''failed to update GRPCRoute status: '' @ err), w')
                   | (None, w') \<Rightarrow> (Success, w')) } }"

definition grpcroute_Reconcile ::
  "('w, 'sel) Reader \<Rightarrow> ('w, 'sel) StatusWriter \<Rightarrow> int \<Rightarrow> NamespacedName \<Rightarrow> 'w \<Rightarrow>
   (reconcileResult \<times> 'w) option" where
  "grpcroute_Reconcile R S now req w =
     (case rd_GRPCRoute R w req of
        NotFound \<Rightarrow> Some (Success, w)
      | GetFailed err \<Rightarrow> Some (Fail err, w)
      | Found original \<Rightarrow>
          if ro_Deleting original then Some (Success, w)
          else (case rd_ReferenceGrants R w of
                  Inl err \<Rightarrow>
                    Some (grpcroute_handleReconcileErrorWithStatus S
                            (''failed to retrieve reference grants: '' @ err) original original w)
                | Inr grants \<Rightarrow> grpcroute_checked S (GRPCRouteInput R w now grants original) original w))"

section \<open>What the statuses report\<close>

text \<open>The rules on namespaces that concern the reference, and whether a rule settles the matter.\<close>

definition namespaceRules :: "'sel RouteInput \<Rightarrow> ParentReference \<Rightarrow> 'sel GwListener list \<Rightarrow> 'sel RouteNamespaces list" where
  "namespaceRules i ref ls = List.map_filter (namespaceRule i ref) ls"

definition decides :: "'sel RouteInput \<Rightarrow> string \<Rightarrow> 'sel RouteNamespaces \<Rightarrow> bool" where
  "decides i gwNamespace rule \<longleftrightarrow>
     rns_From rule = Some NamespacesFromAll \<or> rns_From rule = Some NamespacesFromSelector \<or>
     rns_From rule = Some NamespacesFromSame \<and> ri_Namespace i = gwNamespace"

definition selects :: "'sel RouteInput \<Rightarrow> 'sel RouteNamespaces \<Rightarrow> bool" where
  "selects i rule \<longleftrightarrow>
     (rns_From rule = Some NamespacesFromSelector \<longrightarrow>
        (\<exists>nss. ri_SelectNamespaces i (rns_Selector rule) = Inr nss \<and> ri_Namespace i \<in> set nss))"

definition attaches :: "'sel RouteInput \<Rightarrow> ParentReference \<Rightarrow> 'sel Gateway \<Rightarrow> bool" where
  "attaches i ref gw \<longleftrightarrow>
     (\<forall>l \<in> set (gw_Listeners gw). \<forall>ar. lis_AllowedRoutes l = Some ar \<longrightarrow>
        ar_Kinds ar = [] \<or> kindListed (ri_GVK i) (ar_Kinds ar)) \<and>
     (\<forall>port. pr_Port ref = Some port \<longrightarrow> (\<exists>l \<in> set (gw_Listeners gw). lis_Port l = port)) \<and>
     (\<exists>l \<in> set (gw_Listeners gw). ComputeHosts (ri_Hostnames i) (lis_Hostname l) \<noteq> []) \<and>
     (\<forall>s. pr_SectionName ref = Some s \<longrightarrow> (\<exists>l \<in> set (gw_Listeners gw). lis_Name l = s))"

definition admitted :: "'sel RouteInput \<Rightarrow> ParentReference \<Rightarrow> bool" where
  "admitted i ref \<longleftrightarrow>
     (\<exists>gw. ri_GetGateway i ref = Inr (Some gw) \<and>
        (namespaceRules i ref (gw_Listeners gw) = [] \<or>
         (\<exists>rule. find (decides i (gw_Namespace gw)) (namespaceRules i ref (gw_Listeners gw)) = Some rule \<and>
            selects i rule) \<and> attaches i ref gw))"

definition resolved :: "'sel RouteInput \<Rightarrow> bool" where
  "resolved i \<longleftrightarrow>
     (\<forall>be \<in> set (concat (ri_Rules i)).
        \<not> crossNamespaceRefused i be \<and> IsService (br_Ref be) \<and> bor_Port (br_Ref be) \<noteq> None \<and>
        (\<exists>svc. ri_GetService i (NamespaceDerefOr (bor_Namespace (br_Ref be)) (ri_Namespace i),
           bor_Name (br_Ref be)) = Found svc))"

text \<open>A refusal is one call that sets \<open>Accepted\<close> of the parent to false.\<close>

definition refusal :: "ParentReference \<Rightarrow> StatusOp list \<Rightarrow> bool" where
  "refusal ref ops \<longleftrightarrow>
     (\<exists>c. ops = [SetParentCondition ref c] \<and> cond_Type c = ''Accepted'' \<and> cond_Status c = ConditionFalse)"

lemma refusal_refuse [simp]: "refusal ref (refuse ref r m)"
  by (simp add: refusal_def)

lemma namespaceRules_simps [simp]:
  "namespaceRules i ref [] = []"
  "namespaceRules i ref (l # ls) =
     (case namespaceRule i ref l of None \<Rightarrow> namespaceRules i ref ls | Some r \<Rightarrow> r # namespaceRules i ref ls)"
  unfolding namespaceRules_def by (simp_all add: map_filter_simps)

lemma allowedNamespaceLoop_result:
  assumes "allowedNamespaceLoop i ref gwNs b ls = Some (ops, Inr c)"
  shows "case find (decides i gwNs) (namespaceRules i ref ls) of
           None \<Rightarrow> \<not> c \<and> (if b \<or> namespaceRules i ref ls \<noteq> [] then refusal ref ops else ops = [])
         | Some rule \<Rightarrow> if selects i rule then c \<and> ops = [] else \<not> c \<and> refusal ref ops"
  using assms
proof (induction ls arbitrary: b)
  case (Cons l ls)
  show ?case
  proof (cases "namespaceRule i ref l")
    case None
    then have "allowedNamespaceLoop i ref gwNs b ls = Some (ops, Inr c)" using Cons.prems by simp
    from Cons.IH [OF this] show ?thesis using None by (simp only: namespaceRules_simps option.case)
  next
    case (Some rule)
    then obtain fr where fr: "rns_From rule = Some fr" using Cons.prems by (cases "rns_From rule") simp_all
    show ?thesis
    proof (cases "decides i gwNs rule")
      case True
      then show ?thesis using Cons.prems Some fr
        by (cases fr) (auto simp: decides_def selects_def split: sum.splits if_splits)
    next
      case False
      then have "allowedNamespaceLoop i ref gwNs True ls = Some (ops, Inr c)"
        using Cons.prems Some fr by (cases fr) (simp_all add: decides_def)
      from Cons.IH [OF this] show ?thesis using False Some by (simp split: option.splits)
    qed
  qed
qed (auto split: if_splits)

lemma routeKindLoop_iff:
  "routeKindLoop gvk ls \<longleftrightarrow>
     (\<forall>l \<in> set ls. \<forall>ar. lis_AllowedRoutes l = Some ar \<longrightarrow> ar_Kinds ar = [] \<or> kindListed gvk (ar_Kinds ar))"
  by (induction ls) (auto split: option.splits)

lemma computeHosts_empty:
  "length (computeHosts gw hs) = 0 \<longleftrightarrow> \<not> (\<exists>l \<in> set (gw_Listeners gw). ComputeHosts hs (lis_Hostname l) \<noteq> [])"
  by (auto simp: computeHosts_def computeHostsForListener_def)

text \<open>A check or a list of checks passes silently if a condition holds and refuses the parent if not.\<close>

definition passesIff :: "'sel RouteInput \<Rightarrow> ParentReference \<Rightarrow> 'sel CheckGatewayFunc \<Rightarrow> bool \<Rightarrow> bool" where
  "passesIff i ref fn P \<longleftrightarrow>
     (if P then fn i ref = Some ([], Inr True) else (\<exists>ops. fn i ref = Some (ops, Inr False) \<and> refusal ref ops))"

definition runIff :: "'sel RouteInput \<Rightarrow> ParentReference \<Rightarrow> 'sel CheckGatewayFunc list \<Rightarrow> bool \<Rightarrow> bool" where
  "runIff i ref fns P \<longleftrightarrow>
     (\<exists>ops. runGatewayChecks i ref fns = Some (ops, None) \<and> (if P then ops = [] else refusal ref ops))"

lemma runIff_Nil: "runIff i ref [] True"
  by (simp add: runIff_def)

lemma runIff_Cons: "passesIff i ref fn P \<Longrightarrow> runIff i ref fns Q \<Longrightarrow> runIff i ref (fn # fns) (P \<and> Q)"
  unfolding passesIff_def runIff_def by (cases P) auto

lemma gateway_check_passes:
  assumes gw: "ri_GetGateway i ref = Inr (Some gw)"
  shows "passesIff i ref CheckGatewayRouteKindAllowed (routeKindLoop (ri_GVK i) (gw_Listeners gw))"
    "passesIff i ref CheckGatewayMatchingPorts
       (\<forall>port. pr_Port ref = Some port \<longrightarrow> (\<exists>l \<in> set (gw_Listeners gw). lis_Port l = port))"
    "passesIff i ref CheckGatewayMatchingHostnames (length (computeHosts gw (ri_Hostnames i)) \<noteq> 0)"
    "passesIff i ref CheckGatewayMatchingSection
       (\<forall>s. pr_SectionName ref = Some s \<longrightarrow> (\<exists>l \<in> set (gw_Listeners gw). lis_Name l = s))"
  by (auto simp: passesIff_def withGateway_def gw CheckGatewayRouteKindAllowed_def CheckGatewayMatchingPorts_def
      CheckGatewayMatchingHostnames_def CheckGatewayMatchingSection_def split: option.splits)

lemma later_checks:
  assumes gw: "ri_GetGateway i ref = Inr (Some gw)"
  shows "runIff i ref [CheckGatewayRouteKindAllowed, CheckGatewayMatchingPorts, CheckGatewayMatchingHostnames,
           CheckGatewayMatchingSection] (attaches i ref gw)"
proof -
  note p = gateway_check_passes [OF gw]
  have "attaches i ref gw \<longleftrightarrow>
      routeKindLoop (ri_GVK i) (gw_Listeners gw) \<and>
      (\<forall>port. pr_Port ref = Some port \<longrightarrow> (\<exists>l \<in> set (gw_Listeners gw). lis_Port l = port)) \<and>
      length (computeHosts gw (ri_Hostnames i)) \<noteq> 0 \<and>
      (\<forall>s. pr_SectionName ref = Some s \<longrightarrow> (\<exists>l \<in> set (gw_Listeners gw). lis_Name l = s)) \<and> True"
    unfolding attaches_def routeKindLoop_iff computeHosts_empty by simp
  then show ?thesis
    using runIff_Cons [OF p(1) runIff_Cons [OF p(2) runIff_Cons [OF p(3) runIff_Cons [OF p(4) runIff_Nil]]]]
    by (simp only:)
qed

text \<open>All the checks of one parent: silent if the route is admitted, else one refusal.\<close>

lemma gatewayChecks_found:
  assumes run: "runGatewayChecks i ref gatewayChecks = Some (ops, None)"
    and gw: "ri_GetGateway i ref = Inr (Some gw)"
  shows "if admitted i ref then ops = [] else refusal ref ops"
proof -
  let ?rules = "namespaceRules i ref (gw_Listeners gw)"
  let ?find = "find (decides i (gw_Namespace gw)) ?rules"
  note fn = CheckGatewayAllowedForNamespace_def withGateway_def gw
  from run obtain ops1 r where loop: "allowedNamespaceLoop i ref (gw_Namespace gw) False (gw_Listeners gw) = Some (ops1, r)"
    by (cases "allowedNamespaceLoop i ref (gw_Namespace gw) False (gw_Listeners gw)") (auto simp: fn)
  then obtain c where r: "r = Inr c" using run by (cases r) (simp_all add: fn)
  note ns = allowedNamespaceLoop_result [OF loop [unfolded r]]
  have adm: "admitted i ref \<longleftrightarrow> ?rules = [] \<or> (\<exists>rule. ?find = Some rule \<and> selects i rule) \<and> attaches i ref gw"
    unfolding admitted_def gw by simp
  show ?thesis
  proof (cases c)
    case False
    then have "ops = ops1" using run loop r by (simp add: fn)
    then show ?thesis using ns False unfolding adm by (cases ?find) (auto split: if_splits)
  next
    case True
    then obtain rule where rule: "?find = Some rule" "selects i rule" "ops1 = []"
      using ns by (cases ?find) (auto split: if_splits)
    then have adm': "admitted i ref \<longleftrightarrow> attaches i ref gw" unfolding adm by auto
    obtain ops2 where ops2: "runGatewayChecks i ref [CheckGatewayRouteKindAllowed, CheckGatewayMatchingPorts,
        CheckGatewayMatchingHostnames, CheckGatewayMatchingSection] = Some (ops2, None)"
        "if attaches i ref gw then ops2 = [] else refusal ref ops2"
      using later_checks [OF gw] unfolding runIff_def by blast
    have "ops = ops2" using run loop r True rule(3) ops2(1)
      by (simp only: runGatewayChecks.simps(2) [of i ref CheckGatewayAllowedForNamespace] fn) simp
    then show ?thesis using ops2(2) unfolding adm' by simp
  qed
qed

lemma gatewayChecks_result:
  assumes run: "runGatewayChecks i ref gatewayChecks = Some (ops, None)"
  shows "if admitted i ref then ops = [] else refusal ref ops"
proof (cases "ri_GetGateway i ref")
  case (Inl err)
  then have "\<not> admitted i ref" by (simp add: admitted_def)
  moreover have "refusal ref ops"
    using run Inl by (auto simp: CheckGatewayAllowedForNamespace_def withGateway_def)
  ultimately show ?thesis by simp
next
  case (Inr g)
  then obtain gw where "ri_GetGateway i ref = Inr (Some gw)"
    using run by (cases g) (simp_all add: CheckGatewayAllowedForNamespace_def withGateway_def)
  then show ?thesis by (rule gatewayChecks_found [OF run])
qed

text \<open>The calls of the backend checks set \<open>ResolvedRefs\<close> of all the parents to false.\<close>

definition unresolvedOps :: "StatusOp list \<Rightarrow> bool" where
  "unresolvedOps ops \<longleftrightarrow>
     (\<forall>op \<in> set ops. \<exists>c. op = SetAllParentCondition c \<and> cond_Type c = ''ResolvedRefs'' \<and> cond_Status c = ConditionFalse)"

lemma unresolvedOps_simps [simp]:
  "unresolvedOps []"
  "unresolvedOps (SetAllParentCondition (unresolved r m) # ops) \<longleftrightarrow> unresolvedOps ops"
  "unresolvedOps (xs @ ys) \<longleftrightarrow> unresolvedOps xs \<and> unresolvedOps ys"
  by (auto simp: unresolvedOps_def)

lemma crossNamespace_result:
  "\<exists>ops. CheckAgainstCrossNamespaceBackendReferences i = Some (ops, Inr (ops = [])) \<and> unresolvedOps ops \<and>
     (ops = [] \<longleftrightarrow> (\<forall>be \<in> set (concat (ri_Rules i)). \<not> crossNamespaceRefused i be))"
  by (auto simp: CheckAgainstCrossNamespaceBackendReferences_def Let_def unresolvedOps_def filter_empty_conv)

lemma backendIsServiceLoop_result:
  "backendIsServiceLoop b bes = Some (ops, r) \<Longrightarrow>
   r = Inr (b \<and> ops = []) \<and> unresolvedOps ops \<and>
   (ops = [] \<longleftrightarrow> (\<forall>be \<in> set bes. IsService (br_Ref be) \<and> bor_Port (br_Ref be) \<noteq> None))"
proof (induction bes arbitrary: b ops r)
  case (Cons be bes)
  show ?case
  proof (cases "IsService (br_Ref be) \<and> bor_Port (br_Ref be) \<noteq> None")
    case True
    then have "backendIsServiceLoop b bes = Some (ops, r)" using Cons.prems by auto
    from Cons.IH [OF this] True show ?thesis by simp
  next
    case False
    then obtain ops' r0 m where "backendIsServiceLoop False bes = Some (ops', r)"
      "ops = SetAllParentCondition (unresolved r0 m) # ops'"
      using Cons.prems by (auto split: if_splits bind_splits)
    then show ?thesis using Cons.IH [of False ops' r] False by auto
  qed
qed simp

lemma existingServiceLoop_result:
  "existingServiceLoop i bes = Some (ops, Inr c) \<Longrightarrow>
   c \<and> unresolvedOps ops \<and>
   (ops = [] \<longleftrightarrow> (\<forall>be \<in> set bes. \<exists>svc. ri_GetService i
       (NamespaceDerefOr (bor_Namespace (br_Ref be)) (ri_Namespace i), bor_Name (br_Ref be)) = Found svc))"
proof (induction bes arbitrary: ops)
  case (Cons be bes)
  show ?case
  proof (cases "ri_GetService i
      (NamespaceDerefOr (bor_Namespace (br_Ref be)) (ri_Namespace i), bor_Name (br_Ref be))")
    case NotFound
    then obtain ops' m where "existingServiceLoop i bes = Some (ops', Inr c)"
      "ops = SetAllParentCondition (unresolved ''BackendNotFound'' m) # ops'"
      using Cons.prems by (auto simp: Let_def split: bind_splits)
    then show ?thesis using Cons.IH [of ops'] NotFound by simp
  qed (use Cons in \<open>simp_all add: Let_def\<close>)
qed simp

lemma tlsRuleLoop_result:
  assumes run: "tlsRuleLoop i ruleChecks = Some (ops, None)"
  shows "unresolvedOps ops \<and> (ops = [] \<longleftrightarrow> resolved i)"
proof -
  obtain o1 where 1: "CheckAgainstCrossNamespaceBackendReferences i = Some (o1, Inr (o1 = []))" "unresolvedOps o1"
     "o1 = [] \<longleftrightarrow> (\<forall>be \<in> set (concat (ri_Rules i)). \<not> crossNamespaceRefused i be)"
    using crossNamespace_result by blast
  show ?thesis
  proof (cases "o1 = []")
    case False
    then have "ops = o1" using run 1(1) by simp
    then show ?thesis using 1 False unfolding resolved_def by blast
  next
    case o1: True
    then obtain o2 r2 where b: "backendIsServiceLoop True (concat (ri_Rules i)) = Some (o2, r2)"
      using run 1(1) by (auto simp: CheckBackendIsService_def split: bind_splits)
    note 2 = backendIsServiceLoop_result [OF b]
    show ?thesis
    proof (cases "o2 = []")
      case False
      then have "ops = o2" using run 1(1) o1 b 2 by (simp add: CheckBackendIsService_def)
      then show ?thesis using 2 False unfolding resolved_def by blast
    next
      case o2: True
      have run3: "tlsRuleLoop i [CheckBackendIsExistingService] = Some (ops, None)"
        using run 1(1) o1 b 2 o2 by (auto simp: CheckBackendIsService_def split: bind_splits)
      then obtain c where e: "existingServiceLoop i (concat (ri_Rules i)) = Some (ops, Inr c)"
        by (auto simp: CheckBackendIsExistingService_def split: bind_splits sum.splits if_splits)
      show ?thesis using existingServiceLoop_result [OF e] 1(3) o1 2 o2 unfolding resolved_def by blast
    qed
  qed
qed

definition reported :: "RouteParentStatus list \<Rightarrow> ParentReference \<Rightarrow> string \<Rightarrow> ConditionStatus option" where
  "reported ps ref t = map_option cond_Status (content ps ref t)"

lemma written_all [simp]:
  "written (map (\<lambda>ref. (ref, u)) all) r t = (if r \<in> set all \<and> t = cond_Type u then Some (untimed u) else None)"
  by (induction all) auto

lemma parentLoop_Cons_None:
  assumes "parentLoop i msg (ref # refs) = Some (ops, None)"
  obtains o1 o2 where "runGatewayChecks i ref gatewayChecks = Some (o1, None)"
    "parentLoop i msg refs = Some (o2, None)" "ops = initialOps ref msg @ o1 @ o2"
proof -
  obtain o1 e where r: "runGatewayChecks i ref gatewayChecks = Some (o1, e)"
    using assms by (cases "runGatewayChecks i ref gatewayChecks") (auto simp del: runGatewayChecks.simps)
  then have e: "e = None" using assms by (cases e) (simp_all del: runGatewayChecks.simps)
  obtain o2 e' where l: "parentLoop i msg refs = Some (o2, e')"
    using assms r e by (cases "parentLoop i msg refs") (auto simp del: runGatewayChecks.simps)
  show thesis using that [of o1 o2] assms r e l by (simp del: runGatewayChecks.simps)
qed

lemma parentLoop_other:
  assumes "parentLoop i msg refs = Some (ops, None)" "r \<notin> set refs" "t \<noteq> ''ResolvedRefs''"
  shows "written (expandOps all (stamped g now) ops) r t = None"
  using assms
proof (induction refs arbitrary: ops)
  case (Cons ref refs)
  from Cons.prems(1) obtain o1 o2 where o1: "runGatewayChecks i ref gatewayChecks = Some (o1, None)"
    and o2: "parentLoop i msg refs = Some (o2, None)" "ops = initialOps ref msg @ o1 @ o2"
    by (rule parentLoop_Cons_None)
  have "written (expandOps all (stamped g now) o1) r t = None"
    using gatewayChecks_result [OF o1] Cons.prems(2) by (auto simp: refusal_def split: if_splits)
  then show ?case using Cons.IH [OF o2(1)] Cons.prems(2,3) o2(2)
    by (simp add: written_append)
qed simp

lemma parentLoop_accepted:
  assumes "parentLoop i msg refs = Some (ops, None)" "r \<in> set refs"
  shows "map_option cond_Status (written (expandOps all (stamped g now) ops) r ''Accepted'') =
           Some (if admitted i r then ConditionTrue else ConditionFalse)"
  using assms
proof (induction refs arbitrary: ops)
  case (Cons ref refs)
  from Cons.prems(1) obtain o1 o2 where o1: "runGatewayChecks i ref gatewayChecks = Some (o1, None)"
    and o2: "parentLoop i msg refs = Some (o2, None)" "ops = initialOps ref msg @ o1 @ o2"
    by (rule parentLoop_Cons_None)
  show ?case
  proof (cases "r \<in> set refs")
    case True
    then show ?thesis using Cons.IH [OF o2(1)] o2(2) by (auto simp: written_append)
  next
    case False
    then have r: "r = ref" using Cons.prems(2) by simp
    have tail: "written (expandOps all (stamped g now) o2) r ''Accepted'' = None"
      using parentLoop_other [OF o2(1) False] by simp
    show ?thesis using gatewayChecks_result [OF o1] tail r o2(2)
      by (auto simp: refusal_def written_append split: if_splits)
  qed
qed simp

lemma parentLoop_resolved:
  assumes "parentLoop i msg refs = Some (ops, None)" "refs \<noteq> []" "r \<in> set all"
  shows "map_option cond_Status (written (expandOps all (stamped g now) ops) r ''ResolvedRefs'') = Some ConditionTrue"
  using assms
proof (induction refs arbitrary: ops)
  case (Cons ref refs)
  from Cons.prems(1) obtain o1 o2 where o1: "runGatewayChecks i ref gatewayChecks = Some (o1, None)"
    and o2: "parentLoop i msg refs = Some (o2, None)" "ops = initialOps ref msg @ o1 @ o2"
    by (rule parentLoop_Cons_None)
  have mid: "written (expandOps all (stamped g now) o1) r ''ResolvedRefs'' = None"
    using gatewayChecks_result [OF o1] by (auto simp: refusal_def split: if_splits)
  show ?case
  proof (cases "refs = []")
    case True
    then show ?thesis using o2 mid Cons.prems(3) by (auto simp: written_append)
  next
    case False
    then show ?thesis using Cons.IH [OF o2(1) False Cons.prems(3)] o2(2) by (auto simp: written_append)
  qed
qed simp

lemma unresolvedOps_written:
  assumes "unresolvedOps ops" "r \<in> set all"
  shows "map_option cond_Status (written (expandOps all (stamped g now) ops) r ''ResolvedRefs'') =
           (if ops = [] then None else Some ConditionFalse)"
    "t \<noteq> ''ResolvedRefs'' \<Longrightarrow> written (expandOps all (stamped g now) ops) r t = None"
proof -
  have mem: "(r, stamped g now c) \<in> set (expandOps all (stamped g now) ops)" if "SetAllParentCondition c \<in> set ops" for c
    using that assms(2) unfolding expandOps_def by force
  have only: "cond_Type u = ''ResolvedRefs'' \<and> cond_Status u = ConditionFalse"
    if "(r', u) \<in> set (expandOps all (stamped g now) ops)" for r' u
    using that assms(1) unfolding expandOps_def unresolvedOps_def by fastforce
  show "t \<noteq> ''ResolvedRefs'' \<Longrightarrow> written (expandOps all (stamped g now) ops) r t = None"
    unfolding written_None using only by blast
  show "map_option cond_Status (written (expandOps all (stamped g now) ops) r ''ResolvedRefs'') =
           (if ops = [] then None else Some ConditionFalse)"
  proof (cases ops)
    case (Cons op ops')
    then obtain c where c: "SetAllParentCondition c \<in> set ops" "cond_Type c = ''ResolvedRefs''"
      using assms(1) unfolding unresolvedOps_def by auto
    have "written (expandOps all (stamped g now) ops) r ''ResolvedRefs'' \<noteq> None"
      unfolding written_None using mem [OF c(1)] c(2) by force
    then obtain d where d: "written (expandOps all (stamped g now) ops) r ''ResolvedRefs'' = Some d" by blast
    from written_Some [OF d] obtain u where u: "(r, u) \<in> set (expandOps all (stamped g now) ops)" "d = untimed u"
      by blast
    have "ops \<noteq> []" using Cons by simp
    then show ?thesis using d only [OF u(1)] u(2) by simp
  qed simp
qed

text \<open>Everything a successful TLS reconciliation computes, from the status it starts with.\<close>

lemma tls_ops_status:
  assumes p: "parentLoop i msg all = Some (ops, None)" and b: "tlsRuleLoop i ruleChecks = Some (ops', None)"
    and r: "r \<in> set all"
  shows "map_option cond_Status (written (expandOps all (stamped g now) (ops @ ops')) r ''Accepted'') =
           Some (if admitted i r then ConditionTrue else ConditionFalse)"
    "map_option cond_Status (written (expandOps all (stamped g now) (ops @ ops')) r ''ResolvedRefs'') =
           Some (if resolved i then ConditionTrue else ConditionFalse)"
proof -
  have "all \<noteq> []" using r by auto
  note p' = parentLoop_accepted [OF p r, where all = all and g = g and now = now]
    parentLoop_resolved [OF p this r, where g = g and now = now]
  note b' = tlsRuleLoop_result [OF b]
  note w = unresolvedOps_written [OF conjunct1 [OF b'] r, where g = g and now = now]
  show "map_option cond_Status (written (expandOps all (stamped g now) (ops @ ops')) r ''Accepted'') =
           Some (if admitted i r then ConditionTrue else ConditionFalse)"
    using p'(1) w(2) [where t = "''Accepted''"] by (simp add: written_append)
  show "map_option cond_Status (written (expandOps all (stamped g now) (ops @ ops')) r ''ResolvedRefs'') =
           Some (if resolved i then ConditionTrue else ConditionFalse)"
    using p'(2) w(1) conjunct2 [OF b'] by (cases "resolved i") (auto simp: written_append split: option.splits)
qed

section \<open>A settled route\<close>

text \<open>The checks depend on everything but the methods that set conditions.\<close>

abbreviation (input) withSetters ::
  "'sel RouteInput \<Rightarrow> (ParentReference \<Rightarrow> Condition \<Rightarrow> RouteParentStatus list \<Rightarrow> RouteParentStatus list) \<Rightarrow>
   (Condition \<Rightarrow> RouteParentStatus list \<Rightarrow> RouteParentStatus list) \<Rightarrow> 'sel RouteInput" where
  "withSetters i f g \<equiv> i\<lparr>ri_SetParentCondition := f, ri_SetAllParentCondition := g\<rparr>"

lemma namespaceRule_setters [simp]: "namespaceRule (withSetters i f g) ref l = namespaceRule i ref l"
  by (simp add: namespaceRule_def)

lemma setters_fields:
  "ri_Namespace (withSetters i f g) = ri_Namespace i" "ri_GVK (withSetters i f g) = ri_GVK i"
  "ri_SelectNamespaces (withSetters i f g) = ri_SelectNamespaces i"
  "ri_GetService (withSetters i f g) = ri_GetService i" "ri_NotFound (withSetters i f g) = ri_NotFound i"
  "ri_GetGateway (withSetters i f g) = ri_GetGateway i" "ri_Hostnames (withSetters i f g) = ri_Hostnames i"
  by simp_all

lemma allowedNamespaceLoop_setters [simp]:
  "allowedNamespaceLoop (withSetters i f g) ref ns b ls = allowedNamespaceLoop i ref ns b ls"
  by (induction ls arbitrary: b)
     (simp, simp only: allowedNamespaceLoop.simps namespaceRule_setters setters_fields)

lemma existingServiceLoop_setters [simp]:
  "existingServiceLoop (withSetters i f g) bes = existingServiceLoop i bes"
  by (induction bes) (simp, simp only: existingServiceLoop.simps setters_fields)

lemma gatewayChecks_setters:
  "CheckGatewayAllowedForNamespace (withSetters i f g) = CheckGatewayAllowedForNamespace i"
  "CheckGatewayRouteKindAllowed (withSetters i f g) = CheckGatewayRouteKindAllowed i"
  "CheckGatewayMatchingPorts (withSetters i f g) = CheckGatewayMatchingPorts i"
  "CheckGatewayMatchingHostnames (withSetters i f g) = CheckGatewayMatchingHostnames i"
  "CheckGatewayMatchingSection (withSetters i f g) = CheckGatewayMatchingSection i"
  by (rule ext, simp only: withGateway_def setters_fields allowedNamespaceLoop_setters CheckGatewayAllowedForNamespace_def CheckGatewayRouteKindAllowed_def
      CheckGatewayMatchingPorts_def CheckGatewayMatchingHostnames_def CheckGatewayMatchingSection_def)+

lemma runGatewayChecks_setters [simp]:
  "runGatewayChecks (withSetters i f g) ref gatewayChecks = runGatewayChecks i ref gatewayChecks"
  by (simp only: runGatewayChecks.simps gatewayChecks_setters)

lemma parentLoop_setters [simp]: "parentLoop (withSetters i f g) msg refs = parentLoop i msg refs"
  by (induction refs) (simp, simp only: parentLoop.simps runGatewayChecks_setters)

lemma ruleChecks_setters:
  "CheckAgainstCrossNamespaceBackendReferences (withSetters i f g) = CheckAgainstCrossNamespaceBackendReferences i"
  "CheckBackendIsService (withSetters i f g) = CheckBackendIsService i"
  "CheckBackendIsExistingService (withSetters i f g) = CheckBackendIsExistingService i"
  by (simp_all add: CheckAgainstCrossNamespaceBackendReferences_def crossNamespaceRefused_def [abs_def]
      CheckBackendIsService_def CheckBackendIsExistingService_def)

lemma ruleLoop_setters [simp]:
  "tlsRuleLoop (withSetters i f g) ruleChecks = tlsRuleLoop i ruleChecks"
  "grpcRuleLoop (withSetters i f g) ruleChecks = grpcRuleLoop i ruleChecks"
  by (simp_all only: tlsRuleLoop.simps grpcRuleLoop.simps ruleChecks_setters)

text \<open>
  What the reconcilers need of the client: an object is read under its key, and a status
  write that succeeds is read back and changes no other object that the checks read.
\<close>

definition sameReads :: "('w, 'sel) Reader \<Rightarrow> 'w \<Rightarrow> 'w \<Rightarrow> bool" where
  "sameReads R w w' \<longleftrightarrow>
     rd_Gateway R w' = rd_Gateway R w \<and> rd_Service R w' = rd_Service R w \<and>
     rd_ServiceImport R w' = rd_ServiceImport R w \<and>
     rd_SelectNamespaces R w' = rd_SelectNamespaces R w \<and> rd_ReferenceGrants R w' = rd_ReferenceGrants R w"

definition route_client ::
  "('w, 'sel) Reader \<Rightarrow> ('w \<Rightarrow> NamespacedName \<Rightarrow> 'm RouteObject getResult) \<Rightarrow>
   ('w \<Rightarrow> 'm RouteObject \<Rightarrow> 'w writeResult) \<Rightarrow> bool" where
  "route_client R rd sw \<longleftrightarrow>
     (\<forall>w k t. rd w k = Found t \<longrightarrow> routeKey t = k) \<and>
     (\<forall>w t w'. sw w t = (None, w') \<longrightarrow> rd w' (routeKey t) = Found t \<and> sameReads R w w')"

lemma getParentGateway_again: "sameReads R w w' \<Longrightarrow> getParentGateway R w' = getParentGateway R w"
  by (intro ext) (simp add: getParentGateway_def sameReads_def)

lemma tls_input_again:
  assumes "sameReads R w w'"
  shows "TLSRouteInput R w' now' grants (t\<lparr>ro_Parents := ps\<rparr>) =
    withSetters (TLSRouteInput R w now grants t)
      (TLSRouteInput_SetParentCondition now' (t\<lparr>ro_Parents := ps\<rparr>))
      (TLSRouteInput_SetAllParentCondition now' (t\<lparr>ro_Parents := ps\<rparr>))"
  using assms getParentGateway_again [OF assms]
  by (simp add: TLSRouteInput_def sameReads_def TLSRouteInput_GetGateway_def [abs_def])

lemma grpc_input_again:
  assumes "sameReads R w w'"
  shows "GRPCRouteInput R w' now' grants (t\<lparr>ro_Parents := ps\<rparr>) =
    withSetters (GRPCRouteInput R w now grants t)
      (GRPCRouteInput_SetParentCondition now' (t\<lparr>ro_Parents := ps\<rparr>))
      (GRPCRouteInput_SetAllParentCondition now' (t\<lparr>ro_Parents := ps\<rparr>))"
  using assms getParentGateway_again [OF assms]
  by (simp add: GRPCRouteInput_def sameReads_def GRPCRouteInput_GetGateway_def [abs_def])

text \<open>What a TLS reconciliation that succeeds has done.\<close>

lemma tlsroute_Reconcile_Success:
  assumes run: "tlsroute_Reconcile R S now req w = Some (Success, w')"
    and t: "rd_TLSRoute R w req = Found t" "\<not> ro_Deleting t" and gr: "rd_ReferenceGrants R w = Inr grants"
  obtains ops ops' where
    "parentLoop (TLSRouteInput R w now grants t) ''Accepted TLSRoute'' (rt_ParentRefs (ro_Route t)) = Some (ops, None)"
    "tlsRuleLoop (TLSRouteInput R w now grants t) ruleChecks = Some (ops', None)"
    "tlsroute_updateStatus S t
       (t\<lparr>ro_Parents := applyOps (TLSRouteInput R w now grants t) (ops @ ops') (ro_Parents t)\<rparr>) w = (None, w')"
proof -
  let ?i = "TLSRouteInput R w now grants t"
  have c: "tlsroute_checked S ?i t w = Some (Success, w')"
    using run t gr by (simp add: tlsroute_Reconcile_def)
  have err: "tlsroute_handleReconcileErrorWithStatus S e t t' w \<noteq> (Success, w')" for e t'
    by (auto simp: tlsroute_handleReconcileErrorWithStatus_def Success_def Fail_def split: prod.splits option.splits)
  obtain ops e where p: "parentLoop ?i ''Accepted TLSRoute'' (rt_ParentRefs (ro_Route t)) = Some (ops, e)"
    using c unfolding tlsroute_checked_def by (cases "parentLoop ?i ''Accepted TLSRoute'' (rt_ParentRefs (ro_Route t))") auto
  then have e: "e = None" using c err by (cases e) (auto simp: tlsroute_checked_def Let_def)
  obtain ops' e' where b: "tlsRuleLoop ?i ruleChecks = Some (ops', e')"
    using c p e unfolding tlsroute_checked_def
    by (cases "tlsRuleLoop ?i ruleChecks") (auto simp: Let_def simp del: tlsRuleLoop.simps)
  then have e': "e' = None"
    using c p e err by (cases e') (auto simp: tlsroute_checked_def Let_def simp del: tlsRuleLoop.simps)
  have "tlsroute_updateStatus S t (t\<lparr>ro_Parents := applyOps ?i (ops @ ops') (ro_Parents t)\<rparr>) w = (None, w')"
    using c p e b e' by (auto simp: tlsroute_checked_def Let_def applyOps_def Success_def Fail_def
        simp del: tlsRuleLoop.simps split: prod.splits option.splits)
  then show thesis using that p e b e' by blast
qed

text \<open>The route that is stored after a successful reconciliation, and what its status says.\<close>

lemma tlsroute_stored:
  assumes cl: "route_client R (rd_TLSRoute R) (sw_TLSRoute S)" and t: "rd_TLSRoute R w req = Found t"
    and wf: "wf_parents (ro_Parents t)"
    and upd: "tlsroute_updateStatus S t
       (t\<lparr>ro_Parents := applyOps (TLSRouteInput R w now grants t) ops (ro_Parents t)\<rparr>) w = (None, w')"
  obtains ps where "rd_TLSRoute R w' req = Found (t\<lparr>ro_Parents := ps\<rparr>)" "sameReads R w w'" "wf_parents ps"
    "\<And>r c. content ps r c =
       (case written (expandOps (rt_ParentRefs (ro_Route t)) (stamped (ro_Generation t) now) ops) r c of
          Some d \<Rightarrow> Some d | None \<Rightarrow> content (ro_Parents t) r c)"
proof (cases "sameParents (ro_Parents t) (applyOps (TLSRouteInput R w now grants t) ops (ro_Parents t))")
  case True
  then have "w' = w" using upd by (simp add: tlsroute_updateStatus_def)
  moreover have "t\<lparr>ro_Parents := ro_Parents t\<rparr> = t" by simp
  moreover note sameParents_contents [OF True, unfolded tls_applyOps, THEN fun_cong, THEN fun_cong]
  ultimately show thesis
    using that [of "ro_Parents t"] t wf by (simp add: sameReads_def tls_parents.setConds_content)
next
  case False
  let ?ps = "applyOps (TLSRouteInput R w now grants t) ops (ro_Parents t)"
  have key: "routeKey t = req" using cl t unfolding route_client_def by blast
  have "sw_TLSRoute S w (t\<lparr>ro_Parents := ?ps\<rparr>) = (None, w')"
    using upd False by (simp add: tlsroute_updateStatus_def)
  then have "rd_TLSRoute R w' (routeKey (t\<lparr>ro_Parents := ?ps\<rparr>)) = Found (t\<lparr>ro_Parents := ?ps\<rparr>) \<and> sameReads R w w'"
    using cl unfolding route_client_def by blast
  moreover have "routeKey (t\<lparr>ro_Parents := ?ps\<rparr>) = req" using key by (simp add: routeKey_def)
  ultimately show thesis
    using that [of ?ps] wf by (simp add: tls_applyOps tls_parents.setConds_content tls_parents.setConds_wf)
qed

section \<open>Properties\<close>


text \<open>
  Claim C15. A TLS route that was reconciled successfully is settled: reconciling it again, at
  any later time, succeeds and leaves the cluster as it is. The status the reconciler writes
  therefore does not trigger an endless sequence of updates of the same object.
\<close>

theorem tlsroute_settles:
  assumes cl: "route_client R (rd_TLSRoute R) (sw_TLSRoute S)"
    and t: "rd_TLSRoute R w req = Found t" "wf_parents (ro_Parents t)"
    and run: "tlsroute_Reconcile R S now req w = Some (Success, w')"
  shows "tlsroute_Reconcile R S now' req w' = Some (Success, w')"
proof (cases "ro_Deleting t")
  case True
  then have "w' = w" using run t by (simp add: tlsroute_Reconcile_def Success_def)
  then show ?thesis using True t by (simp add: tlsroute_Reconcile_def)
next
  case False
  obtain grants where gr: "rd_ReferenceGrants R w = Inr grants"
    using run t(1) False
    by (cases "rd_ReferenceGrants R w")
       (auto simp: tlsroute_Reconcile_def tlsroute_handleReconcileErrorWithStatus_def Success_def Fail_def
         split: prod.splits option.splits)
  from tlsroute_Reconcile_Success [OF run t(1) False gr] obtain ops ops' where
    p: "parentLoop (TLSRouteInput R w now grants t) ''Accepted TLSRoute'' (rt_ParentRefs (ro_Route t)) = Some (ops, None)"
    and b: "tlsRuleLoop (TLSRouteInput R w now grants t) ruleChecks = Some (ops', None)"
    and u: "tlsroute_updateStatus S t
       (t\<lparr>ro_Parents := applyOps (TLSRouteInput R w now grants t) (ops @ ops') (ro_Parents t)\<rparr>) w = (None, w')"
    by blast
  from tlsroute_stored [OF cl t u] obtain ps where ps: "rd_TLSRoute R w' req = Found (t\<lparr>ro_Parents := ps\<rparr>)"
    "sameReads R w w'" "wf_parents ps" "\<And>r c. content ps r c =
       (case written (expandOps (rt_ParentRefs (ro_Route t)) (stamped (ro_Generation t) now) (ops @ ops')) r c of
          Some d \<Rightarrow> Some d | None \<Rightarrow> content (ro_Parents t) r c)" by metis
  let ?t = "t\<lparr>ro_Parents := ps\<rparr>" and ?i = "TLSRouteInput R w' now' grants (t\<lparr>ro_Parents := ps\<rparr>)"
  have "sameParents ps (applyOps ?i (ops @ ops') ps)"
    unfolding tls_applyOps
    by (rule tls_parents.setConds_settled [OF ps(3) expandOps_retimed [of _ _ now]]) (simp add: ps(4))
  moreover have "parentLoop ?i ''Accepted TLSRoute'' (rt_ParentRefs (ro_Route ?t)) = Some (ops, None)"
    "tlsRuleLoop ?i ruleChecks = Some (ops', None)"
    unfolding tls_input_again [OF ps(2), where now = now] parentLoop_setters ruleLoop_setters
    using p b by (simp_all del: tlsRuleLoop.simps)
  moreover have "rd_ReferenceGrants R w' = Inr grants" using ps(2) gr by (simp add: sameReads_def)
  ultimately show ?thesis using ps(1) False
    by (simp add: tlsroute_Reconcile_def tlsroute_checked_def tlsroute_updateStatus_def applyOps_def
        del: tlsRuleLoop.simps)
qed

section \<open>Panics and errors\<close>

text \<open>The defaults of the API that the checks dereference: \<open>from\<close> of a namespace rule, \<open>kind\<close> of a backend.\<close>

definition listenersDefaulted :: "'sel GwListener list \<Rightarrow> bool" where
  "listenersDefaulted ls \<longleftrightarrow>
     (\<forall>l \<in> set ls. \<forall>ar rns. lis_AllowedRoutes l = Some ar \<longrightarrow> ar_Namespaces ar = Some rns \<longrightarrow> rns_From rns \<noteq> None)"

definition inputDefaulted :: "'sel RouteInput \<Rightarrow> bool" where
  "inputDefaulted i \<longleftrightarrow>
     (\<forall>be \<in> set (concat (ri_Rules i)). bor_Kind (br_Ref be) \<noteq> None) \<and>
     (\<forall>ref. case ri_GetGateway i ref of
              Inl _ \<Rightarrow> True | Inr None \<Rightarrow> False | Inr (Some gw) \<Rightarrow> listenersDefaulted (gw_Listeners gw))"

lemma allowedNamespaceLoop_total:
  "listenersDefaulted ls \<Longrightarrow> allowedNamespaceLoop i ref ns b ls \<noteq> None"
proof (induction ls arbitrary: b)
  case (Cons l ls)
  have IH: "allowedNamespaceLoop i ref ns b ls \<noteq> None" for b
    using Cons unfolding listenersDefaulted_def by simp
  show ?case
  proof (cases "namespaceRule i ref l")
    case None
    then show ?thesis using IH by simp
  next
    case (Some rule)
    then have "\<exists>ar. lis_AllowedRoutes l = Some ar \<and> ar_Namespaces ar = Some rule"
      unfolding namespaceRule_def by (auto split: if_splits option.splits)
    then obtain fr where "rns_From rule = Some fr" using Cons.prems unfolding listenersDefaulted_def by fastforce
    then show ?thesis using Some IH by (cases fr) (simp_all split: sum.split)
  qed
qed simp

lemma gateway_check_total:
  assumes "inputDefaulted i" "fn \<in> set gatewayChecks"
  shows "fn i ref \<noteq> None"
proof (cases "ri_GetGateway i ref")
  case (Inl err)
  then show ?thesis using assms(2)
    by (auto simp: withGateway_def CheckGatewayAllowedForNamespace_def CheckGatewayRouteKindAllowed_def
        CheckGatewayMatchingPorts_def CheckGatewayMatchingHostnames_def CheckGatewayMatchingSection_def)
next
  case (Inr g)
  then obtain gw where gw: "ri_GetGateway i ref = Inr (Some gw)" and d: "listenersDefaulted (gw_Listeners gw)"
    using assms(1) unfolding inputDefaulted_def by (cases g) (auto dest!: spec [of _ ref])
  have "CheckGatewayAllowedForNamespace i ref \<noteq> None"
    using allowedNamespaceLoop_total [OF d] by (simp add: CheckGatewayAllowedForNamespace_def withGateway_def gw)
  moreover have "fn i ref \<noteq> None" if "passesIff i ref fn P" for fn P
    using that by (auto simp: passesIff_def split: if_splits)
  ultimately show ?thesis using assms(2) gateway_check_passes [OF gw] by auto
qed

lemma runGatewayChecks_total:
  "(\<And>fn. fn \<in> set fns \<Longrightarrow> fn i ref \<noteq> None) \<Longrightarrow> runGatewayChecks i ref fns \<noteq> None"
proof (induction fns)
  case (Cons fn fns)
  obtain ops r where "fn i ref = Some (ops, r)" using Cons.prems [of fn] by auto
  moreover obtain y where "runGatewayChecks i ref fns = Some y" using Cons by auto
  ultimately show ?case by (cases r; cases y) simp_all
qed simp

lemma parentLoop_total:
  assumes "inputDefaulted i"
  shows "parentLoop i msg refs \<noteq> None"
proof (induction refs)
  case (Cons ref refs)
  have "runGatewayChecks i ref gatewayChecks \<noteq> None"
    by (rule runGatewayChecks_total, rule gateway_check_total [OF assms])
  then obtain ops e where "runGatewayChecks i ref gatewayChecks = Some (ops, e)"
    by (cases "runGatewayChecks i ref gatewayChecks") (auto simp del: runGatewayChecks.simps)
  moreover obtain y where "parentLoop i msg refs = Some y" using Cons by blast
  ultimately show ?case by (cases e; cases y) (simp_all del: runGatewayChecks.simps)
qed simp

lemma backendIsServiceLoop_total:
  "\<forall>be \<in> set bes. bor_Kind (br_Ref be) \<noteq> None \<Longrightarrow> backendIsServiceLoop b bes \<noteq> None"
proof (induction bes arbitrary: b)
  case (Cons be bes)
  obtain k where "bor_Kind (br_Ref be) = Some k" using Cons.prems by auto
  moreover have IH: "backendIsServiceLoop b bes \<noteq> None" for b using Cons by simp
  moreover obtain y where "backendIsServiceLoop False bes = Some y" using IH [of False] by blast
  ultimately show ?case by (cases y) simp
qed simp

lemma existingServiceLoop_total: "existingServiceLoop i bes \<noteq> None"
  by (induction bes) (auto simp: Let_def split: getResult.split)

lemma ruleLoop_total:
  assumes "inputDefaulted i"
  shows "tlsRuleLoop i ruleChecks \<noteq> None" "grpcRuleLoop i ruleChecks \<noteq> None"
proof -
  obtain o1 r1 where 1: "CheckAgainstCrossNamespaceBackendReferences i = Some (o1, r1)"
    using crossNamespace_result by blast
  obtain o2 r2 where 2: "CheckBackendIsService i = Some (o2, r2)"
    using assms backendIsServiceLoop_total unfolding CheckBackendIsService_def inputDefaulted_def by fastforce
  obtain o3 r3 where 3: "CheckBackendIsExistingService i = Some (o3, r3)"
    using existingServiceLoop_total unfolding CheckBackendIsExistingService_def by fastforce
  show "tlsRuleLoop i ruleChecks \<noteq> None" "grpcRuleLoop i ruleChecks \<noteq> None"
    using 1 2 3 by (cases r1; cases r2; cases r3; simp)+
qed

lemma tlsroute_checked_total:
  assumes "inputDefaulted i"
  shows "tlsroute_checked S i t w \<noteq> None"
proof -
  obtain o1 e1 where "parentLoop i ''Accepted TLSRoute'' (rt_ParentRefs (ro_Route t)) = Some (o1, e1)"
    using parentLoop_total [OF assms] by fastforce
  moreover obtain o2 e2 where "tlsRuleLoop i ruleChecks = Some (o2, e2)" using ruleLoop_total(1) [OF assms] by fastforce
  ultimately show ?thesis
    by (cases e1; cases e2) (simp_all add: tlsroute_checked_def Let_def del: tlsRuleLoop.simps)
qed

lemma grpcroute_checked_total:
  assumes "inputDefaulted i"
  shows "grpcroute_checked S i t w \<noteq> None"
proof -
  obtain o1 e1 where "parentLoop i ''Accepted GRPCRoute'' (rt_ParentRefs (ro_Route t)) = Some (o1, e1)"
    using parentLoop_total [OF assms] by fastforce
  moreover obtain o2 e2 where "grpcRuleLoop i ruleChecks = Some (o2, e2)" using ruleLoop_total(2) [OF assms] by fastforce
  ultimately show ?thesis
    by (cases e1; cases e2) (simp_all add: grpcroute_checked_def Let_def del: grpcRuleLoop.simps)
qed

lemma tlsroute_Reconcile_total:
  assumes "\<And>t grants. rd_TLSRoute R w req = Found t \<Longrightarrow> inputDefaulted (TLSRouteInput R w now grants t)"
  shows "tlsroute_Reconcile R S now req w \<noteq> None"
proof (cases "rd_TLSRoute R w req")
  case (Found t)
  then show ?thesis
    using tlsroute_checked_total [OF assms [OF Found], of S _ t w]
    by (cases "rd_ReferenceGrants R w") (simp_all add: tlsroute_Reconcile_def)
qed (simp_all add: tlsroute_Reconcile_def)

lemma grpcroute_Reconcile_total:
  assumes "\<And>t grants. rd_GRPCRoute R w req = Found t \<Longrightarrow> inputDefaulted (GRPCRouteInput R w now grants t)"
  shows "grpcroute_Reconcile R S now req w \<noteq> None"
proof (cases "rd_GRPCRoute R w req")
  case (Found t)
  then show ?thesis
    using grpcroute_checked_total [OF assms [OF Found], of S _ t w]
    by (cases "rd_ReferenceGrants R w") (simp_all add: grpcroute_Reconcile_def)
qed (simp_all add: grpcroute_Reconcile_def)

text \<open>
  Claim C26. The reconcilers of TLS and gRPC routes always return: if the API server has filled
  in the defaults of the routes and Gateways, no check dereferences nil, whatever the cluster
  contains and whichever of its reads and writes fail.
\<close>

theorem route_reconcilers_return:
  assumes "\<forall>k gw. rd_Gateway R w k = Found gw \<longrightarrow> listenersDefaulted (gw_Listeners (go_Spec gw))"
    and "\<forall>t. rd_TLSRoute R w req = Found t \<longrightarrow>
           (\<forall>rule \<in> set (rt_Rules (ro_Route t)). \<forall>be \<in> set (rr_BackendRefs rule). bor_Kind (br_Ref be) \<noteq> None)"
    and "\<forall>g. rd_GRPCRoute R w req = Found g \<longrightarrow>
           (\<forall>rule \<in> set (rt_Rules (ro_Route g)). \<forall>be \<in> set (GRPCRouteRule_GetBackendRefs rule). bor_Kind (br_Ref be) \<noteq> None)"
  shows "(\<exists>r w'. tlsroute_Reconcile R S now req w = Some (r, w')) \<and>
         (\<exists>r w'. grpcroute_Reconcile R S now req w = Some (r, w'))"
proof
  have gw: "case map_sum id Some (getParentGateway R w ns ref) of
      Inl _ \<Rightarrow> True | Inr None \<Rightarrow> False | Inr (Some gw) \<Rightarrow> listenersDefaulted (gw_Listeners gw)" for ns ref
    using assms(1) [rule_format, of "parentKey ref ns"]
    by (cases "rd_Gateway R w (parentKey ref ns)") (simp_all add: getParentGateway_def)
  have "inputDefaulted (TLSRouteInput R w now grants t)" if "rd_TLSRoute R w req = Found t" for t grants
    using assms(2) that by (simp add: inputDefaulted_def TLSRouteInput_def TLSRouteInput_GetGateway_def gw)
  then have "tlsroute_Reconcile R S now req w \<noteq> None" by (rule tlsroute_Reconcile_total)
  then show "\<exists>r w'. tlsroute_Reconcile R S now req w = Some (r, w')" by auto
  have "inputDefaulted (GRPCRouteInput R w now grants g)" if "rd_GRPCRoute R w req = Found g" for g grants
    using assms(3) that by (simp add: inputDefaulted_def GRPCRouteInput_def GRPCRouteInput_GetGateway_def gw)
  then have "grpcroute_Reconcile R S now req w \<noteq> None" by (rule grpcroute_Reconcile_total)
  then show "\<exists>r w'. grpcroute_Reconcile R S now req w = Some (r, w')" by auto
qed

text \<open>
  Claim C35. A gRPC route with a backend in another namespace that no grant permits never
  reconciles: whatever else the cluster contains, the reconciliation ends in an error and is
  queued again, although the status already tells the user. A TLS route in the same situation
  succeeds once its status is written.
\<close>

theorem grpcroute_refused_backend_fails:
  assumes g: "rd_GRPCRoute R w req = Found g" "\<not> ro_Deleting g" and gr: "rd_ReferenceGrants R w = Inr grants"
    and be: "be \<in> set (concat (ri_Rules (GRPCRouteInput R w now grants g)))"
      "crossNamespaceRefused (GRPCRouteInput R w now grants g) be"
    and run: "grpcroute_Reconcile R S now req w = Some (r, w')"
  shows "r \<noteq> Success"
proof -
  let ?i = "GRPCRouteInput R w now grants g"
  have c: "grpcroute_checked S ?i g w = Some (r, w')" using g gr run by (simp add: grpcroute_Reconcile_def)
  obtain o1 where "CheckAgainstCrossNamespaceBackendReferences ?i = Some (o1, Inr (o1 = []))"
    "o1 = [] \<longleftrightarrow> (\<forall>be \<in> set (concat (ri_Rules ?i)). \<not> crossNamespaceRefused ?i be)"
    using crossNamespace_result by blast
  then have b: "grpcRuleLoop ?i ruleChecks = Some (o1, Some ''%!w(<nil>)'')" using be by auto
  have err: "grpcroute_handleReconcileErrorWithStatus S e g g' w \<noteq> (Success, w')" for e g'
    by (auto simp: grpcroute_handleReconcileErrorWithStatus_def Success_def Fail_def split: prod.splits option.splits)
  obtain o2 e where p: "parentLoop ?i ''Accepted GRPCRoute'' (rt_ParentRefs (ro_Route g)) = Some (o2, e)"
    using c unfolding grpcroute_checked_def
    by (cases "parentLoop ?i ''Accepted GRPCRoute'' (rt_ParentRefs (ro_Route g))") auto
  show ?thesis using c p b err
    by (cases e) (auto simp: grpcroute_checked_def Let_def simp del: grpcRuleLoop.simps)
qed

text \<open>
  A Gateway none of whose listeners restricts namespaces accepts every route that
  refers to it: the remaining checks of kind, port, hostname and section are not run, so not
  even a reference to a section that does not exist is refused.
\<close>

theorem unrestricted_gateway_skips_checks:
  assumes "ri_GetGateway i ref = Inr (Some gw)"
    and "\<forall>l \<in> set (gw_Listeners gw). \<forall>ar. lis_AllowedRoutes l = Some ar \<longrightarrow> ar_Namespaces ar = None"
  shows "runGatewayChecks i ref gatewayChecks = Some ([], None)"
proof -
  have "namespaceRule i ref l = None" if "l \<in> set (gw_Listeners gw)" for l
    using assms(2) that by (auto simp: namespaceRule_def split: option.split)
  then have "allowedNamespaceLoop i ref (gw_Namespace gw) False ls = Some ([], Inr False)"
    if "set ls \<subseteq> set (gw_Listeners gw)" for ls
    using that by (induction ls) simp_all
  then show ?thesis using assms(1) by (simp add: CheckGatewayAllowedForNamespace_def withGateway_def)
qed

section \<open>Examples\<close>

text \<open>A Gateway, a Service, and a TLS and a gRPC route; the backend of the latter is in another namespace.\<close>

definition exampleRef :: ParentReference where
  "exampleRef = \<lparr>pr_Group = None, pr_Kind = None, pr_Namespace = None, pr_Name = ''gw'', pr_SectionName = None, pr_Port = None\<rparr>"

definition exampleBackend :: "string \<Rightarrow> BackendRef" where
  "exampleBackend ns =
     \<lparr>br_Ref = \<lparr>bor_Group = None, bor_Kind = Some ''Service'', bor_Name = ''svc'', bor_Namespace = Some ns,
                bor_Port = Some 443\<rparr>, br_Weight = None, br_Filters = []\<rparr>"

definition exampleRoute :: "string \<Rightarrow> 'm RouteObject" where
  "exampleRoute ns =
     \<lparr>ro_Route = \<lparr>rt_Name = ''route'', rt_Namespace = ''ns'', rt_ParentRefs = [exampleRef], rt_Hostnames = [],
                  rt_Rules = [\<lparr>rr_Matches = [], rr_Filters = [], rr_BackendRefs = [exampleBackend ns]\<rparr>]\<rparr>,
      ro_Generation = 1, ro_Deleting = False, ro_Parents = []\<rparr>"

definition exampleListener :: "string list GwListener" where
  "exampleListener =
     \<lparr>lis_Name = ''tls'', lis_Hostname = None, lis_Port = 443, lis_Protocol = TLSProtocolType, lis_TLS = None,
      lis_AllowedRoutes =
        Some \<lparr>ar_Namespaces = Some \<lparr>rns_From = Some NamespacesFromSame, rns_Selector = None\<rparr>, ar_Kinds = []\<rparr>\<rparr>"

definition exampleGateway :: "string list GatewayObject" where
  "exampleGateway =
     \<lparr>go_Spec = \<lparr>gw_Name = ''gw'', gw_Namespace = ''ns'', gw_UID = ''1'', gw_GVK = gatewayV1Kind ''Gateway'',
                 gw_Infrastructure = None, gw_Listeners = [exampleListener]\<rparr>,
      go_ClassName = ''dolphin'', go_AllowedListeners = None, go_Generation = 1, go_Deleting = False,
      go_Status = \<lparr>gs_Conditions = [], gs_Listeners = [], gs_Addresses = [], gs_AttachedListenerSets = None\<rparr>\<rparr>"

definition exampleCluster :: Cluster where
  "exampleCluster = emptyCluster\<lparr>
     cl_Gateways := [exampleGateway],
     cl_Services := [\<lparr>so_Name = ''svc'', so_Namespace = ''ns'', so_Ports = [443], so_LoadBalancer = []\<rparr>],
     cl_TLSRoutes := [exampleRoute ''ns''], cl_GRPCRoutes := [exampleRoute ''other'']\<rparr>"

abbreviation (input) exampleReq :: NamespacedName where
  "exampleReq \<equiv> (''ns'', ''route'')"

lemma mem_client: "route_client memReader (rd_TLSRoute memReader) (sw_TLSRoute memWriter)"
  unfolding route_client_def
proof (intro conjI allI impI)
  show "routeKey t = k" if "rd_TLSRoute memReader w k = Found t" for w k t
    using that lookupObject_key by (simp add: memReader_def)
  fix w t w' assume a: "sw_TLSRoute memWriter w t = (None, w')"
  have n: "lookupObject routeKey (cl_TLSRoutes w) (routeKey t) \<noteq> NotFound"
    using a by (simp add: memWriter_def storeObject_def split: if_splits)
  have w': "w' = w\<lparr>cl_TLSRoutes := replaceObject routeKey t (cl_TLSRoutes w)\<rparr>"
    using a n by (simp add: memWriter_def storeObject_def)
  show "rd_TLSRoute memReader w' (routeKey t) = Found t" using lookupObject_replace [OF n] by (simp add: memReader_def w')
  show "sameReads memReader w w'" by (simp add: sameReads_def memReader_def w')
qed

lemma example_TLS: "rd_TLSRoute memReader exampleCluster exampleReq = Found (exampleRoute ''ns'')"
  by (simp add: memReader_def exampleCluster_def emptyCluster_def lookupObject_def exampleRoute_def routeKey_def)

lemma example_GRPC: "rd_GRPCRoute memReader exampleCluster exampleReq = Found (exampleRoute ''other'')"
  by (simp add: memReader_def exampleCluster_def emptyCluster_def lookupObject_def exampleRoute_def routeKey_def)

lemma example_grants: "rd_ReferenceGrants memReader exampleCluster = Inr []"
  by (simp add: memReader_def exampleCluster_def emptyCluster_def)

lemma example_run:
  "\<exists>w'. tlsroute_Reconcile memReader memWriter 5 exampleReq exampleCluster = Some (Success, w')"
proof -
  have "map_option fst (tlsroute_Reconcile memReader memWriter 5 exampleReq exampleCluster) = Some Success" by code_simp
  then show ?thesis by auto
qed

lemma example_route: "\<not> ro_Deleting (exampleRoute ns)" "wf_parents (ro_Parents (exampleRoute ns))"
  by (simp_all add: exampleRoute_def wf_parents_def)


theorem tlsroute_settles_witness:
  "\<exists>w'. tlsroute_Reconcile memReader memWriter 5 exampleReq exampleCluster = Some (Success, w') \<and>
        tlsroute_Reconcile memReader memWriter 9 exampleReq w' = Some (Success, w')"
proof -
  obtain w' where run: "tlsroute_Reconcile memReader memWriter 5 exampleReq exampleCluster = Some (Success, w')"
    using example_run by blast
  from tlsroute_settles [OF mem_client example_TLS example_route(2) run] run show ?thesis by blast
qed

lemma example_defaulted:
  "\<forall>k gw. rd_Gateway memReader exampleCluster k = Found gw \<longrightarrow> listenersDefaulted (gw_Listeners (go_Spec gw))"
  by (auto simp: memReader_def exampleCluster_def emptyCluster_def lookupObject_def exampleGateway_def
      exampleListener_def listenersDefaulted_def split: option.splits if_splits)

lemma example_grpc_run:
  "\<exists>r w'. grpcroute_Reconcile memReader memWriter 5 exampleReq exampleCluster = Some (r, w')"
proof -
  have "map_option (\<lambda>_. ()) (grpcroute_Reconcile memReader memWriter 5 exampleReq exampleCluster) = Some ()"
    by code_simp
  then show ?thesis by auto
qed

theorem route_reconcilers_return_witness:
  "(\<exists>r w'. tlsroute_Reconcile memReader memWriter 5 exampleReq exampleCluster = Some (r, w')) \<and>
   (\<exists>r w'. grpcroute_Reconcile memReader memWriter 5 exampleReq exampleCluster = Some (r, w'))"
  by (rule route_reconcilers_return [OF example_defaulted])
     (simp_all add: example_TLS example_GRPC exampleRoute_def exampleBackend_def GRPCRouteRule_GetBackendRefs_def)

theorem grpcroute_refused_backend_fails_witness:
  "\<exists>r w'. grpcroute_Reconcile memReader memWriter 5 exampleReq exampleCluster = Some (r, w') \<and> r \<noteq> Success"
proof -
  obtain r w' where run: "grpcroute_Reconcile memReader memWriter 5 exampleReq exampleCluster = Some (r, w')"
    using example_grpc_run by blast
  let ?i = "GRPCRouteInput memReader exampleCluster 5 [] (exampleRoute ''other'')"
  have be: "exampleBackend ''other'' \<in> set (concat (ri_Rules ?i))"
    by (simp add: GRPCRouteInput_def exampleRoute_def GRPCRouteRule_GetBackendRefs_def)
  have "crossNamespaceRefused ?i (exampleBackend ''other'')"
    by (simp add: crossNamespaceRefused_def GRPCRouteInput_def exampleRoute_def exampleBackend_def NamespaceDerefOr_def
        IsBackendReferenceAllowed_def isReferenceAllowed_def)
  from grpcroute_refused_backend_fails [OF example_GRPC example_route(1) example_grants be this run] run
  show ?thesis by blast
qed

theorem unrestricted_gateway_skips_checks_witness:
  "let i = TLSRouteInput memReader (exampleCluster\<lparr>cl_Gateways :=
         [exampleGateway\<lparr>go_Spec := (go_Spec exampleGateway)\<lparr>gw_Listeners := []\<rparr>\<rparr>]\<rparr>) 5 [] (exampleRoute ''ns'')
   in runGatewayChecks i (exampleRef\<lparr>pr_SectionName := Some ''missing''\<rparr>) gatewayChecks = Some ([], None)"
  unfolding Let_def
  by (rule unrestricted_gateway_skips_checks
        [where gw = "(go_Spec exampleGateway)\<lparr>gw_Listeners := []\<rparr>"])
     (simp_all add: TLSRouteInput_def TLSRouteInput_GetGateway_def getParentGateway_def memReader_def lookupObject_def
        parentKey_def NamespaceDerefOr_def exampleRef_def exampleRoute_def exampleGateway_def)

end
