(* ===== verification/Route_Status.thy ===== *)
theory Route_Status
  imports Route_Reconcile
begin

text \<open>
  The statuses of HTTP, TCP and UDP routes, which the Gateway reconciler sets:
  \<open>RoutesStsMgr\<close> of \<open>src/pkg/gateway_api/status_route.go\<close>, the validation of HTTP routes in
  \<open>routechecker/httproute.go\<close>, and \<open>setTCPRouteStatuses\<close>, \<open>setUDPRouteStatuses\<close> of
  \<open>gateway_reconcile.go\<close>. The three loops over the routes are instances of \<open>statusLoop\<close>; the
  locale \<open>status_source\<close> holds what they share. \<open>regexp.Compile\<close> is the parameter
  \<open>regexpErr\<close>, which returns the text of the error.
\<close>

section \<open>Gateways of this controller\<close>

definition GatewayHasMatchingController ::
  "('w, 'sel) Reader \<Rightarrow> 'w \<Rightarrow> string \<Rightarrow> 'sel GatewayObject \<Rightarrow> bool" where
  "GatewayHasMatchingController R w controllerName gw =
     (case rd_GatewayClass R w (go_ClassName gw) of
        Found gwc \<Rightarrow> gc_ControllerName gwc = controllerName
      | _ \<Rightarrow> False)"

definition ListenerSetParentGateway :: "'sel ListenerSet \<Rightarrow> NamespacedName" where
  "ListenerSetParentGateway ls =
     ((case fst (ls_ParentRef ls) of Some ns \<Rightarrow> ns | None \<Rightarrow> ls_Namespace ls), snd (ls_ParentRef ls))"

definition parentIsMatchingGateway ::
  "('w, 'sel) Reader \<Rightarrow> 'w \<Rightarrow> string \<Rightarrow> ParentReference \<Rightarrow> string \<Rightarrow> bool" where
  "parentIsMatchingGateway R w controllerName parent namespace =
     (if \<not> IsGateway parent then False
      else case rd_Gateway R w (parentKey parent namespace) of
             Found gw \<Rightarrow> GatewayHasMatchingController R w controllerName gw
           | _ \<Rightarrow> False)"

definition setInitialRouteConditions :: "'sel RouteInput \<Rightarrow> ParentReference \<Rightarrow> StatusOp list" where
  "setInitialRouteConditions input parent =
     [SetParentCondition parent
        (newCond ''Accepted'' ConditionTrue ''Accepted'' (''Accepted '' @ gvk_Kind (ri_GVK input))),
      SetParentCondition parent
        (newCond ''ResolvedRefs'' ConditionTrue ''ResolvedRefs'' ''Service reference is valid'')]"

section \<open>The checks\<close>

definition mgr_runGatewayRouteChecks ::
  "('w, 'sel) Reader \<Rightarrow> 'w \<Rightarrow> string \<Rightarrow> 'sel RouteInput \<Rightarrow> ParentReference \<Rightarrow> string \<Rightarrow> StatusOp list" where
  "mgr_runGatewayRouteChecks R w controllerName input parent objNamespace =
     (if parentIsMatchingGateway R w controllerName parent objNamespace
      then setInitialRouteConditions input parent else [])"

definition mgr_runListenerSetRouteChecks ::
  "('w, 'sel) Reader \<Rightarrow> 'w \<Rightarrow> string \<Rightarrow> 'sel RouteInput \<Rightarrow> ParentReference \<Rightarrow> string \<Rightarrow> StatusOp list" where
  "mgr_runListenerSetRouteChecks R w controllerName input parent objNamespace =
     (case rd_ListenerSet R w (parentKey parent objNamespace) of
        Found ls \<Rightarrow>
          (case rd_Gateway R w (ListenerSetParentGateway ls) of
             Found gw \<Rightarrow>
               if GatewayHasMatchingController R w controllerName gw
               then setInitialRouteConditions input parent else []
           | _ \<Rightarrow> [])
      | _ \<Rightarrow> [])"

definition mgr_runCommonRouteChecks ::
  "('w, 'sel) Reader \<Rightarrow> 'w \<Rightarrow> string \<Rightarrow> 'sel RouteInput \<Rightarrow> ParentReference list \<Rightarrow> string \<Rightarrow> StatusOp list" where
  "mgr_runCommonRouteChecks R w controllerName input parentRefs objNamespace =
     concat (map (\<lambda>parent.
       if IsGateway parent then mgr_runGatewayRouteChecks R w controllerName input parent objNamespace
       else if IsListenerSet parent then mgr_runListenerSetRouteChecks R w controllerName input parent objNamespace
       else []) parentRefs)"

text \<open>The Gateway reconciler's own copy, for TCP and UDP, refuses both in host network mode.\<close>

definition checkRouteSupported :: "bool \<Rightarrow> 'sel RouteInput \<Rightarrow> ParentReference \<Rightarrow> StatusOp list \<times> bool" where
  "checkRouteSupported hostNetworkEnabled input parent =
     (let k = gvk_Kind (ri_GVK input)
      in if k \<in> {''TCPRoute'', ''UDPRoute''} \<and> hostNetworkEnabled then
           ([SetParentCondition parent (newCond ''Accepted'' ConditionFalse ''UnsupportedValue''
               (k @ '' is not supported when Gateway API Host Network mode is enabled'')),
             SetParentCondition parent (newCond ''ResolvedRefs'' ConditionUnknown ''Pending''
               (''Backend references were not evaluated because this route type is not supported in '' @
                ''Gateway API Host Network mode''))], False)
         else ([], True))"

definition gw_runGatewayRouteChecks ::
  "('w, 'sel) Reader \<Rightarrow> 'w \<Rightarrow> bool \<Rightarrow> 'sel RouteInput \<Rightarrow> ParentReference \<Rightarrow> string \<Rightarrow> StatusOp list" where
  "gw_runGatewayRouteChecks R w hostNetworkEnabled input parent objNamespace =
     (if \<not> parentIsMatchingGateway R w gatewayControllerName parent objNamespace then []
      else let (ops, supported) = checkRouteSupported hostNetworkEnabled input parent
           in if \<not> supported then ops else ops @ setInitialRouteConditions input parent)"

definition gw_runCommonRouteChecks ::
  "('w, 'sel) Reader \<Rightarrow> 'w \<Rightarrow> bool \<Rightarrow> 'sel RouteInput \<Rightarrow> ParentReference list \<Rightarrow> string \<Rightarrow> StatusOp list" where
  "gw_runCommonRouteChecks R w hostNetworkEnabled input parentRefs objNamespace =
     concat (map (\<lambda>parent.
       if IsGateway parent then gw_runGatewayRouteChecks R w hostNetworkEnabled input parent objNamespace
       else []) parentRefs)"

section \<open>Validation of HTTP routes\<close>

definition invalidHeaderModifierCondition :: "string \<Rightarrow> Condition" where
  "invalidHeaderModifierCondition headerName =
     newCond ''Accepted'' ConditionFalse ''UnsupportedValue''
       (''Invalid header modifier: '' @ quoted headerName @ '' header is not supported'')"

text \<open>The condition if there is one; \<open>None\<close> for a filter of the type without its settings.\<close>

fun headerModifierLoop :: "RouteFilter list \<Rightarrow> Condition option option" where
  "headerModifierLoop [] = Some None"
| "headerModifierLoop (f # fs) =
     (if rf_Type f = FilterRequestHeaderModifier then
        (case rf_RequestHeaderModifier f of
           None \<Rightarrow> None
         | Some modifier \<Rightarrow>
             (case find (\<lambda>s. hh_Name s = ''Host'') (hhf_Set modifier) of
                Some s \<Rightarrow> Some (Some (invalidHeaderModifierCondition (hh_Name s)))
              | None \<Rightarrow> headerModifierLoop fs))
      else headerModifierLoop fs)"

definition ValidateHeaderModifier :: "HTTPRouteObject \<Rightarrow> Condition option option" where
  "ValidateHeaderModifier h = headerModifierLoop (concat (map rr_Filters (rt_Rules (ro_Route h))))"

definition invalidRegexCondition :: "string \<Rightarrow> string \<Rightarrow> Condition" where
  "invalidRegexCondition field err =
     newCond ''Accepted'' ConditionFalse ''UnsupportedValue''
       (''Invalid regular expression in '' @ field @ '' match: '' @ err)"

text \<open>The regular expressions of a match with the field they are in, in the order of the code.\<close>

definition matchRegexps :: "HTTPRouteMatch \<Rightarrow> (string \<times> string) list" where
  "matchRegexps m =
     (case hrm_Path m of
        None \<Rightarrow> []
      | Some p \<Rightarrow>
          (case hpm_Value p of
             Some v \<Rightarrow> if hpm_Type p = Some PathMatchRegularExpression then [(''path'', v)] else []
           | None \<Rightarrow> [])) @
     map (\<lambda>h. (''header'', nm_Value h)) (filter (\<lambda>h. nm_Type h = Some MatchRegularExpression) (hrm_Headers m)) @
     map (\<lambda>q. (''queryParam'', nm_Value q)) (filter (\<lambda>q. nm_Type q = Some MatchRegularExpression) (hrm_QueryParams m))"

definition ValidateMatchRegexps :: "(string \<Rightarrow> string option) \<Rightarrow> HTTPRouteObject \<Rightarrow> Condition option" where
  "ValidateMatchRegexps regexpErr h =
     (case find (\<lambda>(field, v). regexpErr v \<noteq> None)
             (concat (map matchRegexps (concat (map rr_Matches (rt_Rules (ro_Route h)))))) of
        None \<Rightarrow> None
      | Some (field, v) \<Rightarrow>
          (case regexpErr v of None \<Rightarrow> None | Some err \<Rightarrow> Some (invalidRegexCondition field err)))"

section \<open>The statuses\<close>

text \<open>A condition of the validators goes to every parent that the status lists.\<close>

definition setListedParents ::
  "'sel RouteInput \<Rightarrow> Condition option \<Rightarrow> RouteParentStatus list \<Rightarrow> RouteParentStatus list" where
  "setListedParents i invalid ps =
     (case invalid of
        None \<Rightarrow> ps
      | Some cond \<Rightarrow> fold (\<lambda>parent. ri_SetParentCondition i (rps_ParentRef parent) cond) ps ps)"

definition httpRouteStatus ::
  "('w, 'sel) Reader \<Rightarrow> (string \<Rightarrow> string option) \<Rightarrow> string \<Rightarrow> ReferenceGrant list \<Rightarrow> int \<Rightarrow> 'w \<Rightarrow>
   HTTPRouteObject \<Rightarrow> RouteParentStatus list option" where
  "httpRouteStatus R regexpErr controllerName grants now w original =
     (let ps = pruneRouteParentStatuses (ro_Parents original) (rt_ParentRefs (ro_Route original)) controllerName;
          i = HTTPRouteInput R w now controllerName grants original;
          ps = applyOps i (mgr_runCommonRouteChecks R w controllerName i (rt_ParentRefs (ro_Route original))
                 (rt_Namespace (ro_Route original))) ps
      in do {
        headers \<leftarrow> ValidateHeaderModifier original;
        Some (setListedParents i (ValidateMatchRegexps regexpErr original) (setListedParents i headers ps)) })"

definition tcpRouteStatus ::
  "('w, 'sel) Reader \<Rightarrow> bool \<Rightarrow> ReferenceGrant list \<Rightarrow> int \<Rightarrow> 'w \<Rightarrow> L4RouteObject \<Rightarrow> RouteParentStatus list option" where
  "tcpRouteStatus R hostNetworkEnabled grants now w original =
     (let ps = pruneRouteParentStatuses (ro_Parents original) (rt_ParentRefs (ro_Route original)) gatewayControllerName;
          i = TCPRouteInput R w now gatewayControllerName grants original
      in Some (applyOps i (gw_runCommonRouteChecks R w hostNetworkEnabled i (rt_ParentRefs (ro_Route original))
                 (rt_Namespace (ro_Route original))) ps))"

definition udpRouteStatus ::
  "('w, 'sel) Reader \<Rightarrow> bool \<Rightarrow> ReferenceGrant list \<Rightarrow> int \<Rightarrow> 'w \<Rightarrow> L4RouteObject \<Rightarrow> RouteParentStatus list option" where
  "udpRouteStatus R hostNetworkEnabled grants now w original =
     (let ps = pruneRouteParentStatuses (ro_Parents original) (rt_ParentRefs (ro_Route original)) gatewayControllerName;
          i = UDPRouteInput R w now gatewayControllerName grants original
      in Some (applyOps i (gw_runCommonRouteChecks R w hostNetworkEnabled i (rt_ParentRefs (ro_Route original))
                 (rt_Namespace (ro_Route original))) ps))"

text \<open>
  The loop: compute the status of a route, write it if it changed, and put it into the slice
  of the caller; the first failed write ends the loop. The result is the error, the slice and
  the next state.
\<close>

definition updateRouteStatus ::
  "('w \<Rightarrow> 'm RouteObject \<Rightarrow> 'w writeResult) \<Rightarrow> 'm RouteObject \<Rightarrow> 'm RouteObject \<Rightarrow> 'w \<Rightarrow> 'w writeResult" where
  "updateRouteStatus sw original new w =
     (if sameParents (ro_Parents original) (ro_Parents new) then (None, w) else sw w new)"

fun statusLoop ::
  "('w \<Rightarrow> 'm RouteObject \<Rightarrow> RouteParentStatus list option) \<Rightarrow> ('w \<Rightarrow> 'm RouteObject \<Rightarrow> 'w writeResult) \<Rightarrow>
   ('m RouteObject \<Rightarrow> string \<Rightarrow> string) \<Rightarrow> 'w \<Rightarrow> 'm RouteObject list \<Rightarrow>
   (string option \<times> 'm RouteObject list \<times> 'w) option" where
  "statusLoop compute sw msg w [] = Some (None, [], w)"
| "statusLoop compute sw msg w (original # routes) = do {
     ps \<leftarrow> compute w original;
     let new = original\<lparr>ro_Parents := ps\<rparr>;
     case updateRouteStatus sw original new w of
       (Some err, w') \<Rightarrow> Some (Some (msg original err), original # routes, w')
     | (None, w') \<Rightarrow> do {
         (e, routes', w'') \<leftarrow> statusLoop compute sw msg w' routes;
         Some (e, new # routes', w'') } }"

definition slashName :: "'m RouteObject \<Rightarrow> string" where
  "slashName r = rt_Namespace (ro_Route r) @ ''/'' @ rt_Name (ro_Route r)"

definition setHTTPRouteStatuses ::
  "('w, 'sel) Reader \<Rightarrow> ('w, 'sel) StatusWriter \<Rightarrow> (string \<Rightarrow> string option) \<Rightarrow> string \<Rightarrow> int \<Rightarrow> ReferenceGrant list \<Rightarrow>
   'w \<Rightarrow> HTTPRouteObject list \<Rightarrow> (string option \<times> HTTPRouteObject list \<times> 'w) option" where
  "setHTTPRouteStatuses R S regexpErr controllerName now grants =
     statusLoop (httpRouteStatus R regexpErr controllerName grants now) (sw_HTTPRoute S)
       (\<lambda>r err. ''failed to update HTTPRoute status for '' @ slashName r @
               '': update status for HTTPRoute '' @ slashName r @ '': '' @ err)"

text \<open>\<open>SetRouteStatuses\<close> of the manager sets the statuses of the HTTP routes only.\<close>

definition SetRouteStatuses ::
  "('w, 'sel) Reader \<Rightarrow> ('w, 'sel) StatusWriter \<Rightarrow> (string \<Rightarrow> string option) \<Rightarrow> string \<Rightarrow> int \<Rightarrow> ReferenceGrant list \<Rightarrow>
   'w \<Rightarrow> HTTPRouteObject list \<Rightarrow> (string option \<times> HTTPRouteObject list \<times> 'w) option" where
  "SetRouteStatuses = setHTTPRouteStatuses"

definition setTCPRouteStatuses ::
  "('w, 'sel) Reader \<Rightarrow> ('w, 'sel) StatusWriter \<Rightarrow> bool \<Rightarrow> int \<Rightarrow> ReferenceGrant list \<Rightarrow>
   'w \<Rightarrow> L4RouteObject list \<Rightarrow> (string option \<times> L4RouteObject list \<times> 'w) option" where
  "setTCPRouteStatuses R S hostNetworkEnabled now grants =
     statusLoop (tcpRouteStatus R hostNetworkEnabled grants now) (sw_TCPRoute S)
       (\<lambda>r err. ''failed to update TCPRoute status: '' @ err)"

definition setUDPRouteStatuses ::
  "('w, 'sel) Reader \<Rightarrow> ('w, 'sel) StatusWriter \<Rightarrow> bool \<Rightarrow> int \<Rightarrow> ReferenceGrant list \<Rightarrow>
   'w \<Rightarrow> L4RouteObject list \<Rightarrow> (string option \<times> L4RouteObject list \<times> 'w) option" where
  "setUDPRouteStatuses R S hostNetworkEnabled now grants =
     statusLoop (udpRouteStatus R hostNetworkEnabled grants now) (sw_UDPRoute S)
       (\<lambda>r err. ''failed to update UDPRoute status: '' @ err)"

context state_frame
begin

lemma statusLoop_frame:
  assumes "\<And>w r. Q w (snd (sw w r))"
  shows "statusLoop compute sw msg w hs = Some (e, hs', w') \<Longrightarrow> Q w w'"
proof (induction hs arbitrary: w hs')
  case (Cons h hs)
  obtain ps where ps: "compute w h = Some ps" using Cons.prems by (auto simp: bind_eq_Some)
  obtain e1 w1 where u: "updateRouteStatus sw h (h\<lparr>ro_Parents := ps\<rparr>) w = (e1, w1)" by force
  have "Q w w1" using u assms [of w "h\<lparr>ro_Parents := ps\<rparr>"] by (auto simp: updateRouteStatus_def split: if_splits)
  moreover have "Q w1 w'" using Cons.prems Cons.IH [of w1] by (cases e1) (auto simp: ps u bind_eq_Some)
  ultimately show ?case by (rule frame_trans)
qed simp

end

section \<open>The calls behind a status\<close>

lemma mergeParent_keeps:
  assumes "\<forall>p \<in> set ps. rps_ControllerName p \<noteq> n \<or> rps_ParentRef p \<in> refs"
    and "ref \<in> refs \<or> ref \<in> rps_ParentRef ` set ps"
  shows "\<forall>p \<in> set (mergeParentConditions m n ref us ps). rps_ControllerName p \<noteq> n \<or> rps_ParentRef p \<in> refs"
  using assms by (induction ps) auto

lemma setConds_refs:
  "map rps_ParentRef (setConds (\<lambda>ref u. mergeParentConditions m n ref [u]) us ps) =
     fold (\<lambda>(ref, u) rs. if ref \<in> set rs then rs else rs @ [ref]) us (map rps_ParentRef ps)"
  by (induction us arbitrary: ps) (auto simp: setConds_def mergeParent_refs)

lemma fold_refs_present:
  "fst ` set us \<subseteq> set rs \<Longrightarrow> fold (\<lambda>(ref, u) rs. if ref \<in> set rs then rs else rs @ [ref]) us rs = rs"
  by (induction us) auto

lemma fold_refs_set: "set (fold (\<lambda>(ref, u) rs. if ref \<in> set rs then rs else rs @ [ref]) us rs) = set rs \<union> fst ` set us"
  by (induction us arbitrary: rs) (auto split: if_splits)

lemma setConds_keeps:
  assumes "\<forall>p \<in> set ps. rps_ControllerName p \<noteq> n \<or> rps_ParentRef p \<in> refs"
    and "\<forall>(ref, u) \<in> set us. ref \<in> refs \<or> ref \<in> rps_ParentRef ` set ps"
  shows "\<forall>p \<in> set (setConds (\<lambda>ref u. mergeParentConditions m n ref [u]) us ps).
           rps_ControllerName p \<noteq> n \<or> rps_ParentRef p \<in> refs"
  using assms
proof (induction us arbitrary: ps)
  case (Cons x us)
  obtain ref u where x: "x = (ref, u)" by fastforce
  let ?ps = "mergeParentConditions m n ref [u] ps"
  have 1: "\<forall>p \<in> set ?ps. rps_ControllerName p \<noteq> n \<or> rps_ParentRef p \<in> refs"
    using Cons.prems unfolding x by (intro mergeParent_keeps) auto
  have "rps_ParentRef ` set ps \<subseteq> rps_ParentRef ` set ?ps"
    using arg_cong [OF mergeParent_refs [of m n ref "[u]" ps], of set] by auto
  then have 2: "\<forall>(ref, u) \<in> set us. ref \<in> refs \<or> ref \<in> rps_ParentRef ` set ?ps"
    using Cons.prems(2) by fastforce
  show ?case using Cons.IH [OF 1 2] unfolding x by (simp add: setConds_def)
qed (simp add: setConds_def)

lemma prune_wf: "wf_parents ps \<Longrightarrow> wf_parents (pruneRouteParentStatuses ps refs n)"
  unfolding wf_parents_def pruneRouteParentStatuses_def by (auto simp: distinct_map_filter)

lemma prune_id:
  "\<forall>p \<in> set ps. rps_ControllerName p \<noteq> n \<or> rps_ParentRef p \<in> set refs \<Longrightarrow> pruneRouteParentStatuses ps refs n = ps"
  by (simp add: pruneRouteParentStatuses_def filter_id_conv)

lemma prune_keeps:
  "\<forall>p \<in> set (pruneRouteParentStatuses ps refs n). rps_ControllerName p \<noteq> n \<or> rps_ParentRef p \<in> set refs"
  by (simp add: pruneRouteParentStatuses_def)

text \<open>
  A status computed from calls on the parents of the route, followed by conditions for every
  parent that is then listed, is settled: the same computation at another time keeps it.
\<close>

definition listed :: "Condition list \<Rightarrow> ParentReference list \<Rightarrow> (ParentReference \<times> Condition) list" where
  "listed cs refs = concat (map (\<lambda>c. map (\<lambda>ref. (ref, c)) refs) cs)"

definition routeStatus ::
  "(Condition list \<Rightarrow> Condition list \<Rightarrow> Condition list) \<Rightarrow> string \<Rightarrow> ParentReference list \<Rightarrow>
   (ParentReference \<times> Condition) list \<Rightarrow> Condition list \<Rightarrow> RouteParentStatus list \<Rightarrow> RouteParentStatus list" where
  "routeStatus m n refs us cs ps =
     (let ps1 = setConds (\<lambda>ref u. mergeParentConditions m n ref [u]) us (pruneRouteParentStatuses ps refs n)
      in setConds (\<lambda>ref u. mergeParentConditions m n ref [u]) (listed cs (map rps_ParentRef ps1)) ps1)"

lemma routeStatus_settled:
  assumes m: "condition_store m" "\<And>us. distinct (types_of us) \<Longrightarrow> m [] us = us"
    and wf: "wf_parents ps" and us: "fst ` set us \<subseteq> set refs"
    and re: "list_all2 (\<lambda>(r, u) (r', u'). r' = r \<and> untimed u' = untimed u) us us'"
    and rc: "list_all2 (\<lambda>c c'. untimed c' = untimed c) cs cs'"
  shows "sameParents (routeStatus m n refs us cs ps) (routeStatus m n refs us' cs' (routeStatus m n refs us cs ps))"
proof -
  let ?g = "\<lambda>ref u. mergeParentConditions m n ref [u]"
  let ?p0 = "pruneRouteParentStatuses ps refs n"
  let ?p1 = "setConds ?g us ?p0"
  let ?rs = "map rps_ParentRef ?p1"
  let ?p2 = "setConds ?g (us @ listed cs ?rs) ?p0"
  have loc: "parent_status ?g" by (rule mergeParent_status [OF m])
  have st: "routeStatus m n refs us cs ps = ?p2" by (simp add: routeStatus_def Let_def setConds_append)
  have fsts: "fst ` set us' = fst ` set us"
    using re by (induction rule: list_all2_induct) auto
  have lis: "fst ` set (listed ds rs) \<subseteq> set rs" for ds rs by (auto simp: listed_def)
  have rs2: "map rps_ParentRef ?p2 = ?rs"
    unfolding setConds_append setConds_refs [of m n _ ?p1] by (rule fold_refs_present [OF lis])
  have "fst ` set us \<subseteq> set ?rs" unfolding setConds_refs fold_refs_set by blast
  then have rs3: "map rps_ParentRef (setConds ?g us' ?p2) = ?rs"
    unfolding setConds_refs [of m n us'] rs2 by (intro fold_refs_present) (simp add: fsts)
  have keep: "pruneRouteParentStatuses ?p2 refs n = ?p2"
  proof (rule prune_id)
    have "\<forall>p \<in> set ?p1. rps_ControllerName p \<noteq> n \<or> rps_ParentRef p \<in> set refs"
      using us by (intro setConds_keeps prune_keeps) auto
    then show "\<forall>p \<in> set ?p2. rps_ControllerName p \<noteq> n \<or> rps_ParentRef p \<in> set refs"
      unfolding setConds_append by (rule setConds_keeps) (use lis [of cs ?rs] in fastforce)
  qed
  have st2: "routeStatus m n refs us' cs' ?p2 = setConds ?g (us' @ listed cs' ?rs) ?p2"
    by (simp only: routeStatus_def Let_def keep rs3 setConds_append [of ?g us'])
  have rel: "list_all2 (\<lambda>(r, u) (r', u'). r' = r \<and> untimed u' = untimed u) (listed cs ?rs) (listed cs' ?rs)"
    using rc unfolding listed_def
    by (induction rule: list_all2_induct)
       (auto intro!: list_all2_appendI simp: list_all2_map1 list_all2_map2 list_all2_same)
  show ?thesis unfolding st st2
    by (rule parent_status.setConds_settled [OF loc parent_status.setConds_wf [OF loc prune_wf [OF wf]]
          list_all2_appendI [OF re rel]])
       (simp add: parent_status.setConds_content [OF loc])
qed

abbreviation (input) optList :: "'a option \<Rightarrow> 'a list" where
  "optList x \<equiv> (case x of None \<Rightarrow> [] | Some y \<Rightarrow> [y])"

lemma http_setter:
  "ri_SetParentCondition (HTTPRouteInput R w now n grants h) ref c ps =
     mergeParentConditions MergeConditions n ref [stamped (ro_Generation h) now c] ps"
  by (simp add: HTTPRouteInput_def HTTPRouteInput_SetParentCondition_def HTTPRouteInput_mergeStatusConditions_def)

lemma setListedParents_http:
  "setListedParents (HTTPRouteInput R w now n grants h) c ps =
     setConds (\<lambda>ref u. mergeParentConditions MergeConditions n ref [u])
       (listed (map (stamped (ro_Generation h) now) (optList c)) (map rps_ParentRef ps)) ps"
proof (cases c)
  case (Some cond)
  have "fold (\<lambda>parent. ri_SetParentCondition (HTTPRouteInput R w now n grants h) (rps_ParentRef parent) cond) ps qs =
    setConds (\<lambda>ref u. mergeParentConditions MergeConditions n ref [u])
       (map (\<lambda>ref. (ref, stamped (ro_Generation h) now cond)) (map rps_ParentRef ps)) qs" for qs
    unfolding setConds_def by (induction ps arbitrary: qs) (simp_all add: http_setter)
  then show ?thesis using Some by (simp add: setListedParents_def listed_def)
qed (simp add: setListedParents_def listed_def setConds_def)

lemma listed_append: "listed (cs @ ds) refs = listed cs refs @ listed ds refs"
  by (simp add: listed_def)

lemma listed_refs:
  "map rps_ParentRef (setConds (\<lambda>ref u. mergeParentConditions m n ref [u]) (listed cs (map rps_ParentRef ps)) ps) =
     map rps_ParentRef ps"
  unfolding setConds_refs by (rule fold_refs_present) (auto simp: listed_def)

lemma httpRouteStatus_eq:
  "httpRouteStatus R regexpErr n grants now w h = do {
     headers \<leftarrow> ValidateHeaderModifier h;
     Some (routeStatus MergeConditions n (rt_ParentRefs (ro_Route h))
       (expandOps [] (stamped (ro_Generation h) now)
          (mgr_runCommonRouteChecks R w n (HTTPRouteInput R w now n grants h) (rt_ParentRefs (ro_Route h))
             (rt_Namespace (ro_Route h))))
       (map (stamped (ro_Generation h) now) (optList headers @ optList (ValidateMatchRegexps regexpErr h)))
       (ro_Parents h)) }"
proof -
  have *: "setListedParents i b (setListedParents i a ps) =
      setConds (\<lambda>ref u. mergeParentConditions MergeConditions n ref [u])
        (listed (map (stamped (ro_Generation h) now) (optList a @ optList b)) (map rps_ParentRef ps)) ps"
    if i: "i = HTTPRouteInput R w now n grants h" for a b i ps
    unfolding i setListedParents_http listed_refs map_append listed_append setConds_append ..
  show ?thesis
    by (simp add: httpRouteStatus_def Let_def * [OF refl] http_applyOps HTTPRouteInput_mergeStatusConditions_def
        routeStatus_def)
qed

lemma tcpRouteStatus_eq:
  "tcpRouteStatus R hne grants now w h =
     Some (routeStatus MergeConditions gatewayControllerName (rt_ParentRefs (ro_Route h))
       (expandOps [] (stamped (ro_Generation h) now)
          (gw_runCommonRouteChecks R w hne (TCPRouteInput R w now gatewayControllerName grants h)
             (rt_ParentRefs (ro_Route h)) (rt_Namespace (ro_Route h)))) [] (ro_Parents h))"
  by (simp add: tcpRouteStatus_def Let_def tcp_applyOps TCPRouteInput_mergeStatusConditions_def routeStatus_def
      listed_def setConds_def)

lemma udpRouteStatus_eq:
  "udpRouteStatus R hne grants now w h =
     Some (routeStatus MergeConditions gatewayControllerName (rt_ParentRefs (ro_Route h))
       (expandOps [] (stamped (ro_Generation h) now)
          (gw_runCommonRouteChecks R w hne (UDPRouteInput R w now gatewayControllerName grants h)
             (rt_ParentRefs (ro_Route h)) (rt_Namespace (ro_Route h)))) [] (ro_Parents h))"
  by (simp add: udpRouteStatus_def Let_def udp_applyOps UDPRouteInput_mergeStatusConditions_def routeStatus_def
      listed_def setConds_def)

text \<open>What the statuses read of the cluster.\<close>

definition statusReads :: "('w, 'sel) Reader \<Rightarrow> 'w \<Rightarrow> 'w \<Rightarrow> bool" where
  "statusReads R w w' \<longleftrightarrow>
     rd_Gateway R w' = rd_Gateway R w \<and> rd_GatewayClass R w' = rd_GatewayClass R w \<and>
     rd_ListenerSet R w' = rd_ListenerSet R w"

lemma statusReads_gateways:
  "statusReads R w w' \<Longrightarrow> rd_Gateway R w' = rd_Gateway R w" "statusReads R w w' \<Longrightarrow> rd_ListenerSet R w' = rd_ListenerSet R w"
  by (simp_all add: statusReads_def)

lemma GatewayHasMatchingController_reads:
  "statusReads R w w' \<Longrightarrow> GatewayHasMatchingController R w' = GatewayHasMatchingController R w"
  by (intro ext) (simp add: GatewayHasMatchingController_def statusReads_def)

lemma parentIsMatchingGateway_reads:
  "statusReads R w w' \<Longrightarrow> parentIsMatchingGateway R w' = parentIsMatchingGateway R w"
  by (intro ext)
     (simp only: parentIsMatchingGateway_def GatewayHasMatchingController_reads statusReads_gateways)

lemma mgr_ops_reads:
  assumes "statusReads R w w'" "ri_GVK i = ri_GVK j"
  shows "mgr_runCommonRouteChecks R w' n i refs ns = mgr_runCommonRouteChecks R w n j refs ns"
proof -
  have "mgr_runListenerSetRouteChecks R w' n i ref ns = mgr_runListenerSetRouteChecks R w n j ref ns" for ref
    by (simp only: mgr_runListenerSetRouteChecks_def setInitialRouteConditions_def assms(2)
        GatewayHasMatchingController_reads [OF assms(1)] statusReads_gateways [OF assms(1)])
  moreover have "mgr_runGatewayRouteChecks R w' n i ref ns = mgr_runGatewayRouteChecks R w n j ref ns" for ref
    using assms(2) parentIsMatchingGateway_reads [OF assms(1)]
    by (simp add: mgr_runGatewayRouteChecks_def setInitialRouteConditions_def)
  ultimately show ?thesis by (simp only: mgr_runCommonRouteChecks_def)
qed

lemma gw_ops_reads:
  assumes "statusReads R w w'" "ri_GVK i = ri_GVK j"
  shows "gw_runCommonRouteChecks R w' hne i refs ns = gw_runCommonRouteChecks R w hne j refs ns"
  by (simp only: gw_runCommonRouteChecks_def gw_runGatewayRouteChecks_def setInitialRouteConditions_def
      checkRouteSupported_def assms(2) parentIsMatchingGateway_reads [OF assms(1)])

lemma mgr_ops_refs: "fst ` set (expandOps [] f (mgr_runCommonRouteChecks R w n i refs ns)) \<subseteq> set refs"
  by (induction refs)
     (auto simp: mgr_runCommonRouteChecks_def mgr_runGatewayRouteChecks_def mgr_runListenerSetRouteChecks_def
       setInitialRouteConditions_def split: getResult.splits if_splits)

lemma gw_ops_refs: "fst ` set (expandOps [] f (gw_runCommonRouteChecks R w hne i refs ns)) \<subseteq> set refs"
  by (induction refs)
     (auto simp: gw_runCommonRouteChecks_def gw_runGatewayRouteChecks_def setInitialRouteConditions_def
       checkRouteSupported_def Let_def split: if_splits)

lemma route_input_GVK [simp]:
  "ri_GVK (HTTPRouteInput R w now n grants h) = gatewayV1Kind ''HTTPRoute''"
  "ri_GVK (TCPRouteInput R w now n grants t) = gatewayV1Kind ''TCPRoute''"
  "ri_GVK (UDPRouteInput R w now n grants t) = gatewayV1Kind ''UDPRoute''"
  by (simp_all add: HTTPRouteInput_def TCPRouteInput_def UDPRouteInput_def)

section \<open>Settled statuses\<close>

text \<open>
  What the loop needs of the computation of a status: it depends on a part of the cluster
  that writing a status does not touch, and applied to its own result it changes only times.
\<close>

locale status_source =
  fixes compute :: "int \<Rightarrow> 'w \<Rightarrow> 'm RouteObject \<Rightarrow> RouteParentStatus list option"
    and reads :: "'w \<Rightarrow> 'w \<Rightarrow> bool"
  assumes reads_refl: "reads w w"
    and reads_trans: "reads w w' \<Longrightarrow> reads w' w'' \<Longrightarrow> reads w w''"
    and compute_reads: "reads w w' \<Longrightarrow> compute now w' r = compute now w r"
    and compute_settled:
    "wf_parents (ro_Parents r) \<Longrightarrow> compute now w r = Some ps \<Longrightarrow>
     \<exists>ps'. compute now' w (r\<lparr>ro_Parents := ps\<rparr>) = Some ps' \<and> sameParents ps ps'"
begin

lemma loop_settled:
  assumes "statusLoop (compute now) sw msg w routes = Some (None, routes', w')"
    and "\<forall>r \<in> set routes. wf_parents (ro_Parents r)"
    and sw: "\<And>w r w'. sw w r = (None, w') \<Longrightarrow> reads w w'"
  shows "reads w w' \<and> (\<forall>r \<in> set routes'. \<exists>ps. compute now' w' r = Some ps \<and> sameParents (ro_Parents r) ps)"
  using assms(1,2)
proof (induction routes arbitrary: w routes')
  case (Cons r routes)
  obtain ps where ps: "compute now w r = Some ps" using Cons.prems(1) by (cases "compute now w r") auto
  obtain e w1 where u: "updateRouteStatus sw r (r\<lparr>ro_Parents := ps\<rparr>) w = (e, w1)" by fastforce
  have e: "e = None" using Cons.prems(1) ps u by (cases e) auto
  have r1: "reads w w1" using u e reads_refl sw by (auto simp: updateRouteStatus_def split: if_splits)
  obtain rs where loop: "statusLoop (compute now) sw msg w1 routes = Some (None, rs, w')"
    and routes': "routes' = r\<lparr>ro_Parents := ps\<rparr> # rs"
    using Cons.prems(1) ps u e by (auto split: bind_splits)
  have IH: "reads w1 w'" "\<forall>r \<in> set rs. \<exists>ps. compute now' w' r = Some ps \<and> sameParents (ro_Parents r) ps"
    using Cons.IH [OF loop] Cons.prems(2) by auto
  have r': "reads w w'" by (rule reads_trans [OF r1 IH(1)])
  have "\<exists>ps'. compute now' w (r\<lparr>ro_Parents := ps\<rparr>) = Some ps' \<and> sameParents ps ps'"
    by (rule compute_settled [OF _ ps]) (use Cons.prems(2) in simp)
  then have "\<exists>ps'. compute now' w' (r\<lparr>ro_Parents := ps\<rparr>) = Some ps' \<and> sameParents ps ps'"
    unfolding compute_reads [OF r'] .
  then show ?case using IH(2) r' unfolding routes' by simp
qed (simp add: reads_refl)

lemma loop_quiet:
  "\<forall>r \<in> set routes. \<exists>ps. compute now w r = Some ps \<and> sameParents (ro_Parents r) ps \<Longrightarrow>
   \<exists>routes'. statusLoop (compute now) sw msg w routes = Some (None, routes', w)"
proof (induction routes)
  case (Cons r routes)
  then obtain ps routes' where "compute now w r = Some ps" "sameParents (ro_Parents r) ps"
    "statusLoop (compute now) sw msg w routes = Some (None, routes', w)" by auto
  then show ?case by (simp add: updateRouteStatus_def)
qed simp

lemma loop_settles:
  assumes "statusLoop (compute now) sw msg w routes = Some (None, routes', w')"
    and "\<forall>r \<in> set routes. wf_parents (ro_Parents r)" "\<And>w r w'. sw w r = (None, w') \<Longrightarrow> reads w w'"
  shows "\<exists>routes''. statusLoop (compute now') sw msg w' routes' = Some (None, routes'', w')"
proof (rule loop_quiet)
  have "reads w w' \<and> (\<forall>r \<in> set routes'. \<exists>ps. compute now' w' r = Some ps \<and> sameParents (ro_Parents r) ps)"
    by (rule loop_settled [OF assms(1,2)]) (rule assms(3))
  then show "\<forall>r \<in> set routes'. \<exists>ps. compute now' w' r = Some ps \<and> sameParents (ro_Parents r) ps" by blast
qed

end

lemma retimed_conds: "list_all2 (\<lambda>c c'. untimed c' = untimed c) (map (stamped g now) cs) (map (stamped g now') cs)"
  by (simp add: list_all2_map1 list_all2_map2 list_all2_same untimed_stamped [of g now' _ now])

lemma MergeConditions_Nil: "distinct (types_of us) \<Longrightarrow> MergeConditions [] us = us"
  by (simp add: MergeConditions_def mergeLoop_Nil)

lemma routeStatus_again:
  assumes "wf_parents ps" "fst ` set (expandOps [] (stamped g now) ops) \<subseteq> set refs"
  shows "sameParents
    (routeStatus MergeConditions n refs (expandOps [] (stamped g now) ops) (map (stamped g now) cs) ps)
    (routeStatus MergeConditions n refs (expandOps [] (stamped g now') ops) (map (stamped g now') cs)
      (routeStatus MergeConditions n refs (expandOps [] (stamped g now) ops) (map (stamped g now) cs) ps))"
  by (rule routeStatus_settled [OF helpers_store.condition_store_axioms _ assms expandOps_retimed retimed_conds])
     (rule MergeConditions_Nil)

interpretation http_status: status_source
  "\<lambda>now. httpRouteStatus R regexpErr controllerName grants now" "statusReads R"
  for R :: "('w, 'sel) Reader" and regexpErr controllerName grants
proof
  fix w w' :: 'w and now now' and r :: HTTPRouteObject and ps
  show "statusReads R w w" by (simp add: statusReads_def)
  show "httpRouteStatus R regexpErr controllerName grants now w' r = httpRouteStatus R regexpErr controllerName grants now w r"
    if "statusReads R w w'"
    unfolding httpRouteStatus_eq
      mgr_ops_reads [OF that, of "HTTPRouteInput R w' now controllerName grants r" "HTTPRouteInput R w now controllerName grants r", simplified] ..
  assume wf: "wf_parents (ro_Parents r)" and c: "httpRouteStatus R regexpErr controllerName grants now w r = Some ps"
  have refl: "statusReads R w w" by (simp add: statusReads_def)
  obtain headers where h: "ValidateHeaderModifier r = Some headers"
    using c unfolding httpRouteStatus_eq by (cases "ValidateHeaderModifier r") auto
  have v: "ValidateHeaderModifier (r\<lparr>ro_Parents := ps\<rparr>) = Some headers"
    "ValidateMatchRegexps regexpErr (r\<lparr>ro_Parents := ps\<rparr>) = ValidateMatchRegexps regexpErr r"
    using h by (simp_all add: ValidateHeaderModifier_def ValidateMatchRegexps_def)
  note ops = mgr_ops_reads [OF refl, of "HTTPRouteInput R w now' controllerName grants (r\<lparr>ro_Parents := ps\<rparr>)"
      "HTTPRouteInput R w now controllerName grants r", simplified]
  show "\<exists>ps'. httpRouteStatus R regexpErr controllerName grants now' w (r\<lparr>ro_Parents := ps\<rparr>) = Some ps' \<and> sameParents ps ps'"
    using c routeStatus_again [OF wf mgr_ops_refs]
    by (auto simp: httpRouteStatus_eq h v ops simp del: map_append)
qed (auto simp: statusReads_def)

interpretation tcp_status: status_source
  "\<lambda>now. tcpRouteStatus R hostNetworkEnabled grants now" "statusReads R"
  for R :: "('w, 'sel) Reader" and hostNetworkEnabled grants
proof
  fix w w' :: 'w and now now' and r :: L4RouteObject and ps
  let ?i = "TCPRouteInput R w now gatewayControllerName grants r"
  show refl: "statusReads R w w" by (simp add: statusReads_def)
  show "tcpRouteStatus R hostNetworkEnabled grants now w' r = tcpRouteStatus R hostNetworkEnabled grants now w r"
    if "statusReads R w w'"
    unfolding tcpRouteStatus_eq
      gw_ops_reads [OF that, of "TCPRouteInput R w' now gatewayControllerName grants r" ?i, simplified] ..
  assume wf: "wf_parents (ro_Parents r)" and c: "tcpRouteStatus R hostNetworkEnabled grants now w r = Some ps"
  note ops = gw_ops_reads [OF refl,
      of "TCPRouteInput R w now' gatewayControllerName grants (r\<lparr>ro_Parents := ps\<rparr>)" ?i, simplified]
  show "\<exists>ps'. tcpRouteStatus R hostNetworkEnabled grants now' w (r\<lparr>ro_Parents := ps\<rparr>) = Some ps' \<and> sameParents ps ps'"
    using c routeStatus_again [OF wf gw_ops_refs, where cs = "[]"] by (auto simp: tcpRouteStatus_eq ops)
qed (auto simp: statusReads_def)

interpretation udp_status: status_source
  "\<lambda>now. udpRouteStatus R hostNetworkEnabled grants now" "statusReads R"
  for R :: "('w, 'sel) Reader" and hostNetworkEnabled grants
proof
  fix w w' :: 'w and now now' and r :: L4RouteObject and ps
  let ?i = "UDPRouteInput R w now gatewayControllerName grants r"
  show refl: "statusReads R w w" by (simp add: statusReads_def)
  show "udpRouteStatus R hostNetworkEnabled grants now w' r = udpRouteStatus R hostNetworkEnabled grants now w r"
    if "statusReads R w w'"
    unfolding udpRouteStatus_eq
      gw_ops_reads [OF that, of "UDPRouteInput R w' now gatewayControllerName grants r" ?i, simplified] ..
  assume wf: "wf_parents (ro_Parents r)" and c: "udpRouteStatus R hostNetworkEnabled grants now w r = Some ps"
  note ops = gw_ops_reads [OF refl,
      of "UDPRouteInput R w now' gatewayControllerName grants (r\<lparr>ro_Parents := ps\<rparr>)" ?i, simplified]
  show "\<exists>ps'. udpRouteStatus R hostNetworkEnabled grants now' w (r\<lparr>ro_Parents := ps\<rparr>) = Some ps' \<and> sameParents ps ps'"
    using c routeStatus_again [OF wf gw_ops_refs, where cs = "[]"] by (auto simp: udpRouteStatus_eq ops)
qed (auto simp: statusReads_def)

section \<open>What the statuses of HTTP routes say\<close>

text \<open>A parent of this controller: a Gateway of one of its classes, or a ListenerSet of such a Gateway.\<close>

definition ownedParent :: "('w, 'sel) Reader \<Rightarrow> 'w \<Rightarrow> string \<Rightarrow> string \<Rightarrow> ParentReference \<Rightarrow> bool" where
  "ownedParent R w controllerName ns ref \<longleftrightarrow>
     (\<exists>gw. GatewayHasMatchingController R w controllerName gw \<and>
        (IsGateway ref \<and> rd_Gateway R w (parentKey ref ns) = Found gw \<or>
         IsListenerSet ref \<and>
         (\<exists>ls. rd_ListenerSet R w (parentKey ref ns) = Found ls \<and> rd_Gateway R w (ListenerSetParentGateway ls) = Found gw)))"

definition validHTTPRoute :: "(string \<Rightarrow> string option) \<Rightarrow> HTTPRouteObject \<Rightarrow> bool" where
  "validHTTPRoute regexpErr h \<longleftrightarrow>
     (\<forall>rule \<in> set (rt_Rules (ro_Route h)).
        (\<forall>f \<in> set (rr_Filters rule). \<forall>m. rf_Type f = FilterRequestHeaderModifier \<longrightarrow>
           rf_RequestHeaderModifier f = Some m \<longrightarrow> (\<forall>s \<in> set (hhf_Set m). hh_Name s \<noteq> ''Host'')) \<and>
        (\<forall>m \<in> set (rr_Matches rule). \<forall>x \<in> set (matchRegexps m). regexpErr (snd x) = None))"

lemma mgr_ops_owned:
  "mgr_runCommonRouteChecks R w n i refs ns =
     concat (map (setInitialRouteConditions i) (filter (ownedParent R w n ns) refs))"
proof -
  have "(if IsGateway ref then mgr_runGatewayRouteChecks R w n i ref ns
      else if IsListenerSet ref then mgr_runListenerSetRouteChecks R w n i ref ns else []) =
      (if ownedParent R w n ns ref then setInitialRouteConditions i ref else [])" for ref
    using parent_kinds_disjoint(1) [of ref]
    by (cases "rd_Gateway R w (parentKey ref ns)"; cases "rd_ListenerSet R w (parentKey ref ns)")
       (auto simp: ownedParent_def mgr_runGatewayRouteChecks_def parentIsMatchingGateway_def
         mgr_runListenerSetRouteChecks_def split: getResult.split)
  then show ?thesis unfolding mgr_runCommonRouteChecks_def by (induction refs) simp_all
qed

lemma initial_written:
  "written (expandOps [] (stamped g now) (concat (map (setInitialRouteConditions i) refs))) r t =
     (if r \<in> set refs \<and> t = ''Accepted'' then
        Some (untimed (stamped g now (newCond ''Accepted'' ConditionTrue ''Accepted'' (''Accepted '' @ gvk_Kind (ri_GVK i)))))
      else if r \<in> set refs \<and> t = ''ResolvedRefs'' then
        Some (untimed (stamped g now (newCond ''ResolvedRefs'' ConditionTrue ''ResolvedRefs'' ''Service reference is valid'')))
      else None)"
  by (induction refs) (auto simp: setInitialRouteConditions_def)

lemma listed_written:
  assumes "\<forall>c \<in> set cs. cond_Type c = ''Accepted''"
  shows "written (listed cs rs) r t =
     (if r \<in> set rs \<and> t = ''Accepted'' \<and> cs \<noteq> [] then Some (untimed (last cs)) else None)"
  using assms by (induction cs) (auto simp: listed_def written_append)

lemma headerModifierLoop_valid:
  "headerModifierLoop fs = Some c \<Longrightarrow>
   (c = None \<longleftrightarrow> (\<forall>f \<in> set fs. \<forall>m. rf_Type f = FilterRequestHeaderModifier \<longrightarrow>
      rf_RequestHeaderModifier f = Some m \<longrightarrow> (\<forall>s \<in> set (hhf_Set m). hh_Name s \<noteq> ''Host''))) \<and>
   (\<forall>d. c = Some d \<longrightarrow> cond_Type d = ''Accepted'' \<and> cond_Status d = ConditionFalse)"
proof (induction fs)
  case (Cons f fs)
  then show ?case
    by (cases "rf_RequestHeaderModifier f")
       (auto simp: invalidHeaderModifierCondition_def find_None_iff find_Some_iff
         split: if_splits option.splits)
qed simp

lemma ValidateMatchRegexps_valid:
  "ValidateMatchRegexps re h = None \<longleftrightarrow>
     (\<forall>rule \<in> set (rt_Rules (ro_Route h)). \<forall>m \<in> set (rr_Matches rule). \<forall>x \<in> set (matchRegexps m). re (snd x) = None)"
  "ValidateMatchRegexps re h = Some d \<Longrightarrow> cond_Type d = ''Accepted'' \<and> cond_Status d = ConditionFalse"
proof -
  let ?xs = "concat (map matchRegexps (concat (map rr_Matches (rt_Rules (ro_Route h)))))"
  have "ValidateMatchRegexps re h = None \<longleftrightarrow> find (\<lambda>(field, v). re v \<noteq> None) ?xs = None"
  proof (cases "find (\<lambda>(field, v). re v \<noteq> None) ?xs")
    case (Some fv)
    then have "case fv of (field, v) \<Rightarrow> re v \<noteq> None" unfolding find_Some_iff by metis
    then show ?thesis using Some by (auto simp: ValidateMatchRegexps_def)
  qed (simp add: ValidateMatchRegexps_def)
  then show "ValidateMatchRegexps re h = None \<longleftrightarrow>
     (\<forall>rule \<in> set (rt_Rules (ro_Route h)). \<forall>m \<in> set (rr_Matches rule). \<forall>x \<in> set (matchRegexps m). re (snd x) = None)"
    by (simp add: find_None_iff split_beta) (metis prod.collapse snd_conv)
  show "ValidateMatchRegexps re h = Some d \<Longrightarrow> cond_Type d = ''Accepted'' \<and> cond_Status d = ConditionFalse"
    by (auto simp: ValidateMatchRegexps_def invalidRegexCondition_def split: option.splits prod.splits)
qed

lemma validators:
  fixes re :: "string \<Rightarrow> string option"
  assumes "ValidateHeaderModifier h = Some c"
  defines "cs \<equiv> optList c @ optList (ValidateMatchRegexps re h)"
  shows "cs = [] \<longleftrightarrow> validHTTPRoute re h" "d \<in> set cs \<Longrightarrow> cond_Type d = ''Accepted'' \<and> cond_Status d = ConditionFalse"
proof -
  note h = headerModifierLoop_valid [OF assms(1) [unfolded ValidateHeaderModifier_def]]
  show "cs = [] \<longleftrightarrow> validHTTPRoute re h"
  proof -
    have "cs = [] \<longleftrightarrow> c = None \<and> ValidateMatchRegexps re h = None" unfolding cs_def by (simp split: option.split)
    then show ?thesis unfolding conjunct1 [OF h] ValidateMatchRegexps_valid validHTTPRoute_def set_concat set_map by blast
  qed
  show "d \<in> set cs \<Longrightarrow> cond_Type d = ''Accepted'' \<and> cond_Status d = ConditionFalse"
    using conjunct2 [OF h] ValidateMatchRegexps_valid(2) [of re h d] unfolding cs_def by (auto split: option.splits)
qed

lemma httpRouteStatus_content:
  assumes h: "ValidateHeaderModifier h = Some c" and st: "httpRouteStatus R re n grants now w h = Some ps"
  defines "owned \<equiv> filter (ownedParent R w n (rt_Namespace (ro_Route h))) (rt_ParentRefs (ro_Route h))"
    and "cs \<equiv> map (stamped (ro_Generation h) now) (optList c @ optList (ValidateMatchRegexps re h))"
  shows "content ps r t =
    (case written (listed cs (map rps_ParentRef ps)) r t of
       Some d \<Rightarrow> Some d
     | None \<Rightarrow>
         (case written (expandOps [] (stamped (ro_Generation h) now)
                  (concat (map (setInitialRouteConditions (HTTPRouteInput R w now n grants h)) owned))) r t of
            Some d \<Rightarrow> Some d
          | None \<Rightarrow> content (pruneRouteParentStatuses (ro_Parents h) (rt_ParentRefs (ro_Route h)) n) r t))"
    and "set owned \<subseteq> rps_ParentRef ` set ps"
proof -
  let ?g = "\<lambda>ref u. mergeParentConditions MergeConditions n ref [u]"
  let ?us = "expandOps [] (stamped (ro_Generation h) now)
      (concat (map (setInitialRouteConditions (HTTPRouteInput R w now n grants h)) owned))"
  let ?p1 = "setConds ?g ?us (pruneRouteParentStatuses (ro_Parents h) (rt_ParentRefs (ro_Route h)) n)"
  have ps: "ps = setConds ?g (listed cs (map rps_ParentRef ?p1)) ?p1"
    using st h by (simp add: httpRouteStatus_eq mgr_ops_owned routeStatus_def Let_def owned_def cs_def)
  then have refs: "map rps_ParentRef ps = map rps_ParentRef ?p1" by (simp only: listed_refs)
  have ps': "ps = setConds ?g (?us @ listed cs (map rps_ParentRef ps))
      (pruneRouteParentStatuses (ro_Parents h) (rt_ParentRefs (ro_Route h)) n)"
    unfolding setConds_append refs by (rule ps)
  note loc = mergeParent_status [OF helpers_store.condition_store_axioms MergeConditions_Nil, of n]
  show "content ps r t =
    (case written (listed cs (map rps_ParentRef ps)) r t of
       Some d \<Rightarrow> Some d
     | None \<Rightarrow> (case written ?us r t of Some d \<Rightarrow> Some d
          | None \<Rightarrow> content (pruneRouteParentStatuses (ro_Parents h) (rt_ParentRefs (ro_Route h)) n) r t))"
    by (subst ps', subst parent_status.setConds_content [OF loc]) (simp_all add: written_append split: option.split)
  have "set owned \<subseteq> fst ` set ?us" by (induction owned) (auto simp: setInitialRouteConditions_def)
  then show "set owned \<subseteq> rps_ParentRef ` set ps"
    using arg_cong [OF refs, of set] unfolding setConds_refs fold_refs_set by auto
qed

section \<open>Properties\<close>



lemma tcp_statuses_settle:
  assumes "\<forall>w r w'. sw_TCPRoute S w r = (None, w') \<longrightarrow> statusReads R w w'"
    and "\<forall>r \<in> set routes. wf_parents (ro_Parents r)"
    and "setTCPRouteStatuses R S hne now grants w routes = Some (None, routes', w')"
  shows "\<exists>routes''. setTCPRouteStatuses R S hne now' grants w' routes' = Some (None, routes'', w')"
  using tcp_status.loop_settles [of R hne grants now "sw_TCPRoute S", OF _ assms(2)] assms(1,3)
  unfolding setTCPRouteStatuses_def by blast

lemma udp_statuses_settle:
  assumes "\<forall>w r w'. sw_UDPRoute S w r = (None, w') \<longrightarrow> statusReads R w w'"
    and "\<forall>r \<in> set routes. wf_parents (ro_Parents r)"
    and "setUDPRouteStatuses R S hne now grants w routes = Some (None, routes', w')"
  shows "\<exists>routes''. setUDPRouteStatuses R S hne now' grants w' routes' = Some (None, routes'', w')"
  using udp_status.loop_settles [of R hne grants now "sw_UDPRoute S", OF _ assms(2)] assms(1,3)
  unfolding setUDPRouteStatuses_def by blast

section \<open>Examples\<close>

definition exampleClass :: GatewayClass where
  "exampleClass =
     \<lparr>gc_Name = ''dolphin'', gc_ControllerName = gatewayControllerName, gc_ParametersRef = None,
      gc_Deleting = False, gc_Status = \<lparr>st_Generation = 1, st_Conditions = []\<rparr>\<rparr>"

definition exampleHTTPCluster :: Cluster where
  "exampleHTTPCluster = exampleCluster\<lparr>cl_Classes := [exampleClass], cl_HTTPRoutes := [exampleRoute ''ns'']\<rparr>"

lemma example_owned: "ownedParent memReader exampleHTTPCluster gatewayControllerName ''ns'' exampleRef"
proof -
  have "rd_Gateway memReader exampleHTTPCluster (parentKey exampleRef ''ns'') = Found exampleGateway"
    by (simp add: memReader_def exampleHTTPCluster_def exampleCluster_def emptyCluster_def lookupObject_def
        parentKey_def NamespaceDerefOr_def exampleRef_def exampleGateway_def)
  moreover have "GatewayHasMatchingController memReader exampleHTTPCluster gatewayControllerName exampleGateway"
    by (simp add: GatewayHasMatchingController_def memReader_def exampleHTTPCluster_def lookupObject_def
        exampleClass_def exampleGateway_def)
  moreover have "IsGateway exampleRef" by (simp add: IsGateway_def exampleRef_def)
  ultimately show ?thesis unfolding ownedParent_def by blast
qed

lemma example_valid: "validHTTPRoute (\<lambda>_. None) (exampleRoute ''ns'')"
  by (simp add: validHTTPRoute_def exampleRoute_def)


lemma mem_http_reads: "\<forall>w r w'. sw_HTTPRoute memWriter w r = (None, w') \<longrightarrow> statusReads memReader w w'"
proof (intro allI impI)
  fix w r w' assume "sw_HTTPRoute memWriter w r = (None, w')"
  then have "w' = w\<lparr>cl_HTTPRoutes := replaceObject routeKey r (cl_HTTPRoutes w)\<rparr>"
    by (simp add: memWriter_def storeObject_def split: if_splits)
  then show "statusReads memReader w w'" by (simp add: statusReads_def memReader_def)
qed


end
