(* ===== verification/Route_Attachment.thy ===== *)
theory Route_Attachment
  imports Route_Status Ingestion_Gateway
begin

text \<open>
  Which routes and ListenerSets a Gateway takes up: the helpers of
  \<open>src/pkg/gateway_api/helpers.go\<close> and \<open>helpers/listenerset.go\<close> and the filters of
  \<open>gateway_reconcile.go\<close> that select routes by listener and by Gateway. A list of route kinds
  that is empty stands for the nil slice. \<open>None\<close> is a nil dereference: of the \<open>from\<close> field
  of a namespace rule, which the API server fills in.
\<close>

section \<open>Sources and kinds\<close>

definition gatewayFQR :: "'sel Gateway \<Rightarrow> FullyQualifiedResource" where
  "gatewayFQR gw =
     \<lparr>fqr_Name = gw_Name gw, fqr_Namespace = gw_Namespace gw, fqr_Group = gatewayGroupName,
      fqr_Version = ''v1'', fqr_Kind = ''Gateway'', fqr_UID = gw_UID gw\<rparr>"

definition listenerSetFQR :: "'sel ListenerSet \<Rightarrow> FullyQualifiedResource" where
  "listenerSetFQR ls =
     \<lparr>fqr_Name = ls_Name ls, fqr_Namespace = ls_Namespace ls, fqr_Group = gatewayGroupName,
      fqr_Version = ''v1'', fqr_Kind = ''ListenerSet'', fqr_UID = ls_UID ls\<rparr>"

definition groupKind :: "string \<Rightarrow> RouteGroupKind" where
  "groupKind k = \<lparr>rgk_Group = Some gatewayGroupName, rgk_Kind = k\<rparr>"

fun getSupportedRouteKinds :: "ProtocolType \<Rightarrow> RouteGroupKind list option" where
  "getSupportedRouteKinds HTTPProtocolType = Some [groupKind ''HTTPRoute'', groupKind ''GRPCRoute'']"
| "getSupportedRouteKinds HTTPSProtocolType = Some [groupKind ''HTTPRoute'', groupKind ''GRPCRoute'']"
| "getSupportedRouteKinds TLSProtocolType = Some [groupKind ''TLSRoute'']"
| "getSupportedRouteKinds TCPProtocolType = Some [groupKind ''TCPRoute'']"
| "getSupportedRouteKinds UDPProtocolType = Some [groupKind ''UDPRoute'']"
| "getSupportedRouteKinds (OtherProtocolType _) = None"

fun getSupportedGroupKind :: "ProtocolType \<Rightarrow> string \<times> string" where
  "getSupportedGroupKind HTTPProtocolType = (gatewayGroupName, ''HTTPRoute'')"
| "getSupportedGroupKind TLSProtocolType = (gatewayGroupName, ''TLSRoute'')"
| "getSupportedGroupKind HTTPSProtocolType = (gatewayGroupName, ''HTTPRoute'')"
| "getSupportedGroupKind TCPProtocolType = (gatewayGroupName, ''TCPRoute'')"
| "getSupportedGroupKind UDPProtocolType = (gatewayGroupName, ''UDPRoute'')"
| "getSupportedGroupKind (OtherProtocolType _) = (''Unknown'', ''unkown'')"

definition groupDerefOr :: "string option \<Rightarrow> string \<Rightarrow> string" where
  "groupDerefOr grp defaultGroup =
     (case grp of Some g \<Rightarrow> if g \<noteq> [] then g else defaultGroup | None \<Rightarrow> defaultGroup)"

text \<open>The kind of a route by its type; gRPC routes have no case of their own.\<close>

datatype RouteKind = HTTPRouteKind | TLSRouteKind | TCPRouteKind | UDPRouteKind | GRPCRouteKind

fun getGatewayKindForObject :: "RouteKind \<Rightarrow> string" where
  "getGatewayKindForObject HTTPRouteKind = ''HTTPRoute''"
| "getGatewayKindForObject TLSRouteKind = ''TLSRoute''"
| "getGatewayKindForObject TCPRouteKind = ''TCPRoute''"
| "getGatewayKindForObject UDPRouteKind = ''UDPRoute''"
| "getGatewayKindForObject GRPCRouteKind = ''unknown''"

section \<open>May a route attach\<close>

definition isKindAllowed :: "'sel AllowedRoutes \<Rightarrow> RouteKind \<Rightarrow> bool" where
  "isKindAllowed ar route =
     (if ar_Kinds ar = [] then True
      else let routedKind = getGatewayKindForObject route
           in \<exists>kind \<in> set (ar_Kinds ar).
                rgk_Group kind = None \<or>
                rgk_Group kind = Some gatewayGroupName \<and>
                (\<exists>k \<in> set [''HTTPRoute'', ''TLSRoute'', ''TCPRoute'', ''UDPRoute'']. rgk_Kind kind = k \<and> routedKind = k))"

definition listenerisAllowed ::
  "('w, 'sel) Reader \<Rightarrow> 'sel Gateway \<Rightarrow> 'sel GwListener \<Rightarrow> RouteKind \<Rightarrow> string \<Rightarrow> NamespaceLabelIndex \<Rightarrow> bool" where
  "listenerisAllowed R gw listener route routeNamespace namespaceLabels =
     (let namespaceOk = IsListenerNamespaceAllowed (rd_SelMatches R) listener routeNamespace (gw_Namespace gw) namespaceLabels
      in case lis_AllowedRoutes listener of
           None \<Rightarrow> namespaceOk
         | Some ar \<Rightarrow>
             if ar_Namespaces ar = None then namespaceOk
             else if \<not> isKindAllowed ar route then False
             else namespaceOk)"

definition isGRPCAllowed ::
  "('w, 'sel) Reader \<Rightarrow> 'sel Gateway \<Rightarrow> string \<Rightarrow> NamespaceLabelIndex \<Rightarrow> bool" where
  "isGRPCAllowed R gw routeNamespace namespaceLabels \<longleftrightarrow>
     (\<exists>listener \<in> set (gw_Listeners gw). listenerisAllowed R gw listener GRPCRouteKind routeNamespace namespaceLabels)"

fun isAllowedLoop ::
  "('w, 'sel) Reader \<Rightarrow> 'w \<Rightarrow> string \<Rightarrow> RouteKind \<Rightarrow> string \<Rightarrow> 'sel GwListener list \<Rightarrow> bool option" where
  "isAllowedLoop R w gwNamespace route routeNamespace [] = Some False"
| "isAllowedLoop R w gwNamespace route routeNamespace (listener # listeners) =
     (case lis_AllowedRoutes listener of
        None \<Rightarrow> Some (routeNamespace = gwNamespace)
      | Some ar \<Rightarrow>
        (case ar_Namespaces ar of
           None \<Rightarrow> Some (routeNamespace = gwNamespace)
         | Some rns \<Rightarrow>
             if \<not> isKindAllowed ar route then isAllowedLoop R w gwNamespace route routeNamespace listeners
             else (case rns_From rns of
                     None \<Rightarrow> None
                   | Some NamespacesFromAll \<Rightarrow> Some True
                   | Some NamespacesFromSame \<Rightarrow>
                       if routeNamespace = gwNamespace then Some True
                       else isAllowedLoop R w gwNamespace route routeNamespace listeners
                   | Some NamespacesFromSelector \<Rightarrow>
                       (case rd_SelectNamespaces R w (rns_Selector rns) of
                          Inl err \<Rightarrow> Some False
                        | Inr nsList \<Rightarrow>
                            if routeNamespace \<in> set nsList then Some True
                            else isAllowedLoop R w gwNamespace route routeNamespace listeners)
                   | Some NamespacesFromNone \<Rightarrow> isAllowedLoop R w gwNamespace route routeNamespace listeners
                   | Some (NamespacesFromOther _) \<Rightarrow> isAllowedLoop R w gwNamespace route routeNamespace listeners)))"

definition isAllowed ::
  "('w, 'sel) Reader \<Rightarrow> 'w \<Rightarrow> 'sel Gateway \<Rightarrow> RouteKind \<Rightarrow> string \<Rightarrow> bool option" where
  "isAllowed R w gw route routeNamespace = isAllowedLoop R w (gw_Namespace gw) route routeNamespace (gw_Listeners gw)"

text \<open>The status of the route admits it: accepted, or with references that do not resolve.\<close>

definition isAttachable :: "'sel Gateway \<Rightarrow> 'm RouteObject \<Rightarrow> bool" where
  "isAttachable gw r \<longleftrightarrow>
     (\<exists>rps \<in> set (ro_Parents r).
        NamespaceDerefOr (pr_Namespace (rps_ParentRef rps)) (rt_Namespace (ro_Route r)) = gw_Namespace gw \<and>
        pr_Name (rps_ParentRef rps) = gw_Name gw \<and>
        (\<exists>cond \<in> set (rps_Conditions rps).
           cond_Type cond = ''Accepted'' \<and> cond_Status cond = ConditionTrue \<or>
           cond_Type cond = ''ResolvedRefs'' \<and> cond_Status cond = ConditionFalse))"

definition isRouteMatchGateway :: "'sel Gateway \<Rightarrow> 'm RouteObject \<Rightarrow> bool" where
  "isRouteMatchGateway gw r \<longleftrightarrow>
     (\<exists>rps \<in> set (ro_Parents r).
        NamespaceDerefOr (pr_Namespace (rps_ParentRef rps)) (rt_Namespace (ro_Route r)) = gw_Namespace gw \<and>
        pr_Name (rps_ParentRef rps) = gw_Name gw \<and>
        (\<exists>cond \<in> set (rps_Conditions rps).
           cond_Type cond = ''Accepted'' \<and> cond_Status cond = ConditionTrue \<or>
           cond_Type cond = ''ResolvedRefs'' \<and> cond_Status cond = ConditionFalse))"

text \<open>\<open>IsParentAttachable\<close> of \<open>helpers/tcproute.go\<close>, which is used for TCP and UDP, is constant.\<close>

definition IsParentAttachable :: "'sel Gateway \<Rightarrow> 'm RouteObject \<Rightarrow> 'sel ListenerSet list \<Rightarrow> bool" where
  "IsParentAttachable gw r attachedListenerSets = True"

definition parentRefMatched ::
  "'sel Gateway \<Rightarrow> 'sel GwListener \<Rightarrow> string \<Rightarrow> ParentReference list \<Rightarrow> bool" where
  "parentRefMatched gw listener routeNamespace parefs \<longleftrightarrow>
     (\<exists>ref \<in> set parefs.
        pr_Name ref = gw_Name gw \<and> gw_Namespace gw = NamespaceDerefOr (pr_Namespace ref) routeNamespace \<and>
        (pr_SectionName ref = None \<and> pr_Port ref = None \<or>
         (pr_SectionName ref = None \<or> pr_SectionName ref = Some (lis_Name listener)) \<and>
         (pr_Port ref = None \<or> pr_Port ref = Some (lis_Port listener))))"

definition listenerMatchesRouteParent ::
  "'sel Gateway \<Rightarrow> FullyQualifiedResource \<Rightarrow> 'sel GwListener \<Rightarrow> 'm Route \<Rightarrow> bool" where
  "listenerMatchesRouteParent gw source listener route \<longleftrightarrow>
     (\<exists>ref \<in> set (rt_ParentRefs route).
        (pr_SectionName ref = None \<or> pr_SectionName ref = Some (lis_Name listener)) \<and>
        (pr_Port ref = None \<or> pr_Port ref = Some (lis_Port listener)) \<and>
        (if fqr_Kind source = ''ListenerSet'' then
           IsListenerSet ref \<and> NamespaceDerefOr (pr_Namespace ref) (rt_Namespace route) = fqr_Namespace source \<and>
           pr_Name ref = fqr_Name source
         else IsGateway ref \<and> NamespaceDerefOr (pr_Namespace ref) (rt_Namespace route) = gw_Namespace gw \<and>
              pr_Name ref = gw_Name gw))"

section \<open>Filters by listener\<close>

fun filterM :: "('a \<Rightarrow> bool option) \<Rightarrow> 'a list \<Rightarrow> 'a list option" where
  "filterM P [] = Some []"
| "filterM P (x # xs) = do { b \<leftarrow> P x; ys \<leftarrow> filterM P xs; Some (if b then x # ys else ys) }"

abbreviation (input) andThen :: "bool \<Rightarrow> bool option \<Rightarrow> bool option" where
  "andThen a b \<equiv> (if a then b else Some False)"

definition filterHTTPRoutesByListener ::
  "('w, 'sel) Reader \<Rightarrow> 'w \<Rightarrow> 'sel Gateway \<Rightarrow> 'sel GwListener \<Rightarrow> HTTPRouteObject list \<Rightarrow> HTTPRouteObject list option" where
  "filterHTTPRoutesByListener R w gw listener routes =
     filterM (\<lambda>r. andThen (isAttachable gw r) (do {
       allowed \<leftarrow> isAllowed R w gw HTTPRouteKind (rt_Namespace (ro_Route r));
       Some (allowed \<and> length (computeHostsForListener listener (rt_Hostnames (ro_Route r))) > 0 \<and>
             parentRefMatched gw listener (rt_Namespace (ro_Route r)) (rt_ParentRefs (ro_Route r))) })) routes"

definition filterTLSRoutesByListener ::
  "('w, 'sel) Reader \<Rightarrow> 'w \<Rightarrow> 'sel Gateway \<Rightarrow> 'sel GwListener \<Rightarrow> L4RouteObject list \<Rightarrow> L4RouteObject list option" where
  "filterTLSRoutesByListener R w gw listener routes =
     filterM (\<lambda>r. andThen (isAttachable gw r) (do {
       allowed \<leftarrow> isAllowed R w gw TLSRouteKind (rt_Namespace (ro_Route r));
       Some (allowed \<and> length (computeHostsForListener listener (rt_Hostnames (ro_Route r))) > 0 \<and>
             parentRefMatched gw listener (rt_Namespace (ro_Route r)) (rt_ParentRefs (ro_Route r))) })) routes"

definition filterGRPCRoutesByListener ::
  "('w, 'sel) Reader \<Rightarrow> 'sel Gateway \<Rightarrow> 'sel GwListener \<Rightarrow> GRPCRouteObject list \<Rightarrow> NamespaceLabelIndex \<Rightarrow>
   GRPCRouteObject list" where
  "filterGRPCRoutesByListener R gw listener routes namespaceLabels =
     filter (\<lambda>r. isAttachable gw r \<and>
       listenerisAllowed R gw listener GRPCRouteKind (rt_Namespace (ro_Route r)) namespaceLabels \<and>
       length (computeHostsForListener listener (rt_Hostnames (ro_Route r))) > 0 \<and>
       parentRefMatched gw listener (rt_Namespace (ro_Route r)) (rt_ParentRefs (ro_Route r))) routes"

definition filterTCPRoutesByListener ::
  "('w, 'sel) Reader \<Rightarrow> 'sel Gateway \<Rightarrow> 'sel GwListener \<Rightarrow> L4RouteObject list \<Rightarrow> NamespaceLabelIndex \<Rightarrow>
   'sel ListenerSet list \<Rightarrow> L4RouteObject list" where
  "filterTCPRoutesByListener R gw listener routes namespaceLabels attachedListenerSets =
     filter (\<lambda>r. IsParentAttachable gw r attachedListenerSets \<and>
       listenerisAllowed R gw listener TCPRouteKind (rt_Namespace (ro_Route r)) namespaceLabels \<and>
       parentRefMatched gw listener (rt_Namespace (ro_Route r)) (rt_ParentRefs (ro_Route r))) routes"

definition filterUDPRoutesByListener ::
  "('w, 'sel) Reader \<Rightarrow> 'sel Gateway \<Rightarrow> 'sel GwListener \<Rightarrow> L4RouteObject list \<Rightarrow> NamespaceLabelIndex \<Rightarrow>
   'sel ListenerSet list \<Rightarrow> L4RouteObject list" where
  "filterUDPRoutesByListener R gw listener routes namespaceLabels attachedListenerSets =
     filter (\<lambda>r. IsParentAttachable gw r attachedListenerSets \<and>
       listenerisAllowed R gw listener UDPRouteKind (rt_Namespace (ro_Route r)) namespaceLabels \<and>
       parentRefMatched gw listener (rt_Namespace (ro_Route r)) (rt_ParentRefs (ro_Route r))) routes"

section \<open>ListenerSets\<close>

definition IsListenerSetAllowed ::
  "('w, 'sel) Reader \<Rightarrow> 'w \<Rightarrow> 'sel GatewayObject \<Rightarrow> 'sel ListenerSet \<Rightarrow> bool" where
  "IsListenerSetAllowed R w gw ls =
     (case go_AllowedListeners gw of
        None \<Rightarrow> False
      | Some None \<Rightarrow> False
      | Some (Some ns) \<Rightarrow>
        (case rns_From ns of
           None \<Rightarrow> False
         | Some NamespacesFromNone \<Rightarrow> False
         | Some NamespacesFromAll \<Rightarrow> True
         | Some NamespacesFromSame \<Rightarrow> ls_Namespace ls = gw_Namespace (go_Spec gw)
         | Some NamespacesFromSelector \<Rightarrow>
             (case rd_SelectNamespaces R w (rns_Selector ns) of
                Inl err \<Rightarrow> False
              | Inr nsList \<Rightarrow> ls_Namespace ls \<in> set nsList)
         | Some (NamespacesFromOther _) \<Rightarrow> False))"

text \<open>Older ListenerSets take precedence, then the smaller full name.\<close>

definition lsPrecedes :: "'sel ListenerSet \<Rightarrow> 'sel ListenerSet \<Rightarrow> bool" where
  "lsPrecedes a b =
     (if ls_CreationTimestamp a \<noteq> ls_CreationTimestamp b then ls_CreationTimestamp a < ls_CreationTimestamp b
      else ls_Namespace a @ ''/'' @ ls_Name a < ls_Namespace b @ ''/'' @ ls_Name b)"

definition sortListenerSets :: "'sel ListenerSet list \<Rightarrow> 'sel ListenerSet list" where
  "sortListenerSets sets = sort_by lsPrecedes sets"

definition listenerSetsForGateway ::
  "('w, 'sel) Lister \<Rightarrow> 'w \<Rightarrow> 'sel GatewayObject \<Rightarrow> 'sel ListenerSet listResult" where
  "listenerSetsForGateway Li w gw =
     (case li_ListenerSets Li w of
        Inl err \<Rightarrow> Inl (''failed to list ListenerSets: '' @ err)
      | Inr sets \<Rightarrow> Inr (sortListenerSets sets))"

definition sameListenerSetStatus :: "'sel ListenerSet \<Rightarrow> 'sel ListenerSet \<Rightarrow> bool" where
  "sameListenerSetStatus a b \<longleftrightarrow>
     sameConditions (st_Conditions (ls_Status a)) (st_Conditions (ls_Status b)) \<and>
     sameListenerStatuses (ls_ListenerStatuses a) (ls_ListenerStatuses b)"

definition updateListenerSetStatus ::
  "('w, 'sel) StatusWriter \<Rightarrow> 'sel ListenerSet \<Rightarrow> 'sel ListenerSet \<Rightarrow> 'w \<Rightarrow> 'w writeResult" where
  "updateListenerSetStatus S original new w =
     (if sameListenerSetStatus original new then (None, w) else sw_ListenerSet S w new)"

abbreviation (input) notAllowedMsg :: string where
  "notAllowedMsg \<equiv> ''ListenerSet is not allowed by the Gateway's allowedListeners policy''"

definition refusedListenerSet :: "int \<Rightarrow> 'sel ListenerSet \<Rightarrow> 'sel ListenerSet" where
  "refusedListenerSet now ls =
     ls\<lparr>ls_Status := setListenerSetProgrammed now
          (setListenerSetAccepted now (ls_Status ls) False notAllowedMsg ''NotAllowed'')
          False notAllowedMsg ''NotAllowed''\<rparr>"

text \<open>A failed write of a refusal is logged only.\<close>

fun filterToAllowedListenerSets ::
  "('w, 'sel) Reader \<Rightarrow> ('w, 'sel) StatusWriter \<Rightarrow> int \<Rightarrow> 'sel GatewayObject \<Rightarrow> 'sel ListenerSet list \<Rightarrow> 'w \<Rightarrow>
   'sel ListenerSet list \<times> 'w" where
  "filterToAllowedListenerSets R S now gw [] w = ([], w)"
| "filterToAllowedListenerSets R S now gw (ls # sets) w =
     (if \<not> IsListenerSetAllowed R w gw ls then
        filterToAllowedListenerSets R S now gw sets
          (snd (updateListenerSetStatus S ls (refusedListenerSet now ls) w))
      else let (allowed, w') = filterToAllowedListenerSets R S now gw sets w in (ls # allowed, w'))"

context state_frame
begin

lemma filterToAllowed_frame:
  assumes "\<And>w ls. Q w (snd (sw_ListenerSet S w ls))"
  shows "Q w (snd (filterToAllowedListenerSets R S now gw sets w))"
proof (induction sets arbitrary: w)
  case (Cons ls sets)
  have "Q w (snd (updateListenerSetStatus S ls ls' w))" for ls' w
    using assms by (simp add: updateListenerSetStatus_def)
  then have "Q w (snd (filterToAllowedListenerSets R S now gw sets (snd (updateListenerSetStatus S ls ls' w))))" for ls' w
    using Cons by (rule frame_trans)
  then show ?case using Cons by (simp add: split_beta Let_def)
qed simp

end

definition resolveAllowedNamespaces ::
  "('w, 'sel) Reader \<Rightarrow> 'w \<Rightarrow> string \<Rightarrow> 'sel GwListener \<Rightarrow> string list option" where
  "resolveAllowedNamespaces R w listenerNamespace listener =
     (case lis_AllowedRoutes listener of
        None \<Rightarrow> Some [listenerNamespace]
      | Some ar \<Rightarrow>
        (case ar_Namespaces ar of
           None \<Rightarrow> Some [listenerNamespace]
         | Some rns \<Rightarrow>
           (case rns_From rns of
              None \<Rightarrow> Some [listenerNamespace]
            | Some NamespacesFromAll \<Rightarrow> None
            | Some NamespacesFromSame \<Rightarrow> Some [listenerNamespace]
            | Some NamespacesFromSelector \<Rightarrow>
                (case rd_SelectNamespaces R w (rns_Selector rns) of
                   Inl err \<Rightarrow> Some [listenerNamespace]
                 | Inr nsList \<Rightarrow> Some nsList)
            | Some NamespacesFromNone \<Rightarrow> Some [listenerNamespace]
            | Some (NamespacesFromOther _) \<Rightarrow> Some [listenerNamespace])))"

definition mergeListeners ::
  "('w, 'sel) Reader \<Rightarrow> 'w \<Rightarrow> 'sel GatewayObject \<Rightarrow> 'sel ListenerSet list \<Rightarrow> 'sel ListenerWithContext list" where
  "mergeListeners R w gw listenerSets =
     map (\<lambda>listener.
       \<lparr>lwc_Listener = listener, lwc_Source = gatewayFQR (go_Spec gw), lwc_SourceGeneration = go_Generation gw,
        lwc_AllowedNamespaces = None\<rparr>) (gw_Listeners (go_Spec gw)) @
     concat (map (\<lambda>ls. map (\<lambda>listener.
       \<lparr>lwc_Listener = listener, lwc_Source = listenerSetFQR ls, lwc_SourceGeneration = st_Generation (ls_Status ls),
        lwc_AllowedNamespaces = resolveAllowedNamespaces R w (ls_Namespace ls) listener\<rparr>) (ls_Listeners ls))
       listenerSets)"

section \<open>Filters by Gateway\<close>

text \<open>The inner loop ends at the first listener that takes the route.\<close>

definition listenerTakesHTTPRoute ::
  "('w, 'sel) Reader \<Rightarrow> 'sel Gateway \<Rightarrow> HTTPRouteObject \<Rightarrow> 'sel ListenerWithContext \<Rightarrow> bool" where
  "listenerTakesHTTPRoute R gw r lc =
     (let listener = lwc_Listener lc; route = ro_Route r
      in if \<not> listenerMatchesRouteParent gw (lwc_Source lc) listener route \<or>
            length (computeHostsForListener listener (rt_Hostnames route)) = 0 then False
         else if fqr_Kind (lwc_Source lc) = ''ListenerSet'' then
           (case lwc_AllowedNamespaces lc of None \<Rightarrow> True | Some allowed \<Rightarrow> rt_Namespace route \<in> set allowed)
         else listenerisAllowed R gw listener HTTPRouteKind (rt_Namespace route) [])"

definition filterHTTPRoutesByGateway ::
  "('w, 'sel) Reader \<Rightarrow> 'w \<Rightarrow> 'sel GatewayObject \<Rightarrow> 'sel ListenerSet list \<Rightarrow> HTTPRouteObject list \<Rightarrow>
   HTTPRouteObject list" where
  "filterHTTPRoutesByGateway R w gw attachedListenerSets routes =
     (let listeners = mergeListeners R w gw attachedListenerSets
      in filter (\<lambda>r. \<exists>lc \<in> set listeners. listenerTakesHTTPRoute R (go_Spec gw) r lc) routes)"

definition filterTLSRoutesByGateway ::
  "('w, 'sel) Reader \<Rightarrow> 'w \<Rightarrow> 'sel Gateway \<Rightarrow> L4RouteObject list \<Rightarrow> L4RouteObject list option" where
  "filterTLSRoutesByGateway R w gw routes =
     filterM (\<lambda>r. andThen (isAttachable gw r) (do {
       allowed \<leftarrow> isAllowed R w gw TLSRouteKind (rt_Namespace (ro_Route r));
       Some (allowed \<and> length (computeHosts gw (rt_Hostnames (ro_Route r))) > 0) })) routes"

definition filterGRPCRoutesByGateway ::
  "('w, 'sel) Reader \<Rightarrow> 'sel Gateway \<Rightarrow> GRPCRouteObject list \<Rightarrow> NamespaceLabelIndex \<Rightarrow> GRPCRouteObject list" where
  "filterGRPCRoutesByGateway R gw routes namespaceLabels =
     filter (\<lambda>r. isAttachable gw r \<and> isGRPCAllowed R gw (rt_Namespace (ro_Route r)) namespaceLabels \<and>
                 length (computeHosts gw (rt_Hostnames (ro_Route r))) > 0) routes"

definition filterTCPRoutesByGateway ::
  "'sel Gateway \<Rightarrow> 'sel ListenerSet list \<Rightarrow> L4RouteObject list \<Rightarrow> L4RouteObject list" where
  "filterTCPRoutesByGateway gw attachedListenerSets routes =
     filter (\<lambda>r. IsParentAttachable gw r attachedListenerSets) routes"

definition filterUDPRoutesByGateway ::
  "'sel Gateway \<Rightarrow> 'sel ListenerSet list \<Rightarrow> L4RouteObject list \<Rightarrow> L4RouteObject list" where
  "filterUDPRoutesByGateway gw attachedListenerSets routes =
     filter (\<lambda>r. IsParentAttachable gw r attachedListenerSets) routes"

definition hasAllowedRoutesNamespaceSelector :: "'sel Gateway \<Rightarrow> bool" where
  "hasAllowedRoutesNamespaceSelector gw \<longleftrightarrow>
     (\<exists>listener \<in> set (gw_Listeners gw).
        case lis_AllowedRoutes listener of
          None \<Rightarrow> False
        | Some ar \<Rightarrow>
            (case ar_Namespaces ar of
               None \<Rightarrow> False
             | Some rns \<Rightarrow> rns_From rns = Some NamespacesFromSelector \<or> rns_From rns = None \<and> rns_Selector rns \<noteq> None))"

section \<open>The filters return\<close>

lemma filterM_total: "(\<And>x. x \<in> set xs \<Longrightarrow> \<exists>b. P x = Some b) \<Longrightarrow> \<exists>ys. filterM P xs = Some ys"
proof (induction xs)
  case (Cons x xs)
  moreover obtain ys where "filterM P xs = Some ys" using Cons by auto
  moreover obtain b where "P x = Some b" using Cons.prems [of x] by auto
  ultimately show ?case by simp
qed simp

lemma isAllowed_total:
  assumes "listenersDefaulted (gw_Listeners gw)"
  shows "\<exists>b. isAllowed R w gw k ns = Some b"
proof -
  have "listenersDefaulted ls \<Longrightarrow> \<exists>b. isAllowedLoop R w g k ns ls = Some b" for g ls
  proof (induction ls)
    case (Cons l ls)
    then have IH: "\<exists>b. isAllowedLoop R w g k ns ls = Some b" by (simp add: listenersDefaulted_def)
    then show ?case
      using Cons.prems
      by (auto simp: listenersDefaulted_def split: option.split FromNamespaces.split sum.split)
  qed auto
  then show ?thesis using assms by (simp add: isAllowed_def)
qed

lemma allowed_total:
  assumes "listenersDefaulted (gw_Listeners gw)"
  shows "\<exists>b. (if a then (isAllowed R w gw k ns \<bind> (\<lambda>ok. Some (f ok))) else Some False) = Some b"
  using isAllowed_total [OF assms, of R w k ns] by auto

section \<open>Namespaces of attached routes\<close>

lemma listenerTakes_gateway:
  assumes "listenerTakesHTTPRoute R gw r lc" "fqr_Kind (lwc_Source lc) = ''Gateway''"
  shows "listenerisAllowed R gw (lwc_Listener lc) HTTPRouteKind (rt_Namespace (ro_Route r)) []"
  using assms by (simp add: listenerTakesHTTPRoute_def Let_def split: if_splits)

lemma mergeListeners_source:
  assumes "lc \<in> set (mergeListeners R w gw sets)"
  shows "lwc_Source lc = gatewayFQR (go_Spec gw) \<and> lwc_Listener lc \<in> set (gw_Listeners (go_Spec gw)) \<or>
    (\<exists>ls \<in> set sets. lwc_Source lc = listenerSetFQR ls \<and> lwc_Listener lc \<in> set (ls_Listeners ls) \<and>
       lwc_AllowedNamespaces lc = resolveAllowedNamespaces R w (ls_Namespace ls) (lwc_Listener lc))"
  using assms by (auto simp: mergeListeners_def)

text \<open>The namespace of a route is open to it at a listener of an owner in the namespace \<open>owner\<close>.\<close>

definition opensTo :: "('w, 'sel) Reader \<Rightarrow> 'w \<Rightarrow> string \<Rightarrow> 'sel GwListener \<Rightarrow> string \<Rightarrow> bool" where
  "opensTo R w owner l ns \<longleftrightarrow>
     ns = owner \<or>
     (\<exists>ar rns. lis_AllowedRoutes l = Some ar \<and> ar_Namespaces ar = Some rns \<and>
        (rns_From rns = Some NamespacesFromAll \<or>
         rns_From rns = Some NamespacesFromSelector \<and>
         (\<exists>nss. rd_SelectNamespaces R w (rns_Selector rns) = Inr nss \<and> ns \<in> set nss)))"

lemma listenerisAllowed_unlabelled:
  assumes "listenerisAllowed R gw l k ns []"
  shows "opensTo R w (gw_Namespace gw) l ns \<and>
    (\<forall>ar rns. lis_AllowedRoutes l = Some ar \<longrightarrow> ar_Namespaces ar = Some rns \<longrightarrow> rns_From rns \<noteq> Some NamespacesFromSelector)"
  using assms
  by (auto simp: listenerisAllowed_def IsListenerNamespaceAllowed_def isNamespaceSelected_def opensTo_def Let_def
      split: option.splits if_splits FromNamespaces.splits)

lemma resolveAllowed_opens:
  "(case resolveAllowedNamespaces R w owner l of None \<Rightarrow> True | Some nss \<Rightarrow> ns \<in> set nss) \<Longrightarrow> opensTo R w owner l ns"
  by (auto simp: resolveAllowedNamespaces_def opensTo_def split: option.splits FromNamespaces.splits sum.splits)



lemma example_taken:
  "exampleRoute ''ns'' \<in> set (filterHTTPRoutesByGateway memReader exampleHTTPCluster exampleGateway [] [exampleRoute ''ns''])"
proof -
  have "listenerTakesHTTPRoute (memReader :: (Cluster, _) Reader) (go_Spec exampleGateway) (exampleRoute ''ns'')
     \<lparr>lwc_Listener = exampleListener, lwc_Source = gatewayFQR (go_Spec exampleGateway), lwc_SourceGeneration = 1,
      lwc_AllowedNamespaces = None\<rparr>"
    by code_simp
  then show ?thesis by (simp add: filterHTTPRoutesByGateway_def mergeListeners_def exampleGateway_def)
qed


definition selectorGateway :: "string list GatewayObject" where
  "selectorGateway = exampleGateway\<lparr>go_Spec := (go_Spec exampleGateway)\<lparr>gw_Listeners :=
     [exampleListener\<lparr>lis_AllowedRoutes := Some \<lparr>ar_Namespaces =
        Some \<lparr>rns_From = Some NamespacesFromSelector, rns_Selector = Some [''ns'']\<rparr>, ar_Kinds = []\<rparr>\<rparr>]\<rparr>\<rparr>"


end
