(* ===== verification/Listener_Status.thy ===== *)
theory Listener_Status
  imports Route_Attachment SNI_Hostnames
begin

text \<open>
  The validation of listeners and the statuses of Gateways and ListenerSets, after
  \<open>src/pkg/gateway_api/gateway_reconcile.go\<close>. \<open>pemDecode b\<close> is \<open>pem.Decode\<close> of
  \<open>encoding/pem\<close>: the rest of the input after the first block, \<open>None\<close> if there is no block.
  A result \<open>None\<close> of an operation means that it does not return. Nil and empty lists are one
  value in a status, and the numbers of attached routes do not wrap.
\<close>

section \<open>Certificates\<close>

partial_function (option) isValidPemFormat :: "(string \<Rightarrow> string option) \<Rightarrow> string \<Rightarrow> bool option" where
  "isValidPemFormat pemDecode b =
     (if length b = 0 then Some False
      else case pemDecode b of
             None \<Rightarrow> Some False
           | Some rest \<Rightarrow> if length rest = 0 then Some True else isValidPemFormat pemDecode rest)"

definition validateTLSSecret ::
  "(string \<Rightarrow> string option) \<Rightarrow> ('w, 'sel) Reader \<Rightarrow> 'w \<Rightarrow> string \<Rightarrow> string \<Rightarrow> string option option" where
  "validateTLSSecret pemDecode R w namespace name =
     (case rd_Secret R w (namespace, name) of
        NotFound \<Rightarrow> Some (Some (rd_NotFound R ''Secret'' (namespace, name)))
      | GetFailed err \<Rightarrow> Some (Some err)
      | Found data \<Rightarrow>
          let field = (\<lambda>k. case map_of data k of None \<Rightarrow> [] | Some v \<Rightarrow> v)
          in do {
               cert \<leftarrow> isValidPemFormat pemDecode (field ''tls.crt'');
               if \<not> cert then Some (Some ''tls cert key is missed'')
               else do {
                 key \<leftarrow> isValidPemFormat pemDecode (field ''tls.key'');
                 if \<not> key then Some (Some ''TLS PRIVATE KEY '') else Some None } })"

text \<open>The loop over the certificates of a listener stops at the first that is refused.\<close>

datatype CertProblem = NotASecret | NotPermitted | BadSecret string

fun certLoop ::
  "(string \<Rightarrow> string option) \<Rightarrow> ('w, 'sel) Reader \<Rightarrow> 'w \<Rightarrow> string \<Rightarrow> GroupVersionKind \<Rightarrow> ReferenceGrant list \<Rightarrow>
   SecretObjectReference list \<Rightarrow> CertProblem option option" where
  "certLoop pemDecode R w ownerNamespace ownerGVK grants [] = Some None"
| "certLoop pemDecode R w ownerNamespace ownerGVK grants (cert # certs) =
     (if \<not> IsSecret cert then Some (Some NotASecret)
      else if \<not> IsSecretReferenceAllowed ownerNamespace cert ownerGVK grants then Some (Some NotPermitted)
      else do {
        err \<leftarrow> validateTLSSecret pemDecode R w (NamespaceDerefOr (sor_Namespace cert) ownerNamespace) (sor_Name cert);
        case err of
          Some e \<Rightarrow> Some (Some (BadSecret e))
        | None \<Rightarrow> certLoop pemDecode R w ownerNamespace ownerGVK grants certs })"

definition certProblem ::
  "(string \<Rightarrow> string option) \<Rightarrow> ('w, 'sel) Reader \<Rightarrow> 'w \<Rightarrow> string \<Rightarrow> GroupVersionKind \<Rightarrow> ReferenceGrant list \<Rightarrow>
   'sel GwListener \<Rightarrow> CertProblem option option" where
  "certProblem pemDecode R w ownerNamespace ownerGVK grants l =
     (case lis_TLS l of
        None \<Rightarrow> Some None
      | Some tls \<Rightarrow> certLoop pemDecode R w ownerNamespace ownerGVK grants (ltc_CertificateRefs tls))"

definition certCondition :: "int \<Rightarrow> int \<Rightarrow> CertProblem \<Rightarrow> Condition" where
  "certCondition generation now p =
     (case p of
        NotASecret \<Rightarrow> mkCondition ''ResolvedRefs'' ConditionFalse ''InvalidCertificateRef'' ''Invalid CertificateRef'' generation now
      | NotPermitted \<Rightarrow> mkCondition ''ResolvedRefs'' ConditionFalse ''RefNotPermitted'' ''CertificateRef is not permitted'' generation now
      | BadSecret e \<Rightarrow> mkCondition ''ResolvedRefs'' ConditionFalse ''InvalidCertificateRef'' ''Invalid CertificateRef'' generation now)"

fun certMessage :: "CertProblem \<Rightarrow> string" where
  "certMessage NotASecret = ''Invalid CertificateRef, must be a Secret.''"
| "certMessage NotPermitted = ''Invalid CertificateRef, not permitted.''"
| "certMessage (BadSecret e) = ''Invalid CertificateRef, '' @ e"

section \<open>Conflicts between listeners\<close>

record listenerConflict =
  lc_reason :: string
  lc_message :: string

type_synonym conflictMap = "(string \<times> listenerConflict) list"
type_synonym listenerConflictsBySource = "(FullyQualifiedResource \<times> conflictMap) list"

text \<open>The reason and whether there is a conflict; the rules by protocol are commented out.\<close>

definition listenerPairConflict :: "'sel GwListener \<Rightarrow> 'sel GwListener \<Rightarrow> string \<times> bool" where
  "listenerPairConflict first second =
     (if lis_Port first \<noteq> lis_Port second then ([], False) else ([], False))"

definition isHTTPSAndTLSPassthroughPair :: "'sel GwListener \<Rightarrow> 'sel GwListener \<Rightarrow> bool" where
  "isHTTPSAndTLSPassthroughPair first second \<longleftrightarrow>
     IsHTTPSTerminatedListener first \<and> IsTLSPassthroughListener second \<or>
     IsHTTPSTerminatedListener second \<and> IsTLSPassthroughListener first"

definition listenerConflictMessage :: "string \<Rightarrow> 'sel GwListener \<Rightarrow> 'sel GwListener \<Rightarrow> string" where
  "listenerConflictMessage reason self other =
     ''Listener conflicts with listener '' @ quoted (lis_Name other) @
     '': same port '' @ Itoa (lis_Port self) @
     (if reason = ''HostnameConflict'' then '' has overlapping hostnames.''
      else if isHTTPSAndTLSPassthroughPair self other then '' has overlapping HTTPS and TLS passthrough hostnames.''
      else '' has incompatible protocols.'')"

fun orderedPairs :: "'a list \<Rightarrow> ('a \<times> 'a) list" where
  "orderedPairs [] = []"
| "orderedPairs (x # xs) = map (Pair x) xs @ orderedPairs xs"

definition recordPair :: "'sel GwListener \<times> 'sel GwListener \<Rightarrow> conflictMap \<Rightarrow> conflictMap" where
  "recordPair p conflicts =
     (let (first, second) = p; (reason, ok) = listenerPairConflict first second
      in if \<not> ok then conflicts
         else AList.update (lis_Name second) \<lparr>lc_reason = reason, lc_message = listenerConflictMessage reason second first\<rparr>
                (AList.update (lis_Name first) \<lparr>lc_reason = reason, lc_message = listenerConflictMessage reason first second\<rparr>
                  conflicts))"

definition conflictsWithinSource :: "'sel GwListener list \<Rightarrow> conflictMap" where
  "conflictsWithinSource listeners = fold recordPair (orderedPairs listeners) []"

fun checkConflict :: "'sel GwListener list \<Rightarrow> 'sel GwListener \<Rightarrow> string" where
  "checkConflict [] l = []"
| "checkConflict (a # accepted) l =
     (let (reason, ok) = listenerPairConflict a l in if ok then reason else checkConflict accepted l)"

definition accept :: "'sel GwListener list \<Rightarrow> 'sel GwListener \<Rightarrow> 'sel GwListener list" where
  "accept accepted l = accepted @ [l]"

text \<open>One source: the listeners that no accepted listener excludes, then the conflicts among them.\<close>

fun eligibleLoop :: "'sel GwListener list \<Rightarrow> 'sel GwListener list \<Rightarrow> conflictMap \<Rightarrow> conflictMap \<times> 'sel GwListener list" where
  "eligibleLoop accepted [] conflicts = (conflicts, [])"
| "eligibleLoop accepted (l # ls) conflicts =
     (let reason = checkConflict accepted l
      in if reason \<noteq> [] then
           eligibleLoop accepted ls (AList.update (lis_Name l) \<lparr>lc_reason = reason, lc_message = []\<rparr> conflicts)
         else let (cs, eligible) = eligibleLoop accepted ls conflicts in (cs, l # eligible))"

definition conflictsOfSource :: "'sel GwListener list \<Rightarrow> 'sel GwListener list \<Rightarrow> conflictMap \<times> 'sel GwListener list" where
  "conflictsOfSource accepted listeners =
     (let (cs, eligible) = eligibleLoop accepted listeners [];
          conflicts = fold (\<lambda>(name, conflict) m. AList.update name conflict m) (conflictsWithinSource eligible) cs
      in (conflicts,
          fold (\<lambda>l acc. if map_of conflicts (lis_Name l) = None then accept acc l else acc) eligible accepted))"

fun sourcesLoop ::
  "(FullyQualifiedResource \<times> 'sel GwListener list) list \<Rightarrow> 'sel GwListener list \<Rightarrow> listenerConflictsBySource" where
  "sourcesLoop [] accepted = []"
| "sourcesLoop ((source, listeners) # sources) accepted =
     (let (conflicts, accepted') = conflictsOfSource accepted listeners;
          others = sourcesLoop sources accepted'
      in if conflicts = [] then others else (source, conflicts) # others)"

text \<open>The listeners by source, the sources in the order of their first listener.\<close>

definition addToSource ::
  "'sel ListenerWithContext \<Rightarrow> (FullyQualifiedResource \<times> 'sel GwListener list) list \<Rightarrow>
   (FullyQualifiedResource \<times> 'sel GwListener list) list" where
  "addToSource l sources =
     AList.update (lwc_Source l)
       ((case map_of sources (lwc_Source l) of None \<Rightarrow> [] | Some ls \<Rightarrow> ls) @ [lwc_Listener l]) sources"

definition conflictsAcrossSources :: "'sel ListenerWithContext list \<Rightarrow> listenerConflictsBySource" where
  "conflictsAcrossSources listeners = sourcesLoop (fold addToSource listeners []) []"

section \<open>Validation of a listener\<close>

record listenerValidationParams =
  lvp_ownerNamespace :: string
  lvp_ownerKind :: string
  lvp_generation :: int
  lvp_grants :: "ReferenceGrant list"

record listenerValidationResult =
  lvr_isValid :: bool
  lvr_supportedKinds :: "RouteGroupKind list"
  lvr_invalidReason :: string
  lvr_invalidMessages :: "string list"
  lvr_conds :: "Condition list"

definition listenerInvalidRouteKinds :: "int \<Rightarrow> int \<Rightarrow> string \<Rightarrow> Condition" where
  "listenerInvalidRouteKinds now generation msg =
     mkCondition ''ResolvedRefs'' ConditionFalse ''InvalidRouteKinds'' msg generation now"

definition GatewayV1GVK :: "string \<Rightarrow> GroupVersionKind" where
  "GatewayV1GVK kind = \<lparr>gvk_Group = gatewayGroupName, gvk_Version = ''v1'', gvk_Kind = kind\<rparr>"

definition kindListedBy :: "RouteGroupKind list \<Rightarrow> RouteGroupKind \<Rightarrow> bool" where
  "kindListedBy kinds supported \<longleftrightarrow>
     (\<exists>k \<in> set kinds. rgk_Kind supported = rgk_Kind k \<and>
        Some (groupDerefOr (rgk_Group k) gatewayGroupName) = rgk_Group supported)"

abbreviation (input) allowedKinds :: "'sel GwListener \<Rightarrow> RouteGroupKind list" where
  "allowedKinds l \<equiv> (case lis_AllowedRoutes l of None \<Rightarrow> [] | Some ar \<Rightarrow> ar_Kinds ar)"

abbreviation (input) invalidate :: "string \<Rightarrow> listenerValidationResult \<Rightarrow> listenerValidationResult" where
  "invalidate m res \<equiv> res\<lparr>lvr_isValid := False, lvr_invalidMessages := lvr_invalidMessages res @ [m]\<rparr>"

definition validateKinds :: "int \<Rightarrow> int \<Rightarrow> 'sel GwListener \<Rightarrow> listenerValidationResult" where
  "validateKinds now generation l =
     (let res = \<lparr>lvr_isValid = True, lvr_supportedKinds = [], lvr_invalidReason = ''Invalid'',
                 lvr_invalidMessages = [], lvr_conds = []\<rparr>;
          allSupported = getSupportedRouteKinds (lis_Protocol l);
          res = (if allSupported = None
                 then (invalidate ''Unsupported Listener Protocol.'' res)\<lparr>lvr_invalidReason := ''UnsupportedProtocol''\<rparr>
                 else res);
          supported = (case allSupported of None \<Rightarrow> [] | Some ks \<Rightarrow> ks);
          kinds = allowedKinds l
      in if kinds = [] then res\<lparr>lvr_supportedKinds := supported\<rparr>
         else let res = res\<lparr>lvr_supportedKinds := filter (kindListedBy kinds) supported\<rparr>
              in if length (lvr_supportedKinds res) \<noteq> length kinds
                 then let res = res\<lparr>lvr_conds := gateway_merge (lvr_conds res)
                            [listenerInvalidRouteKinds now generation ''Unsupported Route Kinds in allowedRoutes.kinds'']\<rparr>
                      in if lvr_supportedKinds res = []
                         then invalidate ''None of the Allowed Route Kinds are supported.'' res else res
                 else res)"

definition validateListener ::
  "(string \<Rightarrow> string option) \<Rightarrow> ('w, 'sel) Reader \<Rightarrow> 'w \<Rightarrow> int \<Rightarrow> 'sel GwListener \<Rightarrow> listenerValidationParams \<Rightarrow>
   listenerValidationResult option" where
  "validateListener pemDecode R w now l params =
     (let res = validateKinds now (lvp_generation params) l
      in case lis_TLS l of
           None \<Rightarrow> Some res
         | Some tls \<Rightarrow> do {
             problem \<leftarrow> certProblem pemDecode R w (lvp_ownerNamespace params)
                         (GatewayV1GVK (lvp_ownerKind params)) (lvp_grants params) l;
             let res = (case problem of
                          None \<Rightarrow> res
                        | Some p \<Rightarrow> invalidate (certMessage p)
                            (res\<lparr>lvr_conds := gateway_merge (lvr_conds res) [certCondition (lvp_generation params) now p]\<rparr>));
             Some (if lis_Protocol l = TLSProtocolType \<and> ltc_Mode tls = Some TLSModeTerminate
                   then (invalidate ''Using TLSRoute with TLS.mode Terminate is unsupported.'' res)
                          \<lparr>lvr_invalidReason := ''UnsupportedValue'', lvr_supportedKinds := []\<rparr>
                   else res) })"

section \<open>The status of a Gateway's listeners\<close>

record RouteLists =
  rl_HTTP :: "HTTPRouteObject list"
  rl_TLS :: "L4RouteObject list"
  rl_GRPC :: "GRPCRouteObject list"
  rl_TCP :: "L4RouteObject list"
  rl_UDP :: "L4RouteObject list"

abbreviation (input) gatewayStatusObject :: "'sel GatewayObject \<Rightarrow> StatusObject" where
  "gatewayStatusObject gw \<equiv> \<lparr>st_Generation = go_Generation gw, st_Conditions = gs_Conditions (go_Status gw)\<rparr>"

text \<open>The kinds a listener reports and whether it lists one that its protocol does not take.\<close>

definition listenerKinds :: "'sel GwListener \<Rightarrow> RouteGroupKind list \<times> bool" where
  "listenerKinds l =
     (let (protoGroup, protoKind) = getSupportedGroupKind (lis_Protocol l);
          fits = (\<lambda>k. groupDerefOr (rgk_Group k) gatewayGroupName = protoGroup \<and> rgk_Kind k = protoKind);
          kinds = allowedKinds l
      in if kinds \<noteq> [] then (filter fits kinds, \<exists>k \<in> set kinds. \<not> fits k)
         else ([\<lparr>rgk_Group = Some protoGroup, rgk_Kind = protoKind\<rparr>], False))"

definition listenerConditions ::
  "int \<Rightarrow> 'sel GatewayObject \<Rightarrow> bool \<Rightarrow> CertProblem option \<Rightarrow> Condition list" where
  "listenerConditions now gw invalidRouteKinds problem =
     (let conds =
            (if invalidRouteKinds then [gatewayListenerInvalidRouteKinds now (gatewayStatusObject gw) ''Invalid Route Kinds'']
             else [gatewayListenerProgrammedCondition now (gatewayStatusObject gw) True ''Listener Programmed'',
                   gatewayListenerAcceptedCondition now (gatewayStatusObject gw) True ''Listener Accepted'',
                   mkCondition ''ResolvedRefs'' ConditionTrue ''ResolvedRefs'' ''Resolved Refs'' 0 now]);
          conds = (case problem of None \<Rightarrow> conds | Some p \<Rightarrow> gateway_merge conds [certCondition 0 now p])
      in if invalidRouteKinds \<or> problem \<noteq> None
         then gateway_merge conds [mkCondition ''Programmed'' ConditionFalse ''Invalid'' ''Invalid CertificateRef'' 0 now]
         else conds)"

definition attachedRoutes ::
  "('w, 'sel) Reader \<Rightarrow> 'w \<Rightarrow> 'sel Gateway \<Rightarrow> RouteLists \<Rightarrow> NamespaceLabelIndex \<Rightarrow> 'sel GwListener \<Rightarrow> int option" where
  "attachedRoutes R w gw routes namespaceLabels l = do {
     http \<leftarrow> filterHTTPRoutesByListener R w gw l (rl_HTTP routes);
     tls \<leftarrow> filterTLSRoutesByListener R w gw l (rl_TLS routes);
     let grpc = filterGRPCRoutesByListener R gw l (rl_GRPC routes) namespaceLabels;
     let tcp = filterTCPRoutesByListener R gw l (rl_TCP routes) namespaceLabels [];
     let udp = filterUDPRoutesByListener R gw l (rl_UDP routes) namespaceLabels [];
     Some (int (length http) + int (length tls) + int (length grpc) + int (length tcp) + int (length udp)) }"

definition statusOfListener ::
  "(string \<Rightarrow> string option) \<Rightarrow> ('w, 'sel) Reader \<Rightarrow> 'w \<Rightarrow> int \<Rightarrow> ReferenceGrant list \<Rightarrow> 'sel GatewayObject \<Rightarrow>
   RouteLists \<Rightarrow> NamespaceLabelIndex \<Rightarrow> 'sel GwListener \<Rightarrow> ListenerStatus option" where
  "statusOfListener pemDecode R w now grants gw routes namespaceLabels l = do {
     let (supportedKinds, invalidRouteKinds) = listenerKinds l;
     problem \<leftarrow> certProblem pemDecode R w (gw_Namespace (go_Spec gw)) (GatewayV1GVK ''Gateway'') grants l;
     attached \<leftarrow> attachedRoutes R w (go_Spec gw) routes namespaceLabels l;
     Some \<lparr>lst_Name = lis_Name l, lst_SupportedKinds = supportedKinds,
           lst_Conditions = listenerConditions now gw invalidRouteKinds problem, lst_AttachedRoutes = attached\<rparr> }"

fun putListenerStatus :: "ListenerStatus \<Rightarrow> ListenerStatus list \<Rightarrow> ListenerStatus list" where
  "putListenerStatus st [] = [st]"
| "putListenerStatus st (s # ss) = (if lst_Name st = lst_Name s then st # ss else s # putListenerStatus st ss)"

fun listenerStatusLoop ::
  "('sel GwListener \<Rightarrow> ListenerStatus option) \<Rightarrow> 'sel GwListener list \<Rightarrow> ListenerStatus list \<Rightarrow> ListenerStatus list option" where
  "listenerStatusLoop f [] sts = Some sts"
| "listenerStatusLoop f (l # ls) sts = do { st \<leftarrow> f l; listenerStatusLoop f ls (putListenerStatus st sts) }"

definition setListenerStatus ::
  "(string \<Rightarrow> string option) \<Rightarrow> ('w, 'sel) Reader \<Rightarrow> 'w \<Rightarrow> int \<Rightarrow> 'sel GatewayObject \<Rightarrow> RouteLists \<Rightarrow>
   NamespaceLabelIndex \<Rightarrow> (string + 'sel GatewayObject) option" where
  "setListenerStatus pemDecode R w now gw routes namespaceLabels =
     (case rd_ReferenceGrants R w of
        Inl err \<Rightarrow> Some (Inl (''failed to retrieve reference grants: '' @ err))
      | Inr grants \<Rightarrow> do {
          sts \<leftarrow> listenerStatusLoop (statusOfListener pemDecode R w now grants gw routes namespaceLabels)
                  (gw_Listeners (go_Spec gw)) (gs_Listeners (go_Status gw));
          let active = filter (\<lambda>st. \<exists>l \<in> set (gw_Listeners (go_Spec gw)). lst_Name st = lis_Name l) sts;
          Some (Inr (gw\<lparr>go_Status := (go_Status gw)\<lparr>gs_Listeners := active\<rparr>\<rparr>)) })"

section \<open>The statuses of ListenerSets\<close>

text \<open>The status of one entry and whether it makes the set valid.\<close>

definition statusOfEntry ::
  "(string \<Rightarrow> string option) \<Rightarrow> ('w, 'sel) Reader \<Rightarrow> 'w \<Rightarrow> int \<Rightarrow> ReferenceGrant list \<Rightarrow> 'sel Gateway \<Rightarrow>
   listenerConflictsBySource \<Rightarrow> RouteLists \<Rightarrow> NamespaceLabelIndex \<Rightarrow> 'sel ListenerSet \<Rightarrow> 'sel GwListener \<Rightarrow>
   (ListenerStatus \<times> bool) option" where
  "statusOfEntry pemDecode R w now grants gw conflicted routes namespaceLabels ls l = do {
     let g = st_Generation (ls_Status ls);
     let isConflicted = (case map_of conflicted (listenerSetFQR ls) of
                           None \<Rightarrow> False | Some m \<Rightarrow> map_of m (lis_Name l) \<noteq> None);
     (kinds, conds, valid) \<leftarrow>
       (if isConflicted then Some ([], [], False)
        else do {
          res \<leftarrow> validateListener pemDecode R w now l
                  \<lparr>lvp_ownerNamespace = ls_Namespace ls, lvp_ownerKind = ls_Kind ls, lvp_generation = g,
                   lvp_grants = grants\<rparr>;
          let conds = gateway_merge [] (lvr_conds res);
          Some (lvr_supportedKinds res,
            (if \<not> lvr_isValid res then
               gateway_merge conds
                 [listenerAcceptedCondition now g False (lvr_invalidReason res)
                    (''Listener not valid. '' @ join_with (CHR 0x20) (lvr_invalidMessages res)),
                  listenerProgrammedCondition now g False (lvr_invalidReason res) ''Listener not valid'']
             else
               gateway_merge
                 (if \<not> IsConditionPresent conds ''ResolvedRefs''
                  then gateway_merge conds [mkCondition ''ResolvedRefs'' ConditionTrue ''ResolvedRefs'' ''Resolved Refs'' g now]
                  else conds)
                 [listenerAcceptedCondition now g True ''Accepted'' ''Listener Accepted'',
                  listenerProgrammedCondition now g True ''Programmed'' ''Listener Programmed'']),
            lvr_isValid res) });
     http \<leftarrow> filterHTTPRoutesByListener R w gw l (rl_HTTP routes);
     let tcp = filterTCPRoutesByListener R gw l (rl_TCP routes) namespaceLabels [ls];
     let udp = filterUDPRoutesByListener R gw l (rl_UDP routes) namespaceLabels [ls];
     Some (\<lparr>lst_Name = lis_Name l, lst_SupportedKinds = kinds, lst_Conditions = conds,
            lst_AttachedRoutes = int (length http) + int (length tcp) + int (length udp)\<rparr>, valid) }"

definition statusOfListenerSet :: "int \<Rightarrow> 'sel ListenerSet \<Rightarrow> (ListenerStatus \<times> bool) list \<Rightarrow> 'sel ListenerSet" where
  "statusOfListenerSet now ls entries =
     (let ls = ls\<lparr>ls_ListenerStatuses := map fst entries\<rparr>;
          setBoth = (\<lambda>ok ma ra mp rp. ls\<lparr>ls_Status :=
             setListenerSetProgrammed now (setListenerSetAccepted now (ls_Status ls) ok ma ra) ok mp rp\<rparr>)
      in if \<exists>e \<in> set entries. snd e
         then setBoth True ''ListenerSet is accepted'' ''Accepted'' ''ListenerSet is programmed'' ''Programmed''
         else setBoth False ''No valid listeners'' ''ListenersNotValid'' ''No valid listeners'' ''ListenersNotValid'')"

text \<open>A failed write is logged only. The result has the number of valid sets and the sets as changed.\<close>

fun listenerSetLoop ::
  "(string \<Rightarrow> string option) \<Rightarrow> ('w, 'sel) Reader \<Rightarrow> ('w, 'sel) StatusWriter \<Rightarrow> int \<Rightarrow> ReferenceGrant list \<Rightarrow> 'sel Gateway \<Rightarrow>
   listenerConflictsBySource \<Rightarrow> RouteLists \<Rightarrow> NamespaceLabelIndex \<Rightarrow> 'sel ListenerSet list \<Rightarrow> 'w \<Rightarrow>
   (int \<times> 'sel ListenerSet list \<times> 'w) option" where
  "listenerSetLoop pemDecode R S now grants gw conflicted routes namespaceLabels [] w = Some (0, [], w)"
| "listenerSetLoop pemDecode R S now grants gw conflicted routes namespaceLabels (ls # sets) w = do {
     entries \<leftarrow> mapM (statusOfEntry pemDecode R w now grants gw conflicted routes namespaceLabels ls) (ls_Listeners ls);
     let ls' = statusOfListenerSet now ls entries;
     (n, sets', w') \<leftarrow> listenerSetLoop pemDecode R S now grants gw conflicted routes namespaceLabels sets
                       (snd (updateListenerSetStatus S ls ls' w));
     Some ((if \<exists>e \<in> set entries. snd e then 1 else 0) + n, ls' # sets', w') }"

definition setListenerSetStatuses ::
  "(string \<Rightarrow> string option) \<Rightarrow> ('w, 'sel) Reader \<Rightarrow> ('w, 'sel) StatusWriter \<Rightarrow> int \<Rightarrow> 'sel GatewayObject \<Rightarrow>
   'sel ListenerSet list \<Rightarrow> listenerConflictsBySource \<Rightarrow> RouteLists \<Rightarrow> NamespaceLabelIndex \<Rightarrow> 'w \<Rightarrow>
   ('sel GatewayObject \<times> 'sel ListenerSet list \<times> 'w) option" where
  "setListenerSetStatuses pemDecode R S now gw attached conflicted routes namespaceLabels w =
     (let setCount = (\<lambda>n. gw\<lparr>go_Status := (go_Status gw)\<lparr>gs_AttachedListenerSets := n\<rparr>\<rparr>)
      in case rd_ReferenceGrants R w of
           Inl err \<Rightarrow> Some (setCount None, attached, w)
         | Inr grants \<Rightarrow> do {
             (n, attached', w') \<leftarrow>
               listenerSetLoop pemDecode R S now grants (go_Spec gw) conflicted routes namespaceLabels attached w;
             Some (setCount (if n > 0 then Some n else None), attached', w') })"

section \<open>Correctness\<close>

subsection \<open>Certificates\<close>

text \<open>An input made of PEM blocks up to its end.\<close>

inductive pemBlocks :: "(string \<Rightarrow> string option) \<Rightarrow> string \<Rightarrow> bool" for pemDecode where
  last: "b \<noteq> [] \<Longrightarrow> pemDecode b = Some [] \<Longrightarrow> pemBlocks pemDecode b"
| step: "b \<noteq> [] \<Longrightarrow> pemDecode b = Some rest \<Longrightarrow> pemBlocks pemDecode rest \<Longrightarrow> pemBlocks pemDecode b"

inductive_simps pemBlocks_unfold: "pemBlocks pemDecode b"

lemma pemBlocks_not_Nil [simp]: "\<not> pemBlocks pemDecode []"
  by (subst pemBlocks_unfold) simp

text \<open>A block takes up some of the input: what \<open>pem.Decode\<close> documents of the rest.\<close>

definition consuming :: "(string \<Rightarrow> string option) \<Rightarrow> bool" where
  "consuming pemDecode \<longleftrightarrow> (\<forall>b rest. pemDecode b = Some rest \<longrightarrow> length rest < length b)"

lemma isValidPemFormat_eq:
  assumes "consuming pemDecode"
  shows "isValidPemFormat pemDecode b = Some (pemBlocks pemDecode b)"
proof (induction "length b" arbitrary: b rule: less_induct)
  case less
  show ?case
  proof (cases "pemDecode b")
    case (Some rest)
    then have "length rest < length b" using assms by (auto simp: consuming_def)
    then have "isValidPemFormat pemDecode rest = Some (pemBlocks pemDecode rest)" by (rule less)
    then show ?thesis
      using Some by (subst isValidPemFormat.simps, subst pemBlocks_unfold) auto
  qed (subst isValidPemFormat.simps, subst pemBlocks_unfold, simp)
qed

text \<open>
  Claim C21. The recursion of the certificate check ends: for every input \<open>isValidPemFormat\<close>
  returns, and its answer is whether the input is a sequence of PEM blocks up to its end.
\<close>

theorem isValidPemFormat_terminates:
  assumes "\<And>b rest. pemDecode b = Some rest \<Longrightarrow> length rest < length b"
  shows "\<exists>v. isValidPemFormat pemDecode b = Some v \<and> (v \<longleftrightarrow> pemBlocks pemDecode b)"
  using isValidPemFormat_eq [of pemDecode b] assms by (simp add: consuming_def)

definition exampleDecode :: "string \<Rightarrow> string option" where
  "exampleDecode b = (if HasPrefix b ''#'' then Some (tl b) else None)"

lemma exampleDecode_consumes: "exampleDecode b = Some rest \<Longrightarrow> length rest < length b"
  by (cases b) (auto simp: exampleDecode_def HasPrefix_def split: if_splits)

theorem isValidPemFormat_terminates_witness:
  "(\<exists>v. isValidPemFormat exampleDecode ''##'' = Some v \<and> (v \<longleftrightarrow> pemBlocks exampleDecode ''##'')) \<and>
   pemBlocks exampleDecode ''##'' \<and> \<not> pemBlocks exampleDecode ''#x''"
proof (intro conjI isValidPemFormat_terminates exampleDecode_consumes)
  show "pemBlocks exampleDecode ''##''"
    by (rule pemBlocks.step, simp, simp add: exampleDecode_def HasPrefix_def, rule pemBlocks.last)
       (simp_all add: exampleDecode_def HasPrefix_def)
  have "\<not> pemBlocks exampleDecode ''x''"
    by (subst pemBlocks_unfold) (simp add: exampleDecode_def HasPrefix_def)
  then show "\<not> pemBlocks exampleDecode ''#x''"
    by (subst pemBlocks_unfold) (simp add: exampleDecode_def HasPrefix_def)
qed

lemma validateTLSSecret_returns: "consuming pemDecode \<Longrightarrow> \<exists>e. validateTLSSecret pemDecode R w ns n = Some e"
  by (simp add: validateTLSSecret_def isValidPemFormat_eq Let_def split: getResult.split)

text \<open>The certificates of a listener can be used: they are permitted Secrets with a certificate and a key.\<close>

definition usableCert ::
  "(string \<Rightarrow> string option) \<Rightarrow> ('w, 'sel) Reader \<Rightarrow> 'w \<Rightarrow> string \<Rightarrow> GroupVersionKind \<Rightarrow> ReferenceGrant list \<Rightarrow>
   SecretObjectReference \<Rightarrow> bool" where
  "usableCert pemDecode R w owner gvk grants cert \<longleftrightarrow>
     IsSecret cert \<and> IsSecretReferenceAllowed owner cert gvk grants \<and>
     (\<exists>data crt key. rd_Secret R w (NamespaceDerefOr (sor_Namespace cert) owner, sor_Name cert) = Found data \<and>
        map_of data ''tls.crt'' = Some crt \<and> pemBlocks pemDecode crt \<and>
        map_of data ''tls.key'' = Some key \<and> pemBlocks pemDecode key)"

lemma validateTLSSecret_ok:
  assumes "consuming pemDecode"
  shows "validateTLSSecret pemDecode R w ns n = Some None \<longleftrightarrow>
     (\<exists>data crt key. rd_Secret R w (ns, n) = Found data \<and>
        map_of data ''tls.crt'' = Some crt \<and> pemBlocks pemDecode crt \<and>
        map_of data ''tls.key'' = Some key \<and> pemBlocks pemDecode key)"
  using assms by (auto simp: validateTLSSecret_def isValidPemFormat_eq Let_def split: getResult.split option.split if_splits)

lemma certLoop_ok:
  assumes "consuming pemDecode"
  shows "\<exists>p. certLoop pemDecode R w owner gvk grants certs = Some p \<and>
             (p = None \<longleftrightarrow> (\<forall>c \<in> set certs. usableCert pemDecode R w owner gvk grants c))"
proof (induction certs)
  case (Cons c cs)
  obtain e where e: "validateTLSSecret pemDecode R w (NamespaceDerefOr (sor_Namespace c) owner) (sor_Name c) = Some e"
    using validateTLSSecret_returns [OF assms, of R w] by blast
  have "e = None \<longleftrightarrow> validateTLSSecret pemDecode R w (NamespaceDerefOr (sor_Namespace c) owner) (sor_Name c) = Some None"
    using e by simp
  then have "usableCert pemDecode R w owner gvk grants c \<longleftrightarrow>
      IsSecret c \<and> IsSecretReferenceAllowed owner c gvk grants \<and> e = None"
    unfolding usableCert_def validateTLSSecret_ok [OF assms] by blast
  then show ?case using Cons.IH e by (cases e) auto
qed simp

definition certsUsable ::
  "(string \<Rightarrow> string option) \<Rightarrow> ('w, 'sel) Reader \<Rightarrow> 'w \<Rightarrow> string \<Rightarrow> GroupVersionKind \<Rightarrow> ReferenceGrant list \<Rightarrow>
   'sel GwListener \<Rightarrow> bool" where
  "certsUsable pemDecode R w owner gvk grants l \<longleftrightarrow>
     (\<forall>tls. lis_TLS l = Some tls \<longrightarrow> (\<forall>c \<in> set (ltc_CertificateRefs tls). usableCert pemDecode R w owner gvk grants c))"

lemma certProblem_ok:
  "consuming pemDecode \<Longrightarrow>
   \<exists>p. certProblem pemDecode R w owner gvk grants l = Some p \<and>
       (p = None \<longleftrightarrow> certsUsable pemDecode R w owner gvk grants l)"
  using certLoop_ok [of pemDecode R w owner gvk grants]
  by (auto simp: certProblem_def certsUsable_def split: option.split)

subsection \<open>Conflicts\<close>

lemma listenerPairConflict_False [simp]: "listenerPairConflict a b = ([], False)"
  by (simp add: listenerPairConflict_def)

lemma conflictsWithinSource_Nil: "conflictsWithinSource ls = []"
proof -
  have "fold recordPair ps [] = []" for ps :: "('sel GwListener \<times> 'sel GwListener) list"
    by (induction ps) (simp_all add: recordPair_def split_beta)
  then show ?thesis by (simp add: conflictsWithinSource_def)
qed

lemma checkConflict_Nil: "checkConflict accepted l = []"
  by (induction accepted) simp_all

lemma conflictsOfSource_Nil: "fst (conflictsOfSource accepted ls) = []"
proof -
  have "eligibleLoop accepted ls [] = ([], ls)"
    by (induction ls) (simp_all add: checkConflict_Nil)
  then show ?thesis by (simp add: conflictsOfSource_def conflictsWithinSource_Nil)
qed

lemma sourcesLoop_Nil: "sourcesLoop sources accepted = []"
proof (induction sources accepted rule: sourcesLoop.induct)
  case (2 source listeners sources accepted)
  then show ?case using conflictsOfSource_Nil [of accepted listeners] by (auto simp: Let_def split: prod.split)
qed simp

lemma conflictsAcrossSources_Nil: "conflictsAcrossSources ls = []"
  by (simp add: conflictsAcrossSources_def sourcesLoop_Nil)


subsection \<open>Listener statuses\<close>

abbreviation statusNamed :: "ListenerStatus list \<Rightarrow> string \<Rightarrow> ListenerStatus option" where
  "statusNamed sts n \<equiv> find (\<lambda>st. lst_Name st = n) sts"

abbreviation statusNames :: "ListenerStatus list \<Rightarrow> string list" where
  "statusNames sts \<equiv> map lst_Name sts"

lemma putListenerStatus_names:
  "statusNames (putListenerStatus st sts) =
   (if lst_Name st \<in> set (statusNames sts) then statusNames sts else statusNames sts @ [lst_Name st])"
  by (induction sts) auto

lemma statusNamed_put:
  "statusNamed (putListenerStatus st sts) n = (if lst_Name st = n then Some st else statusNamed sts n)"
  by (induction sts) auto

lemma listenerStatusLoop_names:
  assumes "\<And>l st. f l = Some st \<Longrightarrow> lst_Name st = lis_Name l"
  shows "listenerStatusLoop f ls sts = Some r \<Longrightarrow>
    set (statusNames r) = set (statusNames sts) \<union> set (map lis_Name ls) \<and>
    (distinct (statusNames sts) \<longrightarrow> distinct (statusNames r))"
proof (induction ls arbitrary: sts)
  case (Cons l ls)
  then obtain st where st: "f l = Some st" "listenerStatusLoop f ls (putListenerStatus st sts) = Some r"
    by (auto simp: bind_eq_Some)
  have "lst_Name st = lis_Name l" using st(1) by (rule assms)
  then show ?case using Cons.IH [OF st(2)] unfolding putListenerStatus_names by auto
qed simp

lemma listenerStatusLoop_other:
  assumes "\<And>l st. f l = Some st \<Longrightarrow> lst_Name st = lis_Name l"
  shows "listenerStatusLoop f ls sts = Some r \<Longrightarrow> n \<notin> set (map lis_Name ls) \<Longrightarrow> statusNamed r n = statusNamed sts n"
proof (induction ls arbitrary: sts)
  case (Cons l ls)
  then obtain st where st: "f l = Some st" "listenerStatusLoop f ls (putListenerStatus st sts) = Some r"
    by (auto simp: bind_eq_Some)
  have "lst_Name st = lis_Name l" using st(1) by (rule assms)
  then show ?case using Cons.IH [OF st(2)] Cons.prems(2) by (auto simp: statusNamed_put)
qed simp

lemma listenerStatusLoop_status:
  assumes "\<And>l st. f l = Some st \<Longrightarrow> lst_Name st = lis_Name l"
  shows "listenerStatusLoop f ls sts = Some r \<Longrightarrow> distinct (map lis_Name ls) \<Longrightarrow> l \<in> set ls \<Longrightarrow>
    f l \<noteq> None \<and> statusNamed r (lis_Name l) = f l"
proof (induction ls arbitrary: sts)
  case (Cons k ls)
  then obtain st where st: "f k = Some st" "listenerStatusLoop f ls (putListenerStatus st sts) = Some r"
    by (auto simp: bind_eq_Some)
  have n: "lst_Name st = lis_Name k" using st(1) by (rule assms)
  show ?case
  proof (cases "l = k")
    case True
    then show ?thesis
      using listenerStatusLoop_other [OF assms st(2), of "lis_Name k"] Cons.prems(2) st(1) n
      by (simp add: statusNamed_put)
  next
    case False
    then show ?thesis using Cons.IH [OF st(2)] Cons.prems by simp
  qed
qed simp

lemma statusNamed_active:
  "(\<And>st. lst_Name st = n \<Longrightarrow> P st) \<Longrightarrow> statusNamed (filter P sts) n = statusNamed sts n"
  by (induction sts) auto

text \<open>The kinds a listener lists are the kind of its protocol.\<close>

definition kindsFit :: "'sel GwListener \<Rightarrow> bool" where
  "kindsFit l \<longleftrightarrow>
     (\<forall>k \<in> set (allowedKinds l).
        (groupDerefOr (rgk_Group k) gatewayGroupName, rgk_Kind k) = getSupportedGroupKind (lis_Protocol l))"

lemma listenerKinds_fit: "snd (listenerKinds l) \<longleftrightarrow> \<not> kindsFit l"
  by (auto simp: listenerKinds_def kindsFit_def Let_def split: prod.splits option.splits)

text \<open>The status of a condition.\<close>

definition statusOf :: "Condition list \<Rightarrow> string \<Rightarrow> ConditionStatus option" where
  "statusOf conds t = map_option cond_Status (condOf conds t)"

lemma statusOf_simps [simp]:
  "statusOf [] t = None"
  "statusOf (c # cs) t = (if cond_Type c = t then Some (cond_Status c) else statusOf cs t)"
  by (simp_all add: statusOf_def)

lemma statusOf_merge [simp]:
  "statusOf (gateway_merge es [u]) t = (if cond_Type u = t then Some (cond_Status u) else statusOf es t)"
  by (simp add: statusOf_def gateway_store.store_lookup refresh_def ConditionChanged_def split: option.split)

lemma certCondition_simps [simp]:
  "cond_Type (certCondition g now p) = ''ResolvedRefs''"
  "cond_Status (certCondition g now p) = ConditionFalse"
  by (simp_all add: certCondition_def split: CertProblem.split)

lemma listenerCondition_simps [simp]:
  "cond_Type (gatewayListenerInvalidRouteKinds now gw m) = ''ResolvedRefs''"
  "cond_Status (gatewayListenerInvalidRouteKinds now gw m) = ConditionTrue"
  "cond_Type (gatewayListenerProgrammedCondition now gw b m) = ''Programmed''"
  "cond_Status (gatewayListenerProgrammedCondition now gw b m) = (if b then ConditionTrue else ConditionFalse)"
  "cond_Type (gatewayListenerAcceptedCondition now gw b m) = ''Accepted''"
  by (simp_all add: gatewayListenerInvalidRouteKinds_def gatewayListenerProgrammedCondition_def
      gatewayListenerAcceptedCondition_def)

lemma listenerConditions_distinct: "distinct (types_of (listenerConditions now gw bad p))"
  by (cases bad; cases p) (simp_all add: listenerConditions_def gateway_store.keeps_distinct)

lemma listenerConditions_status:
  "statusOf (listenerConditions now gw bad p) ''Programmed'' =
     Some (if bad \<or> p \<noteq> None then ConditionFalse else ConditionTrue)"
  "statusOf (listenerConditions now gw bad p) ''ResolvedRefs'' =
     Some (if p \<noteq> None then ConditionFalse else ConditionTrue)"
  by (cases bad; cases p; simp add: listenerConditions_def)+

lemma statusOfListener_name: "statusOfListener d R w now grants gw routes nl l = Some st \<Longrightarrow> lst_Name st = lis_Name l"
  by (auto simp: statusOfListener_def Let_def bind_eq_Some split: prod.splits)

lemma setListenerStatus_cases:
  assumes "setListenerStatus d R w now gw routes nl = Some (Inr gw')"
  obtains grants sts where "rd_ReferenceGrants R w = Inr grants"
    "listenerStatusLoop (statusOfListener d R w now grants gw routes nl)
       (gw_Listeners (go_Spec gw)) (gs_Listeners (go_Status gw)) = Some sts"
    "gw' = gw\<lparr>go_Status := (go_Status gw)\<lparr>gs_Listeners :=
       filter (\<lambda>st. \<exists>l \<in> set (gw_Listeners (go_Spec gw)). lst_Name st = lis_Name l) sts\<rparr>\<rparr>"
  using assms by (auto simp: setListenerStatus_def bind_eq_Some split: sum.splits)

lemma statusOfListener_correct:
  assumes "consuming d" "statusOfListener d R w now grants gw routes nl l = Some st"
  shows "distinct (types_of (lst_Conditions st))"
    and "statusOf (lst_Conditions st) ''Programmed'' =
           Some (if kindsFit l \<and> certsUsable d R w (gw_Namespace (go_Spec gw)) (GatewayV1GVK ''Gateway'') grants l
                 then ConditionTrue else ConditionFalse)"
    and "statusOf (lst_Conditions st) ''ResolvedRefs'' =
           Some (if certsUsable d R w (gw_Namespace (go_Spec gw)) (GatewayV1GVK ''Gateway'') grants l
                 then ConditionTrue else ConditionFalse)"
    and "attachedRoutes R w (go_Spec gw) routes nl l = Some (lst_AttachedRoutes st)"
    and "lst_SupportedKinds st = fst (listenerKinds l)"
proof -
  obtain p where p: "certProblem d R w (gw_Namespace (go_Spec gw)) (GatewayV1GVK ''Gateway'') grants l = Some p"
    "p = None \<longleftrightarrow> certsUsable d R w (gw_Namespace (go_Spec gw)) (GatewayV1GVK ''Gateway'') grants l"
    using certProblem_ok [OF assms(1), of R w _ _ grants l] by blast
  obtain n where n: "attachedRoutes R w (go_Spec gw) routes nl l = Some n"
    and st: "st = \<lparr>lst_Name = lis_Name l, lst_SupportedKinds = fst (listenerKinds l),
      lst_Conditions = listenerConditions now gw (\<not> kindsFit l) p, lst_AttachedRoutes = n\<rparr>"
    using assms(2) unfolding statusOfListener_def Let_def split_beta p(1) listenerKinds_fit
    by (auto simp: bind_eq_Some)
  show "distinct (types_of (lst_Conditions st))" by (simp add: st listenerConditions_distinct)
  show "statusOf (lst_Conditions st) ''Programmed'' =
           Some (if kindsFit l \<and> certsUsable d R w (gw_Namespace (go_Spec gw)) (GatewayV1GVK ''Gateway'') grants l
                 then ConditionTrue else ConditionFalse)"
    "statusOf (lst_Conditions st) ''ResolvedRefs'' =
           Some (if certsUsable d R w (gw_Namespace (go_Spec gw)) (GatewayV1GVK ''Gateway'') grants l
                 then ConditionTrue else ConditionFalse)"
    unfolding p(2) [symmetric] by (simp_all add: st listenerConditions_status)
  show "attachedRoutes R w (go_Spec gw) routes nl l = Some (lst_AttachedRoutes st)"
    "lst_SupportedKinds st = fst (listenerKinds l)" by (simp_all add: st n)
qed

text \<open>
  Claim C17. The status of a Gateway has the shape the API requires: after \<open>setListenerStatus\<close>
  there is exactly one entry for every listener of the specification and none for any other name,
  and no entry has two conditions of one type.
\<close>

theorem setListenerStatus_shape:
  assumes run: "setListenerStatus d R w now gw routes nl = Some (Inr gw')"
    and d: "\<And>b rest. d b = Some rest \<Longrightarrow> length rest < length b"
    and old: "distinct (map lst_Name (gs_Listeners (go_Status gw)))"
    and spec: "distinct (map lis_Name (gw_Listeners (go_Spec gw)))"
  shows "distinct (map lst_Name (gs_Listeners (go_Status gw'))) \<and>
    set (map lst_Name (gs_Listeners (go_Status gw'))) = set (map lis_Name (gw_Listeners (go_Spec gw))) \<and>
    (\<forall>st \<in> set (gs_Listeners (go_Status gw')). distinct (map cond_Type (lst_Conditions st)))"
proof -
  let ?act = "\<lambda>st. \<exists>l \<in> set (gw_Listeners (go_Spec gw)). lst_Name st = lis_Name l"
  obtain grants sts where loop: "listenerStatusLoop (statusOfListener d R w now grants gw routes nl)
       (gw_Listeners (go_Spec gw)) (gs_Listeners (go_Status gw)) = Some sts"
    and new: "gs_Listeners (go_Status gw') = filter ?act sts"
    by (rule setListenerStatus_cases [OF run]) auto
  have nm: "statusOfListener d R w now grants gw routes nl k = Some s \<Longrightarrow> lst_Name s = lis_Name k" for k s
    by (rule statusOfListener_name)
  note names = listenerStatusLoop_names [OF nm loop]
  have dist: "distinct (statusNames sts)" using names old by simp
  have "distinct (types_of (lst_Conditions st))" if "st \<in> set sts" "l \<in> set (gw_Listeners (go_Spec gw))"
    "lst_Name st = lis_Name l" for st l
  proof -
    have "statusNamed sts (lis_Name l) = Some st"
      using that dist by (induction sts) (auto simp: image_iff)
    then have "statusOfListener d R w now grants gw routes nl l = Some st"
      using listenerStatusLoop_status [OF nm loop spec that(2)] by simp
    then show ?thesis by (rule statusOfListener_correct(1) [rotated]) (use d in \<open>auto simp: consuming_def\<close>)
  qed
  moreover have "set (statusNames (filter ?act sts)) = set (map lis_Name (gw_Listeners (go_Spec gw)))"
  proof -
    have "set (statusNames (filter ?act sts)) = {n \<in> set (statusNames sts). n \<in> set (map lis_Name (gw_Listeners (go_Spec gw)))}"
      by auto
    then show ?thesis using names by auto
  qed
  moreover have "distinct (statusNames (filter ?act sts))" using dist by (simp add: distinct_map_filter)
  ultimately show ?thesis unfolding new by auto
qed


section \<open>Examples\<close>

declare isValidPemFormat.simps [code]

definition secretReader :: "(Cluster, string list) Reader" where
  "secretReader = memReader\<lparr>rd_Secret := (\<lambda>w k.
     if k = (''ns'', ''cert'') then Found [(''tls.crt'', ''##''), (''tls.key'', ''#'')] else NotFound)\<rparr>"

definition certListener :: "string list GwListener" where
  "certListener = exampleListener\<lparr>lis_Name := ''https'', lis_Protocol := HTTPSProtocolType,
     lis_TLS := Some \<lparr>ltc_Mode = None, ltc_CertificateRefs =
       [\<lparr>sor_Group = None, sor_Kind = None, sor_Name = ''cert'', sor_Namespace = None\<rparr>]\<rparr>\<rparr>"

definition certGateway :: "string list GatewayObject" where
  "certGateway = exampleGateway\<lparr>go_Spec := (go_Spec exampleGateway)\<lparr>gw_Listeners := [exampleListener, certListener]\<rparr>\<rparr>"

definition exampleRoutes :: RouteLists where
  "exampleRoutes = \<lparr>rl_HTTP = [], rl_TLS = [exampleRoute ''ns''], rl_GRPC = [], rl_TCP = [exampleRoute ''ns''], rl_UDP = []\<rparr>"

lemma example_listener_run:
  "\<exists>gw'. setListenerStatus exampleDecode secretReader exampleCluster 5 certGateway exampleRoutes [] = Some (Inr gw')"
proof -
  have "map_option (map_sum id (\<lambda>gw. map lst_Name (gs_Listeners (go_Status gw))))
     (setListenerStatus exampleDecode secretReader exampleCluster 5 certGateway exampleRoutes []) = Some (Inr [''tls'', ''https''])"
    by code_simp
  then show ?thesis by (auto simp: map_sum_def split: sum.splits) (metis sum.exhaust)
qed

theorem setListenerStatus_shape_witness:
  "\<exists>gw'. setListenerStatus exampleDecode secretReader exampleCluster 5 certGateway exampleRoutes [] = Some (Inr gw') \<and>
     set (map lst_Name (gs_Listeners (go_Status gw'))) = {''tls'', ''https''}"
proof -
  obtain gw' where run: "setListenerStatus exampleDecode secretReader exampleCluster 5 certGateway exampleRoutes [] = Some (Inr gw')"
    using example_listener_run by blast
  have "set (map lst_Name (gs_Listeners (go_Status gw'))) = {''tls'', ''https''}"
    using setListenerStatus_shape [OF run exampleDecode_consumes]
    by (simp add: certGateway_def exampleGateway_def exampleListener_def certListener_def insert_commute)
  then show ?thesis using run by blast
qed


section \<open>What the statuses of ListenerSets leave alone\<close>

context state_frame
begin

lemma listenerSetLoop_frame:
  assumes "\<And>w ls. Q w (snd (sw_ListenerSet S w ls))"
  shows "listenerSetLoop d R S now grants gw conflicted routes nl sets w = Some (n, sets', w') \<Longrightarrow> Q w w'"
proof (induction sets arbitrary: w n sets')
  case (Cons ls sets)
  obtain es n' sets'' where
    "listenerSetLoop d R S now grants gw conflicted routes nl sets
       (snd (updateListenerSetStatus S ls (statusOfListenerSet now ls es) w)) = Some (n', sets'', w')"
    using Cons.prems by (auto simp: bind_eq_Some Let_def)
  moreover have "Q w (snd (updateListenerSetStatus S ls ls' w))" for ls'
    using assms by (simp add: updateListenerSetStatus_def)
  ultimately show ?case using Cons.IH frame_trans by blast
qed simp

lemma setListenerSetStatuses_frame:
  assumes "\<And>w ls. Q w (snd (sw_ListenerSet S w ls))"
    and "setListenerSetStatuses d R S now gw sets conflicted routes nl w = Some (gw', sets', w')"
  shows "Q w w'"
  using assms(2) listenerSetLoop_frame [where S = S, OF assms(1)]
  by (auto simp: setListenerSetStatuses_def Let_def bind_eq_Some split: sum.splits)

end

section \<open>The operations return\<close>

lemma attachedRoutes_total:
  assumes "listenersDefaulted (gw_Listeners gw)"
  shows "\<exists>n. attachedRoutes R w gw routes nl l = Some n"
    and "\<exists>rs. filterHTTPRoutesByListener R w gw l http = Some rs"
proof -
  have http: "\<exists>rs. filterHTTPRoutesByListener R w gw l http = Some rs" for http
    unfolding filterHTTPRoutesByListener_def by (rule filterM_total) (rule allowed_total [OF assms])
  moreover have "\<exists>rs. filterTLSRoutesByListener R w gw l tls = Some rs" for tls
    unfolding filterTLSRoutesByListener_def by (rule filterM_total) (rule allowed_total [OF assms])
  ultimately obtain h t where "filterHTTPRoutesByListener R w gw l (rl_HTTP routes) = Some h"
    "filterTLSRoutesByListener R w gw l (rl_TLS routes) = Some t" by meson
  then show "\<exists>n. attachedRoutes R w gw routes nl l = Some n" by (simp add: attachedRoutes_def)
  show "\<exists>rs. filterHTTPRoutesByListener R w gw l http = Some rs" by (rule http)
qed

lemma listenerStatusLoop_total: "(\<And>l. \<exists>st. f l = Some st) \<Longrightarrow> \<exists>r. listenerStatusLoop f ls sts = Some r"
proof (induction ls arbitrary: sts)
  case (Cons l ls)
  obtain st where "f l = Some st" using Cons.prems by blast
  then show ?case using Cons.IH [OF Cons.prems] by simp
qed simp

lemma setListenerStatus_total:
  assumes "consuming d" "listenersDefaulted (gw_Listeners (go_Spec gw))"
  shows "\<exists>r. setListenerStatus d R w now gw routes nl = Some r"
proof (cases "rd_ReferenceGrants R w")
  case (Inr grants)
  have "\<exists>st. statusOfListener d R w now grants gw routes nl l = Some st" for l
    using certProblem_ok [OF assms(1), of R w "gw_Namespace (go_Spec gw)" "GatewayV1GVK ''Gateway''" grants l]
      attachedRoutes_total(1) [OF assms(2), of R w routes nl l]
    by (auto simp: statusOfListener_def split_beta)
  then have "\<exists>r. listenerStatusLoop (statusOfListener d R w now grants gw routes nl)
      (gw_Listeners (go_Spec gw)) (gs_Listeners (go_Status gw)) = Some r"
    by (rule listenerStatusLoop_total)
  then show ?thesis using Inr by (auto simp: setListenerStatus_def)
qed (simp add: setListenerStatus_def)

lemma validateListener_total:
  assumes "consuming d"
  shows "\<exists>res. validateListener d R w now l params = Some res"
proof (cases "lis_TLS l")
  case (Some tls)
  then show ?thesis
    using certProblem_ok [OF assms, of R w "lvp_ownerNamespace params" "GatewayV1GVK (lvp_ownerKind params)" "lvp_grants params" l]
    by (auto simp: validateListener_def Let_def)
qed (simp add: validateListener_def)

lemma statusOfEntry_total:
  assumes "consuming d" "listenersDefaulted (gw_Listeners gw)"
  shows "\<exists>r. statusOfEntry d R w now grants gw conflicted routes nl ls l = Some r"
proof -
  obtain res where "validateListener d R w now l
      \<lparr>lvp_ownerNamespace = ls_Namespace ls, lvp_ownerKind = ls_Kind ls, lvp_generation = st_Generation (ls_Status ls),
       lvp_grants = grants\<rparr> = Some res"
    using validateListener_total [OF assms(1), of R w now l] by blast
  moreover obtain http where "filterHTTPRoutesByListener R w gw l (rl_HTTP routes) = Some http"
    using attachedRoutes_total(2) [OF assms(2), of R w l "rl_HTTP routes"] by blast
  ultimately show ?thesis
    by (cases "case map_of conflicted (listenerSetFQR ls) of None \<Rightarrow> False | Some m \<Rightarrow> map_of m (lis_Name l) \<noteq> None")
       (simp_all only: statusOfEntry_def Let_def if_True if_False bind.bind_lunit prod.case, simp_all, blast)
qed

lemma setListenerSetStatuses_total:
  assumes "consuming d" "listenersDefaulted (gw_Listeners (go_Spec gw))"
  shows "\<exists>r. setListenerSetStatuses d R S now gw sets conflicted routes nl w = Some r"
proof -
  have "\<exists>r. listenerSetLoop d R S now grants (go_Spec gw) conflicted routes nl sets w = Some r" for grants w
  proof (induction sets arbitrary: w)
    case (Cons ls sets)
    obtain es where es: "mapM (statusOfEntry d R w now grants (go_Spec gw) conflicted routes nl ls) (ls_Listeners ls) = Some es"
      using mapM_total statusOfEntry_total [OF assms] by metis
    then show ?case
      using Cons.IH [of "snd (updateListenerSetStatus S ls (statusOfListenerSet now ls es) w)"] by (auto simp: Let_def)
  qed simp
  note loop = this
  show ?thesis
  proof (cases "rd_ReferenceGrants R w")
    case (Inr grants)
    obtain n sets' w' where "listenerSetLoop d R S now grants (go_Spec gw) conflicted routes nl sets w = Some (n, sets', w')"
      using loop [of grants w] by auto
    then show ?thesis using Inr by (simp add: setListenerSetStatuses_def Let_def)
  qed (simp add: setListenerSetStatuses_def Let_def)
qed

end
