(* ===== verification/Policy_Status.thy ===== *)
theory Policy_Status
  imports Route_Attachment
begin

text \<open>
  The statuses of BackendTLSPolicies for a Gateway, \<open>setBackendTLSPolicyStatuses\<close> of
  \<open>src/pkg/gateway_api/gateway_reconcile.go\<close>. The maps of a lookup hold pointers, and a policy
  that targets several Services or sections is one object: its status is kept in a store under
  the key of the policy, so what one step writes the later steps see. A map is an association list
  in the order in which the loop visits it.
\<close>

section \<open>Routes of the Gateway\<close>

definition ObjectsEqual :: "'m RouteObject \<Rightarrow> 'm RouteObject \<Rightarrow> string + bool" where
  "ObjectsEqual a b =
     (if routeKey a = routeKey b
      then if ro_Generation a = ro_Generation b then Inr True
           else Inl ''Same object, different generations, retry reconciliation''
      else Inr False)"

fun commonLoop :: "('m RouteObject \<times> 'm RouteObject) list \<Rightarrow> string + bool" where
  "commonLoop [] = Inr False"
| "commonLoop ((hrA, hrB) # ps) =
     (case ObjectsEqual hrA hrB of Inl err \<Rightarrow> Inl err | Inr True \<Rightarrow> Inr True | Inr False \<Rightarrow> commonLoop ps)"

definition ContainsCommonHTTPRoute :: "'m RouteObject list \<Rightarrow> 'm RouteObject list \<Rightarrow> string + bool" where
  "ContainsCommonHTTPRoute a b = commonLoop (List.product a b)"

text \<open>A route of the Gateway has the Service as the backend of an external authorization filter.\<close>

definition extAuthBackend :: "NamespacedName \<Rightarrow> HTTPRouteObject list \<Rightarrow> bool" where
  "extAuthBackend svcName httpRoutes \<longleftrightarrow>
     (\<exists>hr \<in> set httpRoutes. \<exists>rule \<in> set (rt_Rules (ro_Route hr)). \<exists>f \<in> set (rr_Filters rule).
        rf_Type f = FilterOther ''ExternalAuth'' \<and>
        (case rf_ExternalAuth f of
           None \<Rightarrow> False
         | Some ref \<Rightarrow> bor_Name ref = snd svcName \<and>
             NamespaceDerefOr (bor_Namespace ref) (rt_Namespace (ro_Route hr)) = fst svcName))"

section \<open>One policy\<close>

definition sameAncestors :: "PolicyAncestorStatus list \<Rightarrow> PolicyAncestorStatus list \<Rightarrow> bool" where
  "sameAncestors as bs \<longleftrightarrow>
     list_all2 (\<lambda>a b. pas_AncestorRef a = pas_AncestorRef b \<and> pas_ControllerName a = pas_ControllerName b \<and>
                      sameConditions (pas_Conditions a) (pas_Conditions b)) as bs"

definition updateBackendTLSPolicyStatus ::
  "('w, 'sel) StatusWriter \<Rightarrow> BackendTLSPolicy \<Rightarrow> BackendTLSPolicy \<Rightarrow> 'w \<Rightarrow> 'w writeResult" where
  "updateBackendTLSPolicyStatus S original new w =
     (if sameAncestors (btp_Ancestors original) (btp_Ancestors new) then (None, w)
      else sw_BackendTLSPolicy S w new)"

type_synonym policyStore = "(NamespacedName \<times> PolicyAncestorStatus list) list"

text \<open>What a pointer to a policy points to.\<close>

definition deref :: "policyStore \<Rightarrow> BackendTLSPolicy \<Rightarrow> BackendTLSPolicy" where
  "deref store p = (case map_of store (ObjectKey p) of None \<Rightarrow> p | Some as \<Rightarrow> p\<lparr>btp_Ancestors := as\<rparr>)"

definition applyPolicyStatus ::
  "('w, 'sel) StatusWriter \<Rightarrow> BackendTLSPolicy \<Rightarrow> BackendTLSPolicy \<Rightarrow> policyStore \<Rightarrow> 'w \<Rightarrow>
   string option \<times> policyStore \<times> 'w" where
  "applyPolicyStatus S original btlsp store w =
     (case updateBackendTLSPolicyStatus S (deref store original) btlsp w of
        (Some err, w') \<Rightarrow> (Some (''failed to update BackendTLSPolicy status: '' @ err), store, w')
      | (None, w') \<Rightarrow> (None, AList.update (ObjectKey original) (btp_Ancestors btlsp) store, w'))"

abbreviation (input) policyCondition :: "string \<Rightarrow> ConditionStatus \<Rightarrow> string \<Rightarrow> string \<Rightarrow> Condition" where
  "policyCondition t s r m \<equiv> mkCondition t s r m 0 0"

definition currentGatewayRef :: "NamespacedName \<Rightarrow> ParentReference" where
  "currentGatewayRef gatewayName =
     \<lparr>pr_Group = Some ''gateway.networking.k8s.io'', pr_Kind = Some ''Gateway'',
      pr_Namespace = Some (fst gatewayName), pr_Name = snd gatewayName, pr_SectionName = None, pr_Port = None\<rparr>"

definition targetMissing :: "int \<Rightarrow> ParentReference \<Rightarrow> NamespacedName \<Rightarrow> BackendTLSPolicy \<Rightarrow> BackendTLSPolicy" where
  "targetMissing now ref svcName btlsp =
     SetAncestorCondition gatewayControllerName now ref
       (policyCondition ''ResolvedRefs'' ConditionFalse ''BackendNotFound'' (''TargetRef does not exist: '' @ fullName svcName))
       (SetAncestorCondition gatewayControllerName now ref
         (policyCondition ''Accepted'' ConditionFalse ''Invalid'' (''TargetRef does not exist: '' @ fullName svcName)) btlsp)"

definition conflicts :: "int \<Rightarrow> ParentReference \<Rightarrow> BackendTLSPolicy \<Rightarrow> BackendTLSPolicy" where
  "conflicts now ref btlsp =
     SetAncestorCondition gatewayControllerName now ref
       (policyCondition ''Accepted'' ConditionFalse ''Conflicted'' ''BackendTLSPolicy conflicts with another'') btlsp"

definition initiallyValid :: "int \<Rightarrow> ParentReference \<Rightarrow> BackendTLSPolicy \<Rightarrow> BackendTLSPolicy" where
  "initiallyValid now ref btlsp =
     SetAncestorCondition gatewayControllerName now ref
       (policyCondition ''ResolvedRefs'' ConditionTrue ''ResolvedRefs'' ''All references are valid'')
       (SetAncestorCondition gatewayControllerName now ref
         (policyCondition ''Accepted'' ConditionTrue ''Accepted'' ''Accepted BackendTLSPolicy'') btlsp)"

section \<open>The loops\<close>

text \<open>\<open>pemDecode b\<close> is the rest of the input after its first PEM block; the validation looks for a block.\<close>

definition pemFound :: "(string \<Rightarrow> string option) \<Rightarrow> string \<Rightarrow> bool" where
  "pemFound pemDecode b \<longleftrightarrow> pemDecode b \<noteq> None"

text \<open>\<open>confirmedValidBTLSPs\<close> is the list of keys of the policies found valid so far.\<close>

fun policyLoop ::
  "('w, 'sel) StatusWriter \<Rightarrow> (BackendTLSPolicy \<Rightarrow> BackendTLSPolicy) \<Rightarrow> NamespacedName list \<Rightarrow>
   BackendTLSPolicy list \<Rightarrow> policyStore \<Rightarrow> 'w \<Rightarrow> string option \<times> policyStore \<times> 'w" where
  "policyLoop S setStatus skip [] store w = (None, store, w)"
| "policyLoop S setStatus skip (original # ps) store w =
     (if ObjectKey original \<in> set skip then policyLoop S setStatus skip ps store w
      else case applyPolicyStatus S original (setStatus (deref store original)) store w of
             (Some err, store', w') \<Rightarrow> (Some err, store', w')
           | (None, store', w') \<Rightarrow> policyLoop S setStatus skip ps store' w')"

fun validLoop ::
  "('w, 'sel) Reader \<Rightarrow> ('w, 'sel) StatusWriter \<Rightarrow> (string \<Rightarrow> string option) \<Rightarrow> int \<Rightarrow> ParentReference \<Rightarrow>
   (string \<times> BackendTLSPolicy) list \<Rightarrow> BackendTLSPolicyTargetServiceCollection \<Rightarrow> NamespacedName list \<Rightarrow>
   policyStore \<Rightarrow> 'w \<Rightarrow>
   string option \<times> BackendTLSPolicyTargetServiceCollection \<times> NamespacedName list \<times> policyStore \<times> 'w" where
  "validLoop R S pemDecode now ref [] collection confirmed store w = (None, collection, confirmed, store, w)"
| "validLoop R S pemDecode now ref ((sectionName, original) # ps) collection confirmed store w =
     (case ValidateSpec (pemFound pemDecode) (rd_ConfigMap R w) gatewayControllerName now ref
             (initiallyValid now ref (deref store original)) of
        (btlsp, Inl err) \<Rightarrow> (Some (''failed to validate BackendTLSPolicy spec: '' @ err), collection, confirmed, store, w)
      | (btlsp, Inr valid) \<Rightarrow>
          let confirmed' = (if valid then ObjectKey btlsp # confirmed else confirmed);
              collection' = (if valid then collection
                             else UpsertInvalidPolicy sectionName original (DeleteValidPolicy sectionName collection))
          in case applyPolicyStatus S original btlsp store w of
               (Some err, store', w') \<Rightarrow> (Some err, collection', confirmed', store', w')
             | (None, store', w') \<Rightarrow> validLoop R S pemDecode now ref ps collection' confirmed' store' w')"

text \<open>The body of the loop over the Services of the lookup.\<close>

definition servicePolicies ::
  "('w, 'sel) Reader \<Rightarrow> ('w, 'sel) Lister \<Rightarrow> ('w, 'sel) StatusWriter \<Rightarrow> (string \<Rightarrow> string option) \<Rightarrow> int \<Rightarrow>
   ParentReference \<Rightarrow> HTTPRouteObject list \<Rightarrow> NamespacedName \<Rightarrow> BackendTLSPolicyTargetServiceCollection \<Rightarrow>
   NamespacedName list \<Rightarrow> policyStore \<Rightarrow> 'w \<Rightarrow>
   string option \<times> BackendTLSPolicyTargetServiceCollection \<times> NamespacedName list \<times> policyStore \<times> 'w" where
  "servicePolicies R Li S pemDecode now ref httpRoutes svcName collection confirmed store w =
     (case li_HTTPRoutes Li w of
        Inl err \<Rightarrow> (Some err, collection, confirmed, store, w)
      | Inr hrList \<Rightarrow>
        (case ContainsCommonHTTPRoute hrList httpRoutes of
           Inl err \<Rightarrow> (Some err, collection, confirmed, store, w)
         | Inr found \<Rightarrow>
             if \<not> (found \<or> extAuthBackend svcName httpRoutes) then (None, collection, confirmed, store, w)
             else case rd_Service R w svcName of
                    GetFailed err \<Rightarrow>
                      (Some (''error while checking Backend Service: '' @ err), collection, confirmed, store, w)
                  | NotFound \<Rightarrow>
                      (case policyLoop S (targetMissing now ref svcName) confirmed (map snd (tsc_Valid collection)) store w of
                         (Some err, store', w') \<Rightarrow> (Some err, collection, confirmed, store', w')
                       | (None, store', w') \<Rightarrow>
                         (case policyLoop S (conflicts now ref) confirmed (map snd (tsc_Conflicted collection)) store' w' of
                            (e, store'', w'') \<Rightarrow> (e, collection, confirmed, store'', w'')))
                  | Found svc \<Rightarrow>
                      (case validLoop R S pemDecode now ref (tsc_Valid collection) collection confirmed store w of
                         (Some err, collection', confirmed', store', w') \<Rightarrow> (Some err, collection', confirmed', store', w')
                       | (None, collection', confirmed', store', w') \<Rightarrow>
                         (case policyLoop S (conflicts now ref) [] (map snd (tsc_Conflicted collection')) store' w' of
                            (e, store'', w'') \<Rightarrow> (e, collection', confirmed', store'', w'')))))"

fun servicesLoop ::
  "('w, 'sel) Reader \<Rightarrow> ('w, 'sel) Lister \<Rightarrow> ('w, 'sel) StatusWriter \<Rightarrow> (string \<Rightarrow> string option) \<Rightarrow> int \<Rightarrow>
   ParentReference \<Rightarrow> HTTPRouteObject list \<Rightarrow> BackendTLSPolicyServiceMap \<Rightarrow> NamespacedName list \<Rightarrow> policyStore \<Rightarrow> 'w \<Rightarrow>
   string option \<times> BackendTLSPolicyServiceMap \<times> policyStore \<times> 'w" where
  "servicesLoop R Li S pemDecode now ref httpRoutes [] confirmed store w = (None, [], store, w)"
| "servicesLoop R Li S pemDecode now ref httpRoutes ((svcName, collection) # m) confirmed store w =
     (case servicePolicies R Li S pemDecode now ref httpRoutes svcName collection confirmed store w of
        (Some err, collection', confirmed', store', w') \<Rightarrow> (Some err, (svcName, collection') # m, store', w')
      | (None, collection', confirmed', store', w') \<Rightarrow>
          (case servicesLoop R Li S pemDecode now ref httpRoutes m confirmed' store' w' of
             (e, m', store'', w'') \<Rightarrow> (e, (svcName, collection') # m', store'', w'')))"

definition setBackendTLSPolicyStatuses ::
  "('w, 'sel) Reader \<Rightarrow> ('w, 'sel) Lister \<Rightarrow> ('w, 'sel) StatusWriter \<Rightarrow> (string \<Rightarrow> string option) \<Rightarrow> int \<Rightarrow>
   HTTPRouteObject list \<Rightarrow> BackendTLSPolicyServiceMap \<Rightarrow> NamespacedName \<Rightarrow> 'w \<Rightarrow>
   string option \<times> BackendTLSPolicyServiceMap \<times> policyStore \<times> 'w" where
  "setBackendTLSPolicyStatuses R Li S pemDecode now httpRoutes btlspMap gatewayName w =
     servicesLoop R Li S pemDecode now (currentGatewayRef gatewayName) httpRoutes btlspMap [] [] w"

section \<open>The status of a policy\<close>

definition ancestorStatus :: "BackendTLSPolicy \<Rightarrow> ParentReference \<Rightarrow> string \<Rightarrow> ConditionStatus option" where
  "ancestorStatus p ref t = map_option cond_Status (condOf (condsFor p ref) t)"

lemma ancestorStatus_set [simp]:
  "ancestorStatus (SetAncestorCondition ctl now ref c p) ref t =
   (if cond_Type c = t then Some (cond_Status c) else ancestorStatus p ref t)"
  by (simp add: ancestorStatus_def condsFor_SetAncestorCondition helpers_store.store_lookup refresh_def
      ConditionChanged_def split: option.split)

lemma setters_key [simp]:
  "ObjectKey (SetAncestorCondition ctl now ref c p) = ObjectKey p"
  "spec_ok d cm (SetAncestorCondition ctl now ref c p) = spec_ok d cm p"
  by (simp_all add: SetAncestorCondition_def ObjectKey_def spec_ok_def)

lemma deref_simps [simp]:
  "ObjectKey (deref store p) = ObjectKey p"
  "spec_ok d cm (deref store p) = spec_ok d cm p"
  by (simp_all add: deref_def ObjectKey_def spec_ok_def split: option.split)

lemma deref_update:
  "deref (AList.update k as store) p = (if k = ObjectKey p then p\<lparr>btp_Ancestors := as\<rparr> else deref store p)"
  by (simp add: deref_def update_conv')

lemma ancestorStatus_deref:
  "ancestorStatus (deref (AList.update (ObjectKey p) (btp_Ancestors q) store) p) ref t = ancestorStatus q ref t"
  by (simp add: deref_update ancestorStatus_def condsFor_def)

lemma ValidateSpec_key: "ValidateSpec d cm ctl now ref p = (q, r) \<Longrightarrow> ObjectKey q = ObjectKey p"
  by (auto simp: ValidateSpec_def Let_def setRejectedConditions_def split: list.splits if_splits getResult.splits option.splits)

lemma ValidateSpec_accepts:
  assumes "ValidateSpec d cm gatewayControllerName now ref (initiallyValid now ref p) = (q, Inr valid)"
  shows "valid = spec_ok d cm p"
    and "ancestorStatus q ref ''Accepted'' = Some (if valid then ConditionTrue else ConditionFalse)"
proof -
  have init: "spec_ok d cm (initiallyValid now ref p) = spec_ok d cm p"
    "ancestorStatus (initiallyValid now ref p) ref ''Accepted'' = Some ConditionTrue"
    by (simp_all add: initiallyValid_def)
  have rejected: "ancestorStatus q ref ''Accepted'' = Some ConditionFalse"
    if "condition_false (condsFor q ref) ''Accepted''"
    using that by (simp add: condition_false_def ancestorStatus_def split: option.splits)
  show "valid = spec_ok d cm p" using ValidateSpec_correct [OF assms] init(1) by simp
  show "ancestorStatus q ref ''Accepted'' = Some (if valid then ConditionTrue else ConditionFalse)"
    using ValidateSpec_correct [OF assms] init(2) rejected by (cases valid) simp_all
qed

text \<open>The writes of policy statuses do not change what the loops read of other kinds.\<close>

definition policy_client :: "('w, 'sel) Reader \<Rightarrow> ('w, 'sel) Lister \<Rightarrow> ('w, 'sel) StatusWriter \<Rightarrow> bool" where
  "policy_client R Li S \<longleftrightarrow>
     (\<forall>w p. let w' = snd (sw_BackendTLSPolicy S w p)
            in rd_ConfigMap R w' = rd_ConfigMap R w \<and> rd_Service R w' = rd_Service R w \<and>
               li_HTTPRoutes Li w' = li_HTTPRoutes Li w)"

definition samePolicyReads :: "('w, 'sel) Reader \<Rightarrow> ('w, 'sel) Lister \<Rightarrow> 'w \<Rightarrow> 'w \<Rightarrow> bool" where
  "samePolicyReads R Li w w' \<longleftrightarrow>
     rd_ConfigMap R w' = rd_ConfigMap R w \<and> rd_Service R w' = rd_Service R w \<and>
     li_HTTPRoutes Li w' = li_HTTPRoutes Li w"

lemma validLoop_conflicted:
  "validLoop R S pem now ref ps coll confirmed store w = (e, coll', confirmed', store', w') \<Longrightarrow>
   tsc_Conflicted coll' = tsc_Conflicted coll"
  by (induction ps arbitrary: coll confirmed store w)
     (auto simp: Let_def UpsertInvalidPolicy_def DeleteValidPolicy_def split: prod.splits sum.splits option.splits if_splits)

text \<open>A Service matters to the Gateway: its routes are listed, or one of them asks it for authorization.\<close>

definition relevantService :: "('w, 'sel) Lister \<Rightarrow> 'w \<Rightarrow> HTTPRouteObject list \<Rightarrow> NamespacedName \<Rightarrow> bool" where
  "relevantService Li w httpRoutes svc \<longleftrightarrow>
     (\<exists>hrList. li_HTTPRoutes Li w = Inr hrList \<and> ContainsCommonHTTPRoute hrList httpRoutes = Inr True) \<or>
     extAuthBackend svc httpRoutes"

lemma servicePolicies_cases:
  assumes run: "servicePolicies R Li S pem now ref httpRoutes svc coll confirmed store w = (None, coll', confirmed', store', w')"
  obtains (skip) "\<not> relevantService Li w httpRoutes svc" "confirmed' = confirmed" "store' = store" "w' = w"
  | (gone) st1 w1 where "rd_Service R w svc = NotFound" "confirmed' = confirmed"
      "policyLoop S (targetMissing now ref svc) confirmed (map snd (tsc_Valid coll)) store w = (None, st1, w1)"
      "policyLoop S (conflicts now ref) confirmed (map snd (tsc_Conflicted coll)) st1 w1 = (None, store', w')"
  | (there) st1 w1 where
      "validLoop R S pem now ref (tsc_Valid coll) coll confirmed store w = (None, coll', confirmed', st1, w1)"
      "policyLoop S (conflicts now ref) [] (map snd (tsc_Conflicted coll')) st1 w1 = (None, store', w')"
proof -
  obtain hrList found where lists: "li_HTTPRoutes Li w = Inr hrList" "ContainsCommonHTTPRoute hrList httpRoutes = Inr found"
    using run by (auto simp: servicePolicies_def split: sum.splits)
  show ?thesis
  proof (cases "found \<or> extAuthBackend svc httpRoutes")
    case False
    then show ?thesis using run lists by (intro skip) (auto simp: servicePolicies_def relevantService_def)
  next
    case True
    then show ?thesis
      using run lists
      by (cases "rd_Service R w svc") (auto simp: servicePolicies_def intro: gone there split: prod.splits option.splits)
  qed
qed

text \<open>What the writes of policy statuses leave alone, the loops leave alone.\<close>

context state_frame
begin

lemma applyPolicyStatus_frame:
  assumes "\<And>w p. Q w (snd (sw_BackendTLSPolicy S w p))"
    and "applyPolicyStatus S p q store w = (e, store', w')"
  shows "Q w w'"
  using assms(2) assms(1) [of w q]
  by (auto simp: applyPolicyStatus_def updateBackendTLSPolicyStatus_def Let_def split: if_splits prod.splits option.splits)

lemma policyLoop_frame:
  assumes "\<And>w p. Q w (snd (sw_BackendTLSPolicy S w p))"
  shows "policyLoop S f skip ps store w = (e, store', w') \<Longrightarrow> Q w w'"
proof (induction ps arbitrary: store w)
  case (Cons q ps)
  show ?case
  proof (cases "ObjectKey q \<in> set skip")
    case False
    obtain e1 st1 w1 where s: "applyPolicyStatus S q (f (deref store q)) store w = (e1, st1, w1)"
      by (metis prod_cases3)
    have "Q w w1" by (rule applyPolicyStatus_frame [OF assms s])
    moreover have "Q w1 w'"
      using Cons.prems Cons.IH [of st1 w1] False s by (cases e1) auto
    ultimately show ?thesis by (rule frame_trans)
  qed (use Cons in simp)
qed simp

lemma validLoop_frame:
  assumes "\<And>w p. Q w (snd (sw_BackendTLSPolicy S w p))"
  shows "validLoop R S pem now ref ps coll confirmed store w = (e, coll', confirmed', store', w') \<Longrightarrow> Q w w'"
proof (induction ps arbitrary: coll confirmed store w)
  case (Cons x ps)
  obtain sec q where x: "x = (sec, q)" by (cases x)
  obtain btlsp r where v: "ValidateSpec (pemFound pem) (rd_ConfigMap R w) gatewayControllerName now ref
      (initiallyValid now ref (deref store q)) = (btlsp, r)" by (metis surj_pair)
  show ?case
  proof (cases r)
    case (Inr valid)
    obtain e1 st1 w1 where s: "applyPolicyStatus S q btlsp store w = (e1, st1, w1)" by (metis prod_cases3)
    have "Q w w1" by (rule applyPolicyStatus_frame [OF assms s])
    moreover have "Q w1 w'"
      using Cons.prems Cons.IH [of _ _ st1 w1] s v Inr by (cases e1) (auto simp: x Let_def)
    ultimately show ?thesis by (rule frame_trans)
  qed (use Cons.prems v x in auto)
qed simp

lemma servicePolicies_frame:
  assumes writes: "\<And>w p. Q w (snd (sw_BackendTLSPolicy S w p))"
    and run: "servicePolicies R Li S pem now ref httpRoutes svc coll confirmed store w = (None, coll', confirmed', store', w')"
  shows "Q w w'"
  using run
proof (cases rule: servicePolicies_cases)
  case (gone st1 w1)
  then show ?thesis using policyLoop_frame [where S = S, OF writes] frame_trans by blast
next
  case (there st1 w1)
  show ?thesis
    by (rule frame_trans [OF validLoop_frame [where S = S, OF writes there(1)] policyLoop_frame [where S = S, OF writes there(2)]])
qed simp

lemma servicesLoop_frame:
  assumes writes: "\<And>w p. Q w (snd (sw_BackendTLSPolicy S w p))"
  shows "servicesLoop R Li S pem now ref httpRoutes m confirmed store w = (None, m', store', w') \<Longrightarrow> Q w w'"
proof (induction m arbitrary: confirmed store w m')
  case (Cons sc m)
  obtain svc coll coll1 c1 st1 w1 m1 where
    s: "servicePolicies R Li S pem now ref httpRoutes svc coll confirmed store w = (None, coll1, c1, st1, w1)"
    "servicesLoop R Li S pem now ref httpRoutes m c1 st1 w1 = (None, m1, store', w')"
    using Cons.prems by (cases sc) (auto split: prod.splits option.splits)
  show ?case by (rule frame_trans [OF servicePolicies_frame [where S = S, OF writes s(1)] Cons.IH [OF s(2)]])
qed simp

end

interpretation policy_reads: state_frame "samePolicyReads R Li" for R Li
  by unfold_locales (simp_all add: samePolicyReads_def)

lemma policy_client_frame: "policy_client R Li S \<Longrightarrow> samePolicyReads R Li w (snd (sw_BackendTLSPolicy S w p))"
  by (simp add: policy_client_def samePolicyReads_def Let_def)

lemmas applyPolicyStatus_reads = policy_reads.applyPolicyStatus_frame [OF policy_client_frame]
lemmas servicePolicies_reads = policy_reads.servicePolicies_frame [OF policy_client_frame]

lemma applyPolicyStatus_store:
  "applyPolicyStatus S p q store w = (None, store', w') \<Longrightarrow> store' = AList.update (ObjectKey p) (btp_Ancestors q) store"
  by (auto simp: applyPolicyStatus_def split: prod.splits option.splits)

text \<open>What holds of a policy once its validation has been done, and stays so.\<close>

definition settledPolicy ::
  "(string \<Rightarrow> bool) \<Rightarrow> (NamespacedName \<Rightarrow> string_map getResult) \<Rightarrow> ParentReference \<Rightarrow> BackendTLSPolicy \<Rightarrow>
   NamespacedName list \<Rightarrow> policyStore \<Rightarrow> bool" where
  "settledPolicy d cm ref p confirmed store \<longleftrightarrow>
     (spec_ok d cm p \<longrightarrow> ObjectKey p \<in> set confirmed) \<and>
     ancestorStatus (deref store p) ref ''Accepted'' = Some (if spec_ok d cm p then ConditionTrue else ConditionFalse)"

abbreviation samePolicy :: "BackendTLSPolicy \<Rightarrow> BackendTLSPolicy \<Rightarrow> bool" where
  "samePolicy p q \<equiv> (ObjectKey q = ObjectKey p \<longrightarrow> q = p)"

lemma policyLoop_missing:
  assumes "policy_client R Li S"
  shows "policyLoop S (targetMissing now ref svc) confirmed ps store w = (None, store', w') \<Longrightarrow>
    settledPolicy d cm ref p confirmed store \<Longrightarrow> (\<forall>q \<in> set ps. samePolicy p q) \<Longrightarrow>
    settledPolicy d cm ref p confirmed store'"
proof (induction ps arbitrary: store w)
  case (Cons q ps)
  show ?case
  proof (cases "ObjectKey q \<in> set confirmed")
    case False
    obtain st1 w1 where s: "applyPolicyStatus S q (targetMissing now ref svc (deref store q)) store w = (None, st1, w1)"
      "policyLoop S (targetMissing now ref svc) confirmed ps st1 w1 = (None, store', w')"
      using Cons.prems(1) False by (auto split: prod.splits option.splits)
    have "settledPolicy d cm ref p confirmed st1"
    proof (cases "ObjectKey q = ObjectKey p")
      case True
      then have "q = p" using Cons.prems(3) by simp
      then show ?thesis
        using Cons.prems(2) False unfolding applyPolicyStatus_store [OF s(1)] settledPolicy_def
        by (simp add: ancestorStatus_deref targetMissing_def)
    next
      case other: False
      then show ?thesis
        using Cons.prems(2) unfolding applyPolicyStatus_store [OF s(1)] settledPolicy_def by (simp add: deref_update)
    qed
    then show ?thesis using Cons.IH [OF s(2)] Cons.prems(3) by simp
  qed (use Cons in simp)
qed simp

lemma policyLoop_other:
  "policyLoop S f skip ps store w = (None, store', w') \<Longrightarrow> ObjectKey p \<notin> ObjectKey ` set ps \<Longrightarrow>
   deref store' p = deref store p"
proof (induction ps arbitrary: store w)
  case (Cons q ps)
  show ?case
  proof (cases "ObjectKey q \<in> set skip")
    case False
    obtain st1 w1 where s: "applyPolicyStatus S q (f (deref store q)) store w = (None, st1, w1)"
      "policyLoop S f skip ps st1 w1 = (None, store', w')"
      using Cons.prems(1) False by (auto split: prod.splits option.splits)
    have "deref st1 p = deref store p"
      using Cons.prems(2) unfolding applyPolicyStatus_store [OF s(1)] by (auto simp: deref_update)
    then show ?thesis using Cons.IH [OF s(2)] Cons.prems(2) by simp
  qed (use Cons in simp)
qed simp

lemma validLoop_settles:
  assumes "policy_client R Li S"
  shows "validLoop R S pem now ref ps coll confirmed store w = (None, coll', confirmed', store', w') \<Longrightarrow>
    rd_ConfigMap R w = cm \<Longrightarrow> (\<forall>q \<in> snd ` set ps. samePolicy p q) \<Longrightarrow>
    settledPolicy (pemFound pem) cm ref p confirmed store \<or> p \<in> snd ` set ps \<Longrightarrow>
    settledPolicy (pemFound pem) cm ref p confirmed' store'"
proof (induction ps arbitrary: coll confirmed store w)
  case (Cons x ps)
  obtain sec q where x: "x = (sec, q)" by (cases x)
  obtain btlsp r where v: "ValidateSpec (pemFound pem) (rd_ConfigMap R w) gatewayControllerName now ref
      (initiallyValid now ref (deref store q)) = (btlsp, r)" by (metis surj_pair)
  obtain valid where r: "r = Inr valid" using Cons.prems(1) v x by (cases r) auto
  define c1 where "c1 = (if valid then ObjectKey btlsp # confirmed else confirmed)"
  obtain coll1 st1 w1 where s: "applyPolicyStatus S q btlsp store w = (None, st1, w1)"
    "validLoop R S pem now ref ps coll1 c1 st1 w1 = (None, coll', confirmed', store', w')"
    using Cons.prems(1) by (auto simp: x v r c1_def Let_def split: prod.splits option.splits)
  have key: "ObjectKey btlsp = ObjectKey q"
    using ValidateSpec_key [OF v] by (simp add: initiallyValid_def)
  have reads: "rd_ConfigMap R w1 = cm"
    using applyPolicyStatus_reads [OF assms s(1)] Cons.prems(2) by (simp add: samePolicyReads_def)
  have "settledPolicy (pemFound pem) cm ref p c1 st1 \<or> p \<in> snd ` set ps"
  proof (cases "q = p")
    case True
    have "valid = spec_ok (pemFound pem) cm p"
      "ancestorStatus btlsp ref ''Accepted'' = Some (if valid then ConditionTrue else ConditionFalse)"
      using ValidateSpec_accepts [OF v [unfolded r]] Cons.prems(2) True by simp_all
    then show ?thesis
      unfolding settledPolicy_def applyPolicyStatus_store [OF s(1)] c1_def using key True
      by (simp add: ancestorStatus_deref)
  next
    case False
    then have "ObjectKey q \<noteq> ObjectKey p" using Cons.prems(3) by (auto simp: x)
    then show ?thesis
      using Cons.prems(4) False unfolding settledPolicy_def applyPolicyStatus_store [OF s(1)] c1_def
      by (auto simp: x deref_update)
  qed
  then show ?case using Cons.IH [OF s(2) reads] Cons.prems(3) by simp
qed auto

text \<open>The collection of a Service validates a policy.\<close>

definition validates ::
  "('w, 'sel) Reader \<Rightarrow> ('w, 'sel) Lister \<Rightarrow> 'w \<Rightarrow> HTTPRouteObject list \<Rightarrow> BackendTLSPolicy \<Rightarrow>
   NamespacedName \<times> BackendTLSPolicyTargetServiceCollection \<Rightarrow> bool" where
  "validates R Li w httpRoutes p sc \<longleftrightarrow>
     p \<in> snd ` set (tsc_Valid (snd sc)) \<and> relevantService Li w httpRoutes (fst sc) \<and>
     (\<exists>svc. rd_Service R w (fst sc) = Found svc)"

text \<open>No collection has the policy as conflicted, and no other policy has its key.\<close>

definition undisputed :: "BackendTLSPolicy \<Rightarrow> NamespacedName \<times> BackendTLSPolicyTargetServiceCollection \<Rightarrow> bool" where
  "undisputed p sc \<longleftrightarrow>
     (\<forall>q \<in> snd ` set (tsc_Valid (snd sc)). samePolicy p q) \<and> ObjectKey p \<notin> ObjectKey ` snd ` set (tsc_Conflicted (snd sc))"

lemma servicePolicies_settles:
  assumes client: "policy_client R Li S"
    and run: "servicePolicies R Li S pem now ref httpRoutes svc coll confirmed store w = (None, coll', confirmed', store', w')"
    and cm: "rd_ConfigMap R w = cm" and p: "undisputed p (svc, coll)"
    and hit: "settledPolicy (pemFound pem) cm ref p confirmed store \<or> validates R Li w httpRoutes p (svc, coll)"
  shows "settledPolicy (pemFound pem) cm ref p confirmed' store'"
proof -
  have same: "\<forall>q \<in> set (map snd (tsc_Valid coll)). samePolicy p q" "ObjectKey p \<notin> ObjectKey ` set (map snd (tsc_Conflicted coll))"
    using p by (auto simp: undisputed_def)
  from run show ?thesis
  proof (cases rule: servicePolicies_cases)
    case skip
    then show ?thesis using hit by (simp add: validates_def)
  next
    case (gone st1 w1)
    have "settledPolicy (pemFound pem) cm ref p confirmed store" using hit gone(1) by (simp add: validates_def)
    then have "settledPolicy (pemFound pem) cm ref p confirmed st1"
      by (rule policyLoop_missing [OF client gone(3) _ same(1)])
    then show ?thesis using policyLoop_other [OF gone(4) same(2)] by (simp add: settledPolicy_def gone(2))
  next
    case (there st1 w1)
    have "settledPolicy (pemFound pem) cm ref p confirmed' st1"
      by (rule validLoop_settles [OF client there(1) cm]) (use p hit in \<open>auto simp: undisputed_def validates_def\<close>)
    then show ?thesis
      using policyLoop_other [OF there(2)] same(2) validLoop_conflicted [OF there(1)] by (simp add: settledPolicy_def)
  qed
qed

lemma servicesLoop_settles:
  assumes client: "policy_client R Li S"
  shows "servicesLoop R Li S pem now ref httpRoutes m confirmed store w = (None, m', store', w') \<Longrightarrow>
    rd_ConfigMap R w = cm \<Longrightarrow> (\<forall>sc \<in> set m. undisputed p sc) \<Longrightarrow>
    settledPolicy (pemFound pem) cm ref p confirmed store \<or> (\<exists>sc \<in> set m. validates R Li w httpRoutes p sc) \<Longrightarrow>
    ancestorStatus (deref store' p) ref ''Accepted'' = Some (if spec_ok (pemFound pem) cm p then ConditionTrue else ConditionFalse)"
proof (induction m arbitrary: confirmed store w m')
  case Nil
  then show ?case by (simp add: settledPolicy_def)
next
  case (Cons sc m)
  obtain svc coll where sc: "sc = (svc, coll)" by (cases sc)
  obtain coll1 c1 st1 w1 m1 where s: "servicePolicies R Li S pem now ref httpRoutes svc coll confirmed store w = (None, coll1, c1, st1, w1)"
    "servicesLoop R Li S pem now ref httpRoutes m c1 st1 w1 = (None, m1, store', w')"
    using Cons.prems(1) by (auto simp: sc split: prod.splits option.splits)
  have reads: "samePolicyReads R Li w w1" by (rule servicePolicies_reads [OF client s(1)])
  then have "settledPolicy (pemFound pem) cm ref p c1 st1 \<or> (\<exists>sc \<in> set m. validates R Li w1 httpRoutes p sc)"
    using servicePolicies_settles [OF client s(1) Cons.prems(2), of p] Cons.prems(3,4)
    by (auto simp: sc validates_def relevantService_def samePolicyReads_def)
  then show ?case using Cons.IH [OF s(2)] reads Cons.prems(2,3) by (simp add: samePolicyReads_def)
qed

section \<open>The lookup of all policies\<close>

definition keyed :: "BackendTLSPolicyServiceMap \<Rightarrow> bool" where
  "keyed m \<longleftrightarrow> distinct (map fst m) \<and>
     (\<forall>c \<in> snd ` set m. distinct (map fst (tsc_Valid c)) \<and> distinct (map fst (tsc_Conflicted c)))"

lemma keyed_update:
  assumes "keyed m" "distinct (map fst (tsc_Valid c))" "distinct (map fst (tsc_Conflicted c))"
  shows "keyed (AList.update svc c m)"
proof -
  have "snd ` set (AList.update svc c m) \<subseteq> insert c (snd ` set m)"
    by (induction m) auto
  then show ?thesis using assms distinct_update [of m svc c] unfolding keyed_def by blast
qed

lemma keyed_upsertTarget: "keyed m \<Longrightarrow> keyed (upsertTarget svc sec p m)"
proof -
  assume m: "keyed m"
  have "distinct (map fst (tsc_Valid c)) \<and> distinct (map fst (tsc_Conflicted c))" if "map_of m svc = Some c" for c
    using m map_of_SomeD [OF that] by (force simp: keyed_def)
  then show ?thesis
    using m by (auto simp: upsertTarget_def Let_def UpsertValidPolicy_def UpsertConflictedPolicy_def emptyCollection_def
        distinct_update split: option.split intro!: keyed_update)
qed

lemma Build_keyed: "keyed (BuildBackendTLSPolicyLookup items)"
proof -
  have "keyed m \<Longrightarrow> keyed (fold insertTargeting es m)" for es m
    by (induction es arbitrary: m) (auto simp: keyed_upsertTarget split: prod.split)
  moreover have "keyed []" by (simp add: keyed_def)
  ultimately show ?thesis unfolding Build_eq by blast
qed

lemma Build_member:
  assumes "(svc, c) \<in> set (BuildBackendTLSPolicyLookup items)"
  shows "(sec, p) \<in> set (tsc_Valid c) \<longleftrightarrow> validOf (BuildBackendTLSPolicyLookup items) svc sec = Some p"
    and "(k, p) \<in> set (tsc_Conflicted c) \<longleftrightarrow> conflictedOf (BuildBackendTLSPolicyLookup items) svc k = Some p"
proof -
  note K = Build_keyed [of items, unfolded keyed_def]
  have "map_of (BuildBackendTLSPolicyLookup items) svc = Some c" using K assms by simp
  moreover have "distinct (map fst (tsc_Valid c))" "distinct (map fst (tsc_Conflicted c))" using K assms by force+
  ultimately show "(sec, p) \<in> set (tsc_Valid c) \<longleftrightarrow> validOf (BuildBackendTLSPolicyLookup items) svc sec = Some p"
    "(k, p) \<in> set (tsc_Conflicted c) \<longleftrightarrow> conflictedOf (BuildBackendTLSPolicyLookup items) svc k = Some p"
    by (simp_all add: validOf_def conflictedOf_def)
qed

text \<open>The policy wins wherever it is a target.\<close>

definition wins :: "BackendTLSPolicy list \<Rightarrow> BackendTLSPolicy \<Rightarrow> bool" where
  "wins items p \<longleftrightarrow>
     p \<in> set items \<and> (\<forall>svc sec. targets p svc sec \<longrightarrow> (\<forall>q \<in> set items. targets q svc sec \<longrightarrow> q = p \<or> precedes p q))"

lemma wins_valid:
  assumes "distinct (map ObjectKey items)" "wins items p" "targets p svc sec"
  shows "validOf (BuildBackendTLSPolicyLookup items) svc sec = Some p"
proof (cases rule: valid_inv_cases [OF Build_inv(1) [OF assms(1)], of svc sec])
  case 1
  then show ?thesis using assms(2,3) unfolding all_targets_iff wins_def by blast
next
  case (2 q)
  then show ?thesis using assms(2,3) policy_order.asym unfolding all_targets_iff wins_def by metis
qed

lemma valid_item:
  assumes "distinct (map ObjectKey items)" "validOf (BuildBackendTLSPolicyLookup items) svc sec = Some q"
  shows "q \<in> set items"
proof (cases rule: valid_inv_cases [OF Build_inv(1) [OF assms(1)], of svc sec])
  case (2 p)
  then show ?thesis using assms(2) unfolding all_targets_iff by simp
qed (use assms(2) in simp)

lemma wins_undisputed:
  assumes d: "distinct (map ObjectKey items)" and "wins items p" "sc \<in> set (BuildBackendTLSPolicyLookup items)"
  shows "undisputed p sc"
proof -
  obtain svc c where sc: "sc = (svc, c)" by (cases sc)
  have inj: "q = p" if "q \<in> set items" "ObjectKey q = ObjectKey p" for q
    using d assms(2) that unfolding distinct_map wins_def by (blast dest: inj_onD)
  note mem = Build_member [OF assms(3) [unfolded sc]]
  have "samePolicy p q" if "(sec, q) \<in> set (tsc_Valid c)" for sec q
    using inj valid_item [OF d] that mem(1) by blast
  moreover have "ObjectKey q \<noteq> ObjectKey p" if kq: "(k, q) \<in> set (tsc_Conflicted c)" for k q
  proof
    assume "ObjectKey q = ObjectKey p"
    obtain sec where "q \<in> set items" "targets q svc sec" "validOf (BuildBackendTLSPolicyLookup items) svc sec \<noteq> Some q"
      using kq conflicted_inv_iff [OF Build_inv(2) [OF d], of svc k q] unfolding mem(2) all_targets_iff by blast
    moreover from this have "q = p" using inj \<open>ObjectKey q = ObjectKey p\<close> by simp
    ultimately show False using wins_valid [OF d assms(2)] by blast
  qed
  ultimately show ?thesis unfolding undisputed_def sc by fastforce
qed

lemma wins_validates:
  assumes "distinct (map ObjectKey items)" "wins items p" "targets p svc sec"
    and "relevantService Li w httpRoutes svc" "rd_Service R w svc = Found s"
  shows "\<exists>sc \<in> set (BuildBackendTLSPolicyLookup items). validates R Li w httpRoutes p sc"
proof -
  have "validOf (BuildBackendTLSPolicyLookup items) svc sec = Some p" by (rule wins_valid [OF assms(1-3)])
  then obtain c where c: "map_of (BuildBackendTLSPolicyLookup items) svc = Some c" "map_of (tsc_Valid c) sec = Some p"
    by (auto simp: validOf_def split: option.splits)
  have "p \<in> snd ` set (tsc_Valid c)" using map_of_SomeD [OF c(2)] by force
  then have "validates R Li w httpRoutes p (svc, c)" using assms(4,5) by (simp add: validates_def)
  then show ?thesis using map_of_SomeD [OF c(1)] by blast
qed


definition examplePolicy :: BackendTLSPolicy where
  "examplePolicy =
     \<lparr>btp_Namespace = ''ns'', btp_Name = ''pol'', btp_CreationTimestamp = 1, btp_Generation = 1,
      btp_TargetRefs = [\<lparr>tgt_Group = '''', tgt_Kind = ''Service'', tgt_Name = ''svc'', tgt_SectionName = None\<rparr>],
      btp_CACertificateRefs = [], btp_WellKnownCACertificates = None, btp_Ancestors = []\<rparr>"

definition policyCluster :: Cluster where
  "policyCluster = exampleHTTPCluster\<lparr>cl_Policies := [examplePolicy]\<rparr>"

lemma mem_policy_client: "policy_client memReader memLister memWriter"
  by (simp add: policy_client_def memReader_def memLister_def memWriter_def storeObject_def Let_def)

lemma example_policy_run:
  "fst (setBackendTLSPolicyStatuses memReader memLister memWriter (\<lambda>b. None) 5 [exampleRoute ''ns'']
     (BuildBackendTLSPolicyLookup [examplePolicy]) (''ns'', ''gw'') policyCluster) = None"
  by code_simp


end
