(* ===== verification/Gateway_Reconcile.thy ===== *)
theory Gateway_Reconcile
  imports Listener_Status Policy_Status Gateway_Translator Ingestion_Safety
begin

text \<open>
  The reconciliation of a Gateway, \<open>Reconcile\<close> of
  \<open>src/pkg/gateway_api/gateway_reconcile.go\<close>: it reads the Gateway, its class and all routes,
  writes the statuses of routes, policies and ListenerSets, ingests the attached routes, translates
  the model, and writes the Service, the Endpoints and the Envoy configurations and at last the status of
  the Gateway. The phases follow one another as in the code; a phase ends the reconciliation with
  \<open>Inl\<close> a result or goes on with \<open>Inr\<close>. The clock stands still during a reconciliation.
  \<open>None\<close> means that the code does not return.
\<close>

section \<open>The reconciler\<close>

record 'j CiliumEnvoyConfig =
  cec_Name :: string
  cec_Namespace :: string
  cec_BackendServices :: "'j option"
  cec_Resources :: "'j option"
  cec_Services :: "'j option"
  cec_OwnerReferences :: "OwnerReference list"

text \<open>
  \<open>CreateOrPatch(ctx, client, obj, mutate)\<close> of controller-runtime writes \<open>mutate old\<close> where
  there is an object with the key of \<open>obj\<close> and creates \<open>mutate obj\<close> where there is none. A deletion is
  \<open>Found ()\<close>, or the object does not exist, or it fails. \<open>gr_encode\<close> functions are the JSON
  encodings of the library types; the group and kind of the class configuration are constants of
  that library.
\<close>

type_synonym ('w, 'o) createOrPatch = "'w \<Rightarrow> 'o \<Rightarrow> ('o \<Rightarrow> 'o) \<Rightarrow> 'w writeResult"

record ('w, 'b, 'j) ObjectWriter =
  ow_Service :: "('w, CoreServiceObject) createOrPatch"
  ow_Endpoints :: "('w, CoreEndpoints) createOrPatch"
  ow_DEC :: "('w, 'b DolphinEnvoyConfig) createOrPatch"
  ow_CEC :: "('w, 'j CiliumEnvoyConfig) createOrPatch"
  ow_DeleteDEC :: "'w \<Rightarrow> NamespacedName \<Rightarrow> unit getResult \<times> 'w"
  ow_DeleteCEC :: "'w \<Rightarrow> NamespacedName \<Rightarrow> unit getResult \<times> 'w"

record ('w, 'sel, 'b, 'j) gatewayReconciler =
  gr_Reader :: "('w, 'sel) Reader"
  gr_Lister :: "('w, 'sel) Lister"
  gr_Status :: "('w, 'sel) StatusWriter"
  gr_Objects :: "('w, 'b, 'j) ObjectWriter"
  gr_Lib :: "'b Lib"
  gr_Xff :: uint32
  gr_pemDecode :: "string \<Rightarrow> string option"
  gr_regexpErr :: "string \<Rightarrow> string option"
  gr_encodeBackendServices :: "DolphinService list \<Rightarrow> string + 'j"
  gr_encodeResources :: "'b XDSResource list \<Rightarrow> string + 'j"
  gr_encodeServices :: "ServiceListener list \<Rightarrow> string + 'j"
  gr_configGroupKind :: "string \<times> string"
  gr_mapOrder :: "BackendTLSPolicyServiceMap \<Rightarrow> BackendTLSPolicyServiceMap"
  gr_SecretNamespace :: string
  gr_IdleTimeoutSeconds :: int
  gr_installedCRDs :: "GroupVersionKind list"
  gr_hostNetworkEnabled :: bool

definition hasInstalledCRD :: "('w, 'sel, 'b, 'j) gatewayReconciler \<Rightarrow> string \<Rightarrow> bool" where
  "hasInstalledCRD r kind \<longleftrightarrow> (\<exists>gvk \<in> set (gr_installedCRDs r). gvk_Kind gvk = kind)"

section \<open>Objects\<close>

definition gateway_mergeMap :: "string_map \<Rightarrow> string_map \<Rightarrow> string_map" where
  "gateway_mergeMap left right =
     (if left = [] then right else fold (\<lambda>(key, value) m. AList.update key value m) right left)"

definition mutateService :: "CoreServiceObject \<Rightarrow> CoreServiceObject \<Rightarrow> CoreServiceObject" where
  "mutateService desired svc =
     svc\<lparr>cso_Type := cso_Type desired, cso_Ports := cso_Ports desired,
         cso_OwnerReferences := cso_OwnerReferences desired,
         cso_Annotations := gateway_mergeMap (cso_Annotations svc) (cso_Annotations desired),
         cso_Labels := gateway_mergeMap (cso_Labels svc) (cso_Labels desired)\<rparr>"

definition ensureService :: "('w, 'b, 'j) ObjectWriter \<Rightarrow> CoreServiceObject \<Rightarrow> 'w \<Rightarrow> 'w writeResult" where
  "ensureService O' desired w = ow_Service O' w desired (mutateService desired)"

definition mutateEndpoints :: "CoreEndpoints \<Rightarrow> CoreEndpoints \<Rightarrow> CoreEndpoints" where
  "mutateEndpoints desired ep =
     ep\<lparr>ceo_Addresses := ceo_Addresses desired, ceo_Ports := ceo_Ports desired,
        ceo_OwnerReferences := ceo_OwnerReferences desired,
        ceo_Labels := gateway_mergeMap (ceo_Labels ep) (ceo_Labels desired)\<rparr>"

definition ensureEndpoints :: "('w, 'b, 'j) ObjectWriter \<Rightarrow> CoreEndpoints \<Rightarrow> 'w \<Rightarrow> 'w writeResult" where
  "ensureEndpoints O' desired w = ow_Endpoints O' w desired (mutateEndpoints desired)"

definition mutateDEC :: "'b DolphinEnvoyConfig \<Rightarrow> 'b DolphinEnvoyConfig \<Rightarrow> 'b DolphinEnvoyConfig" where
  "mutateDEC desired dec =
     dec\<lparr>dec_BackendServices := dec_BackendServices desired, dec_Services := dec_Services desired,
         dec_Resources := dec_Resources desired, dec_OwnerReferences := dec_OwnerReferences desired,
         dec_Labels := gateway_mergeMap (dec_Labels dec) (dec_Labels desired)\<rparr>"

definition ensureEnvoyConfig ::
  "('w, 'b, 'j) ObjectWriter \<Rightarrow> 'b DolphinEnvoyConfig option \<Rightarrow> 'w \<Rightarrow> 'w writeResult" where
  "ensureEnvoyConfig O' desired w =
     (case desired of None \<Rightarrow> (None, w) | Some dec \<Rightarrow> ow_DEC O' w dec (mutateDEC dec))"

text \<open>\<open>toUnstructured\<close> of one part of the specification, which is left out if it is empty.\<close>

definition toUnstructured :: "string \<Rightarrow> ('a list \<Rightarrow> string + 'j) \<Rightarrow> 'a list \<Rightarrow> string + 'j option" where
  "toUnstructured what encode xs =
     (if length xs > 0
      then (case encode xs of
              Inl err \<Rightarrow> Inl (''failed to encode DolphinEnvoyConfig '' @ what @ '': '' @ err)
            | Inr j \<Rightarrow> Inr (Some j))
      else Inr None)"

definition ensureCiliumEnvoyConfig ::
  "('w, 'sel, 'b, 'j) gatewayReconciler \<Rightarrow> 'b DolphinEnvoyConfig option \<Rightarrow> 'w \<Rightarrow> 'w writeResult" where
  "ensureCiliumEnvoyConfig r desired w =
     (case desired of
        None \<Rightarrow> (None, w)
      | Some dec \<Rightarrow>
        (case toUnstructured ''backend services'' (gr_encodeBackendServices r) (dec_BackendServices dec) of
           Inl err \<Rightarrow> (Some err, w)
         | Inr backendServices \<Rightarrow>
           (case toUnstructured ''resources'' (gr_encodeResources r) (dec_Resources dec) of
              Inl err \<Rightarrow> (Some err, w)
            | Inr resources \<Rightarrow>
              (case toUnstructured ''services'' (gr_encodeServices r) (dec_Services dec) of
                 Inl err \<Rightarrow> (Some err, w)
               | Inr services \<Rightarrow>
                 ow_CEC (gr_Objects r) w
                   \<lparr>cec_Name = dec_Name dec, cec_Namespace = dec_Namespace dec, cec_BackendServices = None,
                    cec_Resources = None, cec_Services = None, cec_OwnerReferences = []\<rparr>
                   (\<lambda>cec. cec\<lparr>cec_BackendServices := backendServices, cec_Resources := resources,
                              cec_Services := services, cec_OwnerReferences := dec_OwnerReferences dec\<rparr>)))))"

definition deleteEnvoyConfigs :: "('w, 'b, 'j) ObjectWriter \<Rightarrow> 'sel Gateway \<Rightarrow> 'w \<Rightarrow> 'w writeResult" where
  "deleteEnvoyConfigs O' gw w =
     (let name = shortened (''dolphin-gateway-'' @ gw_Name gw)
      in case ow_DeleteDEC O' w (gw_Namespace gw, name) of
           (GetFailed err, w') \<Rightarrow> (Some (''failed to delete DolphinEnvoyConfig: '' @ err), w')
         | (_, w') \<Rightarrow>
             (case ow_DeleteCEC O' w' (gw_Namespace gw, name) of
                (GetFailed err, w'') \<Rightarrow> (Some (''failed to delete CiliumEnvoyConfig: '' @ err), w'')
              | (_, w'') \<Rightarrow> (None, w'')))"

text \<open>\<open>None\<close>: the parameters of the class have no namespace, which is dereferenced.\<close>

definition getGatewayClassConfig ::
  "('w, 'sel, 'b, 'j) gatewayReconciler \<Rightarrow> 'w \<Rightarrow> GatewayClass \<Rightarrow> string option option" where
  "getGatewayClassConfig r w gwc =
     (case gc_ParametersRef gwc of
        None \<Rightarrow> Some None
      | Some (grp, kind, ns, name) \<Rightarrow>
          if grp \<noteq> fst (gr_configGroupKind r) \<or> kind \<noteq> snd (gr_configGroupKind r) then Some None
          else (case ns of
                  None \<Rightarrow> None
                | Some namespace \<Rightarrow>
                  (case rd_GatewayClassConfig (gr_Reader r) w (namespace, name) of
                     Found cfg \<Rightarrow> Some (Some cfg)
                   | _ \<Rightarrow> Some None)))"

section \<open>The status of the Gateway\<close>

definition onConditions :: "(StatusObject \<Rightarrow> StatusObject) \<Rightarrow> 'sel GatewayObject \<Rightarrow> 'sel GatewayObject" where
  "onConditions f gw =
     gw\<lparr>go_Status := (go_Status gw)\<lparr>gs_Conditions := st_Conditions (f (gatewayStatusObject gw))\<rparr>\<rparr>"

abbreviation (input) setAccepted :: "int \<Rightarrow> 'sel GatewayObject \<Rightarrow> bool \<Rightarrow> string \<Rightarrow> 'sel GatewayObject" where
  "setAccepted now gw b m \<equiv> onConditions (\<lambda>s. setGatewayAccepted now s b m) gw"

abbreviation (input) setProgrammed :: "int \<Rightarrow> 'sel GatewayObject \<Rightarrow> bool \<Rightarrow> string \<Rightarrow> 'sel GatewayObject" where
  "setProgrammed now gw b m \<equiv> onConditions (\<lambda>s. setGatewayProgrammed now s b m) gw"

definition serviceAddresses :: "(string \<times> string) list \<Rightarrow> (string \<times> string) list" where
  "serviceAddresses ingress =
     concat (map (\<lambda>(ip, hostname).
       (if length ip \<noteq> 0 then [(''IPAddress'', ip)] else []) @
       (if length hostname \<noteq> 0 then [(''Hostname'', hostname)] else [])) ingress)"

definition setAddressStatus :: "('w, 'sel) Lister \<Rightarrow> 'w \<Rightarrow> 'sel GatewayObject \<Rightarrow> string + 'sel GatewayObject" where
  "setAddressStatus Li w gw =
     (case li_ServicesLabelled Li w (gw_Namespace (go_Spec gw)) owningGatewayLabel (shortened (gw_Name (go_Spec gw))) of
        Inl err \<Rightarrow> Inl err
      | Inr [] \<Rightarrow> Inl ''no service found''
      | Inr (svc # _) \<Rightarrow>
          if length (so_LoadBalancer svc) = 0 then Inl ''load balancer status is not ready''
          else Inr (gw\<lparr>go_Status := (go_Status gw)\<lparr>gs_Addresses := serviceAddresses (so_LoadBalancer svc)\<rparr>\<rparr>))"

definition gw_updateStatus ::
  "('w, 'sel) StatusWriter \<Rightarrow> 'sel GatewayObject \<Rightarrow> 'sel GatewayObject \<Rightarrow> 'w \<Rightarrow> 'w writeResult" where
  "gw_updateStatus S original modified w =
     (if sameGatewayStatus (go_Status original) (go_Status modified) then (None, w) else sw_Gateway S w modified)"

definition gw_handleReconcileErrorWithStatus ::
  "('w, 'sel) StatusWriter \<Rightarrow> string \<Rightarrow> 'sel GatewayObject \<Rightarrow> 'sel GatewayObject \<Rightarrow> 'w \<Rightarrow> reconcileResult \<times> 'w" where
  "gw_handleReconcileErrorWithStatus S reconcileErr original modified w =
     (case gw_updateStatus S original modified w of
        (Some err, w') \<Rightarrow>
          (Fail (''failed to update Gateway status while handling the reconcile error: '' @ reconcileErr @ '': '' @ err), w')
      | (None, w') \<Rightarrow> (Fail reconcileErr, w'))"

section \<open>The phases\<close>

type_synonym ('w, 'a) phase = "((reconcileResult + 'a) \<times> 'w) option"

definition goOn :: "('w, 'a) phase \<Rightarrow> ('a \<Rightarrow> 'w \<Rightarrow> ('w, 'c) phase) \<Rightarrow> ('w, 'c) phase" where
  "goOn m f =
     (case m of
        None \<Rightarrow> None
      | Some (Inl res, w) \<Rightarrow> Some (Inl res, w)
      | Some (Inr a, w) \<Rightarrow> f a w)"

abbreviation (input) failWith ::
  "('w, 'sel, 'b, 'j) gatewayReconciler \<Rightarrow> string \<Rightarrow> 'sel GatewayObject \<Rightarrow> 'sel GatewayObject \<Rightarrow> 'w \<Rightarrow> ('w, 'a) phase" where
  "failWith r err original modified w \<equiv>
     Some (map_prod Inl id (gw_handleReconcileErrorWithStatus (gr_Status r) err original modified w))"

text \<open>A list, whose failure is handled with the unchanged Gateway and its copy.\<close>

definition listPhase ::
  "('w, 'sel, 'b, 'j) gatewayReconciler \<Rightarrow> 'sel GatewayObject \<Rightarrow> 'a listResult \<Rightarrow> 'w \<Rightarrow> ('w, 'a list) phase" where
  "listPhase r gw res w = (case res of Inl err \<Rightarrow> failWith r err gw gw w | Inr xs \<Rightarrow> Some (Inr xs, w))"

record Inputs =
  inp_Routes :: RouteLists
  inp_Services :: "ServiceObject list"
  inp_Grants :: "ReferenceGrant list"

definition listInputs ::
  "('w, 'sel, 'b, 'j) gatewayReconciler \<Rightarrow> 'sel GatewayObject \<Rightarrow> 'w \<Rightarrow> ('w, Inputs) phase" where
  "listInputs r gw w0 =
     (let Li = gr_Lister r
      in goOn (listPhase r gw (li_HTTPRoutes Li w0) w0) (\<lambda>http w.
         goOn (listPhase r gw (li_TLSRoutes Li w) w) (\<lambda>tls w.
         goOn (listPhase r gw (li_Services Li w) w) (\<lambda>services w.
         goOn (listPhase r gw (li_GRPCRoutes Li w) w) (\<lambda>grpc w.
         goOn (if hasInstalledCRD r ''tcproutes'' then listPhase r gw (li_TCPRoutes Li w) w else Some (Inr [], w)) (\<lambda>tcp w.
         goOn (if hasInstalledCRD r ''udproutes'' then listPhase r gw (li_UDPRoutes Li w) w else Some (Inr [], w)) (\<lambda>udp w.
         goOn (listPhase r gw (rd_ReferenceGrants (gr_Reader r) w) w) (\<lambda>grants w.
           Some (Inr \<lparr>inp_Routes = \<lparr>rl_HTTP = http, rl_TLS = tls, rl_GRPC = grpc, rl_TCP = tcp, rl_UDP = udp\<rparr>,
                      inp_Services = services, inp_Grants = grants\<rparr>, w)))))))))"

text \<open>The routes take over the statuses that were written.\<close>

abbreviation (input) statusPhase ::
  "(string \<Rightarrow> string) \<Rightarrow> (string option \<times> 'a list \<times> 'w) option \<Rightarrow> ('w, 'a list) phase" where
  "statusPhase msg m \<equiv>
     (case m of
        None \<Rightarrow> None
      | Some (Some err, routes, w) \<Rightarrow> Some (Inl (Fail (msg err)), w)
      | Some (None, routes, w) \<Rightarrow> Some (Inr routes, w))"

definition setRoutesStatuses ::
  "('w, 'sel, 'b, 'j) gatewayReconciler \<Rightarrow> int \<Rightarrow> Inputs \<Rightarrow> 'w \<Rightarrow> ('w, RouteLists) phase" where
  "setRoutesStatuses r now inp w =
     (let R = gr_Reader r; S = gr_Status r; routes = inp_Routes inp; grants = inp_Grants inp
      in goOn (statusPhase (\<lambda>e. ''failed to update HTTPRoute status: '' @ e)
           (SetRouteStatuses R S (gr_regexpErr r) gatewayControllerName now grants w (rl_HTTP routes))) (\<lambda>http w.
         goOn (if hasInstalledCRD r ''tcproutes''
               then statusPhase id (setTCPRouteStatuses R S (gr_hostNetworkEnabled r) now grants w (rl_TCP routes))
               else Some (Inr (rl_TCP routes), w)) (\<lambda>tcp w.
         goOn (if hasInstalledCRD r ''udproutes''
               then statusPhase id (setUDPRouteStatuses R S (gr_hostNetworkEnabled r) now grants w (rl_UDP routes))
               else Some (Inr (rl_UDP routes), w)) (\<lambda>udp w.
           Some (Inr (routes\<lparr>rl_HTTP := http, rl_TCP := tcp, rl_UDP := udp\<rparr>), w)))))"

definition attachListenerSets ::
  "('w, 'sel, 'b, 'j) gatewayReconciler \<Rightarrow> int \<Rightarrow> 'sel GatewayObject \<Rightarrow> 'w \<Rightarrow> ('w, 'sel ListenerSet list) phase" where
  "attachListenerSets r now gw w =
     (if rd_ListenerSetSupport (gr_Reader r)
      then goOn (listPhase r gw (listenerSetsForGateway (gr_Lister r) w gw) w) (\<lambda>sets w.
             let (allowed, w') = filterToAllowedListenerSets (gr_Reader r) (gr_Status r) now gw sets w
             in Some (Inr allowed, w'))
      else Some (Inr [], w))"

definition labelIndex ::
  "('w, 'sel, 'b, 'j) gatewayReconciler \<Rightarrow> 'sel GatewayObject \<Rightarrow> 'w \<Rightarrow> ('w, NamespaceLabelIndex) phase" where
  "labelIndex r gw w =
     goOn (if hasAllowedRoutesNamespaceSelector (go_Spec gw)
           then listPhase r gw (rd_Namespaces (gr_Reader r) w) w else Some (Inr [], w))
       (\<lambda>namespaces w. Some (Inr (NewNamespaceLabelIndex namespaces), w))"

text \<open>
  The input of ingestion: the routes by Gateway. The ReferenceGrants are not passed on. An empty
  list of listeners is the nil slice.
\<close>

definition ingestionInput ::
  "('w, 'sel, 'b, 'j) gatewayReconciler \<Rightarrow> 'w \<Rightarrow> 'sel GatewayObject \<Rightarrow> 'sel ListenerSet list \<Rightarrow>
   'sel ListenerWithContext list \<Rightarrow> NamespaceLabelIndex \<Rightarrow> RouteLists \<Rightarrow> ServiceObject list \<Rightarrow> 'sel Input option" where
  "ingestionInput r w gw attached listenerContexts labels routes services = do {
     let R = gr_Reader r;
     tls \<leftarrow> filterTLSRoutesByGateway R w (go_Spec gw) (rl_TLS routes);
     Some \<lparr>in_Gateway = go_Spec gw,
           in_Listeners = (if listenerContexts = [] then None else Some listenerContexts),
           in_HTTPRoutes = map ro_Route (filterHTTPRoutesByGateway R w gw attached (rl_HTTP routes)),
           in_TLSRoutes = map ro_Route tls,
           in_GRPCRoutes = map ro_Route (filterGRPCRoutesByGateway R (go_Spec gw) (rl_GRPC routes) labels),
           in_TCPRoutes = map ro_Route (filterTCPRoutesByGateway (go_Spec gw) attached (rl_TCP routes)),
           in_UDPRoutes = map ro_Route (filterUDPRoutesByGateway (go_Spec gw) attached (rl_UDP routes)),
           in_ReferenceGrants = [],
           in_Services = map (\<lambda>s. \<lparr>cs_Name = ServiceObject.so_Name s, cs_Namespace = so_Namespace s\<rparr>) services\<rparr> }"

definition setPolicyStatuses ::
  "('w, 'sel, 'b, 'j) gatewayReconciler \<Rightarrow> int \<Rightarrow> 'sel GatewayObject \<Rightarrow> NamespacedName \<Rightarrow> HTTPRouteObject list \<Rightarrow>
   'w \<Rightarrow> ('w, unit) phase" where
  "setPolicyStatuses r now gw req httpRoutes w =
     goOn (listPhase r gw (li_BackendTLSPolicies (gr_Lister r) w) w) (\<lambda>policies w.
       if length policies > 0
       then (case setBackendTLSPolicyStatuses (gr_Reader r) (gr_Lister r) (gr_Status r) (gr_pemDecode r) now httpRoutes
                    (gr_mapOrder r (BuildBackendTLSPolicyLookup policies)) req w of
               (Some err, _, _, w') \<Rightarrow> Some (Inl (Fail err), w')
             | (None, _, _, w') \<Rightarrow> Some (Inr (), w'))
       else Some (Inr (), w))"

text \<open>The accepted copy, the Gateway with the number of its ListenerSets, and the sets.\<close>

definition setListenerStatuses ::
  "('w, 'sel, 'b, 'j) gatewayReconciler \<Rightarrow> int \<Rightarrow> 'sel GatewayObject \<Rightarrow> 'sel ListenerSet list \<Rightarrow>
   listenerConflictsBySource \<Rightarrow> RouteLists \<Rightarrow> NamespaceLabelIndex \<Rightarrow> 'w \<Rightarrow>
   ('w, 'sel GatewayObject \<times> 'sel GatewayObject) phase" where
  "setListenerStatuses r now gw attached conflicted routes labels w =
     (case setListenerStatus (gr_pemDecode r) (gr_Reader r) w now gw routes labels of
        None \<Rightarrow> None
      | Some (Inl err) \<Rightarrow> failWith r err gw (setAccepted now gw False ''Unable to set listener status'') w
      | Some (Inr copy) \<Rightarrow>
          (case setListenerSetStatuses (gr_pemDecode r) (gr_Reader r) (gr_Status r) now gw attached conflicted routes labels w of
             None \<Rightarrow> None
           | Some (gw', _, w') \<Rightarrow>
               Some (Inr (gw', setAccepted now copy True ''Gateway successfully scheduled''), w')))"

text \<open>A failed write marks \<open>gw\<close>, not the copy that is written.\<close>

definition writePhase ::
  "('w, 'sel, 'b, 'j) gatewayReconciler \<Rightarrow> int \<Rightarrow> 'sel GatewayObject \<Rightarrow> 'sel GatewayObject \<Rightarrow> string \<Rightarrow>
   'w writeResult \<Rightarrow> ('w, unit) phase" where
  "writePhase r now gw copy msg res =
     (case res of
        (Some err, w) \<Rightarrow> failWith r err (setAccepted now gw False msg) copy w
      | (None, w) \<Rightarrow> Some (Inr (), w))"

definition writeObjects ::
  "('w, 'sel, 'b, 'j) gatewayReconciler \<Rightarrow> int \<Rightarrow> 'sel GatewayObject \<Rightarrow> 'sel GatewayObject \<Rightarrow> 'b Translation \<Rightarrow>
   'w \<Rightarrow> ('w, unit) phase" where
  "writeObjects r now gw copy t w =
     (case (trn_Service t, trn_Endpoints t) of
        (Some svc, Some ep) \<Rightarrow>
          goOn (writePhase r now gw copy ''Unable to create Service resource'' (ensureService (gr_Objects r) svc w)) (\<lambda>_ w.
          goOn (writePhase r now gw copy ''Unable to ensure Endpoints resource'' (ensureEndpoints (gr_Objects r) ep w)) (\<lambda>_ w.
          (case trn_DEC t of
             Some dec \<Rightarrow>
               goOn (writePhase r now gw copy ''Unable to ensure CEC resource'' (ensureEnvoyConfig (gr_Objects r) (Some dec) w)) (\<lambda>_ w.
               writePhase r now gw copy ''Unable to ensure CiliumEnvoyConfig resource'' (ensureCiliumEnvoyConfig r (Some dec) w))
           | None \<Rightarrow>
               (case deleteEnvoyConfigs (gr_Objects r) (go_Spec gw) w of
                  (Some err, w') \<Rightarrow> failWith r err gw copy w'
                | (None, w') \<Rightarrow> Some (Inr (), w')))))
      | _ \<Rightarrow> None)"

definition publish ::
  "('w, 'sel, 'b, 'j) gatewayReconciler \<Rightarrow> int \<Rightarrow> 'sel GatewayObject \<Rightarrow> 'sel GatewayObject \<Rightarrow> 'w \<Rightarrow> ('w, unit) phase" where
  "publish r now gw copy w =
     (case setAddressStatus (gr_Lister r) w copy of
        Inl err \<Rightarrow> failWith r err (setProgrammed now gw False ''Address is not ready'') copy w
      | Inr copy' \<Rightarrow>
          (case gw_updateStatus (gr_Status r) gw (setProgrammed now copy' True ''reconciled successfully'') w of
             (Some err, w') \<Rightarrow> Some (Inl (Fail (''failed to update Gateway status: '' @ err)), w')
           | (None, w') \<Rightarrow> Some (Inr (), w')))"

definition translateModel ::
  "('w, 'sel, 'b, 'j) gatewayReconciler \<Rightarrow> string option \<Rightarrow> Model \<Rightarrow> (string + 'b Translation) option" where
  "translateModel r cfg m =
     gateway_Translate (gr_Lib r) (gr_Xff r)
       (gateway_NewTranslator (gr_SecretNamespace r) (gr_IdleTimeoutSeconds r) True False) cfg (Some m)"

section \<open>The whole reconciliation\<close>

text \<open>The steps for a Gateway of the controller's class.\<close>

definition reconcileGateway ::
  "('w, 'sel, 'b, 'j) gatewayReconciler \<Rightarrow> int \<Rightarrow> NamespacedName \<Rightarrow> GatewayClass \<Rightarrow> 'sel GatewayObject \<Rightarrow> 'w \<Rightarrow>
   ('w, unit) phase" where
  "reconcileGateway r now req gwc gw w =
     goOn (listInputs r gw w) (\<lambda>inp w.
     goOn (setRoutesStatuses r now inp w) (\<lambda>routes w.
     goOn (attachListenerSets r now gw w) (\<lambda>attached w.
     let listenerContexts = mergeListeners (gr_Reader r) w gw attached;
         conflicted = conflictsAcrossSources listenerContexts
     in goOn (labelIndex r gw w) (\<lambda>labels w.
     case getGatewayClassConfig r w gwc of
       None \<Rightarrow> None
     | Some cfg \<Rightarrow>
     case ingestionInput r w gw attached listenerContexts labels routes (inp_Services inp) of
       None \<Rightarrow> None
     | Some input \<Rightarrow>
     case GatewayAPI input of
       None \<Rightarrow> None
     | Some m \<Rightarrow>
     goOn (setPolicyStatuses r now gw req (filterHTTPRoutesByGateway (gr_Reader r) w gw attached (rl_HTTP routes)) w) (\<lambda>_ w.
     goOn (setListenerStatuses r now gw attached conflicted routes labels w) (\<lambda>(gw', copy) w.
     case translateModel r cfg m of
       None \<Rightarrow> None
     | Some (Inl err) \<Rightarrow> failWith r err (setAccepted now gw' False ''Unable to translate resources'') copy w
     | Some (Inr t) \<Rightarrow>
     goOn (writeObjects r now gw' copy t w) (\<lambda>_ w.
     publish r now gw' copy w)))))))"

definition gateway_Reconcile ::
  "('w, 'sel, 'b, 'j) gatewayReconciler \<Rightarrow> int \<Rightarrow> NamespacedName \<Rightarrow> 'w \<Rightarrow> (reconcileResult \<times> 'w) option" where
  "gateway_Reconcile r now req w =
     (case rd_Gateway (gr_Reader r) w req of
        NotFound \<Rightarrow> Some (Success, w)
      | GetFailed err \<Rightarrow> Some (Fail err, w)
      | Found gw \<Rightarrow>
          if go_Deleting gw then Some (Success, w)
          else (case rd_GatewayClass (gr_Reader r) w (go_ClassName gw) of
                  Found gwc \<Rightarrow>
                    if gc_ControllerName gwc \<noteq> gatewayControllerName then Some (Success, w)
                    else (case reconcileGateway r now req gwc gw w of
                            None \<Rightarrow> None
                          | Some (Inl res, w') \<Rightarrow> Some (res, w')
                          | Some (Inr _, w') \<Rightarrow> Some (Success, w'))
                | _ \<Rightarrow> Some (Success, w)))"

end
