(* ===== verification/Gateway_Programmed.thy ===== *)
theory Gateway_Programmed
  imports Gateway_Correct
begin

text \<open>
  What a reconciliation of a Gateway that succeeds has done: the stored Gateway is accepted and
  programmed under the addresses of its Service, and the stored Envoy configuration is the
  translation of the ingested routes.
\<close>

section \<open>Failures\<close>

definition endsFailing :: "('w, 'a) phase \<Rightarrow> bool" where
  "endsFailing m \<longleftrightarrow> (\<forall>res w. m = Some (Inl res, w) \<longrightarrow> res \<noteq> Success)"

lemma endsFailing_simps [simp]:
  "endsFailing None" "endsFailing (Some (Inr a, w))" "endsFailing (Some (Inl (Fail e), w))" "endsFailing (failWith r e gw copy w)"
  by (auto simp: endsFailing_def gw_handleReconcileErrorWithStatus_def Success_def Fail_def split: prod.splits option.splits)

lemma goOn_failing: "endsFailing m \<Longrightarrow> (\<And>a w. endsFailing (f a w)) \<Longrightarrow> endsFailing (goOn m f)"
  unfolding endsFailing_def goOn_def by (auto split: option.splits sum.splits prod.splits)

lemma if_failing: "endsFailing a \<Longrightarrow> endsFailing b \<Longrightarrow> endsFailing (if c then a else b)"
  by simp

lemma case_failing: "(\<And>a. endsFailing (f a)) \<Longrightarrow> endsFailing (case m of None \<Rightarrow> None | Some a \<Rightarrow> f a)"
  by (cases m) simp_all

lemma listPhase_failing: "endsFailing (listPhase r gw res w)"
  by (simp add: listPhase_def del: endsFailing_simps(3) split: sum.split)

lemma statusPhase_failing: "endsFailing (statusPhase msg m)"
  by (simp split: option.split prod.split)

lemmas failing_phase = goOn_failing if_failing case_failing listPhase_failing statusPhase_failing endsFailing_simps

lemma writePhase_failing: "endsFailing (writePhase r now gw copy msg res)"
  unfolding writePhase_def by (cases res; cases "fst res") (simp_all)

lemma writeObjects_failing: "endsFailing (writeObjects r now gw copy t w)"
  unfolding writeObjects_def
  by (auto intro!: failing_phase writePhase_failing split: option.split prod.split)

lemma reconcileGateway_failing: "endsFailing (reconcileGateway r now req gwc gw w)"
  unfolding reconcileGateway_def Let_def
proof (intro failing_phase)
  show "endsFailing (listInputs r gw w)" unfolding listInputs_def Let_def by (intro failing_phase)
  show "endsFailing (setRoutesStatuses r now inp w)" for inp w
    unfolding setRoutesStatuses_def Let_def by (intro failing_phase)
  show "endsFailing (attachListenerSets r now gw w)" for w
    unfolding attachListenerSets_def by (intro failing_phase) (simp add: split_beta)
  show "endsFailing (labelIndex r gw w)" for w unfolding labelIndex_def by (intro failing_phase)
  show "endsFailing (setPolicyStatuses r now gw req rs w)" for rs w
    unfolding setPolicyStatuses_def by (intro failing_phase) (simp split: prod.split option.split)
  show "endsFailing (setListenerStatuses r now gw attached conflicted routes labels w)" for attached conflicted routes labels w
    unfolding setListenerStatuses_def by (simp split: option.split sum.split prod.split)
  show "endsFailing ((case p of (gw', copy) \<Rightarrow> \<lambda>w. case translateModel r cfg m of
       None \<Rightarrow> None
     | Some (Inl err) \<Rightarrow> failWith r err (setAccepted now gw' False ''Unable to translate resources'') copy w
     | Some (Inr t) \<Rightarrow> goOn (writeObjects r now gw' copy t w) (\<lambda>_ w. publish r now gw' copy w)) w)" for p cfg m w
    by (simp add: goOn_failing writeObjects_failing publish_def split: prod.split option.split sum.split)
qed

section \<open>What the phases leave alone\<close>

text \<open>
  A view \<open>v\<close> of the cluster that the writes of other kinds do not change: the writes of statuses of
  routes, ListenerSets and policies, and the writes of Services, Endpoints and Envoy configurations.
\<close>

definition statusWritesKeep :: "('w, 'sel) StatusWriter \<Rightarrow> ('w \<Rightarrow> 'v) \<Rightarrow> bool" where
  "statusWritesKeep S v \<longleftrightarrow>
     (\<forall>w x. v (snd (sw_HTTPRoute S w x)) = v w) \<and> (\<forall>w x. v (snd (sw_TCPRoute S w x)) = v w) \<and>
     (\<forall>w x. v (snd (sw_UDPRoute S w x)) = v w) \<and> (\<forall>w x. v (snd (sw_ListenerSet S w x)) = v w) \<and>
     (\<forall>w x. v (snd (sw_BackendTLSPolicy S w x)) = v w)"

definition objectWritesKeep :: "('w, 'b, 'j) ObjectWriter \<Rightarrow> ('w \<Rightarrow> 'v) \<Rightarrow> bool" where
  "objectWritesKeep O' v \<longleftrightarrow>
     (\<forall>w x f. v (snd (ow_Service O' w x f)) = v w) \<and> (\<forall>w x f. v (snd (ow_Endpoints O' w x f)) = v w) \<and>
     (\<forall>w x f. v (snd (ow_DEC O' w x f)) = v w) \<and> (\<forall>w x f. v (snd (ow_CEC O' w x f)) = v w) \<and>
     (\<forall>w k. v (snd (ow_DeleteDEC O' w k)) = v w) \<and> (\<forall>w k. v (snd (ow_DeleteCEC O' w k)) = v w)"

definition sameView :: "('w \<Rightarrow> 'v) \<Rightarrow> 'w \<Rightarrow> 'w \<Rightarrow> bool" where
  "sameView v w w' \<longleftrightarrow> v w' = v w"

interpretation view: state_frame "sameView v" for v
  by unfold_locales (simp_all add: sameView_def)

lemma setRoutesStatuses_view:
  assumes keep: "statusWritesKeep (gr_Status r) v"
    and run: "setRoutesStatuses r now inp w = Some (Inr routes, w')"
  shows "sameView v w w'"
proof -
  have http: "sameView v w1 w2" if "SetRouteStatuses R (gr_Status r) re c now grants w1 hs = Some (e, hs', w2)"
    for R re c grants w1 hs e hs' w2
    by (rule view.statusLoop_frame [OF _ that [unfolded SetRouteStatuses_def setHTTPRouteStatuses_def]])
       (use keep in \<open>simp add: statusWritesKeep_def sameView_def\<close>)
  have tcp: "sameView v w1 w2" if "setTCPRouteStatuses R (gr_Status r) hn now grants w1 hs = Some (e, hs', w2)"
    for R hn grants w1 hs e hs' w2
    by (rule view.statusLoop_frame [OF _ that [unfolded setTCPRouteStatuses_def]])
       (use keep in \<open>simp add: statusWritesKeep_def sameView_def\<close>)
  have udp: "sameView v w1 w2" if "setUDPRouteStatuses R (gr_Status r) hn now grants w1 hs = Some (e, hs', w2)"
    for R hn grants w1 hs e hs' w2
    by (rule view.statusLoop_frame [OF _ that [unfolded setUDPRouteStatuses_def]])
       (use keep in \<open>simp add: statusWritesKeep_def sameView_def\<close>)
  show ?thesis
    using run unfolding setRoutesStatuses_def Let_def goOn_Inr
    by (auto dest!: statusPhase_Inr http tcp udp simp: sameView_def split: if_splits)
qed

lemma attachListenerSets_view:
  assumes "statusWritesKeep (gr_Status r) v" "attachListenerSets r now gw w = Some (Inr attached, w')"
  shows "sameView v w w'"
  using assms(2) view.filterToAllowed_frame [where v = v and S = "gr_Status r"] assms(1)
  by (auto simp: attachListenerSets_def statusWritesKeep_def sameView_def goOn_Inr listPhase_Inr split_beta split: if_splits)

lemma setPolicyStatuses_view:
  assumes "statusWritesKeep (gr_Status r) v" "setPolicyStatuses r now gw req rs w = Some (Inr u, w')"
  shows "sameView v w w'"
proof -
  have "sameView v w1 w2" if "setBackendTLSPolicyStatuses R Li (gr_Status r) d now rs m req w1 = (None, m', st, w2)"
    for R Li d rs m m' st w1 w2
    by (rule view.servicesLoop_frame [OF _ that [unfolded setBackendTLSPolicyStatuses_def]])
       (use assms(1) in \<open>simp add: statusWritesKeep_def sameView_def\<close>)
  then show ?thesis
    using assms(2) by (auto simp: setPolicyStatuses_def goOn_Inr listPhase_Inr split: if_splits prod.splits option.splits)
qed

lemma ended_not_Inr [simp]: "map_prod Inl id p \<noteq> (Inr x, w)"
  by (cases p) simp

lemma setListenerStatuses_Inr:
  assumes "setListenerStatuses r now gw attached conflicted routes labels w = Some (Inr (gw', copy), w')"
  obtains copy' n sets where
    "setListenerStatus (gr_pemDecode r) (gr_Reader r) w now gw routes labels = Some (Inr copy')"
    "setListenerSetStatuses (gr_pemDecode r) (gr_Reader r) (gr_Status r) now gw attached conflicted routes labels w =
       Some (gw', sets, w')"
    "copy = setAccepted now copy' True ''Gateway successfully scheduled''"
  using assms unfolding setListenerStatuses_def by (auto split: option.splits sum.splits prod.splits)

lemma setListenerStatus_keeps:
  assumes "setListenerStatus d R w now gw routes labels = Some (Inr copy)"
  shows "copy = gw\<lparr>go_Status := (go_Status gw)\<lparr>gs_Listeners := gs_Listeners (go_Status copy)\<rparr>\<rparr>"
  using assms by (auto simp: setListenerStatus_def bind_eq_Some Let_def split: sum.splits)

lemma setListenerSetStatuses_keeps:
  assumes "setListenerSetStatuses d R S now gw sets conflicted routes labels w = Some (gw', sets', w')"
  shows "gw' = gw\<lparr>go_Status := (go_Status gw)\<lparr>gs_AttachedListenerSets := gs_AttachedListenerSets (go_Status gw')\<rparr>\<rparr>"
  using assms by (auto simp: setListenerSetStatuses_def bind_eq_Some Let_def split: sum.splits)

lemma setListenerStatuses_view:
  assumes "statusWritesKeep (gr_Status r) v"
    and "setListenerStatuses r now gw attached conflicted routes labels w = Some (Inr p, w')"
  shows "sameView v w w'"
proof (cases p)
  case (Pair gw' copy)
  show ?thesis
    by (rule setListenerStatuses_Inr [OF assms(2) [unfolded Pair]])
       (rule view.setListenerSetStatuses_frame, use assms(1) in \<open>simp_all add: statusWritesKeep_def sameView_def\<close>)
qed

lemma writePhase_Inr: "writePhase r now gw copy msg res = Some (Inr u, w') \<longleftrightarrow> res = (None, w')"
  by (cases res; cases "fst res") (auto simp: writePhase_def)

lemma deleteEnvoyConfigs_done:
  assumes "deleteEnvoyConfigs O' gw w = (None, w')"
  shows "\<exists>w1. w1 = snd (ow_DeleteDEC O' w (gw_Namespace gw, shortened (''dolphin-gateway-'' @ gw_Name gw))) \<and>
     (\<forall>e. fst (ow_DeleteDEC O' w (gw_Namespace gw, shortened (''dolphin-gateway-'' @ gw_Name gw))) \<noteq> GetFailed e) \<and>
     w' = snd (ow_DeleteCEC O' w1 (gw_Namespace gw, shortened (''dolphin-gateway-'' @ gw_Name gw)))"
  using assms by (auto simp: deleteEnvoyConfigs_def Let_def split: prod.splits getResult.splits)

lemma writeObjects_Inr:
  assumes "writeObjects r now gw copy t w = Some (Inr u, w')"
  obtains svc ep w1 w2 where
    "trn_Service t = Some svc" "trn_Endpoints t = Some ep"
    "ensureService (gr_Objects r) svc w = (None, w1)" "ensureEndpoints (gr_Objects r) ep w1 = (None, w2)"
    "case trn_DEC t of
       Some dec \<Rightarrow> \<exists>w3. ow_DEC (gr_Objects r) w2 dec (mutateDEC dec) = (None, w3) \<and> ensureCiliumEnvoyConfig r (Some dec) w3 = (None, w')
     | None \<Rightarrow> deleteEnvoyConfigs (gr_Objects r) (go_Spec gw) w2 = (None, w')"
  using assms unfolding writeObjects_def
  by (auto simp: goOn_Inr writePhase_Inr ensureEnvoyConfig_def split: option.splits prod.splits)

lemma ensureCiliumEnvoyConfig_view:
  assumes "\<And>w x f. v (snd (ow_CEC (gr_Objects r) w x f)) = v w"
  shows "v (snd (ensureCiliumEnvoyConfig r dec w)) = v w"
  using assms by (simp add: ensureCiliumEnvoyConfig_def split: option.split sum.split)

lemma deleteEnvoyConfigs_view:
  assumes "\<And>w k. v (snd (ow_DeleteDEC O' w k)) = v w" "\<And>w k. v (snd (ow_DeleteCEC O' w k)) = v w"
    and "deleteEnvoyConfigs O' gw w = (None, w')"
  shows "v w' = v w"
  using deleteEnvoyConfigs_done [OF assms(3)] assms(1,2) by auto

lemma writeObjects_view:
  assumes keep: "objectWritesKeep (gr_Objects r) v" and "writeObjects r now gw copy t w = Some (Inr u, w')"
  shows "v w' = v w"
proof (rule writeObjects_Inr [OF assms(2)])
  fix svc ep w1 w2
  assume w: "ensureService (gr_Objects r) svc w = (None, w1)" "ensureEndpoints (gr_Objects r) ep w1 = (None, w2)"
    and rest: "case trn_DEC t of
       Some dec \<Rightarrow> \<exists>w3. ow_DEC (gr_Objects r) w2 dec (mutateDEC dec) = (None, w3) \<and> ensureCiliumEnvoyConfig r (Some dec) w3 = (None, w')
     | None \<Rightarrow> deleteEnvoyConfigs (gr_Objects r) (go_Spec gw) w2 = (None, w')"
  have "v w1 = v w" "v w2 = v w1"
    using w keep unfolding ensureService_def ensureEndpoints_def objectWritesKeep_def by (metis snd_conv)+
  moreover have "v w' = v w2"
  proof (cases "trn_DEC t")
    case None
    then have "deleteEnvoyConfigs (gr_Objects r) (go_Spec gw) w2 = (None, w')" using rest by simp
    then show ?thesis
      by (rule deleteEnvoyConfigs_view [rotated 2]) (use keep in \<open>unfold objectWritesKeep_def, blast\<close>)+
  next
    case (Some dec)
    then obtain w3 where w3: "ow_DEC (gr_Objects r) w2 dec (mutateDEC dec) = (None, w3)"
      "ensureCiliumEnvoyConfig r (Some dec) w3 = (None, w')" using rest by auto
    have "v w3 = v w2" using keep w3(1) unfolding objectWritesKeep_def by (metis snd_conv)
    moreover have "v w' = v w3"
      using ensureCiliumEnvoyConfig_view [of v r "Some dec" w3] keep w3(2) by (simp add: objectWritesKeep_def)
    ultimately show ?thesis by simp
  qed
  ultimately show ?thesis by simp
qed

text \<open>The Gateway whose status is written last.\<close>

definition finalGateway :: "int \<Rightarrow> ServiceObject \<Rightarrow> 'sel GatewayObject \<Rightarrow> 'sel GatewayObject" where
  "finalGateway now svc copy =
     setProgrammed now (copy\<lparr>go_Status := (go_Status copy)\<lparr>gs_Addresses := serviceAddresses (so_LoadBalancer svc)\<rparr>\<rparr>)
       True ''reconciled successfully''"

lemma publish_Inr:
  assumes "publish r now gw copy w = Some (Inr u, w')"
  obtains svc rest where
    "li_ServicesLabelled (gr_Lister r) w (gw_Namespace (go_Spec copy)) owningGatewayLabel (shortened (gw_Name (go_Spec copy))) =
       Inr (svc # rest)"
    "so_LoadBalancer svc \<noteq> []"
    "gw_updateStatus (gr_Status r) gw (finalGateway now svc copy) w = (None, w')"
  using assms unfolding publish_def setAddressStatus_def finalGateway_def
  by (auto split: sum.splits list.splits prod.splits option.splits if_splits)

lemma case_Inr:
  "(case o' of None \<Rightarrow> None | Some a \<Rightarrow> f a) = Some x \<longleftrightarrow> (\<exists>a. o' = Some a \<and> f a = Some x)"
  "(case y of Inl e \<Rightarrow> Some (map_prod Inl id (p e)) | Inr t \<Rightarrow> g t) = Some (Inr u, w') \<longleftrightarrow>
     (\<exists>t. y = Inr t \<and> g t = Some (Inr u, w'))"
  by (cases o'; simp) (cases y; simp)

lemma reconcileGateway_Inr:
  assumes "reconcileGateway r now req gwc gw w = Some (Inr u, w')"
  obtains inp routes w1 attached w2 labels cfg input m w3 gw' copy w4 t w5 where
    "listInputs r gw w = Some (Inr inp, w)" "setRoutesStatuses r now inp w = Some (Inr routes, w1)"
    "attachListenerSets r now gw w1 = Some (Inr attached, w2)"
    "ingestionInput r w2 gw attached (mergeListeners (gr_Reader r) w2 gw attached) labels routes (inp_Services inp) = Some input"
    "GatewayAPI input = Some m"
    "setPolicyStatuses r now gw req (filterHTTPRoutesByGateway (gr_Reader r) w2 gw attached (rl_HTTP routes)) w2 = Some (Inr (), w3)"
    "setListenerStatuses r now gw attached (conflictsAcrossSources (mergeListeners (gr_Reader r) w2 gw attached)) routes labels w3 =
       Some (Inr (gw', copy), w4)"
    "translateModel r cfg m = Some (Inr t)"
    "writeObjects r now gw' copy t w4 = Some (Inr (), w5)" "publish r now gw' copy w5 = Some (Inr (), w')"
  using assms unfolding reconcileGateway_def Let_def goOn_Inr case_Inr split_paired_Ex prod.case
  by (elim exE conjE) (metis listInputs_Inr(1) labelIndex_Inr old.unit.exhaust)

section \<open>Success\<close>

text \<open>A Gateway that the controller reconciles.\<close>

definition owned :: "('w, 'sel) Reader \<Rightarrow> 'w \<Rightarrow> NamespacedName \<Rightarrow> 'sel GatewayObject \<Rightarrow> bool" where
  "owned R w req gw \<longleftrightarrow>
     rd_Gateway R w req = Found gw \<and> \<not> go_Deleting gw \<and>
     (\<exists>gwc. rd_GatewayClass R w (go_ClassName gw) = Found gwc \<and> gc_ControllerName gwc = gatewayControllerName)"

lemma owned_success:
  assumes "owned (gr_Reader r) w req gw" "gateway_Reconcile r now req w = Some (Success, w')"
  obtains gwc where "reconcileGateway r now req gwc gw w = Some (Inr (), w')"
proof -
  obtain gwc where gwc: "rd_GatewayClass (gr_Reader r) w (go_ClassName gw) = Found gwc"
    "gc_ControllerName gwc = gatewayControllerName" using assms(1) by (auto simp: owned_def)
  have "endsFailing (reconcileGateway r now req gwc gw w)" by (rule reconcileGateway_failing)
  then have "reconcileGateway r now req gwc gw w = Some (Inr (), w')"
    using assms gwc by (auto simp: gateway_Reconcile_def owned_def endsFailing_def split: option.splits sum.splits prod.splits)
  then show ?thesis by (rule that)
qed

text \<open>
  What the reconciliation assumes of the client: objects are found under their keys, a status that was
  written is read back and is apart from the Services, and the writes of other kinds do not change
  Gateways.
\<close>

definition gateway_client :: "('w, 'sel, 'b, 'j) gatewayReconciler \<Rightarrow> bool" where
  "gateway_client r \<longleftrightarrow>
     (\<forall>w k gw. rd_Gateway (gr_Reader r) w k = Found gw \<longrightarrow> go_key gw = k) \<and>
     (\<forall>w gw w'. sw_Gateway (gr_Status r) w gw = (None, w') \<longrightarrow>
        rd_Gateway (gr_Reader r) w' (go_key gw) = Found gw \<and>
        li_ServicesLabelled (gr_Lister r) w' = li_ServicesLabelled (gr_Lister r) w) \<and>
     statusWritesKeep (gr_Status r) (rd_Gateway (gr_Reader r)) \<and>
     objectWritesKeep (gr_Objects r) (rd_Gateway (gr_Reader r))"

lemma finalGateway_simps [simp]:
  "go_Spec (finalGateway now svc copy) = go_Spec copy"
  "gs_Addresses (go_Status (finalGateway now svc copy)) = serviceAddresses (so_LoadBalancer svc)"
  "statusOf (gs_Conditions (go_Status (finalGateway now svc copy))) t =
     (if t = ''Programmed'' then Some ConditionTrue else statusOf (gs_Conditions (go_Status copy)) t)"
  by (simp_all add: finalGateway_def onConditions_def setGatewayProgrammed_def gwStsProgrmCondition_def)

lemma statusOf_same: "sameConditions cs ds \<Longrightarrow> statusOf cs t = statusOf ds t"
proof (induction cs arbitrary: ds)
  case (Cons c cs)
  then obtain d ds' where ds: "ds = d # ds'" "untimed c = untimed d" "sameConditions cs ds'"
    by (cases ds) (auto simp: sameConditions_def)
  then show ?case using Cons.IH [OF ds(3)] by (simp add: untimed_eq_iff ConditionChanged_def)
qed (simp add: sameConditions_def)

lemma setListenerStatuses_gateways:
  assumes "setListenerStatuses r now gw attached conflicted routes labels w = Some (Inr (gw', copy), w')"
  shows "go_Spec gw' = go_Spec gw \<and> gs_Conditions (go_Status gw') = gs_Conditions (go_Status gw) \<and>
     gs_Addresses (go_Status gw') = gs_Addresses (go_Status gw) \<and> go_Spec copy = go_Spec gw \<and>
     statusOf (gs_Conditions (go_Status copy)) ''Accepted'' = Some ConditionTrue"
proof (rule setListenerStatuses_Inr [OF assms])
  fix copy' sets
  assume c: "setListenerStatus (gr_pemDecode r) (gr_Reader r) w now gw routes labels = Some (Inr copy')"
    and g: "setListenerSetStatuses (gr_pemDecode r) (gr_Reader r) (gr_Status r) now gw attached conflicted routes labels w =
       Some (gw', sets, w')"
    and copy: "copy = setAccepted now copy' True ''Gateway successfully scheduled''"
  have "go_Spec copy' = go_Spec gw" by (subst setListenerStatus_keeps [OF c]) simp
  moreover have "go_Spec gw' = go_Spec gw" "gs_Conditions (go_Status gw') = gs_Conditions (go_Status gw)"
    "gs_Addresses (go_Status gw') = gs_Addresses (go_Status gw)"
    by (subst setListenerSetStatuses_keeps [OF g], simp)+
  ultimately show ?thesis
    by (simp add: copy onConditions_def setGatewayAccepted_def gatewayStatusAcceptedCondition_def)
qed

text \<open>What the stored Gateway shows.\<close>

definition programmedAt :: "'sel GatewayObject \<Rightarrow> (string \<times> string) list \<Rightarrow> bool" where
  "programmedAt gw addresses \<longleftrightarrow>
     statusOf (gs_Conditions (go_Status gw)) ''Accepted'' = Some ConditionTrue \<and>
     statusOf (gs_Conditions (go_Status gw)) ''Programmed'' = Some ConditionTrue \<and>
     gs_Addresses (go_Status gw) = addresses"

lemma programmedAt_same:
  assumes "sameGatewayStatus (go_Status gw') (go_Status gw'')" "programmedAt gw'' addresses"
    and "gs_Conditions (go_Status gw') = gs_Conditions (go_Status gw)" "gs_Addresses (go_Status gw') = gs_Addresses (go_Status gw)"
  shows "programmedAt gw addresses"
  using assms statusOf_same [of "gs_Conditions (go_Status gw)" "gs_Conditions (go_Status gw'')"]
  unfolding programmedAt_def sameGatewayStatus_def by simp

lemma publish_stored:
  assumes client: "gateway_client r" and run: "publish r now gw' copy w = Some (Inr (), w')"
    and gw: "rd_Gateway (gr_Reader r) w req = Found gw" "go_key gw = req"
    and gw': "gs_Conditions (go_Status gw') = gs_Conditions (go_Status gw)" "gs_Addresses (go_Status gw') = gs_Addresses (go_Status gw)"
    and copy: "go_Spec copy = go_Spec gw" "statusOf (gs_Conditions (go_Status copy)) ''Accepted'' = Some ConditionTrue"
  shows "\<exists>gw'' svc rest. rd_Gateway (gr_Reader r) w' req = Found gw'' \<and> go_Spec gw'' = go_Spec gw \<and>
     li_ServicesLabelled (gr_Lister r) w' (fst req) owningGatewayLabel (shortened (snd req)) = Inr (svc # rest) \<and>
     so_LoadBalancer svc \<noteq> [] \<and> programmedAt gw'' (serviceAddresses (so_LoadBalancer svc))"
proof (rule publish_Inr [OF run])
  fix svc rest
  assume svc: "li_ServicesLabelled (gr_Lister r) w (gw_Namespace (go_Spec copy)) owningGatewayLabel
      (shortened (gw_Name (go_Spec copy))) = Inr (svc # rest)" "so_LoadBalancer svc \<noteq> []"
    and u: "gw_updateStatus (gr_Status r) gw' (finalGateway now svc copy) w = (None, w')"
  let ?gw = "finalGateway now svc copy"
  have final: "programmedAt ?gw (serviceAddresses (so_LoadBalancer svc))" "go_key ?gw = req"
    using copy gw(2) by (simp_all add: programmedAt_def)
  have svc': "li_ServicesLabelled (gr_Lister r) w (fst req) owningGatewayLabel (shortened (snd req)) = Inr (svc # rest)"
    using svc(1) copy(1) gw(2) by auto
  show ?thesis
  proof (cases "sameGatewayStatus (go_Status gw') (go_Status ?gw)")
    case True
    then have "w' = w" using u by (simp add: gw_updateStatus_def)
    then show ?thesis using programmedAt_same [OF True final(1) gw'] gw(1) svc' svc(2) by blast
  next
    case False
    then have "sw_Gateway (gr_Status r) w ?gw = (None, w')" using u by (simp add: gw_updateStatus_def)
    then have "rd_Gateway (gr_Reader r) w' req = Found ?gw" "li_ServicesLabelled (gr_Lister r) w' = li_ServicesLabelled (gr_Lister r) w"
      using client final(2) unfolding gateway_client_def by metis+
    then show ?thesis using svc' svc(2) final(1) copy(1) by (intro exI [of _ ?gw] exI [of _ svc] exI [of _ rest]) simp
  qed
qed

text \<open>
  Claim C1. A reconciliation of a Gateway of the controller's class that ends with success leaves
  the stored Gateway with the conditions Accepted and Programmed true, with the specification it
  had, and with the addresses of the load balancer of its Service, of which there is at least one; whether the
  last status was written or was found unchanged.
\<close>

theorem gateway_Reconcile_success:
  assumes client: "gateway_client r" and owned: "owned (gr_Reader r) w req gw"
    and run: "gateway_Reconcile r now req w = Some (Success, w')"
  shows "\<exists>gw' svc rest. rd_Gateway (gr_Reader r) w' req = Found gw' \<and> go_Spec gw' = go_Spec gw \<and>
     li_ServicesLabelled (gr_Lister r) w' (fst req) owningGatewayLabel (shortened (snd req)) = Inr (svc # rest) \<and>
     so_LoadBalancer svc \<noteq> [] \<and> programmedAt gw' (serviceAddresses (so_LoadBalancer svc))"
proof -
  let ?R = "gr_Reader r"
  have gw: "rd_Gateway ?R w req = Found gw" "go_key gw = req"
    using owned client unfolding owned_def gateway_client_def by blast+
  have keep: "statusWritesKeep (gr_Status r) (rd_Gateway ?R)" "objectWritesKeep (gr_Objects r) (rd_Gateway ?R)"
    using client by (simp_all add: gateway_client_def)
  obtain gwc where "reconcileGateway r now req gwc gw w = Some (Inr (), w')" by (rule owned_success [OF owned run])
  then show ?thesis
  proof (rule reconcileGateway_Inr)
    fix inp routes w1 attached w2 labels cfg input m w3 gw' copy w4 t w5
    assume s: "setRoutesStatuses r now inp w = Some (Inr routes, w1)"
      "attachListenerSets r now gw w1 = Some (Inr attached, w2)"
      "setPolicyStatuses r now gw req (filterHTTPRoutesByGateway ?R w2 gw attached (rl_HTTP routes)) w2 = Some (Inr (), w3)"
      "setListenerStatuses r now gw attached (conflictsAcrossSources (mergeListeners ?R w2 gw attached)) routes labels w3 =
         Some (Inr (gw', copy), w4)"
      "writeObjects r now gw' copy t w4 = Some (Inr (), w5)" and p: "publish r now gw' copy w5 = Some (Inr (), w')"
    have "rd_Gateway ?R w5 = rd_Gateway ?R w"
      using setRoutesStatuses_view [OF keep(1) s(1)] attachListenerSets_view [OF keep(1) s(2)]
        setPolicyStatuses_view [OF keep(1) s(3)] setListenerStatuses_view [OF keep(1) s(4)] writeObjects_view [OF keep(2) s(5)]
      by (simp add: sameView_def)
    then have stored: "rd_Gateway ?R w5 req = Found gw" using gw(1) by simp
    have gw': "gs_Conditions (go_Status gw') = gs_Conditions (go_Status gw)" "gs_Addresses (go_Status gw') = gs_Addresses (go_Status gw)"
      and copy: "go_Spec copy = go_Spec gw" "statusOf (gs_Conditions (go_Status copy)) ''Accepted'' = Some ConditionTrue"
      using setListenerStatuses_gateways [OF s(4)] by blast+
    show ?thesis
      using publish_stored [OF client p stored gw(2) gw' copy] copy(1) by blast
  qed
qed

text \<open>
  A store of Envoy configurations \<open>decs\<close>: a write patches what there is or creates the object, a deletion
  removes it, and no other write changes it.
\<close>

definition dec_store ::
  "('w, 'b, 'j) ObjectWriter \<Rightarrow> ('w, 'sel) StatusWriter \<Rightarrow>
   ('w \<Rightarrow> NamespacedName \<Rightarrow> 'b DolphinEnvoyConfig option) \<Rightarrow> bool" where
  "dec_store O' S decs \<longleftrightarrow>
     (\<forall>w dec f w'. ow_DEC O' w dec f = (None, w') \<longrightarrow>
        decs w' = (decs w)((dec_Namespace dec, dec_Name dec) \<mapsto>
          f (case decs w (dec_Namespace dec, dec_Name dec) of None \<Rightarrow> dec | Some old \<Rightarrow> old))) \<and>
     (\<forall>w k res w'. ow_DeleteDEC O' w k = (res, w') \<longrightarrow> (\<forall>e. res \<noteq> GetFailed e) \<longrightarrow> decs w' = (decs w)(k := None)) \<and>
     (\<forall>w x f. decs (snd (ow_Service O' w x f)) = decs w) \<and> (\<forall>w x f. decs (snd (ow_Endpoints O' w x f)) = decs w) \<and>
     (\<forall>w x f. decs (snd (ow_CEC O' w x f)) = decs w) \<and> (\<forall>w k. decs (snd (ow_DeleteCEC O' w k)) = decs w) \<and>
     statusWritesKeep S decs \<and> (\<forall>w gw. decs (snd (sw_Gateway S w gw)) = decs w)"

lemma dec_storeD:
  assumes "dec_store O' S decs"
  shows "ow_DEC O' w dec f = (None, w') \<Longrightarrow>
      decs w' = (decs w)((dec_Namespace dec, dec_Name dec) \<mapsto>
        f (case decs w (dec_Namespace dec, dec_Name dec) of None \<Rightarrow> dec | Some old \<Rightarrow> old))"
    and "ow_DeleteDEC O' w k = (res, w') \<Longrightarrow> (\<And>e. res \<noteq> GetFailed e) \<Longrightarrow> decs w' = (decs w)(k := None)"
    and "ow_Service O' w svc g = (e, w') \<Longrightarrow> decs w' = decs w" and "ow_Endpoints O' w ep h = (e, w') \<Longrightarrow> decs w' = decs w"
    and "decs (snd (ow_CEC O' w x i)) = decs w" and "decs (snd (ow_DeleteCEC O' w k)) = decs w"
    and "statusWritesKeep S decs" and "sw_Gateway S w gw = (e, w') \<Longrightarrow> decs w' = decs w"
  using assms unfolding dec_store_def by (metis snd_conv | blast)+

lemma writeObjects_decs:
  assumes store: "dec_store (gr_Objects r) (gr_Status r) decs"
    and run: "writeObjects r now gw copy t w = Some (Inr u, w')"
  shows "decs w' = (case trn_DEC t of
     None \<Rightarrow> (decs w)((gw_Namespace (go_Spec gw), shortened (''dolphin-gateway-'' @ gw_Name (go_Spec gw))) := None)
   | Some dec \<Rightarrow> (decs w)((dec_Namespace dec, dec_Name dec) \<mapsto>
       mutateDEC dec (case decs w (dec_Namespace dec, dec_Name dec) of None \<Rightarrow> dec | Some old \<Rightarrow> old)))"
proof (rule writeObjects_Inr [OF run])
  fix svc ep w1 w2
  assume w: "ensureService (gr_Objects r) svc w = (None, w1)" "ensureEndpoints (gr_Objects r) ep w1 = (None, w2)"
    and rest: "case trn_DEC t of
       Some dec \<Rightarrow> \<exists>w3. ow_DEC (gr_Objects r) w2 dec (mutateDEC dec) = (None, w3) \<and> ensureCiliumEnvoyConfig r (Some dec) w3 = (None, w')
     | None \<Rightarrow> deleteEnvoyConfigs (gr_Objects r) (go_Spec gw) w2 = (None, w')"
  have w2: "decs w2 = decs w"
    using dec_storeD(3) [OF store w(1) [unfolded ensureService_def]] dec_storeD(4) [OF store w(2) [unfolded ensureEndpoints_def]] by simp
  show ?thesis
  proof (cases "trn_DEC t")
    case None
    then obtain w3 where w3: "w3 = snd (ow_DeleteDEC (gr_Objects r) w2 (gw_Namespace (go_Spec gw), shortened (''dolphin-gateway-'' @ gw_Name (go_Spec gw))))"
      "\<And>e. fst (ow_DeleteDEC (gr_Objects r) w2 (gw_Namespace (go_Spec gw), shortened (''dolphin-gateway-'' @ gw_Name (go_Spec gw)))) \<noteq> GetFailed e"
      "w' = snd (ow_DeleteCEC (gr_Objects r) w3 (gw_Namespace (go_Spec gw), shortened (''dolphin-gateway-'' @ gw_Name (go_Spec gw))))"
      using rest deleteEnvoyConfigs_done [of "gr_Objects r" "go_Spec gw" w2 w'] by auto
    have "decs w3 = (decs w2)((gw_Namespace (go_Spec gw), shortened (''dolphin-gateway-'' @ gw_Name (go_Spec gw))) := None)"
      by (rule dec_storeD(2) [OF store _ w3(2)]) (simp add: w3(1))
    then show ?thesis using dec_storeD(6) [OF store, of w3] None w2 w3(3) by simp
  next
    case (Some dec)
    then obtain w3 where w3: "ow_DEC (gr_Objects r) w2 dec (mutateDEC dec) = (None, w3)"
      "ensureCiliumEnvoyConfig r (Some dec) w3 = (None, w')" using rest by auto
    have "decs w' = decs w3"
      using ensureCiliumEnvoyConfig_view [of decs r "Some dec" w3] dec_storeD(5) [OF store] w3(2) by simp
    then show ?thesis using dec_storeD(1) [OF store w3(1)] w2 Some by simp
  qed
qed

lemma publish_decs:
  assumes "dec_store (gr_Objects r) (gr_Status r) decs" "publish r now gw copy w = Some (Inr u, w')"
  shows "decs w' = decs w"
  by (rule publish_Inr [OF assms(2)])
     (auto simp: gw_updateStatus_def split: if_splits dest: dec_storeD(8) [OF assms(1)])

lemma mutateDEC_spec [simp]:
  "dec_BackendServices (mutateDEC dec old) = dec_BackendServices dec" "dec_Services (mutateDEC dec old) = dec_Services dec"
  "dec_Resources (mutateDEC dec old) = dec_Resources dec" "dec_OwnerReferences (mutateDEC dec old) = dec_OwnerReferences dec"
  by (simp_all add: mutateDEC_def)

lemma listed_routes:
  assumes "listInputs r gw w = Some (Inr inp, w)" "setRoutesStatuses r now inp w = Some (Inr routes, w1)"
    and "ingestionInput r w2 gw attached ctxs labels routes (inp_Services inp) = Some input"
  shows "\<exists>hs gs. li_HTTPRoutes (gr_Lister r) w = Inr hs \<and> li_GRPCRoutes (gr_Lister r) w = Inr gs \<and>
     set (in_HTTPRoutes input) \<subseteq> ro_Route ` set hs \<and> set (in_GRPCRoutes input) \<subseteq> ro_Route ` set gs"
proof -
  have "ro_Route ` set (rl_HTTP routes) = ro_Route ` set (rl_HTTP (inp_Routes inp))"
    "rl_GRPC routes = rl_GRPC (inp_Routes inp)"
    using setRoutesStatuses_Inr [OF assms(2)] by (metis list.set_map, simp)
  then show ?thesis using listInputs_Inr(2,3) [OF assms(1)] ingestionInput_routes(1,2) [OF assms(3)] by auto
qed



text \<open>
  Claim C39. The Envoy configuration of a Gateway is written under its full name and deleted under
  the shortened one: for a Gateway whose name has more than 47 characters the configuration that was
  stored stays when the translation has none, although the write succeeds.
\<close>

theorem long_named_config_stays:
  assumes "dec_store (gr_Objects r) (gr_Status r) decs" "length (gw_Name (go_Spec gw)) > 47"
    and "trn_DEC t = None" "writeObjects r now gw copy t w = Some (Inr (), w')"
  shows "decs w' (gw_Namespace (go_Spec gw), dolphinGatewayPrefix @ gw_Name (go_Spec gw)) =
         decs w (gw_Namespace (go_Spec gw), dolphinGatewayPrefix @ gw_Name (go_Spec gw))"
proof -
  let ?n = "dolphinGatewayPrefix @ gw_Name (go_Spec gw)"
  have "length (shortened ?n) \<noteq> length ?n" using assms(2) length_shortened [of ?n] by (simp add: dolphinGatewayPrefix_def)
  then have "shortened ?n \<noteq> ?n" by metis
  then show ?thesis
    using writeObjects_decs [OF assms(1,4)] assms(3) by (simp add: dolphinGatewayPrefix_def)
qed


text \<open>
  A Gateway that is gone or being deleted, or whose class does not exist or belongs to
  another controller, is left alone: the reconciliation succeeds and nothing in the cluster changes.
\<close>

theorem gateway_Reconcile_foreign:
  assumes "\<And>gw. \<not> owned (gr_Reader r) w req gw" "\<And>e. rd_Gateway (gr_Reader r) w req \<noteq> GetFailed e"
  shows "gateway_Reconcile r now req w = Some (Success, w)"
  using assms by (auto simp: gateway_Reconcile_def owned_def split: getResult.splits)

lemma mirrors_ported_code [code]:
  "mirrors_ported route \<longleftrightarrow>
     list_all (\<lambda>rule. list_all (\<lambda>f. case rf_RequestMirror f of None \<Rightarrow> True | Some ref \<Rightarrow> bor_Port ref \<noteq> None)
       (rr_Filters rule)) (rt_Rules route)"
  by (auto simp: mirrors_ported_def list_all_iff split: option.splits)

lemma listenersDefaulted_code [code]:
  "listenersDefaulted ls \<longleftrightarrow>
     list_all (\<lambda>l. case lis_AllowedRoutes l of None \<Rightarrow> True
       | Some ar \<Rightarrow> (case ar_Namespaces ar of None \<Rightarrow> True | Some rns \<Rightarrow> rns_From rns \<noteq> None)) ls"
  by (auto simp: listenersDefaulted_def list_all_iff split: option.splits)

declare option.pred_inject [code]

section \<open>Examples\<close>

text \<open>
  The cluster in memory with Envoy configurations. It admits only objects that the API server
  would admit, and a Service carries the name of its Gateway.
\<close>

record ObjectCluster = Cluster +
  cl_DECs :: "(NamespacedName \<times> nat DolphinEnvoyConfig) list"

abbreviation memDECs :: "ObjectCluster \<Rightarrow> NamespacedName \<Rightarrow> nat DolphinEnvoyConfig option" where
  "memDECs w \<equiv> map_of (cl_DECs w)"

definition memObjects :: "(ObjectCluster, nat, unit) ObjectWriter" where
  "memObjects =
     \<lparr>ow_Service = (\<lambda>w x f. (None, w)), ow_Endpoints = (\<lambda>w x f. (None, w)),
      ow_DEC = (\<lambda>w dec f. let k = (dec_Namespace dec, dec_Name dec)
                in (None, w\<lparr>cl_DECs := AList.update k (f (case memDECs w k of None \<Rightarrow> dec | Some old \<Rightarrow> old)) (cl_DECs w)\<rparr>)),
      ow_CEC = (\<lambda>w x f. (None, w)),
      ow_DeleteDEC = (\<lambda>w k. (if memDECs w k = None then NotFound else Found (), w\<lparr>cl_DECs := AList.delete k (cl_DECs w)\<rparr>)),
      ow_DeleteCEC = (\<lambda>w k. (NotFound, w))\<rparr>"

definition admittedGateway :: "string list GatewayObject \<Rightarrow> bool" where
  "admittedGateway gw \<longleftrightarrow> listenersDefaulted (gw_Listeners (go_Spec gw))"

definition admittingReader :: "(ObjectCluster, string list) Reader" where
  "admittingReader = memReader\<lparr>rd_Gateway := \<lambda>w k. lookupObject go_key (filter admittedGateway (cl_Gateways w)) k,
     rd_GatewayClass := \<lambda>w. lookupObject gc_Name (filter (\<lambda>c. gc_ParametersRef c = None) (cl_Classes w))\<rparr>"

definition admittingLister :: "(ObjectCluster, string list) Lister" where
  "admittingLister = memLister\<lparr>
     li_HTTPRoutes := \<lambda>w. Inr (filter (\<lambda>h. valid_route valid_http_match (ro_Route h) \<and> mirrors_ported (ro_Route h)) (cl_HTTPRoutes w)),
     li_GRPCRoutes := \<lambda>w. Inr (filter (\<lambda>h. valid_route valid_grpc_match (ro_Route h) \<and> mirrors_ported (ro_Route h)) (cl_GRPCRoutes w)),
     li_ServicesLabelled := \<lambda>w ns k v. Inr (filter (\<lambda>s. ServiceObject.so_Name s = ''dolphin-gateway-'' @ v) (cl_Services w))\<rparr>"

definition admittingWriter :: "(ObjectCluster, string list) StatusWriter" where
  "admittingWriter = memWriter\<lparr>sw_Gateway := \<lambda>w gw.
     if admittedGateway gw then storeObject go_key (filter admittedGateway \<circ> cl_Gateways) (\<lambda>xs w. w\<lparr>cl_Gateways := xs\<rparr>) w gw
     else (Some ''invalid'', w)\<rparr>"

definition memReconciler :: "(ObjectCluster, string list, nat, unit) gatewayReconciler" where
  "memReconciler =
     \<lparr>gr_Reader = admittingReader, gr_Lister = admittingLister, gr_Status = admittingWriter, gr_Objects = memObjects,
      gr_Lib = exampleLib, gr_Xff = 0, gr_pemDecode = (\<lambda>b. None), gr_regexpErr = (\<lambda>s. None),
      gr_encodeBackendServices = (\<lambda>x. Inr ()), gr_encodeResources = (\<lambda>x. Inr ()), gr_encodeServices = (\<lambda>x. Inr ()),
      gr_configGroupKind = (''dolphin.io'', ''DolphinGatewayClassConfig''), gr_mapOrder = id,
      gr_SecretNamespace = ''secrets'', gr_IdleTimeoutSeconds = 60, gr_installedCRDs = [], gr_hostNetworkEnabled = False\<rparr>"

definition gatewayCluster :: ObjectCluster where
  "gatewayCluster = Cluster.extend (exampleHTTPCluster\<lparr>
     cl_Gateways := [Route_Reconcile.exampleGateway\<lparr>go_Spec := (go_Spec Route_Reconcile.exampleGateway)
        \<lparr>gw_Listeners := [Route_Reconcile.exampleListener\<lparr>lis_Name := ''http'', lis_Port := 80, lis_Protocol := HTTPProtocolType\<rparr>]\<rparr>\<rparr>],
     cl_TLSRoutes := [], cl_GRPCRoutes := [],
     cl_Services := [\<lparr>ServiceObject.so_Name = ''dolphin-gateway-gw'', so_Namespace = ''ns'', so_Ports = [80], so_LoadBalancer = [(''1.2.3.4'', '''')]\<rparr>,
       \<lparr>ServiceObject.so_Name = ''svc'', so_Namespace = ''ns'', so_Ports = [443], so_LoadBalancer = []\<rparr>]\<rparr>)
     (ObjectCluster.fields [])"

lemma mem_api_defaults: "api_defaults memReconciler"
  by (auto simp: api_defaults_def memReconciler_def admittingReader_def admittingLister_def lookupObject_def
      find_Some_iff admittedGateway_def split: option.splits dest!: nth_mem)

lemma mem_dec_store: "dec_store (gr_Objects memReconciler) (gr_Status memReconciler) memDECs"
  by (auto simp: dec_store_def memReconciler_def memObjects_def admittingWriter_def memWriter_def Let_def
      statusWritesKeep_def storeObject_def update_conv' delete_conv' fun_upd_def)

lemma lookupObject_found: "lookupObject key xs k = Found x \<Longrightarrow> x \<in> set xs"
  by (auto simp: lookupObject_def find_Some_iff split: option.splits)

lemma mem_gateway_client: "gateway_client memReconciler"
proof -
  have "rd_Gateway admittingReader w' (go_key gw) = Found gw"
    if "sw_Gateway admittingWriter w gw = (None, w')" for w w' gw
  proof -
    have "filter admittedGateway (replaceObject go_key gw (filter admittedGateway xs)) =
          replaceObject go_key gw (filter admittedGateway xs)" if "admittedGateway gw" for xs
      using that by (auto simp: replaceObject_def intro: filter_True)
    then show ?thesis
      using that lookupObject_replace [of go_key "filter admittedGateway (cl_Gateways w)" gw]
      by (auto simp: admittingReader_def admittingWriter_def storeObject_def split: if_splits)
  qed
  moreover have "li_ServicesLabelled admittingLister w' = li_ServicesLabelled admittingLister w"
    if "sw_Gateway admittingWriter w gw = (None, w')" for w w' gw
    using that by (auto simp: admittingLister_def admittingWriter_def storeObject_def split: if_splits)
  moreover have "go_key gw = k" if "rd_Gateway admittingReader w k = Found gw" for w k gw
    using that lookupObject_key by (fastforce simp: admittingReader_def)
  moreover have "statusWritesKeep admittingWriter (rd_Gateway admittingReader)"
    by (simp add: statusWritesKeep_def admittingWriter_def memWriter_def admittingReader_def storeObject_def)
  moreover have "objectWritesKeep memObjects (rd_Gateway admittingReader)"
    by (simp add: objectWritesKeep_def memObjects_def admittingReader_def Let_def)
  ultimately show ?thesis unfolding gateway_client_def by (simp add: memReconciler_def)
qed

definition memGateway :: "string list GatewayObject" where
  "memGateway = hd (cl_Gateways gatewayCluster)"

lemma mem_owned: "owned (gr_Reader memReconciler) gatewayCluster (''ns'', ''gw'') memGateway"
  by (simp add: owned_def memReconciler_def admittingReader_def memGateway_def gatewayCluster_def exampleHTTPCluster_def
      exampleCluster_def emptyCluster_def lookupObject_def admittedGateway_def listenersDefaulted_def exampleClass_def
      Route_Reconcile.exampleGateway_def Route_Reconcile.exampleListener_def Cluster.defs ObjectCluster.defs)

lemma mem_run: "map_option fst (gateway_Reconcile memReconciler 5 (''ns'', ''gw'') gatewayCluster) = Some Success"
  by code_simp

lemma mem_success:
  obtains w' where "gateway_Reconcile memReconciler 5 (''ns'', ''gw'') gatewayCluster = Some (Success, w')"
  using mem_run by auto

theorem gateway_Reconcile_success_witness:
  "\<exists>w' gw'. gateway_Reconcile memReconciler 5 (''ns'', ''gw'') gatewayCluster = Some (Success, w') \<and>
     rd_Gateway admittingReader w' (''ns'', ''gw'') = Found gw' \<and> (\<exists>addresses. programmedAt gw' addresses)"
proof -
  obtain w' where w': "gateway_Reconcile memReconciler 5 (''ns'', ''gw'') gatewayCluster = Some (Success, w')"
    by (rule mem_success)
  then show ?thesis
    using gateway_Reconcile_success [OF mem_gateway_client mem_owned w'] by (auto simp: memReconciler_def)
qed



theorem gateway_Reconcile_foreign_witness:
  "gateway_Reconcile memReconciler 5 (''ns'', ''other'') gatewayCluster = Some (Success, gatewayCluster)"
proof -
  have "rd_Gateway (gr_Reader memReconciler) gatewayCluster (''ns'', ''other'') = NotFound"
    by (simp add: memReconciler_def admittingReader_def gatewayCluster_def exampleHTTPCluster_def
      exampleCluster_def emptyCluster_def lookupObject_def
      Route_Reconcile.exampleGateway_def Cluster.defs ObjectCluster.defs)
  then show ?thesis by (intro gateway_Reconcile_foreign) (simp_all add: owned_def)
qed

definition memInput :: "string list Input option" where
  "memInput = ingestionInput memReconciler gatewayCluster memGateway [] [] []
     \<lparr>rl_HTTP = cl_HTTPRoutes gatewayCluster, rl_TLS = [], rl_GRPC = [], rl_TCP = [], rl_UDP = []\<rparr> (cl_Services gatewayCluster)"

lemma mem_ingested:
  "map_option (\<lambda>i. map_option (\<lambda>m. map be_Name (model_backends m)) (GatewayAPI i)) memInput = Some (Some [''svc''])"
  by code_simp


text \<open>A Gateway with a name of 48 characters whose configuration was stored.\<close>

definition longName :: string where
  "longName = replicate 48 CHR ''a''"

definition longGateway :: "string list GatewayObject" where
  "longGateway = memGateway\<lparr>go_Spec := (go_Spec memGateway)\<lparr>gw_Name := longName\<rparr>\<rparr>"

definition staleConfig :: "nat DolphinEnvoyConfig" where
  "staleConfig = \<lparr>dec_Name = dolphinGatewayPrefix @ longName, dec_Namespace = ''ns'', dec_Labels = [], dec_OwnerReferences = [],
     dec_BackendServices = [], dec_Services = [], dec_Resources = []\<rparr>"

definition emptyTranslation :: "nat Translation" where
  "emptyTranslation =
     \<lparr>trn_DEC = None,
      trn_Service = Some \<lparr>cso_Name = ''svc'', cso_Namespace = ''ns'', cso_Labels = [], cso_Annotations = [],
        cso_OwnerReferences = [], cso_Type = ''LoadBalancer'', cso_Ports = []\<rparr>,
      trn_Endpoints = Some \<lparr>ceo_Name = ''svc'', ceo_Namespace = ''ns'', ceo_Labels = [], ceo_OwnerReferences = [],
        ceo_Addresses = [], ceo_Ports = []\<rparr>\<rparr>"

theorem long_named_config_stays_witness:
  "\<exists>w'. writeObjects memReconciler 5 longGateway longGateway emptyTranslation
         (gatewayCluster\<lparr>cl_DECs := [((''ns'', dolphinGatewayPrefix @ longName), staleConfig)]\<rparr>) = Some (Inr (), w') \<and>
       memDECs w' (''ns'', dolphinGatewayPrefix @ longName) = Some staleConfig"
proof -
  let ?w = "gatewayCluster\<lparr>cl_DECs := [((''ns'', dolphinGatewayPrefix @ longName), staleConfig)]\<rparr>"
  have "\<exists>w'. writeObjects memReconciler 5 longGateway longGateway emptyTranslation ?w = Some (Inr (), w')"
    by (simp add: writeObjects_def emptyTranslation_def memReconciler_def memObjects_def writePhase_def goOn_def
        ensureService_def ensureEndpoints_def deleteEnvoyConfigs_def Let_def)
  then obtain w' where w': "writeObjects memReconciler 5 longGateway longGateway emptyTranslation ?w = Some (Inr (), w')" ..
  have "gw_Namespace (go_Spec longGateway) = ''ns''" "gw_Name (go_Spec longGateway) = longName"
    by (simp_all add: longGateway_def memGateway_def gatewayCluster_def exampleHTTPCluster_def exampleCluster_def
        Route_Reconcile.exampleGateway_def Cluster.defs ObjectCluster.defs)
  then have "memDECs w' (''ns'', dolphinGatewayPrefix @ longName) = memDECs ?w (''ns'', dolphinGatewayPrefix @ longName)"
    using long_named_config_stays [OF mem_dec_store _ _ w'] by (simp add: longName_def emptyTranslation_def)
  then show ?thesis using w' by auto
qed

end
