(* ===== verification/Ingestion_Ingress.thy ===== *)
theory Ingestion_Ingress
  imports Model_Helper
begin

text \<open>
  \<open>src/pkg/model/ingestion/ingress.go\<close> and \<open>src/pkg/ingress/annotations/annotations.go\<close>: from
  an Ingress to the listeners of the intermediate model. A dereference of a nil pointer is
  \<open>None\<close>. \<open>annotation.Get\<close> of the infra repository, \<open>cmp.Equal\<close> and
  \<open>time.ParseDuration\<close> are fields of \<open>IngressLib\<close>.
\<close>

section \<open>Ingresses\<close>

datatype PathType = PathTypeExact | PathTypePrefix | PathTypeImplementationSpecific | OtherPathType string

record IngressServiceBackend =
  isb_Name :: string
  isb_PortName :: string
  isb_PortNumber :: int

record HTTPIngressPath =
  ip_Path :: string
  ip_PathType :: "PathType option"
  ip_Service :: "IngressServiceBackend option"

record IngressRule =
  ir_Host :: string
  ir_HTTP :: "HTTPIngressPath list option"

record IngressTLS =
  itl_Hosts :: "string list"
  itl_SecretName :: string

text \<open>The inner option of the default backend is its Service; an address is an IP and a hostname.\<close>

record IngressObject =
  ing_Name :: string
  ing_Namespace :: string
  ing_UID :: string
  ing_Annotations :: string_map
  ing_Labels :: string_map
  ing_ClassName :: "string option"
  ing_DefaultBackend :: "IngressServiceBackend option option"
  ing_Rules :: "IngressRule list"
  ing_TLS :: "IngressTLS list"
  ing_Deleting :: bool
  ing_LoadBalancer :: "(string \<times> string) list"

record IngressLib =
  il_annotationGet :: "string_map \<Rightarrow> string list \<Rightarrow> string option"
  il_cmpEqual :: "FullyQualifiedResource \<Rightarrow> FullyQualifiedResource \<Rightarrow> bool"
  il_parseDuration :: "string \<Rightarrow> string + int"

section \<open>Annotations\<close>

definition annotationPrefix :: string where "annotationPrefix = ''dolphin.io''"
definition IngressPrefix :: string where "IngressPrefix = ''ingress.dolphin.io''"
definition LBModeAnnotation :: string where "LBModeAnnotation = IngressPrefix @ ''/loadbalancer-mode''"
definition LBModeAnnotationAlias :: string where "LBModeAnnotationAlias = annotationPrefix @ ''.ingress'' @ ''/loadbalancer-mode''"
definition ServiceTypeAnnotation :: string where "ServiceTypeAnnotation = IngressPrefix @ ''/service-type''"
definition ServiceTypeAnnotationAlias :: string where "ServiceTypeAnnotationAlias = annotationPrefix @ ''.ingress'' @ ''/service-type''"
definition SecureNodePortAnnotation :: string where "SecureNodePortAnnotation = IngressPrefix @ ''/secure-node-port''"
definition SecureNodePortAnnotationAlias :: string where
  "SecureNodePortAnnotationAlias = annotationPrefix @ ''.ingress'' @ ''/secure-node-port''"
definition InsecureNodePortAnnotation :: string where "InsecureNodePortAnnotation = IngressPrefix @ ''/insecure-node-port''"
definition InsecureNodePortAnnotationAlias :: string where
  "InsecureNodePortAnnotationAlias = annotationPrefix @ ''.ingress'' @ ''/insecure-node-port''"
definition TLSPassthroughAnnotation :: string where "TLSPassthroughAnnotation = IngressPrefix @ ''/tls-passthrough''"
definition TLSPassthroughAnnotationAlias :: string where
  "TLSPassthroughAnnotationAlias = annotationPrefix @ ''.ingress'' @ ''/tls-passthrough''"
definition RequestTimeoutAnnotation :: string where "RequestTimeoutAnnotation = IngressPrefix @ ''/request-timeout''"
definition ForceHTTPSAnnotation :: string where "ForceHTTPSAnnotation = IngressPrefix @ ''/force-https''"
definition HostListenerPortAnnotation :: string where "HostListenerPortAnnotation = IngressPrefix @ ''/host-listener-port''"
definition LoadbalancerModeDedicated :: string where "LoadbalancerModeDedicated = ''dedicated''"
definition LoadbalancerModeShared :: string where "LoadbalancerModeShared = ''shared''"

text \<open>\<open>strconv.ParseBool\<close> and \<open>strconv.ParseInt(val, 10, 32)\<close>; \<open>None\<close> is an error.\<close>

definition ParseBool :: "string \<Rightarrow> bool option" where
  "ParseBool s =
     (if s \<in> {''1'', ''t'', ''T'', ''TRUE'', ''true'', ''True''} then Some True
      else if s \<in> {''0'', ''f'', ''F'', ''FALSE'', ''false'', ''False''} then Some False
      else None)"

definition isDigit :: "char \<Rightarrow> bool" where
  "isDigit c \<longleftrightarrow> c \<in> set ''0123456789''"

definition ParseInt32 :: "string \<Rightarrow> int option" where
  "ParseInt32 s =
     (let neg = HasPrefix s ''-'';
          digits = (if HasPrefix s ''-'' \<or> HasPrefix s ''+'' then tl s else s);
          un = digits_value digits
      in if digits = '''' \<or> \<not> list_all isDigit digits then None
         else if \<not> neg \<and> un \<ge> 2 ^ 31 \<or> neg \<and> un > 2 ^ 31 then None
         else Some (if neg then - int un else int un))"

definition GetAnnotationIngressLoadbalancerMode :: "IngressLib \<Rightarrow> IngressObject \<Rightarrow> string" where
  "GetAnnotationIngressLoadbalancerMode L ing =
     (case il_annotationGet L (ing_Annotations ing) [LBModeAnnotation, LBModeAnnotationAlias] of
        None \<Rightarrow> '''' | Some value \<Rightarrow> value)"

definition GetAnnotationTLSPassthroughEnabled :: "IngressLib \<Rightarrow> IngressObject \<Rightarrow> bool" where
  "GetAnnotationTLSPassthroughEnabled L ing =
     (case il_annotationGet L (ing_Annotations ing) [TLSPassthroughAnnotation, TLSPassthroughAnnotationAlias] of
        None \<Rightarrow> False
      | Some val \<Rightarrow> if val = ''enabled'' then True
                    else (case ParseBool val of None \<Rightarrow> False | Some b \<Rightarrow> b))"

definition GetAnnotationServiceType :: "IngressLib \<Rightarrow> IngressObject \<Rightarrow> string" where
  "GetAnnotationServiceType L ing =
     (case il_annotationGet L (ing_Annotations ing) [ServiceTypeAnnotation, ServiceTypeAnnotationAlias] of
        None \<Rightarrow> ''LoadBalancer'' | Some val \<Rightarrow> val)"

text \<open>The outer option is the error of the port annotations.\<close>

definition portAnnotation :: "IngressLib \<Rightarrow> string list \<Rightarrow> IngressObject \<Rightarrow> uint32 option option" where
  "portAnnotation L names ing =
     (case il_annotationGet L (ing_Annotations ing) names of
        None \<Rightarrow> Some None
      | Some val \<Rightarrow> (case ParseInt32 val of None \<Rightarrow> None | Some i \<Rightarrow> Some (Some (word_of_int i))))"

definition GetAnnotationSecureNodePort :: "IngressLib \<Rightarrow> IngressObject \<Rightarrow> uint32 option option" where
  "GetAnnotationSecureNodePort L = portAnnotation L [SecureNodePortAnnotation, SecureNodePortAnnotationAlias]"

definition GetAnnotationInsecureNodePort :: "IngressLib \<Rightarrow> IngressObject \<Rightarrow> uint32 option option" where
  "GetAnnotationInsecureNodePort L = portAnnotation L [InsecureNodePortAnnotation, InsecureNodePortAnnotationAlias]"

definition GetAnnotationHostListenerPort :: "IngressLib \<Rightarrow> IngressObject \<Rightarrow> uint32 option option" where
  "GetAnnotationHostListenerPort L = portAnnotation L [HostListenerPortAnnotation]"

definition GetAnnotationRequestTimeout :: "IngressLib \<Rightarrow> IngressObject \<Rightarrow> string + int option" where
  "GetAnnotationRequestTimeout L ing =
     (case il_annotationGet L (ing_Annotations ing) [RequestTimeoutAnnotation] of
        None \<Rightarrow> Inr None
      | Some val \<Rightarrow>
          (case il_parseDuration L val of
             Inl err \<Rightarrow> Inl (''failed to parse duration '' @ val @ '': '' @ err)
           | Inr d \<Rightarrow> Inr (Some d)))"

definition GetAnnotationForceHTTPSEnabled :: "IngressLib \<Rightarrow> IngressObject \<Rightarrow> bool option" where
  "GetAnnotationForceHTTPSEnabled L ing =
     (case il_annotationGet L (ing_Annotations ing) [ForceHTTPSAnnotation] of
        None \<Rightarrow> None
      | Some val \<Rightarrow> if val = ''enabled'' then Some True
                    else if val = ''disabled'' then Some False
                    else ParseBool val)"

section \<open>Ingestion\<close>

definition ingestion_getService :: "IngressLib \<Rightarrow> IngressObject \<Rightarrow> Service option" where
  "ingestion_getService L ing =
     (if GetAnnotationServiceType L ing \<noteq> ''NodePort'' then None
      else Some \<lparr>svc_Type = ''NodePort'',
                 svc_InsecureNodePort = (case GetAnnotationInsecureNodePort L ing of None \<Rightarrow> None | Some p \<Rightarrow> p),
                 svc_SecureNodePort = (case GetAnnotationSecureNodePort L ing of None \<Rightarrow> None | Some p \<Rightarrow> p)\<rparr>)"

definition appendValuesInKeyOrder :: "(string \<times> 'a) list \<Rightarrow> 'a list \<Rightarrow> 'a list" where
  "appendValuesInKeyOrder listenerMap appendSlice =
     appendSlice @ map (\<lambda>key. the (map_of listenerMap key)) (sort (map fst listenerMap))"

definition sourceResource :: "IngressObject \<Rightarrow> FullyQualifiedResource" where
  "sourceResource ing =
     \<lparr>fqr_Name = ing_Name ing, fqr_Namespace = ing_Namespace ing, fqr_Group = '''', fqr_Version = ''v1'',
      fqr_Kind = ''Ingress'', fqr_UID = ing_UID ing\<rparr>"

definition ingressTimeout :: "IngressLib \<Rightarrow> int \<Rightarrow> IngressObject \<Rightarrow> Timeout" where
  "ingressTimeout L defaultRequestTimeout ing =
     (let default = (if defaultRequestTimeout \<noteq> 0 then Some defaultRequestTimeout else None)
      in \<lparr>to_Request = (case GetAnnotationRequestTimeout L ing of
                          Inl err \<Rightarrow> default | Inr None \<Rightarrow> default | Inr (Some v) \<Rightarrow> Some v),
          to_Backend = None\<rparr>)"

definition serviceBackend :: "IngressObject \<Rightarrow> IngressServiceBackend \<Rightarrow> Backend" where
  "serviceBackend ing svc =
     \<lparr>be_Name = isb_Name svc, be_Namespace = ing_Namespace ing,
      be_Port = Some \<lparr>bp_Port = (if isb_PortNumber svc \<noteq> 0 then word_of_int (isb_PortNumber svc) else 0),
                      bp_Name = isb_PortName svc\<rparr>,
      be_Weight = None, be_TLS = None\<rparr>"

definition zeroHTTPListener :: HTTPListener where
  "zeroHTTPListener =
     \<lparr>hl_Name = '''', hl_Sources = [], hl_Address = '''', hl_Port = 0, hl_Hostname = '''', hl_TLS = None,
      hl_Routes = [], hl_Service = None, hl_Infrastructure = None, hl_ForceHTTPtoHTTPSRedirect = False\<rparr>"

definition zeroTLSListener :: TLSListener where
  "zeroTLSListener =
     \<lparr>tl_Name = '''', tl_Sources = [], tl_Address = '''', tl_Port = 0, tl_Hostname = '''', tl_Routes = [],
      tl_Service = None, tl_Infrastructure = None\<rparr>"

definition defaultListener ::
  "IngressLib \<Rightarrow> IngressObject \<Rightarrow> uint32 \<Rightarrow> Timeout \<Rightarrow> (string \<times> HTTPListener) list option" where
  "defaultListener L ing port timeout =
     (case ing_DefaultBackend ing of
        None \<Rightarrow> Some []
      | Some b \<Rightarrow> do {
          svc \<leftarrow> b;
          Some [(''*'', zeroHTTPListener\<lparr>hl_Hostname := ''*'',
            hl_Routes := [zeroHTTPRoute\<lparr>hr_Backends := [serviceBackend ing svc], hr_Timeout := timeout\<rparr>],
            hl_Port := port, hl_Service := ingestion_getService L ing,
            hl_Sources := AddSource (il_cmpEqual L) [] (sourceResource ing)\<rparr>)] })"

definition pathRoute :: "IngressObject \<Rightarrow> Timeout \<Rightarrow> HTTPIngressPath \<Rightarrow> HTTPRoute option" where
  "pathRoute ing timeout path = do {
     pathType \<leftarrow> ip_PathType path;
     svc \<leftarrow> ip_Service path;
     Some (zeroHTTPRoute\<lparr>
       hr_PathMatch := (case pathType of
          PathTypeExact \<Rightarrow> noMatch\<lparr>sm_Exact := ip_Path path\<rparr>
        | PathTypePrefix \<Rightarrow> noMatch\<lparr>sm_Prefix := ip_Path path\<rparr>
        | PathTypeImplementationSpecific \<Rightarrow> noMatch\<lparr>sm_Regex := ip_Path path\<rparr>
        | OtherPathType _ \<Rightarrow> noMatch),
       hr_Backends := [serviceBackend ing svc], hr_Timeout := timeout\<rparr>) }"

abbreviation ruleHost :: "IngressRule \<Rightarrow> string" where
  "ruleHost rule \<equiv> (if ir_Host rule \<noteq> '''' then ir_Host rule else ''*'')"

abbreviation listenerName :: "IngressObject \<Rightarrow> string \<Rightarrow> string" where
  "listenerName ing host \<equiv> ''ing-'' @ ing_Name ing @ ''-'' @ ing_Namespace ing @ ''-'' @ host"

definition addRule ::
  "IngressLib \<Rightarrow> IngressObject \<Rightarrow> uint32 \<Rightarrow> Timeout \<Rightarrow> IngressRule \<Rightarrow> (string \<times> HTTPListener) list \<Rightarrow>
   (string \<times> HTTPListener) list option" where
  "addRule L ing port timeout rule listeners =
     (case ir_HTTP rule of
        None \<Rightarrow> Some listeners
      | Some paths \<Rightarrow> do {
          let host = ruleHost rule;
          let old = (case map_of listeners host of
                       None \<Rightarrow> zeroHTTPListener\<lparr>hl_Name := listenerName ing host\<rparr> | Some l \<Rightarrow> l);
          routes \<leftarrow> mapM (pathRoute ing timeout) paths;
          Some (AList.update host (old\<lparr>hl_Port := port,
            hl_Sources := AddSource (il_cmpEqual L) (hl_Sources old) (sourceResource ing),
            hl_Hostname := host, hl_Routes := hl_Routes old @ routes,
            hl_Service := (if paths = [] then hl_Service old else ingestion_getService L ing)\<rparr>) listeners) })"

definition tlsSecret :: "IngressObject \<Rightarrow> string \<Rightarrow> string \<Rightarrow> IngressTLS \<Rightarrow> TLSSecret list option \<Rightarrow> TLSSecret list option" where
  "tlsSecret ing defaultNamespace defaultName tlsConfig old =
     (if itl_SecretName tlsConfig \<noteq> ''''
      then Some [\<lparr>sec_Name = itl_SecretName tlsConfig, sec_Namespace = ing_Namespace ing\<rparr>]
      else if defaultNamespace \<noteq> '''' \<and> defaultName \<noteq> ''''
      then Some [\<lparr>sec_Name = defaultName, sec_Namespace = defaultNamespace\<rparr>]
      else old)"

definition addTLSHost ::
  "IngressLib \<Rightarrow> IngressObject \<Rightarrow> uint32 \<Rightarrow> string \<Rightarrow> string \<Rightarrow> bool \<Rightarrow> (string \<times> HTTPListener) list \<Rightarrow>
   IngressTLS \<times> string \<Rightarrow> (string \<times> HTTPListener) list \<Rightarrow> (string \<times> HTTPListener) list" where
  "addTLSHost L ing port defaultNamespace defaultName forceHTTPs insecure th secure =
     (let (tlsConfig, host) = th;
          tls = tlsSecret ing defaultNamespace defaultName tlsConfig;
          found = (case map_of secure host of
                     Some l \<Rightarrow> Some l
                   | None \<Rightarrow> (case map_of insecure host of Some l \<Rightarrow> Some l | None \<Rightarrow> map_of insecure ''*''))
      in case found of
           None \<Rightarrow> secure
         | Some l \<Rightarrow>
             let secure' = AList.update host (l\<lparr>hl_TLS := tls (hl_TLS l), hl_Port := port, hl_Hostname := host,
                             hl_Service := ingestion_getService L ing, hl_ForceHTTPtoHTTPSRedirect := forceHTTPs\<rparr>) secure
             in case map_of insecure ''*'' of
                  None \<Rightarrow> secure'
                | Some d \<Rightarrow> AList.update host (d\<lparr>hl_TLS := tls (hl_TLS d), hl_Hostname := host, hl_Port := port\<rparr>) secure')"

definition tlsHosts :: "IngressObject \<Rightarrow> (IngressTLS \<times> string) list" where
  "tlsHosts ing = concat (map (\<lambda>t. map (Pair t) (itl_Hosts t)) (ing_TLS ing))"

definition forceHTTPS :: "IngressLib \<Rightarrow> bool \<Rightarrow> IngressObject \<Rightarrow> bool" where
  "forceHTTPS L enforcedHTTPS ing =
     (case GetAnnotationForceHTTPSEnabled L ing of None \<Rightarrow> enforcedHTTPS | Some b \<Rightarrow> b)"

definition insecureListeners ::
  "IngressLib \<Rightarrow> uint32 \<Rightarrow> int \<Rightarrow> IngressObject \<Rightarrow> (string \<times> HTTPListener) list option" where
  "insecureListeners L port defaultRequestTimeout ing = do {
     let timeout = ingressTimeout L defaultRequestTimeout ing;
     default \<leftarrow> defaultListener L ing port timeout;
     foldM (addRule L ing port timeout) (ing_Rules ing) default }"

definition ingestion_Ingress ::
  "IngressLib \<Rightarrow> IngressObject \<Rightarrow> string \<Rightarrow> string \<Rightarrow> bool \<Rightarrow> uint32 \<Rightarrow> uint32 \<Rightarrow> int \<Rightarrow> HTTPListener list option" where
  "ingestion_Ingress L ing defaultNamespace defaultName enforcedHTTPS insecurePort securePort defaultRequestTimeout = do {
     insecure \<leftarrow> insecureListeners L insecurePort defaultRequestTimeout ing;
     let secure = fold (addTLSHost L ing securePort defaultNamespace defaultName (forceHTTPS L enforcedHTTPS ing) insecure)
                    (tlsHosts ing) [];
     Some (appendValuesInKeyOrder secure (appendValuesInKeyOrder insecure [])) }"

section \<open>TLS passthrough\<close>

definition passthroughRoute :: "IngressObject \<Rightarrow> HTTPIngressPath \<Rightarrow> TLSRoute list option" where
  "passthroughRoute ing path =
     (if ip_Path path \<noteq> ''/'' then Some []
      else do {
        svc \<leftarrow> ip_Service path;
        Some [\<lparr>tr_Name = '''', tr_Hostnames = [], tr_Backends = [serviceBackend ing svc]\<rparr>] })"

definition addPassthroughRule ::
  "IngressLib \<Rightarrow> IngressObject \<Rightarrow> IngressRule \<Rightarrow> (string \<times> TLSListener) list \<Rightarrow> (string \<times> TLSListener) list option" where
  "addPassthroughRule L ing rule listeners =
     (if ir_Host rule = '''' then Some listeners
      else case ir_HTTP rule of
        None \<Rightarrow> Some listeners
      | Some paths \<Rightarrow> do {
          let host = ir_Host rule;
          let old = (case map_of listeners host of
                       None \<Rightarrow> zeroTLSListener\<lparr>tl_Name := listenerName ing host\<rparr> | Some l \<Rightarrow> l);
          routes \<leftarrow> concatMapM (passthroughRoute ing) paths;
          let l = old\<lparr>tl_Port := 443, tl_Sources := AddSource (il_cmpEqual L) (tl_Sources old) (sourceResource ing),
                      tl_Hostname := host, tl_Routes := tl_Routes old @ routes,
                      tl_Service := (if routes = [] then tl_Service old else ingestion_getService L ing)\<rparr>;
          Some (if tl_Routes l = [] then listeners else AList.update host l listeners) })"

definition IngressPassthrough :: "IngressLib \<Rightarrow> IngressObject \<Rightarrow> TLSListener list option" where
  "IngressPassthrough L ing = do {
     listeners \<leftarrow> foldM (addPassthroughRule L ing) (ing_Rules ing) [];
     Some (appendValuesInKeyOrder listeners []) }"

section \<open>The listeners of an Ingress\<close>

text \<open>What the API server requires: a default backend and every path have a Service, a path has a type.\<close>

definition valid_path :: "HTTPIngressPath \<Rightarrow> bool" where
  "valid_path p \<longleftrightarrow> ip_PathType p \<noteq> None \<and> ip_Service p \<noteq> None"

definition valid_ingress :: "IngressObject \<Rightarrow> bool" where
  "valid_ingress ing \<longleftrightarrow>
     ing_DefaultBackend ing \<noteq> Some None \<and>
     (\<forall>r \<in> set (ing_Rules ing). case ir_HTTP r of None \<Rightarrow> True | Some paths \<Rightarrow> list_all valid_path paths)"

text \<open>The hosts of an Ingress and the routes of a host, in the order of the rules.\<close>

definition defaultRoutes :: "IngressObject \<Rightarrow> Timeout \<Rightarrow> string \<Rightarrow> HTTPRoute list" where
  "defaultRoutes ing timeout host =
     (case ing_DefaultBackend ing of
        Some (Some svc) \<Rightarrow>
          if host = ''*'' then [zeroHTTPRoute\<lparr>hr_Backends := [serviceBackend ing svc], hr_Timeout := timeout\<rparr>] else []
      | _ \<Rightarrow> [])"

definition rulePaths :: "string \<Rightarrow> IngressRule \<Rightarrow> HTTPIngressPath list" where
  "rulePaths host rule = (if ruleHost rule = host then (case ir_HTTP rule of None \<Rightarrow> [] | Some paths \<Rightarrow> paths) else [])"

definition routesOfRules :: "IngressObject \<Rightarrow> Timeout \<Rightarrow> IngressRule list \<Rightarrow> string \<Rightarrow> HTTPRoute list" where
  "routesOfRules ing timeout rules host =
     defaultRoutes ing timeout host @ map (the \<circ> pathRoute ing timeout) (concat (map (rulePaths host) rules))"

definition hostsOfRules :: "IngressObject \<Rightarrow> IngressRule list \<Rightarrow> string set" where
  "hostsOfRules ing rules =
     (if ing_DefaultBackend ing = None then {} else {''*''}) \<union> ruleHost ` {r \<in> set rules. ir_HTTP r \<noteq> None}"

abbreviation ingressRoutes :: "IngressObject \<Rightarrow> Timeout \<Rightarrow> string \<Rightarrow> HTTPRoute list" where
  "ingressRoutes ing timeout \<equiv> routesOfRules ing timeout (ing_Rules ing)"

abbreviation ingressHosts :: "IngressObject \<Rightarrow> string set" where
  "ingressHosts ing \<equiv> hostsOfRules ing (ing_Rules ing)"

lemma pathRoute_returns: "valid_path p \<Longrightarrow> \<exists>r. pathRoute ing timeout p = Some r"
  by (auto simp: valid_path_def pathRoute_def)

lemma mapM_pathRoute:
  "list_all valid_path ps \<Longrightarrow> mapM (pathRoute ing timeout) ps = Some (map (the \<circ> pathRoute ing timeout) ps)"
proof (induction ps)
  case (Cons p ps)
  then obtain r where "pathRoute ing timeout p = Some r" using pathRoute_returns by fastforce
  then show ?case using Cons by simp
qed simp

definition ingressListeners ::
  "IngressObject \<Rightarrow> uint32 \<Rightarrow> Timeout \<Rightarrow> IngressRule list \<Rightarrow> (string \<times> HTTPListener) list \<Rightarrow> bool" where
  "ingressListeners ing port timeout rules m \<longleftrightarrow>
     distinct (map fst m) \<and> fst ` set m = hostsOfRules ing rules \<and>
     (\<forall>h l. map_of m h = Some l \<longrightarrow>
        hl_Hostname l = h \<and> hl_Port l = port \<and> hl_Sources l = [sourceResource ing] \<and> hl_TLS l = None \<and>
        hl_Routes l = routesOfRules ing timeout rules h)"

lemma routesOfRules_unknown: "h \<notin> hostsOfRules ing rules \<Longrightarrow> routesOfRules ing timeout rules h = []"
  by (auto simp: routesOfRules_def hostsOfRules_def defaultRoutes_def rulePaths_def
      split: option.splits if_splits)

lemma addRule_step:
  assumes cmp: "\<And>s. il_cmpEqual L s s" and inv: "ingressListeners ing port timeout rules m"
    and valid: "case ir_HTTP rule of None \<Rightarrow> True | Some paths \<Rightarrow> list_all valid_path paths"
  shows "\<exists>m'. addRule L ing port timeout rule m = Some m' \<and> ingressListeners ing port timeout (rules @ [rule]) m'"
proof (cases "ir_HTTP rule")
  case None
  then have "hostsOfRules ing (rules @ [rule]) = hostsOfRules ing rules"
    "routesOfRules ing timeout (rules @ [rule]) = routesOfRules ing timeout rules"
    by (auto simp: hostsOfRules_def routesOfRules_def rulePaths_def)
  then show ?thesis using inv None by (simp add: addRule_def ingressListeners_def)
next
  case (Some paths)
  let ?h = "ruleHost rule"
  have routes: "routesOfRules ing timeout (rules @ [rule]) h =
      routesOfRules ing timeout rules h @ (if h = ?h then map (the \<circ> pathRoute ing timeout) paths else [])" for h
    using Some by (simp add: routesOfRules_def rulePaths_def)
  have hosts: "hostsOfRules ing (rules @ [rule]) = insert ?h (hostsOfRules ing rules)"
    using Some by (auto simp: hostsOfRules_def)
  have run: "mapM (pathRoute ing timeout) paths = Some (map (the \<circ> pathRoute ing timeout) paths)"
    using mapM_pathRoute valid Some by simp
  have fresh: "routesOfRules ing timeout rules ?h = []" if "map_of m ?h = None"
    using that inv routesOfRules_unknown by (simp add: ingressListeners_def map_of_eq_None_iff)
  define old where "old = (case map_of m ?h of None \<Rightarrow> zeroHTTPListener\<lparr>hl_Name := listenerName ing ?h\<rparr> | Some l \<Rightarrow> l)"
  have old: "hl_Routes old = routesOfRules ing timeout rules ?h" "hl_TLS old = None"
    "AddSource (il_cmpEqual L) (hl_Sources old) (sourceResource ing) = [sourceResource ing]"
    using inv fresh cmp
    by (cases "map_of m ?h"; simp add: old_def zeroHTTPListener_def AddSource_def ingressListeners_def)+
  define new where "new = old\<lparr>hl_Port := port,
      hl_Sources := AddSource (il_cmpEqual L) (hl_Sources old) (sourceResource ing), hl_Hostname := ?h,
      hl_Routes := hl_Routes old @ map (the \<circ> pathRoute ing timeout) paths,
      hl_Service := (if paths = [] then hl_Service old else ingestion_getService L ing)\<rparr>"
  have "addRule L ing port timeout rule m = Some (AList.update ?h new m)"
    by (simp only: addRule_def Some option.case run Let_def bind.bind_lunit old_def [symmetric] new_def [symmetric])
  moreover have "distinct (map fst (AList.update ?h new m))"
    using inv by (simp only: ingressListeners_def distinct_update)
  moreover have "fst ` set (AList.update ?h new m) = hostsOfRules ing (rules @ [rule])"
    using inv by (simp only: ingressListeners_def dom_update hosts insert_is_Un [symmetric])
  moreover have "hl_Hostname l = h \<and> hl_Port l = port \<and> hl_Sources l = [sourceResource ing] \<and> hl_TLS l = None \<and>
      hl_Routes l = routesOfRules ing timeout (rules @ [rule]) h" if l: "map_of (AList.update ?h new m) h = Some l" for h l
  proof (cases "h = ?h")
    case True
    then have "l = new" using l by (simp only: update_conv' fun_upd_same option.inject)
    then show ?thesis using old by (simp only: True routes) (simp add: new_def)
  next
    case False
    then have "map_of m h = Some l" using l by (simp only: update_conv' fun_upd_apply if_False)
    then show ?thesis using inv False by (simp only: routes) (simp add: ingressListeners_def)
  qed
  ultimately show ?thesis unfolding ingressListeners_def by blast
qed

lemma foldM_addRule:
  assumes "\<And>s. il_cmpEqual L s s"
  shows "ingressListeners ing port timeout rules m \<Longrightarrow>
    (\<And>r. r \<in> set rs \<Longrightarrow> case ir_HTTP r of None \<Rightarrow> True | Some paths \<Rightarrow> list_all valid_path paths) \<Longrightarrow>
    \<exists>m'. foldM (addRule L ing port timeout) rs m = Some m' \<and> ingressListeners ing port timeout (rules @ rs) m'"
proof (induction rs arbitrary: rules m)
  case (Cons r rs)
  obtain m1 where m1: "addRule L ing port timeout r m = Some m1" "ingressListeners ing port timeout (rules @ [r]) m1"
    using addRule_step [where L = L, OF assms Cons.prems(1)] Cons.prems(2) by force
  then show ?case using Cons.IH [OF m1(2)] Cons.prems(2) by simp
qed simp

lemma insecureListeners_spec:
  assumes "valid_ingress ing" "\<And>s. il_cmpEqual L s s"
  shows "\<exists>m. insecureListeners L port dflt ing = Some m \<and>
    ingressListeners ing port (ingressTimeout L dflt ing) (ing_Rules ing) m"
proof -
  let ?t = "ingressTimeout L dflt ing"
  have "\<exists>m. defaultListener L ing port ?t = Some m \<and> ingressListeners ing port ?t [] m"
    using assms(1) unfolding valid_ingress_def
    by (cases "ing_DefaultBackend ing")
       (auto simp: defaultListener_def ingressListeners_def hostsOfRules_def routesOfRules_def defaultRoutes_def
         zeroHTTPListener_def AddSource_def split: if_splits)
  then obtain m where "defaultListener L ing port ?t = Some m" "ingressListeners ing port ?t [] m" by blast
  then show ?thesis
    using foldM_addRule [where L = L, OF assms(2), of ing port ?t "[]" m "ing_Rules ing"] assms(1)
    by (simp add: insecureListeners_def valid_ingress_def Let_def)
qed

text \<open>A secure listener refers to Secrets of the namespace of the Ingress or to the default Secret.\<close>

definition ownSecrets :: "IngressObject \<Rightarrow> string \<Rightarrow> string \<Rightarrow> TLSSecret list option \<Rightarrow> bool" where
  "ownSecrets ing defaultNamespace defaultName tls \<longleftrightarrow>
     (\<forall>s \<in> set (case tls of None \<Rightarrow> [] | Some ss \<Rightarrow> ss).
        sec_Namespace s = ing_Namespace ing \<or> s = \<lparr>sec_Name = defaultName, sec_Namespace = defaultNamespace\<rparr>)"

lemma ownSecrets_tlsSecret [simp]:
  "ownSecrets ing dns dn tls \<Longrightarrow> ownSecrets ing dns dn (tlsSecret ing dns dn t tls)"
  by (simp add: ownSecrets_def tlsSecret_def)

lemma ownSecrets_None [simp]: "ownSecrets ing dns dn None"
  by (simp add: ownSecrets_def)

text \<open>The host whose routes a secure listener serves.\<close>

definition servedHost :: "IngressObject \<Rightarrow> string \<Rightarrow> string" where
  "servedHost ing host = (if ''*'' \<in> ingressHosts ing then ''*'' else host)"

definition secureListeners ::
  "IngressObject \<Rightarrow> uint32 \<Rightarrow> Timeout \<Rightarrow> string \<Rightarrow> string \<Rightarrow> string set \<Rightarrow> (string \<times> HTTPListener) list \<Rightarrow> bool" where
  "secureListeners ing port timeout dns dn hosts m \<longleftrightarrow>
     distinct (map fst m) \<and> fst ` set m = {h \<in> hosts. servedHost ing h \<in> ingressHosts ing} \<and>
     (\<forall>h l. map_of m h = Some l \<longrightarrow>
        hl_Hostname l = h \<and> hl_Port l = port \<and> hl_Sources l = [sourceResource ing] \<and> ownSecrets ing dns dn (hl_TLS l) \<and>
        hl_Routes l = ingressRoutes ing timeout (servedHost ing h))"

lemma ingressListeners_known:
  "ingressListeners ing port timeout rules m \<Longrightarrow> map_of m h = None \<longleftrightarrow> h \<notin> hostsOfRules ing rules"
  by (simp add: ingressListeners_def map_of_eq_None_iff)

lemma secureListeners_update:
  assumes inv: "secureListeners ing port timeout dns dn hosts m" and "servedHost ing h \<in> ingressHosts ing"
    and new: "hl_Hostname l = h" "hl_Port l = port" "hl_Sources l = [sourceResource ing]" "ownSecrets ing dns dn (hl_TLS l)"
      "hl_Routes l = ingressRoutes ing timeout (servedHost ing h)"
  shows "secureListeners ing port timeout dns dn (insert h hosts) (AList.update h l m)"
proof -
  have "{h' \<in> insert h hosts. servedHost ing h' \<in> ingressHosts ing} = insert h {h' \<in> hosts. servedHost ing h' \<in> ingressHosts ing}"
    using assms(2) by blast
  then show ?thesis
    using inv new by (simp add: secureListeners_def update_conv' dom_update distinct_update)
qed

lemma addTLSHost_step:
  assumes insecure: "ingressListeners ing iport timeout (ing_Rules ing) ins"
    and inv: "secureListeners ing port timeout dns dn hosts m"
  shows "secureListeners ing port timeout dns dn (insert h hosts) (addTLSHost L ing port dns dn force ins (t, h) m)"
proof (cases "map_of ins (servedHost ing h)")
  case None
  note known = ingressListeners_known [OF insecure]
  have served: "servedHost ing h \<notin> ingressHosts ing" using None known by simp
  moreover have star: "map_of ins ''*'' = None" using served known by (auto simp: servedHost_def split: if_splits)
  moreover have "servedHost ing h = h" using star known by (simp add: servedHost_def)
  moreover have "map_of m h = None"
    using inv served by (auto simp: secureListeners_def map_of_eq_None_iff)
  ultimately have "addTLSHost L ing port dns dn force ins (t, h) m = m" using None by (simp add: addTLSHost_def Let_def)
  moreover have "{h' \<in> insert h hosts. servedHost ing h' \<in> ingressHosts ing} = {h' \<in> hosts. servedHost ing h' \<in> ingressHosts ing}"
    using served by blast
  ultimately show ?thesis using inv by (simp add: secureListeners_def)
next
  case (Some b)
  have b: "hl_TLS b = None" "hl_Sources b = [sourceResource ing]" "hl_Routes b = ingressRoutes ing timeout (servedHost ing h)"
    using Some insecure by (auto simp: ingressListeners_def)
  have mem: "servedHost ing h \<in> ingressHosts ing"
    using ingressListeners_known [OF insecure, of "servedHost ing h"] Some by simp
  obtain l where l: "(case map_of m h of Some l \<Rightarrow> Some l
      | None \<Rightarrow> (case map_of ins h of Some l \<Rightarrow> Some l | None \<Rightarrow> map_of ins ''*'')) = Some l"
    using Some by (cases "map_of m h"; cases "map_of ins h") (auto simp: servedHost_def split: if_splits)
  define new where "new = l\<lparr>hl_TLS := tlsSecret ing dns dn t (hl_TLS l), hl_Port := port, hl_Hostname := h,
      hl_Service := ingestion_getService L ing, hl_ForceHTTPtoHTTPSRedirect := force\<rparr>"
  show ?thesis
  proof (cases "map_of ins ''*''")
    case None
    then have host: "servedHost ing h = h"
      using ingressListeners_known [OF insecure] by (simp add: servedHost_def)
    have "hl_Sources l = [sourceResource ing]" "ownSecrets ing dns dn (hl_TLS l)" "hl_Routes l = ingressRoutes ing timeout (servedHost ing h)"
      using l inv b Some host None by (auto simp: secureListeners_def split: option.splits)
    then have "secureListeners ing port timeout dns dn (insert h hosts) (AList.update h new m)"
      by (intro secureListeners_update [OF inv mem]) (simp_all add: new_def)
    then show ?thesis by (simp add: addTLSHost_def Let_def l None new_def)
  next
    case star: (Some d)
    then have "servedHost ing h = ''*''"
      using ingressListeners_known [OF insecure, of "''*''"] by (simp add: servedHost_def)
    then have "d = b" using star Some by simp
    moreover have "AList.update h b' (AList.update h new m) = AList.update h b' m" for b'
      by (induction m) auto
    moreover have "secureListeners ing port timeout dns dn (insert h hosts)
        (AList.update h (b\<lparr>hl_TLS := tlsSecret ing dns dn t (hl_TLS b), hl_Hostname := h, hl_Port := port\<rparr>) m)"
      using b by (intro secureListeners_update [OF inv mem]) simp_all
    ultimately show ?thesis by (simp add: addTLSHost_def Let_def l star new_def)
  qed
qed

lemma fold_addTLSHost:
  assumes "ingressListeners ing iport timeout (ing_Rules ing) ins"
  shows "secureListeners ing port timeout dns dn hosts m \<Longrightarrow>
    secureListeners ing port timeout dns dn (hosts \<union> snd ` set ths) (fold (addTLSHost L ing port dns dn force ins) ths m)"
proof (induction ths arbitrary: hosts m)
  case (Cons th ths)
  show ?case
    using Cons.IH [OF addTLSHost_step [OF assms Cons.prems, of "snd th" L force "fst th"]] by simp
qed simp

lemma values_ball:
  assumes "\<And>h l. map_of m h = Some l \<Longrightarrow> P l"
  shows "\<forall>l \<in> set (map (\<lambda>key. the (map_of m key)) (sort (map fst m))). P l"
proof -
  have "P (the (map_of m h))" if "h \<in> fst ` set m" for h
    using that assms by (cases "map_of m h") (auto simp: map_of_eq_None_iff)
  then show ?thesis by auto
qed

lemma values_in_order:
  assumes "distinct (map fst m)" "\<And>h l. map_of m h = Some l \<Longrightarrow> name l = h"
  shows "map name (map (\<lambda>key. the (map_of m key)) (sort (map fst m))) = sorted_list_of_set (fst ` set m)"
proof -
  have "name (the (map_of m h)) = h" if "h \<in> fst ` set m" for h
    using that assms(2) by (cases "map_of m h") (auto simp: map_of_eq_None_iff)
  then have "map (\<lambda>key. name (the (map_of m key))) (sort (map fst m)) = map id (sort (map fst m))"
    by (intro map_cong) auto
  moreover have "sort (map fst m) = sorted_list_of_set (fst ` set m)"
    using sorted_list_of_set_sort_remdups [of "map fst m"] assms(1) by (simp add: distinct_remdups_id)
  ultimately show ?thesis by (simp add: comp_def)
qed

section \<open>The listeners of a passthrough Ingress\<close>

text \<open>The routes of a host: one for every path \<open>/\<close>.\<close>

definition hostPaths :: "string \<Rightarrow> IngressRule \<Rightarrow> HTTPIngressPath list" where
  "hostPaths host rule = (if ir_Host rule \<noteq> host then [] else case ir_HTTP rule of None \<Rightarrow> [] | Some ps \<Rightarrow> ps)"

definition passthroughPaths :: "string \<Rightarrow> IngressRule list \<Rightarrow> HTTPIngressPath list" where
  "passthroughPaths host rules = filter (\<lambda>p. ip_Path p = ''/'') (concat (map (hostPaths host) rules))"

definition passthroughListeners :: "IngressObject \<Rightarrow> IngressRule list \<Rightarrow> (string \<times> TLSListener) list \<Rightarrow> bool" where
  "passthroughListeners ing rules m \<longleftrightarrow>
     distinct (map fst m) \<and> fst ` set m = {h. h \<noteq> '''' \<and> passthroughPaths h rules \<noteq> []} \<and>
     (\<forall>h l. map_of m h = Some l \<longrightarrow>
        tl_Hostname l = h \<and> tl_Port l = 443 \<and> tl_Sources l = [sourceResource ing] \<and>
        map tr_Backends (tl_Routes l) = map (\<lambda>p. [serviceBackend ing (the (ip_Service p))]) (passthroughPaths h rules))"

lemma passthroughRoute_valid:
  "valid_path p \<Longrightarrow> passthroughRoute ing p =
     Some (if ip_Path p = ''/'' then [\<lparr>tr_Name = '''', tr_Hostnames = [], tr_Backends = [serviceBackend ing (the (ip_Service p))]\<rparr>] else [])"
  by (auto simp: passthroughRoute_def valid_path_def)

lemma concatMapM_passthrough:
  "list_all valid_path ps \<Longrightarrow> \<exists>rs. concatMapM (passthroughRoute ing) ps = Some rs \<and>
     map tr_Backends rs = map (\<lambda>p. [serviceBackend ing (the (ip_Service p))]) (filter (\<lambda>p. ip_Path p = ''/'') ps)"
proof (induction ps)
  case (Cons p ps)
  then obtain rs where "concatMapM (passthroughRoute ing) ps = Some rs"
    "map tr_Backends rs = map (\<lambda>p. [serviceBackend ing (the (ip_Service p))]) (filter (\<lambda>p. ip_Path p = ''/'') ps)" by auto
  then show ?case using Cons.prems by (auto simp: concatMapM_def bind_eq_Some passthroughRoute_valid)
qed (simp add: concatMapM_def)

lemma addPassthroughRule_step:
  assumes cmp: "\<And>s. il_cmpEqual L s s" and inv: "passthroughListeners ing rules m"
    and valid: "case ir_HTTP rule of None \<Rightarrow> True | Some paths \<Rightarrow> list_all valid_path paths"
  shows "\<exists>m'. addPassthroughRule L ing rule m = Some m' \<and> passthroughListeners ing (rules @ [rule]) m'"
proof (cases "ir_Host rule = '''' \<or> ir_HTTP rule = None")
  case True
  have "passthroughPaths h (rules @ [rule]) = passthroughPaths h rules" if h: "h \<noteq> ''''" for h
  proof -
    have "hostPaths h rule = []" using True h by (cases "ir_Host rule = h") (auto simp: hostPaths_def)
    then show ?thesis by (simp add: passthroughPaths_def)
  qed
  moreover have "h \<noteq> ''''" if "map_of m h = Some l" for h l
  proof -
    have "h \<in> fst ` set m" using map_of_SomeD [OF that] by force
    then show ?thesis using inv by (simp add: passthroughListeners_def)
  qed
  moreover have "addPassthroughRule L ing rule m = Some m" using True by (auto simp: addPassthroughRule_def)
  ultimately show ?thesis using inv by (auto simp: passthroughListeners_def)
next
  case False
  then obtain paths where paths: "ir_HTTP rule = Some paths" and h: "ir_Host rule \<noteq> ''''" by auto
  let ?h = "ir_Host rule"
  obtain rs where rs: "concatMapM (passthroughRoute ing) paths = Some rs"
    "map tr_Backends rs = map (\<lambda>p. [serviceBackend ing (the (ip_Service p))]) (filter (\<lambda>p. ip_Path p = ''/'') paths)"
    using concatMapM_passthrough valid paths by fastforce
  have ps: "passthroughPaths h (rules @ [rule]) =
      passthroughPaths h rules @ (if h = ?h then filter (\<lambda>p. ip_Path p = ''/'') paths else [])" for h
    using paths by (simp add: passthroughPaths_def hostPaths_def)
  define old where "old = (case map_of m ?h of None \<Rightarrow> zeroTLSListener\<lparr>tl_Name := listenerName ing ?h\<rparr> | Some l \<Rightarrow> l)"
  have fresh: "passthroughPaths ?h rules = []" if "map_of m ?h = None"
    using that h inv by (simp add: passthroughListeners_def map_of_eq_None_iff)
  have old: "map tr_Backends (tl_Routes old) = map (\<lambda>p. [serviceBackend ing (the (ip_Service p))]) (passthroughPaths ?h rules)"
    "AddSource (il_cmpEqual L) (tl_Sources old) (sourceResource ing) = [sourceResource ing]"
    using inv fresh cmp
    by (cases "map_of m ?h"; simp add: old_def zeroTLSListener_def AddSource_def passthroughListeners_def)+
  define new where "new = old\<lparr>tl_Port := 443,
      tl_Sources := AddSource (il_cmpEqual L) (tl_Sources old) (sourceResource ing), tl_Hostname := ?h,
      tl_Routes := tl_Routes old @ rs, tl_Service := (if rs = [] then tl_Service old else ingestion_getService L ing)\<rparr>"
  have new: "map tr_Backends (tl_Routes new) = map (\<lambda>p. [serviceBackend ing (the (ip_Service p))]) (passthroughPaths ?h (rules @ [rule]))"
    using old(1) rs(2) by (simp add: new_def ps)
  then have empty: "tl_Routes new = [] \<longleftrightarrow> passthroughPaths ?h (rules @ [rule]) = []" by (metis map_is_Nil_conv)
  have run: "addPassthroughRule L ing rule m = Some (if tl_Routes new = [] then m else AList.update ?h new m)"
    unfolding addPassthroughRule_def Let_def paths option.case rs(1) bind.bind_lunit
    using h by (simp only: if_False old_def [symmetric] new_def [symmetric] option.inject)
  show ?thesis
  proof (cases "tl_Routes new = []")
    case True
    then have "passthroughPaths h (rules @ [rule]) = passthroughPaths h rules" for h using empty by (simp add: ps)
    then show ?thesis using run True inv by (simp add: passthroughListeners_def)
  next
    case False
    then have "{h. h \<noteq> '''' \<and> passthroughPaths h (rules @ [rule]) \<noteq> []} = insert ?h {h. h \<noteq> '''' \<and> passthroughPaths h rules \<noteq> []}"
      using empty h by (auto simp: ps split: if_splits)
    moreover have "tl_Hostname new = ?h" "tl_Port new = 443" "tl_Sources new = [sourceResource ing]"
      using old(2) by (simp_all add: new_def)
    moreover have "passthroughPaths h (rules @ [rule]) = passthroughPaths h rules" if "h \<noteq> ?h" for h using that by (simp add: ps)
    ultimately have "passthroughListeners ing (rules @ [rule]) (AList.update ?h new m)"
      using inv new by (simp add: passthroughListeners_def update_conv' dom_update distinct_update)
    then show ?thesis using run False by simp
  qed
qed

lemma foldM_addPassthroughRule:
  assumes "\<And>s. il_cmpEqual L s s"
  shows "passthroughListeners ing rules m \<Longrightarrow>
    (\<And>r. r \<in> set rs \<Longrightarrow> case ir_HTTP r of None \<Rightarrow> True | Some paths \<Rightarrow> list_all valid_path paths) \<Longrightarrow>
    \<exists>m'. foldM (addPassthroughRule L ing) rs m = Some m' \<and> passthroughListeners ing (rules @ rs) m'"
proof (induction rs arbitrary: rules m)
  case (Cons r rs)
  obtain m1 where m1: "addPassthroughRule L ing r m = Some m1" "passthroughListeners ing (rules @ [r]) m1"
    using addPassthroughRule_step [where L = L, OF assms Cons.prems(1)] Cons.prems(2) by force
  then show ?case using Cons.IH [OF m1(2)] Cons.prems(2) by simp
qed simp

section \<open>Properties\<close>

text \<open>
  Claim C7. The ingestion of a valid Ingress returns one listener on the insecure port for every host of the rules
  and of the default backend, in the order of the hosts, with the routes of all rules of that host, and one listener on the
  secure port for every TLS host that has a listener; a secure listener serves the routes of its host, except that
  it serves the routes of the catch-all listener if there is one, and it refers to no Secret of another namespace than that of
  the Ingress but the default Secret.
\<close>

theorem ingestion_Ingress_correct:
  assumes "valid_ingress ing" "\<And>s. il_cmpEqual L s s"
  shows "\<exists>ins sec. ingestion_Ingress L ing dns dn enforced iport sport dflt = Some (ins @ sec) \<and>
    map hl_Hostname ins = sorted_list_of_set (ingressHosts ing) \<and>
    (\<forall>l \<in> set ins. hl_Port l = iport \<and> hl_Sources l = [sourceResource ing] \<and> hl_TLS l = None \<and>
       hl_Routes l = ingressRoutes ing (ingressTimeout L dflt ing) (hl_Hostname l)) \<and>
    map hl_Hostname sec = sorted_list_of_set {h \<in> snd ` set (tlsHosts ing). servedHost ing h \<in> ingressHosts ing} \<and>
    (\<forall>l \<in> set sec. hl_Port l = sport \<and> hl_Sources l = [sourceResource ing] \<and> ownSecrets ing dns dn (hl_TLS l) \<and>
       hl_Routes l = ingressRoutes ing (ingressTimeout L dflt ing) (servedHost ing (hl_Hostname l)))"
proof -
  let ?t = "ingressTimeout L dflt ing"
  obtain m where m: "insecureListeners L iport dflt ing = Some m" "ingressListeners ing iport ?t (ing_Rules ing) m"
    using insecureListeners_spec [where L = L, OF assms] by blast
  define s where "s = fold (addTLSHost L ing sport dns dn (forceHTTPS L enforced ing) m) (tlsHosts ing) []"
  have s: "secureListeners ing sport ?t dns dn (snd ` set (tlsHosts ing)) s"
    using fold_addTLSHost [OF m(2), of sport dns dn "{}" "[]"] by (simp add: s_def secureListeners_def)
  have d: "distinct (map fst m)" "\<And>h l. map_of m h = Some l \<Longrightarrow> hl_Hostname l = h"
    "distinct (map fst s)" "\<And>h l. map_of s h = Some l \<Longrightarrow> hl_Hostname l = h"
    using m(2) s by (simp_all add: ingressListeners_def secureListeners_def)
  let ?ins = "map (\<lambda>key. the (map_of m key)) (sort (map fst m))" and ?sec = "map (\<lambda>key. the (map_of s key)) (sort (map fst s))"
  have "ingestion_Ingress L ing dns dn enforced iport sport dflt = Some (?ins @ ?sec)"
    by (simp add: ingestion_Ingress_def m(1) appendValuesInKeyOrder_def s_def Let_def)
  moreover have "map hl_Hostname ?ins = sorted_list_of_set (ingressHosts ing)"
    using values_in_order [OF d(1,2)] m(2) by (simp only: ingressListeners_def)
  moreover have "map hl_Hostname ?sec = sorted_list_of_set {h \<in> snd ` set (tlsHosts ing). servedHost ing h \<in> ingressHosts ing}"
    using values_in_order [OF d(3,4)] s by (simp only: secureListeners_def)
  moreover have "\<forall>l \<in> set ?ins. hl_Port l = iport \<and> hl_Sources l = [sourceResource ing] \<and> hl_TLS l = None \<and>
       hl_Routes l = ingressRoutes ing ?t (hl_Hostname l)"
    by (rule values_ball) (use m(2) in \<open>auto simp: ingressListeners_def\<close>)
  moreover have "\<forall>l \<in> set ?sec. hl_Port l = sport \<and> hl_Sources l = [sourceResource ing] \<and> ownSecrets ing dns dn (hl_TLS l) \<and>
       hl_Routes l = ingressRoutes ing ?t (servedHost ing (hl_Hostname l))"
    by (rule values_ball) (use s in \<open>auto simp: secureListeners_def\<close>)
  ultimately show ?thesis by blast
qed

text \<open>
  Claim C8. The ingestion of a valid passthrough Ingress returns one listener on port 443 for every host with a path \<open>/\<close>, in
  the order of the hosts, with one route for every such path to its Service; rules without a host, other paths
  and the default backend are dropped.
\<close>

theorem IngressPassthrough_correct:
  assumes "valid_ingress ing" "\<And>s. il_cmpEqual L s s"
  shows "\<exists>ls. IngressPassthrough L ing = Some ls \<and>
    map tl_Hostname ls = sorted_list_of_set {h. h \<noteq> '''' \<and> passthroughPaths h (ing_Rules ing) \<noteq> []} \<and>
    (\<forall>l \<in> set ls. tl_Port l = 443 \<and> tl_Sources l = [sourceResource ing] \<and>
       map tr_Backends (tl_Routes l) =
         map (\<lambda>p. [serviceBackend ing (the (ip_Service p))]) (passthroughPaths (tl_Hostname l) (ing_Rules ing)))"
proof -
  have "passthroughListeners ing [] []" by (simp add: passthroughListeners_def passthroughPaths_def)
  then obtain m where m: "foldM (addPassthroughRule L ing) (ing_Rules ing) [] = Some m"
    "passthroughListeners ing (ing_Rules ing) m"
    using foldM_addPassthroughRule [where L = L, OF assms(2), of ing "[]" "[]" "ing_Rules ing"] assms(1)
    by (auto simp: valid_ingress_def)
  have d: "distinct (map fst m)" "\<And>h l. map_of m h = Some l \<Longrightarrow> tl_Hostname l = h"
    using m(2) by (simp_all add: passthroughListeners_def)
  let ?ls = "map (\<lambda>key. the (map_of m key)) (sort (map fst m))"
  have "IngressPassthrough L ing = Some ?ls" by (simp add: IngressPassthrough_def m(1) appendValuesInKeyOrder_def)
  moreover have "map tl_Hostname ?ls = sorted_list_of_set {h. h \<noteq> '''' \<and> passthroughPaths h (ing_Rules ing) \<noteq> []}"
    using values_in_order [OF d] m(2) by (simp only: passthroughListeners_def)
  moreover have "\<forall>l \<in> set ?ls. tl_Port l = 443 \<and> tl_Sources l = [sourceResource ing] \<and>
       map tr_Backends (tl_Routes l) =
         map (\<lambda>p. [serviceBackend ing (the (ip_Service p))]) (passthroughPaths (tl_Hostname l) (ing_Rules ing))"
    by (rule values_ball) (use m(2) in \<open>auto simp: passthroughListeners_def\<close>)
  ultimately show ?thesis by blast
qed

text \<open>An Ingress with a default backend and a rule for a host with TLS.\<close>

definition exampleIngressLib :: IngressLib where
  "exampleIngressLib =
     \<lparr>il_annotationGet = (\<lambda>as names. List.find (\<lambda>_. True) (List.map_filter (map_of as) names)),
      il_cmpEqual = (=), il_parseDuration = (\<lambda>s. Inl ''invalid duration'')\<rparr>"

definition exampleIngress :: IngressObject where
  "exampleIngress =
     \<lparr>ing_Name = ''ing'', ing_Namespace = ''ns'', ing_UID = ''u'', ing_Annotations = [], ing_Labels = [],
      ing_ClassName = Some ''dolphin'',
      ing_DefaultBackend = Some (Some \<lparr>isb_Name = ''fallback'', isb_PortName = '''', isb_PortNumber = 80\<rparr>),
      ing_Rules = [\<lparr>ir_Host = ''a.com'', ir_HTTP = Some [\<lparr>ip_Path = ''/'', ip_PathType = Some PathTypePrefix,
         ip_Service = Some \<lparr>isb_Name = ''svc'', isb_PortName = ''http'', isb_PortNumber = 0\<rparr>\<rparr>]\<rparr>],
      ing_TLS = [\<lparr>itl_Hosts = [''a.com''], itl_SecretName = ''cert''\<rparr>], ing_Deleting = False, ing_LoadBalancer = []\<rparr>"

lemma exampleIngress_valid: "valid_ingress exampleIngress"
  by (simp add: valid_ingress_def exampleIngress_def valid_path_def)

lemma exampleIngress_hosts: "ingressHosts exampleIngress = {''*'', ''a.com''}"
  by (auto simp: hostsOfRules_def exampleIngress_def)

theorem ingestion_Ingress_correct_witness:
  "\<exists>ins sec. ingestion_Ingress exampleIngressLib exampleIngress '''' '''' False 80 443 0 = Some (ins @ sec) \<and>
     set (map hl_Hostname ins) = {''*'', ''a.com''} \<and> set (map hl_Hostname sec) = {''a.com''} \<and>
     (\<forall>l \<in> set sec. hl_Routes l = ingressRoutes exampleIngress (ingressTimeout exampleIngressLib 0 exampleIngress) ''*'')"
proof -
  have served: "servedHost exampleIngress h = ''*''" for h by (simp add: servedHost_def exampleIngress_hosts)
  obtain ins sec where c: "ingestion_Ingress exampleIngressLib exampleIngress '''' '''' False 80 443 0 = Some (ins @ sec)"
    "map hl_Hostname ins = sorted_list_of_set (ingressHosts exampleIngress)"
    "map hl_Hostname sec = sorted_list_of_set {h \<in> snd ` set (tlsHosts exampleIngress). servedHost exampleIngress h \<in> ingressHosts exampleIngress}"
    "\<forall>l \<in> set sec. hl_Routes l = ingressRoutes exampleIngress (ingressTimeout exampleIngressLib 0 exampleIngress)
       (servedHost exampleIngress (hl_Hostname l))"
    using ingestion_Ingress_correct [OF exampleIngress_valid, of exampleIngressLib "''''" "''''" False 80 443 0]
    by (auto simp: exampleIngressLib_def)
  moreover have "set (map hl_Hostname ins) = {''*'', ''a.com''}" by (simp only: c(2) exampleIngress_hosts) simp
  moreover have "set (map hl_Hostname sec) = {''a.com''}"
    by (simp only: c(3) served exampleIngress_hosts) (simp add: tlsHosts_def exampleIngress_def)
  ultimately show ?thesis unfolding served by blast
qed

theorem IngressPassthrough_correct_witness:
  "\<exists>ls. IngressPassthrough exampleIngressLib exampleIngress = Some ls \<and> set (map tl_Hostname ls) = {''a.com''}"
proof -
  have "{h. h \<noteq> '''' \<and> passthroughPaths h (ing_Rules exampleIngress) \<noteq> []} = {''a.com''}"
    by (auto simp: passthroughPaths_def hostPaths_def exampleIngress_def split: if_splits)
  moreover have "il_cmpEqual exampleIngressLib s s" for s by (simp add: exampleIngressLib_def)
  ultimately obtain ls where "IngressPassthrough exampleIngressLib exampleIngress = Some ls"
    "map tl_Hostname ls = sorted_list_of_set {''a.com''}"
    using IngressPassthrough_correct [OF exampleIngress_valid, of exampleIngressLib] by metis
  then show ?thesis by (intro exI [of _ ls]) (simp del: set_map)
qed

end
