(* ===== verification/Watch_Events.thy ===== *)
theory Watch_Events
  imports Main
begin

text \<open>
  What the watches of the controllers share: the events of \<open>sigs.k8s.io/controller-runtime\<close>, of which
  an update has the old and the new object, and keys that are written as \<open>namespace/name\<close>.
\<close>

datatype 'o watchEvent = CreateEvent 'o | UpdateEvent 'o 'o | DeleteEvent 'o | GenericEvent 'o

text \<open>Namespaces have no slash, so the text of a key determines the key.\<close>

lemma slash_inj:
  assumes "CHR ''/'' \<notin> set a" "CHR ''/'' \<notin> set c" "a @ ''/'' @ b = c @ ''/'' @ d"
  shows "a = c \<and> b = d"
  using assms
proof (induction a arbitrary: c)
  case Nil
  then show ?case by (cases c) auto
next
  case (Cons x a)
  then show ?case by (cases c) auto
qed

end
