(* ===== verification/Ingress_Reconcile.thy ===== *)
theory Ingress_Reconcile
  imports Ingestion_Ingress Gateway_Translator Cluster_Client Watch_Events
begin

text \<open>
  The reconciliation of Ingresses: \<open>src/pkg/ingress/ingress_reconcile.go\<close>, \<open>helpers.go\<close> and the
  parts of \<open>ingress.go\<close> that it uses. An Ingress has resources of its own (dedicated mode) or
  is part of one Envoy configuration for all of them (shared mode). \<open>None\<close> means that the code
  panics.
\<close>

section \<open>The reconciler\<close>

datatype dedicatedKind = KindService | KindEndpoints | KindDEC

record LoadBalancerIngress =
  lbi_IP :: string
  lbi_Hostname :: string
  lbi_Ports :: "(int \<times> string \<times> string option) list"

text \<open>
  The client. \<open>CreateOrUpdate(obj, mutate)\<close> writes \<open>mutate old\<close> where there is an object with the key of
  \<open>obj\<close> and creates \<open>mutate obj\<close> where there is none. \<open>ic_Terminating\<close> tells whether an error says that
  the namespace is being terminated, \<open>ic_SetController\<close> is \<open>SetControllerReference\<close>, and \<open>ic_deleteOrder\<close>
  is the order in which Go iterates over the map of the dedicated resources.
\<close>

record ('w, 'b) IngressClient =
  ic_Ingress :: "'w \<Rightarrow> NamespacedName \<Rightarrow> IngressObject getResult"
  ic_Ingresses :: "'w \<Rightarrow> IngressObject listResult"
  ic_IngressClass :: "'w \<Rightarrow> string \<Rightarrow> string_map getResult"
  ic_LoadBalancer :: "'w \<Rightarrow> NamespacedName \<Rightarrow> LoadBalancerIngress list getResult"
  ic_Get :: "dedicatedKind \<Rightarrow> 'w \<Rightarrow> NamespacedName \<Rightarrow> unit getResult"
  ic_Delete :: "dedicatedKind \<Rightarrow> 'w \<Rightarrow> NamespacedName \<Rightarrow> 'w writeResult"
  ic_Service :: "'w \<Rightarrow> CoreServiceObject \<Rightarrow> (CoreServiceObject \<Rightarrow> CoreServiceObject) \<Rightarrow> 'w writeResult"
  ic_Endpoints :: "'w \<Rightarrow> CoreEndpoints \<Rightarrow> (CoreEndpoints \<Rightarrow> CoreEndpoints) \<Rightarrow> 'w writeResult"
  ic_DEC :: "'w \<Rightarrow> 'b DolphinEnvoyConfig \<Rightarrow> ('b DolphinEnvoyConfig \<Rightarrow> 'b DolphinEnvoyConfig) \<Rightarrow> 'w writeResult"
  ic_Status :: "'w \<Rightarrow> IngressObject \<Rightarrow> LoadBalancerIngress list \<Rightarrow> 'w writeResult"
  ic_SetController :: "IngressObject \<Rightarrow> 'b DolphinEnvoyConfig \<Rightarrow> string + 'b DolphinEnvoyConfig"
  ic_Terminating :: "string \<Rightarrow> bool"
  ic_kindName :: "dedicatedKind \<Rightarrow> string"
  ic_deleteOrder :: "dedicatedKind list"

record ('w, 'b) ingressReconciler =
  irc_Client :: "('w, 'b) IngressClient"
  irc_Lib :: "'b Lib"
  irc_IngressLib :: IngressLib
  irc_Xff :: uint32
  irc_enforcedHTTPS :: bool
  irc_lbAnnotationPrefixes :: "string list"
  irc_sharedLBServiceName :: string
  irc_dolphinNamespace :: string
  irc_defaultLoadbalancerMode :: string
  irc_defaultSecretNamespace :: string
  irc_defaultSecretName :: string
  irc_defaultRequestTimeout :: int
  irc_hostNetworkEnabled :: bool
  irc_hostNetworkSharedPort :: uint32
  irc_sharedTranslator :: defaultTranslator
  irc_dedicatedTranslator :: DedicatedIngressTranslator

definition newIngressReconciler ::
  "('w, 'b) IngressClient \<Rightarrow> 'b Lib \<Rightarrow> IngressLib \<Rightarrow> uint32 \<Rightarrow> string \<Rightarrow> bool \<Rightarrow> bool \<Rightarrow> string \<Rightarrow> string list \<Rightarrow> string \<Rightarrow>
   string \<Rightarrow> string \<Rightarrow> string \<Rightarrow> int \<Rightarrow> ('w, 'b) ingressReconciler" where
  "newIngressReconciler C L IL xff dolphinNamespace enforceHTTPS useProxyProtocol secretsNamespace lbAnnotationPrefixes
     sharedLBServiceName defaultLoadbalancerMode defaultSecretNamespace defaultSecretName proxyIdleTimeoutSeconds =
     \<lparr>irc_Client = C, irc_Lib = L, irc_IngressLib = IL, irc_Xff = xff, irc_enforcedHTTPS = enforceHTTPS,
      irc_lbAnnotationPrefixes = lbAnnotationPrefixes, irc_sharedLBServiceName = sharedLBServiceName,
      irc_dolphinNamespace = dolphinNamespace, irc_defaultLoadbalancerMode = defaultLoadbalancerMode,
      irc_defaultSecretNamespace = defaultSecretNamespace, irc_defaultSecretName = defaultSecretName,
      irc_defaultRequestTimeout = 0, irc_hostNetworkEnabled = False, irc_hostNetworkSharedPort = 0,
      irc_sharedTranslator = NewSharedIngressTranslator sharedLBServiceName dolphinNamespace secretsNamespace
        enforceHTTPS useProxyProtocol proxyIdleTimeoutSeconds,
      irc_dedicatedTranslator = NewDedicatedIngressTranslator secretsNamespace enforceHTTPS useProxyProtocol
        proxyIdleTimeoutSeconds\<rparr>"

section \<open>Which Ingresses are managed\<close>

definition dolphinIngressClassName :: string where
  "dolphinIngressClassName = ''dolphin''"

definition ingressClassName :: "IngressObject \<Rightarrow> string option" where
  "ingressClassName ing =
     (case map_of (ing_Annotations ing) ''kubernetes.io/ingress.class'' of
        Some className \<Rightarrow> Some className
      | None \<Rightarrow> ing_ClassName ing)"

definition isIngressClassMarkedAsDefault :: "string_map \<Rightarrow> string + bool" where
  "isIngressClassMarkedAsDefault annotations =
     (case map_of annotations ''ingressclass.kubernetes.io/is-default-class'' of
        Some val \<Rightarrow>
          (case ParseBool val of
             None \<Rightarrow> Inl ''failed to parse annotation ingressclass.kubernetes.io/is-default-class''
           | Some isDefault \<Rightarrow> Inr isDefault)
      | None \<Rightarrow> Inr False)"

definition isDolphinDefaultIngressController :: "('w, 'b) IngressClient \<Rightarrow> 'w \<Rightarrow> bool" where
  "isDolphinDefaultIngressController C w \<longleftrightarrow>
     (case ic_IngressClass C w dolphinIngressClassName of
        Found annotations \<Rightarrow> (case isIngressClassMarkedAsDefault annotations of Inl _ \<Rightarrow> False | Inr isDefault \<Rightarrow> isDefault)
      | _ \<Rightarrow> False)"

text \<open>The class name is dereferenced for the log before it is compared with nil.\<close>

definition isdolphinManagedIngress :: "('w, 'b) IngressClient \<Rightarrow> 'w \<Rightarrow> IngressObject \<Rightarrow> bool option" where
  "isdolphinManagedIngress C w ing = do {
     ingClsName \<leftarrow> ingressClassName ing;
     Some (ingClsName = dolphinIngressClassName \<or> ingClsName = '''' \<and> isDolphinDefaultIngressController C w) }"

definition isEffectiveLoadbalancerModeDedicated :: "('w, 'b) ingressReconciler \<Rightarrow> IngressObject \<Rightarrow> bool" where
  "isEffectiveLoadbalancerModeDedicated r ing =
     (let value = GetAnnotationIngressLoadbalancerMode (irc_IngressLib r) ing
      in if value = LoadbalancerModeDedicated then True
         else if value = LoadbalancerModeShared then False
         else irc_defaultLoadbalancerMode r = LoadbalancerModeDedicated)"

section \<open>Merging maps\<close>

definition atLeastOnePrefixMatch :: "string \<Rightarrow> string list \<Rightarrow> bool" where
  "atLeastOnePrefixMatch s ps \<longleftrightarrow> (\<exists>prefix \<in> set ps. HasPrefix s prefix)"

definition ingress_mergeMap :: "string_map \<Rightarrow> string_map \<Rightarrow> string list \<Rightarrow> string_map" where
  "ingress_mergeMap src dst ps =
     (if src = [] then dst
      else fold (\<lambda>(key, value) m. if atLeastOnePrefixMatch key ps then AList.update key value m else m) src dst)"

definition propagateIngressAnnotationsAndLabels ::
  "('w, 'b) ingressReconciler \<Rightarrow> IngressObject \<Rightarrow> CoreServiceObject \<Rightarrow> CoreServiceObject" where
  "propagateIngressAnnotationsAndLabels r ing svc =
     (if length (irc_lbAnnotationPrefixes r) > 0
      then svc\<lparr>cso_Annotations := ingress_mergeMap (cso_Annotations svc) (ing_Annotations ing) (irc_lbAnnotationPrefixes r),
               cso_Labels := ingress_mergeMap (cso_Labels svc) (ing_Labels ing) (irc_lbAnnotationPrefixes r)\<rparr>
      else svc)"

section \<open>Writes\<close>

abbreviation (input) prefixError :: "string \<Rightarrow> 'w writeResult \<Rightarrow> 'w writeResult" where
  "prefixError msg res \<equiv> map_prod (map_option (\<lambda>err. msg @ err)) id res"

definition ingress_mutateDEC :: "'b DolphinEnvoyConfig \<Rightarrow> 'b DolphinEnvoyConfig \<Rightarrow> 'b DolphinEnvoyConfig" where
  "ingress_mutateDEC desired dec =
     dec\<lparr>dec_BackendServices := dec_BackendServices desired, dec_Services := dec_Services desired,
         dec_Resources := dec_Resources desired, dec_OwnerReferences := dec_OwnerReferences desired,
         dec_Labels := ingress_mergeMap (dec_Labels dec) (dec_Labels desired) []\<rparr>"

definition createOrUpdateDolphinEnvoyConfig ::
  "('w, 'b) IngressClient \<Rightarrow> 'b DolphinEnvoyConfig \<Rightarrow> 'w \<Rightarrow> 'w writeResult" where
  "createOrUpdateDolphinEnvoyConfig C desired w =
     prefixError ''failed to create or update DolphinEnvoyConfig: '' (ic_DEC C w desired (ingress_mutateDEC desired))"

definition ingress_mutateService :: "CoreServiceObject \<Rightarrow> CoreServiceObject \<Rightarrow> CoreServiceObject" where
  "ingress_mutateService desired svc =
     svc\<lparr>cso_Type := cso_Type desired, cso_Ports := cso_Ports desired, cso_OwnerReferences := cso_OwnerReferences desired,
         cso_Annotations := ingress_mergeMap (cso_Annotations svc) (cso_Annotations desired) [],
         cso_Labels := ingress_mergeMap (cso_Labels svc) (cso_Labels desired) []\<rparr>"

definition createOrUpdateService :: "('w, 'b) IngressClient \<Rightarrow> CoreServiceObject \<Rightarrow> 'w \<Rightarrow> 'w writeResult" where
  "createOrUpdateService C desired w =
     prefixError ''failed to create or update Service: '' (ic_Service C w desired (ingress_mutateService desired))"

definition ingress_mutateEndpoints :: "CoreEndpoints \<Rightarrow> CoreEndpoints \<Rightarrow> CoreEndpoints" where
  "ingress_mutateEndpoints desired ep =
     ep\<lparr>ceo_Addresses := ceo_Addresses desired, ceo_Ports := ceo_Ports desired,
        ceo_OwnerReferences := ceo_OwnerReferences desired,
        ceo_Labels := ingress_mergeMap (ceo_Labels ep) (ceo_Labels desired) []\<rparr>"

definition createOrUpdateEndpoints :: "('w, 'b) IngressClient \<Rightarrow> CoreEndpoints \<Rightarrow> 'w \<Rightarrow> 'w writeResult" where
  "createOrUpdateEndpoints C desired w =
     prefixError ''failed to create or update Endpoints: '' (ic_Endpoints C w desired (ingress_mutateEndpoints desired))"

definition tryDeletingResource :: "('w, 'b) IngressClient \<Rightarrow> dedicatedKind \<Rightarrow> NamespacedName \<Rightarrow> 'w \<Rightarrow> 'w writeResult" where
  "tryDeletingResource C kind key w =
     (case ic_Get C kind w key of
        NotFound \<Rightarrow> (None, w)
      | GetFailed err \<Rightarrow> (Some (''failed to get existing '' @ ic_kindName C kind @ '': '' @ err), w)
      | Found _ \<Rightarrow> prefixError (''failed to delete existing '' @ ic_kindName C kind @ '': '') (ic_Delete C kind w key))"

definition dedicatedKey :: "NamespacedName \<Rightarrow> dedicatedKind \<Rightarrow> NamespacedName" where
  "dedicatedKey ing kind =
     (fst ing,
      case kind of
        KindDEC \<Rightarrow> dolphinIngressPrefix @ ''-'' @ fst ing @ ''-'' @ snd ing
      | _ \<Rightarrow> dolphinIngressPrefix @ ''-'' @ snd ing)"

text \<open>The writes one after the other until one fails.\<close>

fun untilError :: "('w \<Rightarrow> 'w writeResult) list \<Rightarrow> 'w \<Rightarrow> 'w writeResult" where
  "untilError [] w = (None, w)"
| "untilError (f # fs) w = (case f w of (Some err, w') \<Rightarrow> (Some err, w') | (None, w') \<Rightarrow> untilError fs w')"

definition tryCleanupDedicatedResources :: "('w, 'b) IngressClient \<Rightarrow> NamespacedName \<Rightarrow> 'w \<Rightarrow> 'w writeResult" where
  "tryCleanupDedicatedResources C ing =
     untilError (map (\<lambda>kind. tryDeletingResource C kind (dedicatedKey ing kind)) (ic_deleteOrder C))"

section \<open>Building the resources\<close>

definition getDedicatedListenerPorts :: "('w, 'b) ingressReconciler \<Rightarrow> IngressObject \<Rightarrow> uint32 \<times> uint32 \<times> uint32" where
  "getDedicatedListenerPorts r ing =
     (if \<not> irc_hostNetworkEnabled r then (443, 80, 443)
      else case GetAnnotationHostListenerPort (irc_IngressLib r) ing of
             None \<Rightarrow> (8080, 8080, 8080)
           | Some None \<Rightarrow> (8080, 8080, 8080)
           | Some (Some port) \<Rightarrow> if port = 0 then (8080, 8080, 8080) else (port, port, port))"

definition getSharedListenerPorts :: "('w, 'b) ingressReconciler \<Rightarrow> uint32 \<times> uint32 \<times> uint32" where
  "getSharedListenerPorts r =
     (if \<not> irc_hostNetworkEnabled r then (443, 80, 443)
      else if irc_hostNetworkSharedPort r > 0
      then (irc_hostNetworkSharedPort r, irc_hostNetworkSharedPort r, irc_hostNetworkSharedPort r)
      else (8080, 8080, 8080))"

definition ingestIngress ::
  "('w, 'b) ingressReconciler \<Rightarrow> uint32 \<times> uint32 \<times> uint32 \<Rightarrow> IngressObject \<Rightarrow> Model \<Rightarrow> Model option" where
  "ingestIngress r ports ing m =
     (case ports of (_, insecureHTTPPort, secureHTTPPort) \<Rightarrow>
      if GetAnnotationTLSPassthroughEnabled (irc_IngressLib r) ing
      then do {
        tls \<leftarrow> IngressPassthrough (irc_IngressLib r) ing;
        Some (m\<lparr>m_TLS := m_TLS m @ tls\<rparr>) }
      else do {
        http \<leftarrow> ingestion_Ingress (irc_IngressLib r) ing (irc_defaultSecretNamespace r) (irc_defaultSecretName r)
                  (irc_enforcedHTTPS r) insecureHTTPPort secureHTTPPort (irc_defaultRequestTimeout r);
        Some (m\<lparr>m_HTTP := m_HTTP m @ http\<rparr>) })"

abbreviation noListeners :: Model where
  "noListeners \<equiv> \<lparr>m_HTTP = [], m_TLS = [], m_TCP = [], m_UDP = []\<rparr>"

definition buildDedicatedResources ::
  "('w, 'b) ingressReconciler \<Rightarrow> IngressObject \<Rightarrow> (string + 'b DolphinEnvoyConfig \<times> CoreServiceObject \<times> CoreEndpoints) option" where
  "buildDedicatedResources r ing = do {
     m \<leftarrow> ingestIngress r (getDedicatedListenerPorts r ing) ing noListeners;
     res \<leftarrow> ingress_Translate (irc_Lib r) (irc_Xff r) (irc_dedicatedTranslator r) (Some m);
     case res of
       Inl err \<Rightarrow> Some (Inl (''failed to translate model into resources: '' @ err))
     | Inr t \<Rightarrow> do {
         svc \<leftarrow> trn_Service t;
         dec \<leftarrow> trn_DEC t;
         ep \<leftarrow> trn_Endpoints t;
         case ic_SetController (irc_Client r) ing dec of
           Inl err \<Rightarrow> Some (Inl (''failed to set controller reference on DolphinEnvoyConfig: '' @ err))
         | Inr dec' \<Rightarrow> Some (Inr (dec', propagateIngressAnnotationsAndLabels r ing svc, ep)) } }"

definition ingressBefore :: "IngressObject \<Rightarrow> IngressObject \<Rightarrow> bool" where
  "ingressBefore a b \<longleftrightarrow> ing_Namespace a @ ''/'' @ ing_Name a < ing_Namespace b @ ''/'' @ ing_Name b"

definition addShared ::
  "('w, 'b) ingressReconciler \<Rightarrow> 'w \<Rightarrow> IngressObject \<Rightarrow> Model \<Rightarrow> Model option" where
  "addShared r w item m = do {
     managed \<leftarrow> isdolphinManagedIngress (irc_Client r) w item;
     if \<not> managed \<or> isEffectiveLoadbalancerModeDedicated r item \<or> ing_Deleting item then Some m
     else ingestIngress r (getSharedListenerPorts r) item m }"

definition sharedModel :: "('w, 'b) ingressReconciler \<Rightarrow> 'w \<Rightarrow> IngressObject list \<Rightarrow> Model option" where
  "sharedModel r w items = foldM (addShared r w) (sort_by ingressBefore items) noListeners"

definition buildSharedResources :: "('w, 'b) ingressReconciler \<Rightarrow> 'w \<Rightarrow> (string + 'b DolphinEnvoyConfig) option" where
  "buildSharedResources r w =
     (case ic_Ingresses (irc_Client r) w of
        Inl err \<Rightarrow> Some (Inl (''failed to list Ingresses: '' @ err))
      | Inr items \<Rightarrow> do {
          m \<leftarrow> sharedModel r w items;
          dec \<leftarrow> Translate (irc_Lib r) (irc_Xff r) (irc_sharedTranslator r) m;
          Some (Inr dec) })"

section \<open>Reconciliation\<close>

text \<open>\<open>createOrUpdateSharedResources\<close> and \<open>tryCleanupSharedResources\<close> have the same body.\<close>

definition createOrUpdateSharedResources :: "('w, 'b) ingressReconciler \<Rightarrow> 'w \<Rightarrow> 'w writeResult option" where
  "createOrUpdateSharedResources r w = do {
     res \<leftarrow> buildSharedResources r w;
     Some (case res of
             Inl err \<Rightarrow> (Some (''failed to build shared resources: '' @ err), w)
           | Inr dec \<Rightarrow> createOrUpdateDolphinEnvoyConfig (irc_Client r) dec w) }"

definition tryCleanupSharedResources :: "('w, 'b) ingressReconciler \<Rightarrow> 'w \<Rightarrow> 'w writeResult option" where
  "tryCleanupSharedResources r w = do {
     res \<leftarrow> buildSharedResources r w;
     Some (case res of
             Inl err \<Rightarrow> (Some (''failed to build shared resources: '' @ err), w)
           | Inr dec \<Rightarrow> createOrUpdateDolphinEnvoyConfig (irc_Client r) dec w) }"

definition createOrUpdateDedicatedResources ::
  "('w, 'b) ingressReconciler \<Rightarrow> IngressObject \<Rightarrow> 'w \<Rightarrow> 'w writeResult option" where
  "createOrUpdateDedicatedResources r ing w = do {
     res \<leftarrow> buildDedicatedResources r ing;
     Some (case res of
             Inl err \<Rightarrow> (Some (''failed to build dedicated resources: '' @ err), w)
           | Inr (dec, svc, ep) \<Rightarrow>
               untilError [createOrUpdateDolphinEnvoyConfig (irc_Client r) dec, createOrUpdateService (irc_Client r) svc,
                           createOrUpdateEndpoints (irc_Client r) ep] w) }"

definition convertToNetworkV1IngressLoadBalancerIngress :: "LoadBalancerIngress list \<Rightarrow> LoadBalancerIngress list" where
  "convertToNetworkV1IngressLoadBalancerIngress lbIngresses =
     map (\<lambda>lbIng. \<lparr>lbi_IP = lbi_IP lbIng, lbi_Hostname = lbi_Hostname lbIng,
                   lbi_Ports = map (\<lambda>(port, protocol, err). (port, protocol, err)) (lbi_Ports lbIng)\<rparr>) lbIngresses"

definition loadbalancerKey :: "('w, 'b) ingressReconciler \<Rightarrow> IngressObject \<Rightarrow> NamespacedName" where
  "loadbalancerKey r ing =
     (if isEffectiveLoadbalancerModeDedicated r ing
      then (ing_Namespace ing, dolphinIngressPrefix @ ''-'' @ ing_Name ing)
      else (irc_dolphinNamespace r, irc_sharedLBServiceName r))"

definition updateIngressLoadbalancerStatus :: "('w, 'b) ingressReconciler \<Rightarrow> IngressObject \<Rightarrow> 'w \<Rightarrow> 'w writeResult" where
  "updateIngressLoadbalancerStatus r ing w =
     (case ic_LoadBalancer (irc_Client r) w (loadbalancerKey r ing) of
        NotFound \<Rightarrow> (None, w)
      | GetFailed err \<Rightarrow> (Some (''failed to get loadbalancer Service: '' @ err), w)
      | Found lb \<Rightarrow>
          prefixError ''failed to write Ingress status: ''
            (ic_Status (irc_Client r) w ing (convertToNetworkV1IngressLoadBalancerIngress lb)))"

definition tryCleanupIngressStatus :: "('w, 'b) IngressClient \<Rightarrow> IngressObject \<Rightarrow> 'w \<Rightarrow> 'w writeResult" where
  "tryCleanupIngressStatus C ing w = prefixError ''failed to update Ingress status: '' (ic_Status C w ing [])"

abbreviation (input) orFail ::
  "'w writeResult option \<Rightarrow> ('w \<Rightarrow> (reconcileResult \<times> 'w) option) \<Rightarrow> (reconcileResult \<times> 'w) option" where
  "orFail res f \<equiv>
     (case res of None \<Rightarrow> None | Some (Some err, w) \<Rightarrow> Some (Fail err, w) | Some (None, w) \<Rightarrow> f w)"

definition ingressUpdate :: "('w, 'b) ingressReconciler \<Rightarrow> NamespacedName \<Rightarrow> IngressObject \<Rightarrow> 'w \<Rightarrow> (reconcileResult \<times> 'w) option" where
  "ingressUpdate r req ing w =
     (let C = irc_Client r;
          status = (\<lambda>w. case updateIngressLoadbalancerStatus r ing w of
                          (Some err, w') \<Rightarrow> Some (Fail (''failed to update Ingress loadbalancer status: '' @ err), w')
                        | (None, w') \<Rightarrow> Some (Success, w'))
      in if isEffectiveLoadbalancerModeDedicated r ing
         then (case createOrUpdateDedicatedResources r ing w of
                 None \<Rightarrow> None
               | Some (Some err, w') \<Rightarrow> if ic_Terminating C err then Some (Success, w') else Some (Fail err, w')
               | Some (None, w') \<Rightarrow> orFail (tryCleanupSharedResources r w') status)
         else orFail (createOrUpdateSharedResources r w) (\<lambda>w.
              orFail (Some (tryCleanupDedicatedResources C req w)) status))"

definition ingress_Reconcile :: "('w, 'b) ingressReconciler \<Rightarrow> NamespacedName \<Rightarrow> 'w \<Rightarrow> (reconcileResult \<times> 'w) option" where
  "ingress_Reconcile r req w =
     (let C = irc_Client r
      in case ic_Ingress C w req of
           GetFailed err \<Rightarrow> Some (Fail (''failed to get Ingress: '' @ err), w)
         | NotFound \<Rightarrow> orFail (tryCleanupSharedResources r w) (\<lambda>w. Some (Success, w))
         | Found ing \<Rightarrow>
             if ing_Deleting ing then Some (Success, w)
             else (case isdolphinManagedIngress C w ing of
                     None \<Rightarrow> None
                   | Some False \<Rightarrow>
                       orFail (tryCleanupSharedResources r w) (\<lambda>w.
                       orFail (Some (tryCleanupDedicatedResources C req w)) (\<lambda>w.
                         Some (Success, snd (tryCleanupIngressStatus C ing w))))
                   | Some True \<Rightarrow> ingressUpdate r req ing w))"

section \<open>The order of the Ingresses\<close>

interpretation ingress_order: strict_weak ingressBefore
  by unfold_locales (auto simp: ingressBefore_def)

text \<open>
  The model of all shared Ingresses does not depend on the order in which the API server
  lists them: Ingresses with different keys are sorted by them.
\<close>

theorem sharedModel_order:
  assumes "mset items = mset items'"
    and "\<And>a b. a \<in> set items \<Longrightarrow> b \<in> set items \<Longrightarrow> a \<noteq> b \<Longrightarrow> (ing_Namespace a, ing_Name a) \<noteq> (ing_Namespace b, ing_Name b)"
    and "\<And>a. a \<in> set items \<Longrightarrow> CHR ''/'' \<notin> set (ing_Namespace a)"
  shows "sharedModel r w items = sharedModel r w items'"
proof -
  have "ingressBefore a b \<or> ingressBefore b a" if ab: "a \<in> set items" "b \<in> set items" "a \<noteq> b" for a b
  proof -
    have "ing_Namespace a @ ''/'' @ ing_Name a \<noteq> ing_Namespace b @ ''/'' @ ing_Name b"
      using slash_inj assms(2) [OF ab] assms(3) [OF ab(1)] assms(3) [OF ab(2)] by blast
    then show ?thesis unfolding ingressBefore_def by (rule neq_iff [THEN iffD1])
  qed
  then have "sort_by ingressBefore items = sort_by ingressBefore items'"
    by (rule ingress_order.sort_by_perm [OF assms(1)])
  then show ?thesis by (simp add: sharedModel_def)
qed

section \<open>An Ingress without a class\<close>

lemma foldM_panics: "x \<in> set xs \<Longrightarrow> (\<And>s. f x s = None) \<Longrightarrow> foldM f xs s = None"
proof (induction xs arbitrary: s)
  case (Cons y ys)
  then show ?case by (cases "f y s") auto
qed simp

lemma sharedModel_panics:
  assumes "ing \<in> set items" "ingressClassName ing = None"
  shows "sharedModel r w items = None"
  unfolding sharedModel_def
  by (rule foldM_panics [of ing]) (use assms in \<open>simp_all add: addShared_def isdolphinManagedIngress_def\<close>)

text \<open>
  Claim C40. One Ingress without a class anywhere in the cluster makes the reconciliation of that
  Ingress, of every Ingress that was deleted and of every managed Ingress in shared mode panic: the class name is dereferenced
  before it is compared with nil.
\<close>

theorem classless_ingress_panics:
  assumes "ic_Ingresses (irc_Client r) w = Inr items" "ing \<in> set items" "ingressClassName ing = None"
    and "ic_Ingress (irc_Client r) w req = NotFound \<or>
         (\<exists>i. ic_Ingress (irc_Client r) w req = Found i \<and> \<not> ing_Deleting i \<and>
              (i = ing \<or> isdolphinManagedIngress (irc_Client r) w i = Some True \<and> \<not> isEffectiveLoadbalancerModeDedicated r i))"
  shows "ingress_Reconcile r req w = None"
proof -
  have "buildSharedResources r w = None"
    using assms(1) sharedModel_panics [OF assms(2,3), of r w] by (simp add: buildSharedResources_def)
  moreover have "isdolphinManagedIngress (irc_Client r) w ing = None" using assms(3) by (simp add: isdolphinManagedIngress_def)
  ultimately show ?thesis
    using assms(4)
    by (auto simp: ingress_Reconcile_def tryCleanupSharedResources_def createOrUpdateSharedResources_def ingressUpdate_def Let_def)
qed

section \<open>Ingested Ingresses can be translated\<close>

lemma ingressRoutes_backends:
  assumes "valid_ingress ing" "route \<in> set (ingressRoutes ing timeout h)"
  shows "\<exists>svc. hr_Backends route = [serviceBackend ing svc]" "hr_RequestMirrors route = []"
proof -
  have "(\<exists>svc. hr_Backends route = [serviceBackend ing svc]) \<and> hr_RequestMirrors route = []"
  proof (cases "route \<in> set (defaultRoutes ing timeout h)")
    case True
    then obtain svc where "route = zeroHTTPRoute\<lparr>hr_Backends := [serviceBackend ing svc], hr_Timeout := timeout\<rparr>"
      by (cases "ing_DefaultBackend ing"; cases "the (ing_DefaultBackend ing)"; cases "h = ''*''")
         (simp_all add: defaultRoutes_def)
    then show ?thesis by (intro conjI exI [of _ svc]) (simp_all add: zeroHTTPRoute_def)
  next
    case False
    then obtain r p where r: "r \<in> set (ing_Rules ing)" "p \<in> set (rulePaths h r)" "route = the (pathRoute ing timeout p)"
      using assms(2) by (auto simp: routesOfRules_def)
    obtain paths where paths: "ir_HTTP r = Some paths" "p \<in> set paths"
      using r(2) unfolding rulePaths_def by (cases "ruleHost r = h"; cases "ir_HTTP r") (simp_all only: if_True if_False option.case, auto)
    then have "valid_path p"
      using assms(1) r(1) by (auto simp: valid_ingress_def list_all_iff dest!: bspec [of _ _ r])
    then show ?thesis using r(3) by (auto simp: valid_path_def pathRoute_def zeroHTTPRoute_def)
  qed
  then show "\<exists>svc. hr_Backends route = [serviceBackend ing svc]" "hr_RequestMirrors route = []" by auto
qed

lemma ingressRoutes_translatable:
  "valid_ingress ing \<Longrightarrow> route \<in> set (ingressRoutes ing timeout h) \<Longrightarrow> ported route \<and> answered route"
  using ingressRoutes_backends [of ing route timeout h]
  by (auto simp: ported_def answered_def routeBackends_def serviceBackend_def map_filter_simps)

lemma ingested_http:
  assumes "valid_ingress ing" "\<And>s. il_cmpEqual L s s"
  shows "\<exists>ls. ingestion_Ingress L ing dns dn enforced iport sport dflt = Some ls \<and>
    (\<forall>l \<in> set ls. hl_Sources l = [sourceResource ing] \<and> (\<exists>h. hl_Routes l = ingressRoutes ing (ingressTimeout L dflt ing) h))"
proof -
  let ?t = "ingressTimeout L dflt ing"
  obtain m where m: "insecureListeners L iport dflt ing = Some m" "ingressListeners ing iport ?t (ing_Rules ing) m"
    using insecureListeners_spec [where L = L, OF assms] by blast
  define s where "s = fold (addTLSHost L ing sport dns dn (forceHTTPS L enforced ing) m) (tlsHosts ing) []"
  have s: "secureListeners ing sport ?t dns dn (snd ` set (tlsHosts ing)) s"
    using fold_addTLSHost [OF m(2), of sport dns dn "{}" "[]"] by (simp add: s_def secureListeners_def)
  let ?P = "\<lambda>l. hl_Sources l = [sourceResource ing] \<and> (\<exists>h. hl_Routes l = ingressRoutes ing ?t h)"
  have "\<forall>l \<in> set (map (\<lambda>key. the (map_of m key)) (sort (map fst m))). ?P l"
    by (rule values_ball) (use m(2) in \<open>auto simp: ingressListeners_def\<close>)
  moreover have "\<forall>l \<in> set (map (\<lambda>key. the (map_of s key)) (sort (map fst s))). ?P l"
    by (rule values_ball) (use s in \<open>auto simp: secureListeners_def\<close>)
  ultimately show ?thesis
    by (simp only: ingestion_Ingress_def m(1) bind.bind_lunit Let_def s_def [symmetric] appendValuesInKeyOrder_def append_Nil) auto
qed

lemma ingested_tls:
  assumes "valid_ingress ing" "\<And>s. il_cmpEqual L s s"
  shows "\<exists>ls. IngressPassthrough L ing = Some ls \<and>
    (\<forall>l \<in> set ls. tl_Sources l = [sourceResource ing] \<and>
       (\<forall>r \<in> set (tl_Routes l). \<forall>b \<in> set (tr_Backends r). be_Port b \<noteq> None))"
proof -
  have "passthroughListeners ing [] []" by (simp add: passthroughListeners_def passthroughPaths_def)
  then obtain m where m: "foldM (addPassthroughRule L ing) (ing_Rules ing) [] = Some m"
    "passthroughListeners ing (ing_Rules ing) m"
    using foldM_addPassthroughRule [where L = L, OF assms(2), of ing "[]" "[]" "ing_Rules ing"] assms(1)
    by (auto simp: valid_ingress_def)
  have ports: "\<forall>r \<in> set rs. \<forall>b \<in> set (tr_Backends r). be_Port b \<noteq> None"
    if rs: "map tr_Backends rs = map (\<lambda>p. [serviceBackend ing (the (ip_Service p))]) ps" for rs ps
  proof (intro ballI)
    fix r b assume "r \<in> set rs" "b \<in> set (tr_Backends r)"
    then have "tr_Backends r \<in> set (map tr_Backends rs)" "b \<in> set (tr_Backends r)" by simp_all
    then show "be_Port b \<noteq> None" unfolding rs by (auto simp: serviceBackend_def)
  qed
  have "\<forall>l \<in> set (map (\<lambda>key. the (map_of m key)) (sort (map fst m))). tl_Sources l = [sourceResource ing] \<and>
       (\<forall>r \<in> set (tl_Routes l). \<forall>b \<in> set (tr_Backends r). be_Port b \<noteq> None)"
  proof (rule values_ball)
    fix h l assume "map_of m h = Some l"
    then have "tl_Sources l = [sourceResource ing]"
      "map tr_Backends (tl_Routes l) = map (\<lambda>p. [serviceBackend ing (the (ip_Service p))]) (passthroughPaths h (ing_Rules ing))"
      using m(2) by (simp_all add: passthroughListeners_def)
    then show "tl_Sources l = [sourceResource ing] \<and> (\<forall>r \<in> set (tl_Routes l). \<forall>b \<in> set (tr_Backends r). be_Port b \<noteq> None)"
      using ports by blast
  qed
  then show ?thesis
    by (simp only: IngressPassthrough_def m(1) bind.bind_lunit appendValuesInKeyOrder_def append_Nil) auto
qed

text \<open>Models in which the dedicated translator finds the source of the first listener.\<close>

definition sourced :: "Model \<Rightarrow> bool" where
  "sourced m \<longleftrightarrow> (\<forall>l \<in> set (m_HTTP m). hl_Sources l \<noteq> []) \<and> (\<forall>l \<in> set (m_TLS m). tl_Sources l \<noteq> [])"

lemma ingestIngress_returns:
  assumes "valid_ingress ing" "\<And>s. il_cmpEqual (irc_IngressLib r) s s" "translatable m" "sourced m"
  shows "\<exists>m'. ingestIngress r ports ing m = Some m' \<and> translatable m' \<and> sourced m'"
proof (cases "GetAnnotationTLSPassthroughEnabled (irc_IngressLib r) ing")
  case True
  obtain ls where "IngressPassthrough (irc_IngressLib r) ing = Some ls"
    "\<forall>l \<in> set ls. tl_Sources l = [sourceResource ing] \<and> (\<forall>r \<in> set (tl_Routes l). \<forall>b \<in> set (tr_Backends r). be_Port b \<noteq> None)"
    using ingested_tls [where L = "irc_IngressLib r", OF assms(1,2)] by blast
  then show ?thesis
    using True assms(3,4) by (cases ports) (auto simp: ingestIngress_def translatable_def sourced_def tlsBackends_def)
next
  case False
  obtain insecure secure where ports: "ports = (fst ports, insecure, secure)" by (cases ports) auto
  obtain ls where ls: "ingestion_Ingress (irc_IngressLib r) ing (irc_defaultSecretNamespace r) (irc_defaultSecretName r)
      (irc_enforcedHTTPS r) insecure secure (irc_defaultRequestTimeout r) = Some ls"
    "\<forall>l \<in> set ls. hl_Sources l = [sourceResource ing] \<and>
       (\<exists>h. hl_Routes l = ingressRoutes ing (ingressTimeout (irc_IngressLib r) (irc_defaultRequestTimeout r) ing) h)"
    using ingested_http [where L = "irc_IngressLib r", OF assms(1,2)] by blast
  have "\<forall>l \<in> set ls. \<forall>route \<in> set (hl_Routes l). ported route \<and> answered route"
    using ls(2) ingressRoutes_translatable [OF assms(1)] by metis
  then have "translatable (m\<lparr>m_HTTP := m_HTTP m @ ls\<rparr>)" "sourced (m\<lparr>m_HTTP := m_HTTP m @ ls\<rparr>)"
    using assms(3,4) ls(2) by (auto simp: translatable_def sourced_def tlsBackends_def)
  moreover have "ingestIngress r ports ing m = Some (m\<lparr>m_HTTP := m_HTTP m @ ls\<rparr>)"
    unfolding ingestIngress_def by (subst ports) (simp add: False ls(1))
  ultimately show ?thesis by blast
qed

lemma foldM_keeps:
  "(\<And>x s. x \<in> set xs \<Longrightarrow> P s \<Longrightarrow> \<exists>s'. f x s = Some s' \<and> P s') \<Longrightarrow> P s \<Longrightarrow> \<exists>s'. foldM f xs s = Some s' \<and> P s'"
proof (induction xs arbitrary: s)
  case (Cons x xs)
  then obtain s1 where "f x s = Some s1" "P s1" by force
  then show ?case using Cons.IH [of s1] Cons.prems(1) by simp
qed simp

text \<open>What the reconciliation assumes of the Ingresses: valid, and with a class.\<close>

definition classed :: "IngressObject \<Rightarrow> bool" where
  "classed ing \<longleftrightarrow> valid_ingress ing \<and> ingressClassName ing \<noteq> None"

definition ingress_client :: "('w, 'b) ingressReconciler \<Rightarrow> bool" where
  "ingress_client r \<longleftrightarrow>
     lib_ok (irc_Lib r) \<and> (\<forall>s. il_cmpEqual (irc_IngressLib r) s s) \<and>
     (\<forall>w items. ic_Ingresses (irc_Client r) w = Inr items \<longrightarrow> (\<forall>i \<in> set items. classed i)) \<and>
     (\<forall>w k i. ic_Ingress (irc_Client r) w k = Found i \<longrightarrow> classed i)"

lemma noListeners_fine: "translatable noListeners" "sourced noListeners"
  by (simp_all add: translatable_def sourced_def tlsBackends_def)

lemma sharedModel_returns:
  assumes "ingress_client r" "\<forall>i \<in> set items. classed i"
  shows "\<exists>m. sharedModel r w items = Some m \<and> translatable m"
proof -
  have cmp: "il_cmpEqual (irc_IngressLib r) s s" for s using assms(1) by (simp add: ingress_client_def)
  have "\<exists>m. sharedModel r w items = Some m \<and> (translatable m \<and> sourced m)"
    unfolding sharedModel_def
  proof (rule foldM_keeps)
    fix i m assume i: "i \<in> set (sort_by ingressBefore items)" and m: "translatable m \<and> sourced m"
    have "classed i" using i assms(2) by simp
    then show "\<exists>m'. addShared r w i m = Some m' \<and> translatable m' \<and> sourced m'"
      using ingestIngress_returns [where r = r, OF _ cmp, of i m "getSharedListenerPorts r"] m
      by (auto simp: classed_def addShared_def isdolphinManagedIngress_def)
  qed (simp add: noListeners_fine)
  then show ?thesis by blast
qed

lemma Translate_returns: "lib_ok L \<Longrightarrow> translatable m \<Longrightarrow> \<exists>dec. Translate L xff T m = Some dec"
  using getResources_total [of L m xff T] by (auto simp: Translate_def)

lemma buildSharedResources_returns:
  assumes "ingress_client r"
  shows "buildSharedResources r w \<noteq> None"
proof (cases "ic_Ingresses (irc_Client r) w")
  case (Inr items)
  then have "\<forall>i \<in> set items. classed i" using assms by (simp add: ingress_client_def)
  then obtain m where "sharedModel r w items = Some m" "translatable m" using sharedModel_returns [OF assms] by blast
  then show ?thesis
    using Translate_returns [of "irc_Lib r" m "irc_Xff r" "irc_sharedTranslator r"] assms Inr
    by (auto simp: buildSharedResources_def ingress_client_def)
qed (simp add: buildSharedResources_def)

lemma buildDedicatedResources_returns:
  assumes "ingress_client r" "classed ing"
  shows "buildDedicatedResources r ing \<noteq> None"
proof -
  have "il_cmpEqual (irc_IngressLib r) s s" for s using assms(1) by (simp add: ingress_client_def)
  then obtain m where m: "ingestIngress r (getDedicatedListenerPorts r ing) ing noListeners = Some m" "translatable m" "sourced m"
    using ingestIngress_returns [where r = r, OF _ _ noListeners_fine] assms(2) unfolding classed_def by blast
  have "ingressSource m \<noteq> None" if "m_HTTP m \<noteq> [] \<or> m_TLS m \<noteq> []"
    using that m(3) by (auto simp: ingressSource_def sourced_def split: list.splits)
  moreover have "\<exists>dec. Translate (irc_Lib r) xff T m = Some dec" for xff T
    by (rule Translate_returns [OF _ m(2)]) (use assms(1) in \<open>simp add: ingress_client_def\<close>)
  ultimately have "(m_HTTP m = [] \<and> m_TLS m = []) \<or>
      (\<exists>s sv dec. ingressSource m = Some (s, sv) \<and> Translate (irc_Lib r) (irc_Xff r) (ingressSettings (irc_dedicatedTranslator r) s) m = Some dec)"
    by auto
  then show ?thesis
    by (elim disjE exE conjE) (simp_all add: buildDedicatedResources_def m(1) ingress_Translate_def split: sum.split)
qed


section \<open>The stored configurations\<close>

text \<open>
  A store of Envoy configurations: a write patches what there is or creates the object, a deletion removes it,
  reads tell what there is, and the other writes do not change it.
\<close>

definition ingress_store :: "('w, 'b) IngressClient \<Rightarrow> ('w \<Rightarrow> NamespacedName \<Rightarrow> 'b DolphinEnvoyConfig option) \<Rightarrow> bool" where
  "ingress_store C decs \<longleftrightarrow>
     (\<forall>w dec f w'. ic_DEC C w dec f = (None, w') \<longrightarrow>
        decs w' = (decs w)((dec_Namespace dec, dec_Name dec) \<mapsto>
          f (case decs w (dec_Namespace dec, dec_Name dec) of None \<Rightarrow> dec | Some old \<Rightarrow> old))) \<and>
     (\<forall>kind w k w'. ic_Delete C kind w k = (None, w') \<longrightarrow>
        decs w' = (if kind = KindDEC then (decs w)(k := None) else decs w)) \<and>
     (\<forall>w k. ic_Get C KindDEC w k = NotFound \<longrightarrow> decs w k = None) \<and>
     (\<forall>w i lb. decs (snd (ic_Status C w i lb)) = decs w) \<and> set (ic_deleteOrder C) = {KindService, KindEndpoints, KindDEC}"

lemma ingress_storeD:
  assumes "ingress_store C decs"
  shows "ic_DEC C w dec f = (None, w') \<Longrightarrow> decs w' = (decs w)((dec_Namespace dec, dec_Name dec) \<mapsto>
          f (case decs w (dec_Namespace dec, dec_Name dec) of None \<Rightarrow> dec | Some old \<Rightarrow> old))"
    and "ic_Delete C kind w k = (None, w') \<Longrightarrow> decs w' = (if kind = KindDEC then (decs w)(k := None) else decs w)"
    and "ic_Get C KindDEC w k = NotFound \<Longrightarrow> decs w k = None"
    and "ic_Status C w i lb = (e, w') \<Longrightarrow> decs w' = decs w"
    and "KindDEC \<in> set (ic_deleteOrder C)"
proof -
  note laws = assms [unfolded ingress_store_def]
  show "ic_DEC C w dec f = (None, w') \<Longrightarrow> decs w' = (decs w)((dec_Namespace dec, dec_Name dec) \<mapsto>
          f (case decs w (dec_Namespace dec, dec_Name dec) of None \<Rightarrow> dec | Some old \<Rightarrow> old))"
    using laws [THEN conjunct1] by blast
  show "ic_Delete C kind w k = (None, w') \<Longrightarrow> decs w' = (if kind = KindDEC then (decs w)(k := None) else decs w)"
    using laws [THEN conjunct2, THEN conjunct1] by blast
  show "ic_Get C KindDEC w k = NotFound \<Longrightarrow> decs w k = None"
    using laws [THEN conjunct2, THEN conjunct2, THEN conjunct1] by blast
  show "ic_Status C w i lb = (e, w') \<Longrightarrow> decs w' = decs w"
    using laws [THEN conjunct2, THEN conjunct2, THEN conjunct2, THEN conjunct1, THEN spec, THEN spec, THEN spec, of w i lb] by simp
  show "KindDEC \<in> set (ic_deleteOrder C)" using laws by simp
qed

lemma untilError_keeps:
  assumes "\<And>f w w'. f \<in> set fs \<Longrightarrow> f w = (None, w') \<Longrightarrow> P w \<Longrightarrow> P w'"
  shows "untilError fs w = (None, w') \<Longrightarrow> P w \<Longrightarrow> P w'"
  using assms
proof (induction fs arbitrary: w)
  case (Cons f fs)
  obtain w1 where w1: "f w = (None, w1)" "untilError fs w1 = (None, w')"
    using Cons.prems(1) by (auto split: prod.splits option.splits)
  have "P w1" using Cons.prems(3) [of f w w1] w1(1) Cons.prems(2) by simp
  then show ?case using Cons.IH [OF w1(2)] Cons.prems(3) by (meson list.set_intros(2))
qed simp

lemma untilError_establishes:
  assumes "\<And>f w w'. f \<in> set fs \<Longrightarrow> f w = (None, w') \<Longrightarrow> P w \<Longrightarrow> P w'"
    and "g \<in> set fs" "\<And>w w'. g w = (None, w') \<Longrightarrow> P w'"
  shows "untilError fs w = (None, w') \<Longrightarrow> P w'"
  using assms(1,2)
proof (induction fs arbitrary: w)
  case (Cons f fs)
  obtain w1 where w1: "f w = (None, w1)" "untilError fs w1 = (None, w')"
    using Cons.prems(1) by (auto split: prod.splits option.splits)
  show ?case
  proof (cases "g = f")
    case True
    then have "P w1" using assms(3) [of w w1] w1(1) by simp
    then show ?thesis using untilError_keeps [of fs P, OF _ w1(2)] Cons.prems(2) by (meson list.set_intros(2))
  next
    case False
    then show ?thesis using Cons.IH [OF w1(2)] Cons.prems(2,3) by auto
  qed
qed simp

lemma prefixError_done: "map_prod (map_option f) id res = (None, w') \<longleftrightarrow> res = (None, w')"
  by (cases res) auto

lemma tryDeletingResource_decs:
  assumes "ingress_store C decs" "tryDeletingResource C kind k w = (None, w')"
  shows "decs w' = (if kind = KindDEC then (decs w)(k := None) else decs w)"
proof (cases "ic_Get C kind w k")
  case NotFound
  then have "w' = w" using assms(2) by (simp add: tryDeletingResource_def)
  moreover have "decs w k = None" if "kind = KindDEC" using ingress_storeD(3) [OF assms(1)] NotFound that by simp
  ultimately show ?thesis by (auto simp: fun_eq_iff)
next
  case (Found x)
  then have "ic_Delete C kind w k = (None, w')" using assms(2) by (simp add: tryDeletingResource_def prefixError_done)
  then show ?thesis by (rule ingress_storeD(2) [OF assms(1)])
qed (use assms(2) in \<open>simp add: tryDeletingResource_def\<close>)

lemma cleanup_decs:
  assumes store: "ingress_store C decs" and run: "tryCleanupDedicatedResources C req w = (None, w')"
  shows "k \<noteq> dedicatedKey req KindDEC \<Longrightarrow> decs w' k = decs w k" and "decs w' (dedicatedKey req KindDEC) = None"
proof -
  note steps = tryDeletingResource_decs [OF store]
  show "decs w' k = decs w k" if "k \<noteq> dedicatedKey req KindDEC"
    by (rule untilError_keeps [where P = "\<lambda>w'. decs w' k = decs w k", OF _ run [unfolded tryCleanupDedicatedResources_def]])
       (use that in \<open>auto dest!: steps split: if_splits\<close>)
  show "decs w' (dedicatedKey req KindDEC) = None"
    by (rule untilError_establishes [where P = "\<lambda>w'. decs w' (dedicatedKey req KindDEC) = None"
          and g = "tryDeletingResource C KindDEC (dedicatedKey req KindDEC)", OF _ _ _ run [unfolded tryCleanupDedicatedResources_def]])
       (use ingress_storeD(5) [OF store] in \<open>auto dest!: steps split: if_splits\<close>)
qed

lemma createOrUpdateSharedResources_done:
  assumes "createOrUpdateSharedResources r w = Some (None, w')"
  obtains items m dec where "ic_Ingresses (irc_Client r) w = Inr items" "sharedModel r w items = Some m"
    "Translate (irc_Lib r) (irc_Xff r) (irc_sharedTranslator r) m = Some dec"
    "ic_DEC (irc_Client r) w dec (ingress_mutateDEC dec) = (None, w')"
proof -
  obtain res where res: "buildSharedResources r w = Some res"
    "(case res of Inl err \<Rightarrow> (Some (''failed to build shared resources: '' @ err), w)
                | Inr dec \<Rightarrow> createOrUpdateDolphinEnvoyConfig (irc_Client r) dec w) = (None, w')"
    using assms by (auto simp: createOrUpdateSharedResources_def bind_eq_Some)
  obtain dec where dec: "res = Inr dec" "ic_DEC (irc_Client r) w dec (ingress_mutateDEC dec) = (None, w')"
    using res(2) by (cases res) (auto simp: createOrUpdateDolphinEnvoyConfig_def prefixError_done)
  show thesis
    using res(1) dec that by (auto simp: buildSharedResources_def bind_eq_Some split: sum.splits)
qed

lemma updateIngressLoadbalancerStatus_decs:
  assumes "ingress_store (irc_Client r) decs" "updateIngressLoadbalancerStatus r ing w = (None, w')"
  shows "decs w' = decs w"
  using assms(2) ingress_storeD(4) [OF assms(1)]
  by (auto simp: updateIngressLoadbalancerStatus_def prefixError_done split: getResult.splits)


section \<open>Examples\<close>

text \<open>A cluster in memory: the given Ingresses, and the stored configurations as the state.\<close>

definition memIngressClient :: "IngressObject list \<Rightarrow> (NamespacedName \<Rightarrow> nat DolphinEnvoyConfig option, nat) IngressClient" where
  "memIngressClient ings =
     \<lparr>ic_Ingress = (\<lambda>w k. case List.find (\<lambda>i. (ing_Namespace i, ing_Name i) = k) ings of None \<Rightarrow> NotFound | Some i \<Rightarrow> Found i),
      ic_Ingresses = (\<lambda>w. Inr ings), ic_IngressClass = (\<lambda>w n. NotFound), ic_LoadBalancer = (\<lambda>w k. NotFound),
      ic_Get = (\<lambda>kind w k. if kind = KindDEC \<and> w k \<noteq> None then Found () else NotFound),
      ic_Delete = (\<lambda>kind w k. (None, if kind = KindDEC then w(k := None) else w)),
      ic_Service = (\<lambda>w svc f. (None, w)), ic_Endpoints = (\<lambda>w ep f. (None, w)),
      ic_DEC = (\<lambda>w dec f. (None, w((dec_Namespace dec, dec_Name dec) \<mapsto>
                  f (case w (dec_Namespace dec, dec_Name dec) of None \<Rightarrow> dec | Some old \<Rightarrow> old)))),
      ic_Status = (\<lambda>w i lb. (None, w)), ic_SetController = (\<lambda>i dec. Inr dec), ic_Terminating = (\<lambda>err. False),
      ic_kindName = (\<lambda>kind. ''resource''), ic_deleteOrder = [KindService, KindEndpoints, KindDEC]\<rparr>"

definition memIngress :: "IngressObject list \<Rightarrow> (NamespacedName \<Rightarrow> nat DolphinEnvoyConfig option, nat) ingressReconciler" where
  "memIngress ings =
     newIngressReconciler (memIngressClient ings) exampleLib exampleIngressLib 0 ''kube-system'' False False ''secrets'' []
       ''dolphin-ingress'' LoadbalancerModeShared '''' '''' 60"

abbreviation classlessIngress :: IngressObject where
  "classlessIngress \<equiv> exampleIngress\<lparr>ing_Name := ''other'', ing_ClassName := None\<rparr>"

lemma memIngress_client: "irc_Client (memIngress ings) = memIngressClient ings"
  by (simp add: memIngress_def newIngressReconciler_def)

lemma memIngress_store: "ingress_store (irc_Client (memIngress ings)) (\<lambda>w. w)"
  by (auto simp: ingress_store_def memIngress_client memIngressClient_def)

lemma memIngress_ok: "ingress_client (memIngress [exampleIngress])"
proof -
  have "classed exampleIngress"
    using exampleIngress_valid by (simp add: classed_def ingressClassName_def exampleIngress_def)
  then show ?thesis
    unfolding ingress_client_def
    by (auto simp: memIngress_client memIngressClient_def memIngress_def newIngressReconciler_def exampleLib_ok
        exampleIngressLib_def simp del: List.find.simps dest!: find_Some_iff [THEN iffD1] split: option.splits)
qed

lemma memIngress_found:
  "ic_Ingress (irc_Client (memIngress (exampleIngress # ings))) w (''ns'', ''ing'') = Found exampleIngress"
  "isdolphinManagedIngress (irc_Client (memIngress ings)) w exampleIngress = Some True"
  "\<not> isEffectiveLoadbalancerModeDedicated (memIngress ings) exampleIngress" "\<not> ing_Deleting exampleIngress"
proof -
  have mode: "GetAnnotationIngressLoadbalancerMode exampleIngressLib exampleIngress = ''''"
    by (simp add: GetAnnotationIngressLoadbalancerMode_def exampleIngressLib_def exampleIngress_def List.map_filter_def)
  show "ic_Ingress (irc_Client (memIngress (exampleIngress # ings))) w (''ns'', ''ing'') = Found exampleIngress"
    by (simp add: memIngress_client memIngressClient_def exampleIngress_def)
  show "isdolphinManagedIngress (irc_Client (memIngress ings)) w exampleIngress = Some True"
    by (simp add: isdolphinManagedIngress_def ingressClassName_def dolphinIngressClassName_def exampleIngress_def)
  show "\<not> isEffectiveLoadbalancerModeDedicated (memIngress ings) exampleIngress"
    using mode by (simp add: isEffectiveLoadbalancerModeDedicated_def memIngress_def newIngressReconciler_def
        LoadbalancerModeDedicated_def LoadbalancerModeShared_def)
  show "\<not> ing_Deleting exampleIngress" by (simp add: exampleIngress_def)
qed

theorem sharedModel_order_witness:
  "sharedModel (memIngress []) (\<lambda>k. None) [exampleIngress, exampleIngress\<lparr>ing_Name := ''b''\<rparr>] =
   sharedModel (memIngress []) (\<lambda>k. None) [exampleIngress\<lparr>ing_Name := ''b''\<rparr>, exampleIngress]"
  by (rule sharedModel_order) (auto simp: exampleIngress_def)

theorem classless_ingress_panics_witness:
  "ingress_Reconcile (memIngress [exampleIngress, classlessIngress]) (''ns'', ''ing'') (\<lambda>k. None) = None"
proof (rule classless_ingress_panics [of _ _ "[exampleIngress, classlessIngress]" classlessIngress])
  show "ic_Ingresses (irc_Client (memIngress [exampleIngress, classlessIngress])) (\<lambda>k. None) = Inr [exampleIngress, classlessIngress]"
    by (simp add: memIngress_client memIngressClient_def)
  show "ingressClassName classlessIngress = None" by (simp add: ingressClassName_def exampleIngress_def)
qed (use memIngress_found(1) [of "[classlessIngress]"] memIngress_found(2-4) in auto)


lemma memIngress_run:
  "\<exists>w'. ingress_Reconcile (memIngress [exampleIngress]) (''ns'', ''ing'') w = Some (Success, w')"
proof -
  obtain res where res: "buildSharedResources (memIngress [exampleIngress]) w = Some res"
    using buildSharedResources_returns [OF memIngress_ok] by blast
  then obtain dec where "res = Inr dec"
    by (auto simp: buildSharedResources_def memIngress_client memIngressClient_def bind_eq_Some)
  with res obtain w1 where "createOrUpdateSharedResources (memIngress [exampleIngress]) w = Some (None, w1)"
    by (simp add: createOrUpdateSharedResources_def createOrUpdateDolphinEnvoyConfig_def memIngress_client memIngressClient_def)
  moreover have "\<exists>w2. tryCleanupDedicatedResources (memIngressClient ings) req w1 = (None, w2)" for ings req
    by (simp add: tryCleanupDedicatedResources_def tryDeletingResource_def memIngressClient_def)
  moreover have "updateIngressLoadbalancerStatus (memIngress ings) exampleIngress w = (None, w)" for ings w
    by (simp add: updateIngressLoadbalancerStatus_def memIngress_client memIngressClient_def)
  moreover from calculation(2) obtain w2
    where "tryCleanupDedicatedResources (memIngressClient [exampleIngress]) (''ns'', ''ing'') w1 = (None, w2)" by blast
  ultimately show ?thesis
    using memIngress_found(1) [of "[]" w] memIngress_found(2,3) [of "[exampleIngress]"] memIngress_found(4)
    by (auto simp: ingress_Reconcile_def ingressUpdate_def Let_def memIngress_client)
qed


end
