(* ===== verification/Ingress_Watch.thy ===== *)
theory Ingress_Watch
  imports Ingress_Reconcile
begin

text \<open>
  What wakes the Ingress reconciler: the event predicates and the handlers that turn an event into
  reconciliation requests (\<open>src/pkg/ingress/ingress.go\<close>), and what the requests lead to. A predicate is a
  function of the event, a handler one of the state of the cluster; both are \<open>None\<close> where the code panics.
\<close>

section \<open>Predicates\<close>

fun matchesInstancePredicate :: "NamespacedName \<Rightarrow> NamespacedName watchEvent \<Rightarrow> bool" where
  "matchesInstancePredicate instance (CreateEvent key) = (key = instance)"
| "matchesInstancePredicate instance (UpdateEvent _ new) = (new = instance)"
| "matchesInstancePredicate instance (DeleteEvent key) = (key = instance)"
| "matchesInstancePredicate instance (GenericEvent key) = (key = instance)"

definition forSharedLBService :: "('w, 'b) ingressReconciler \<Rightarrow> NamespacedName watchEvent \<Rightarrow> bool" where
  "forSharedLBService r = matchesInstancePredicate (irc_dolphinNamespace r, irc_sharedLBServiceName r)"

definition forShaedDolphinEnvoyConfig :: "('w, 'b) ingressReconciler \<Rightarrow> NamespacedName watchEvent \<Rightarrow> bool" where
  "forShaedDolphinEnvoyConfig r = matchesInstancePredicate (irc_dolphinNamespace r, irc_sharedLBServiceName r)"

definition forDolphinIngressClass :: "NamespacedName watchEvent \<Rightarrow> bool" where
  "forDolphinIngressClass = matchesInstancePredicate ('''', dolphinIngressClassName)"

text \<open>The annotations of an IngressClass, \<open>None\<close> for an object of another kind.\<close>

definition class_isMarkedAsDefault :: "string_map option \<Rightarrow> bool" where
  "class_isMarkedAsDefault obj \<longleftrightarrow>
     (case obj of
        None \<Rightarrow> False
      | Some annotations \<Rightarrow> (case isIngressClassMarkedAsDefault annotations of Inl _ \<Rightarrow> False | Inr isDefault \<Rightarrow> isDefault))"

fun defaultIngressClassPredicate :: "string_map option watchEvent \<Rightarrow> bool" where
  "defaultIngressClassPredicate (CreateEvent obj) = class_isMarkedAsDefault obj"
| "defaultIngressClassPredicate (UpdateEvent old new) =
     ((class_isMarkedAsDefault old \<or> class_isMarkedAsDefault new) \<and> class_isMarkedAsDefault old \<noteq> class_isMarkedAsDefault new)"
| "defaultIngressClassPredicate (DeleteEvent obj) = class_isMarkedAsDefault obj"
| "defaultIngressClassPredicate (GenericEvent obj) = class_isMarkedAsDefault obj"

definition object_isDolphinManagedIngress :: "('w, 'b) IngressClient \<Rightarrow> 'w \<Rightarrow> IngressObject option \<Rightarrow> bool option" where
  "object_isDolphinManagedIngress C w obj =
     (case obj of None \<Rightarrow> Some False | Some ing \<Rightarrow> isdolphinManagedIngress C w ing)"

fun matchesDolphinRelevantIngressPredicate :: "('w, 'b) IngressClient \<Rightarrow> 'w \<Rightarrow> IngressObject option watchEvent \<Rightarrow> bool option" where
  "matchesDolphinRelevantIngressPredicate C w (CreateEvent obj) = object_isDolphinManagedIngress C w obj"
| "matchesDolphinRelevantIngressPredicate C w (UpdateEvent old new) = do {
     wasManaged \<leftarrow> object_isDolphinManagedIngress C w old;
     if wasManaged then Some True else object_isDolphinManagedIngress C w new }"
| "matchesDolphinRelevantIngressPredicate C w (DeleteEvent obj) = object_isDolphinManagedIngress C w obj"
| "matchesDolphinRelevantIngressPredicate C w (GenericEvent obj) = object_isDolphinManagedIngress C w obj"

section \<open>Handlers\<close>

abbreviation ingressKey :: "IngressObject \<Rightarrow> NamespacedName" where
  "ingressKey ing \<equiv> (ing_Namespace ing, ing_Name ing)"

definition enqueSharedDolphinIngress :: "('w, 'b) ingressReconciler \<Rightarrow> 'w \<Rightarrow> NamespacedName list option" where
  "enqueSharedDolphinIngress r w =
     (case ic_Ingresses (irc_Client r) w of
        Inl _ \<Rightarrow> Some []
      | Inr items \<Rightarrow>
          foldM (\<lambda>ing res. do {
            managed \<leftarrow> isdolphinManagedIngress (irc_Client r) w ing;
            Some (if \<not> managed \<or> isEffectiveLoadbalancerModeDedicated r ing then res else res @ [ingressKey ing]) }) items [])"

definition enqueueIngressesWithoutExplicitClass :: "('w, 'b) ingressReconciler \<Rightarrow> 'w \<Rightarrow> NamespacedName list" where
  "enqueueIngressesWithoutExplicitClass r w =
     (case ic_Ingresses (irc_Client r) w of
        Inl _ \<Rightarrow> []
      | Inr items \<Rightarrow> map ingressKey (filter (\<lambda>ing. ing_ClassName ing = None) items))"

definition enqPsedoIngress :: "('w, 'b) ingressReconciler \<Rightarrow> NamespacedName list" where
  "enqPsedoIngress r = [(irc_dolphinNamespace r, ''pseudo-ingress'')]"

section \<open>Requests for the shared Ingresses\<close>

lemma foldM_append:
  assumes "\<And>x acc. x \<in> set xs \<Longrightarrow> f x acc = Some (if p x then acc @ [g x] else acc)"
  shows "foldM f xs acc = Some (acc @ map g (filter p xs))"
  using assms by (induction xs arbitrary: acc) auto

text \<open>
  A change of the shared load balancer Service leads to one request for each managed Ingress in shared mode, in
  the order in which they are listed, and to no other.
\<close>

theorem enqueSharedDolphinIngress_correct:
  assumes "ic_Ingresses (irc_Client r) w = Inr items" "\<forall>ing \<in> set items. ingressClassName ing \<noteq> None"
  shows "enqueSharedDolphinIngress r w =
    Some (map ingressKey (filter (\<lambda>ing. isdolphinManagedIngress (irc_Client r) w ing = Some True \<and>
      \<not> isEffectiveLoadbalancerModeDedicated r ing) items))"
proof -
  have managed: "\<exists>b. isdolphinManagedIngress (irc_Client r) w ing = Some b" if "ing \<in> set items" for ing
    using assms(2) that by (auto simp: isdolphinManagedIngress_def)
  show ?thesis
    unfolding enqueSharedDolphinIngress_def assms(1) sum.case
    by (subst foldM_append [where p = "\<lambda>ing. isdolphinManagedIngress (irc_Client r) w ing = Some True \<and>
          \<not> isEffectiveLoadbalancerModeDedicated r ing" and g = ingressKey])
       (use managed in fastforce)+
qed

section \<open>The shared configuration is restored\<close>


section \<open>A change of the default class\<close>

text \<open>
  An Ingress whose specification names the empty class is managed exactly while the class of the
  controller is the default one, but when that changes no request is made for it: only Ingresses whose specification names no class are woken.
\<close>

theorem empty_class_not_woken:
  assumes "ic_Ingresses (irc_Client r) w = Inr items" "ing \<in> set items"
    and "\<And>a. a \<in> set items \<Longrightarrow> ingressKey a = ingressKey ing \<Longrightarrow> a = ing"
    and "ing_ClassName ing = Some ''''" "map_of (ing_Annotations ing) ''kubernetes.io/ingress.class'' = None"
  shows "isdolphinManagedIngress (irc_Client r) w ing = Some (isDolphinDefaultIngressController (irc_Client r) w) \<and>
    ingressKey ing \<notin> set (enqueueIngressesWithoutExplicitClass r w)"
proof
  show "isdolphinManagedIngress (irc_Client r) w ing = Some (isDolphinDefaultIngressController (irc_Client r) w)"
    using assms(4,5) by (simp add: isdolphinManagedIngress_def ingressClassName_def dolphinIngressClassName_def)
  show "ingressKey ing \<notin> set (enqueueIngressesWithoutExplicitClass r w)"
  proof
    assume "ingressKey ing \<in> set (enqueueIngressesWithoutExplicitClass r w)"
    then obtain a where "a \<in> set items" "ingressKey a = ingressKey ing" "ing_ClassName a = None"
      using assms(1) by (auto simp: enqueueIngressesWithoutExplicitClass_def)
    then show False using assms(3,4) by fastforce
  qed
qed

section \<open>Examples\<close>

theorem enqueSharedDolphinIngress_correct_witness:
  "enqueSharedDolphinIngress (memIngress [exampleIngress]) (\<lambda>k. None) = Some [(''ns'', ''ing'')]"
proof -
  have "ic_Ingresses (irc_Client (memIngress [exampleIngress])) (\<lambda>k. None) = Inr [exampleIngress]"
    by (simp add: memIngress_client memIngressClient_def)
  moreover have "\<forall>ing \<in> set [exampleIngress]. ingressClassName ing \<noteq> None"
    by (simp add: ingressClassName_def exampleIngress_def)
  ultimately have "enqueSharedDolphinIngress (memIngress [exampleIngress]) (\<lambda>k. None) =
    Some (map ingressKey (filter (\<lambda>ing. isdolphinManagedIngress (irc_Client (memIngress [exampleIngress])) (\<lambda>k. None) ing = Some True \<and>
      \<not> isEffectiveLoadbalancerModeDedicated (memIngress [exampleIngress]) ing) [exampleIngress]))"
    by (rule enqueSharedDolphinIngress_correct)
  also have "\<dots> = Some [ingressKey exampleIngress]" by (simp add: memIngress_found(2,3))
  finally show ?thesis by (simp add: exampleIngress_def)
qed

theorem empty_class_not_woken_witness:
  "isdolphinManagedIngress (irc_Client (memIngress [exampleIngress\<lparr>ing_ClassName := Some ''''\<rparr>])) (\<lambda>k. None)
     (exampleIngress\<lparr>ing_ClassName := Some ''''\<rparr>) = Some False \<and>
   (''ns'', ''ing'') \<notin> set (enqueueIngressesWithoutExplicitClass (memIngress [exampleIngress\<lparr>ing_ClassName := Some ''''\<rparr>]) (\<lambda>k. None))"
proof -
  let ?i = "exampleIngress\<lparr>ing_ClassName := Some ''''\<rparr>"
  let ?r = "memIngress [?i]"
  have "isdolphinManagedIngress (irc_Client ?r) (\<lambda>k. None) ?i =
      Some (isDolphinDefaultIngressController (irc_Client ?r) (\<lambda>k. None)) \<and>
    ingressKey ?i \<notin> set (enqueueIngressesWithoutExplicitClass ?r (\<lambda>k. None))"
    by (rule empty_class_not_woken [where items = "[?i]"]) (simp_all add: memIngress_client memIngressClient_def exampleIngress_def)
  moreover have "\<not> isDolphinDefaultIngressController (irc_Client ?r) (\<lambda>k. None)"
    by (simp add: isDolphinDefaultIngressController_def memIngress_client memIngressClient_def)
  moreover have "ingressKey ?i = (''ns'', ''ing'')" by (simp add: exampleIngress_def)
  ultimately show ?thesis by simp
qed

lemma memIngress_restores:
  "\<exists>w'. ingress_Reconcile (memIngress [exampleIngress]) (''kube-system'', ''pseudo-ingress'') w = Some (Success, w')"
proof -
  obtain res where res: "buildSharedResources (memIngress [exampleIngress]) w = Some res"
    using buildSharedResources_returns [OF memIngress_ok] by blast
  then obtain dec where "res = Inr dec"
    by (auto simp: buildSharedResources_def memIngress_client memIngressClient_def bind_eq_Some)
  with res have "\<exists>w1. tryCleanupSharedResources (memIngress [exampleIngress]) w = Some (None, w1)"
    by (simp add: tryCleanupSharedResources_def createOrUpdateDolphinEnvoyConfig_def memIngress_client memIngressClient_def)
  moreover have "ic_Ingress (memIngressClient [exampleIngress]) w (''kube-system'', ''pseudo-ingress'') = NotFound"
    by (simp add: memIngressClient_def exampleIngress_def)
  ultimately show ?thesis by (auto simp: ingress_Reconcile_def memIngress_client)
qed


end
