(* ===== verification/Spec2Isabelle.thy ===== *)
theory Spec2Isabelle
  imports SNI_Hostnames Ingestion_Safety Gateway_Translator Gateway_Programmed Ingress_Watch
begin

text \<open>
  \<^bold>\<open>The program.\<close> \<open>controllerPoweredByDI\<close> is a Kubernetes operator that turns Gateway API and Ingress
  objects into Envoy configurations. A reconciler reads the objects of the cluster through a client,
  ingestion turns them into an intermediate model (\<open>src/pkg/model\<close>), a translator turns the model
  into a DolphinEnvoyConfig, a Service and Endpoints, and the reconciler writes these and the statuses of the
  objects back.

  \<^bold>\<open>Conventions.\<close> Go strings are char lists, maps are association lists, \<open>uint32\<close> and \<open>uint16\<close> are
  words and \<open>int\<close> is \<open>int\<close>. A pointer is an option. A function that may panic returns an option and \<open>None\<close> is
  the panic; an error is the left side of a sum or an optional text. Where Go iterates over a map, the order is a
  parameter or the result is shown not to depend on it. Definitions keep the name of the Go function; where two
  packages use one name, the package is a prefix (\<open>gateway_Translate\<close>, \<open>ingress_Reconcile\<close>). The cluster is a state
  of any type \<open>'w\<close>: a read is a function of it, a write returns an error, if any, and the next state.

  \<^bold>\<open>Library.\<close>
  \<^item> \<open>Go_Prelude\<close>, \<open>Go_Sort\<close>, \<open>Go_SHA256\<close>: monadic loops, association lists, the stable and unstable sorts of the Go
    library with the locale \<open>strict_weak\<close> of their comparisons, and the hash behind shortened names.
  \<^item> \<open>Watch_Events\<close>: the events of a watch and keys written as text.

  \<^bold>\<open>Model and ingestion.\<close>
  \<^item> \<open>Model_Types\<close>, \<open>Model_Helper\<close> (\<open>src/pkg/model/model.go\<close>, \<open>helper.go\<close>): the intermediate model; \<open>ComputeHosts\<close> is sound
    and complete for the hostnames that a listener and a route have in common, and \<open>Shorten\<close> gives DNS labels.
  \<^item> \<open>Gateway_Types\<close>, \<open>Gateway_Helpers\<close>, \<open>SNI_Hostnames\<close> (\<open>src/pkg/gateway_api/helpers\<close>): the objects of the Gateway API,
    reference grants, and when the names of two listeners intersect.
  \<^item> \<open>Ingestion_Gateway\<close>, \<open>Ingestion_Safety\<close> (\<open>src/pkg/model/ingestion/gateway.go\<close>): ingestion of a Gateway with its five kinds of
    routes. Backends of other namespaces reach the model only with a grant, and admissible input never makes it panic.
  \<^item> \<open>Ingestion_Ingress\<close> (\<open>src/pkg/model/ingestion/ingress.go\<close>, \<open>src/pkg/ingress/annotations\<close>): the listeners of an Ingress, with
    and without TLS passthrough, as a function of its rules and TLS hosts.

  \<^bold>\<open>Translation\<close> (\<open>src/pkg/model/translation\<close>).
  \<^item> \<open>Envoy_Types\<close>, \<open>Virtual_Host\<close>, \<open>Envoy_Resources\<close>, \<open>Translator\<close>: the Envoy messages and the default translator, one definition per
    function. \<open>Translator_Services\<close>, \<open>Translator_References\<close>, \<open>Translator_Safety\<close>: services, ports and clusters do not depend on the order of
    maps, every cluster and route configuration that is named exists, and translation of a translatable model returns.
  \<^item> \<open>Gateway_Translator\<close>: the translators for Gateways and for dedicated and shared Ingresses, which are interpretations of the
    locale \<open>envoy_translator\<close>.

  \<^bold>\<open>Reconciliation of the Gateway API\<close> (\<open>src/pkg/gateway_api\<close>).
  \<^item> \<open>Conditions\<close>: status conditions; the three copies of their merge are interpretations of \<open>condition_store\<close>.
  \<^item> \<open>Backend_TLS_Policy\<close>, \<open>Policy_Status\<close>: the lookup of policies with its conflict resolution, their validation and statuses.
  \<^item> \<open>Cluster_Client\<close>, \<open>Memory_Cluster\<close>: the client as a parameter, the locale \<open>state_frame\<close> for what writes leave alone, and an
    API server in memory that satisfies what is assumed of the client and on which the examples run.
  \<^item> \<open>Route_Checks\<close>, \<open>Route_Reconcile\<close>, \<open>Route_Status\<close>, \<open>Route_Attachment\<close> (\<open>routechecker\<close>, \<open>tlsroute_reconcile.go\<close>, \<open>grpcroute_reconcile.go\<close>,
    \<open>status_route.go\<close>, \<open>helpers.go\<close>): the checks of routes, the reconcilers of TLS and gRPC routes, the statuses of the others and the routes that a
    Gateway takes. Statuses say what the checks found, a second reconciliation writes nothing, and the reconcilers return.
  \<^item> \<open>Listener_Status\<close>: listener statuses of Gateways and ListenerSets, and the termination of the PEM check.
  \<^item> \<open>Gateway_Reconcile\<close>, \<open>Gateway_Correct\<close>, \<open>Gateway_Programmed\<close> (\<open>gateway_reconcile.go\<close>): the whole reconciliation of a Gateway as a
    composition of phases. It returns; after a success the stored Gateway is accepted and programmed and the stored
    Envoy configuration is the translation of what was ingested.

  \<^bold>\<open>Reconciliation of Ingresses\<close> (\<open>src/pkg/ingress\<close>).
  \<^item> \<open>Ingress_Reconcile\<close> (\<open>ingress_reconcile.go\<close>, \<open>helpers.go\<close>): shared and dedicated mode with every write. It returns if all Ingresses
    name a class, it panics if one does not, and after a success in shared mode the stored configuration is the translation of
    all shared Ingresses, whose order does not depend on the API server.
  \<^item> \<open>Ingress_Watch\<close> (\<open>ingress.go\<close>): the event predicates and handlers; a lost or changed shared configuration is restored.

  \<^bold>\<open>Bounds and termination.\<close> There is no fuel: the loops are structural recursions over lists or, for the blocks of the hash, decrease the
  length of the input. The one loop that need not end is \<open>isValidPemFormat\<close>, which consumes what \<open>pem.Decode\<close> leaves; it is a partial function whose termination is proved for decoders that
  consume input.

  \<^bold>\<open>Parameters.\<close> The client of controller-runtime, protobuf marshalling, \<open>cmp.Equal\<close>, the sorted and unique lists of the infra
  repository, label selectors, \<open>pem.Decode\<close>, \<open>regexp.Compile\<close>, \<open>time.ParseDuration\<close>, the lookup of annotations and the clock. What the
  theorems assume of them is stated as named predicates (\<open>lib_ok\<close>, \<open>ingress_client\<close>, \<open>ingress_store\<close> and others), each with an instance
  in a witness.

  \<^bold>\<open>Not modelled.\<close> The watches, indexes and event handlers of the Gateway API controllers and the GatewayClass reconciler, which decide when a
  reconciliation runs or write a single status; the wiring of the cells, flags and metrics; the ReferenceGrant reconciler, which does
  nothing; secret synchronisation, of which the sources have only registrations; the DolphinEnvoyConfig controller for annotated Services; the garbage
  collection of endpoints and identities, which are timers around stores and allocators of other
  repositories; the API server, SPIRE client and log upload, which are I/O.
\<close>

end
